(* ===== verification/Prelude.thy ===== *)
theory Prelude
  imports Main "HOL-Library.Word" "HOL-Library.AList" "HOL-Library.Multiset"
begin

text \<open>
  Shared vocabulary of the development: the machine integers of the Rust sources with their
  saturating operations, hash maps as lists of entries in iteration order, fallible results,
  and the transition-system interface in which the actors' invariants are lifted to all
  reachable states.
\<close>

named_theorems sat_simps \<open>saturating arithmetic read as natural numbers\<close>
named_theorems hmap_simps \<open>lookups after hash-map operations\<close>
named_theorems hmap_wf \<open>hash-map operations keep keys unique\<close>

section \<open>Machine integers\<close>

type_synonym u8 = "8 word"
type_synonym u16 = "16 word"
type_synonym u32 = "32 word"
type_synonym u64 = "64 word"
type_synonym ulid = "128 word"

text \<open>
  Rust's \<open>saturating_add\<close>, \<open>saturating_sub\<close> and \<open>saturating_mul\<close> on unsigned
  integers: the result is clamped to the type's range instead of wrapping around.
\<close>

definition sat_add :: "'a::len word \<Rightarrow> 'a word \<Rightarrow> 'a word" where
  "sat_add a b = (if unat a + unat b < 2 ^ LENGTH('a) then a + b else - 1)"

definition sat_sub :: "'a::len word \<Rightarrow> 'a word \<Rightarrow> 'a word" where
  "sat_sub a b = (if b \<le> a then a - b else 0)"

definition sat_mul :: "'a::len word \<Rightarrow> 'a word \<Rightarrow> 'a word" where
  "sat_mul a b = (if unat a * unat b < 2 ^ LENGTH('a) then a * b else - 1)"

lemma unat_max_word: "unat (- 1 :: 'a::len word) = 2 ^ LENGTH('a) - 1"
  by (simp add: unsigned_minus_1_eq_mask mask_eq_exp_minus_1)

lemma unat_le_max: "unat (a :: 'a::len word) \<le> 2 ^ LENGTH('a) - 1"
proof -
  have "unat a < 2 ^ LENGTH('a)" by (rule unsigned_less)
  then show ?thesis by linarith
qed

lemma unat_sat_add [sat_simps]:
  "unat (sat_add a b) = min (2 ^ LENGTH('a) - 1) (unat a + unat (b :: 'a::len word))"
proof (cases "unat a + unat b < 2 ^ LENGTH('a)")
  case True
  then have "unat (a + b) = unat a + unat b"
    by (simp add: unat_word_ariths)
  with True show ?thesis
    by (simp add: sat_add_def)
next
  case False
  then show ?thesis
    by (simp add: sat_add_def unat_max_word)
qed

lemma unat_sat_sub [sat_simps]: "unat (sat_sub a b) = unat a - unat b"
  by (simp add: sat_sub_def word_le_nat_alt unat_sub)

lemma unat_sat_mul [sat_simps]:
  "unat (sat_mul a b) = min (2 ^ LENGTH('a) - 1) (unat a * unat (b :: 'a::len word))"
proof (cases "unat a * unat b < 2 ^ LENGTH('a)")
  case True
  then have "unat (a * b) = unat a * unat b"
    by (simp add: unat_word_ariths)
  with True show ?thesis
    by (simp add: sat_mul_def)
next
  case False
  then show ?thesis
    by (simp add: sat_mul_def unat_max_word)
qed

lemma sat_add_0 [simp]: "sat_add a 0 = a" "sat_add 0 a = a"
  by (simp_all add: sat_add_def)

lemma sat_add_exact: "unat a + unat b < 2 ^ LENGTH('a) \<Longrightarrow> unat (sat_add a b) = unat a + unat (b :: 'a::len word)"
  by (simp add: unat_sat_add)

text \<open>Signed 64-bit values are integers in range; Rust's signed saturation clamps to it.\<close>

definition i64_min :: int where
  "i64_min = - (2 ^ 63)"

definition i64_max :: int where
  "i64_max = 2 ^ 63 - 1"

definition i64_clamp :: "int \<Rightarrow> int" where
  "i64_clamp x = max i64_min (min i64_max x)"

definition in_i64 :: "int \<Rightarrow> bool" where
  "in_i64 x \<longleftrightarrow> i64_min \<le> x \<and> x \<le> i64_max"

lemma i64_clamp_in_range: "in_i64 (i64_clamp x)"
  by (simp add: in_i64_def i64_clamp_def i64_min_def i64_max_def)

lemma i64_clamp_id: "in_i64 x \<Longrightarrow> i64_clamp x = x"
  by (simp add: in_i64_def i64_clamp_def)

section \<open>Loops\<close>

text \<open>A loop invariant of \<^const>\<open>foldl\<close>.\<close>

lemma foldl_invariant:
  assumes "P a" and "\<And>a x. x \<in> set xs \<Longrightarrow> P a \<Longrightarrow> P (f a x)"
  shows "P (foldl f a xs)"
  using assms by (induction xs arbitrary: a) auto

section \<open>Hash maps\<close>

text \<open>
  An \<open>AHashMap\<close> is the list of its entries in iteration order, with unique keys
  (\<open>hm_wf\<close>). The order itself is never specified by the source: results that depend on it
  are stated for every order. Lookup is \<^const>\<open>map_of\<close>.
\<close>

type_synonym ('k, 'v) hmap = "('k \<times> 'v) list"

definition hm_wf :: "('k, 'v) hmap \<Rightarrow> bool" where
  "hm_wf m \<longleftrightarrow> distinct (map fst m)"

definition hm_keys :: "('k, 'v) hmap \<Rightarrow> 'k list" where
  "hm_keys m = map fst m"

definition hm_values :: "('k, 'v) hmap \<Rightarrow> 'v list" where
  "hm_values m = map snd m"

definition hm_insert :: "'k \<Rightarrow> 'v \<Rightarrow> ('k, 'v) hmap \<Rightarrow> ('k, 'v) hmap" where
  "hm_insert k v m = AList.update k v m"

definition hm_remove :: "'k \<Rightarrow> ('k, 'v) hmap \<Rightarrow> ('k, 'v) hmap" where
  "hm_remove k m = AList.delete k m"

text \<open>\<open>entry(k).or_insert(d)\<close> followed by an update \<open>f\<close> of the entry.\<close>

definition hm_upsert :: "'k \<Rightarrow> 'v \<Rightarrow> ('v \<Rightarrow> 'v) \<Rightarrow> ('k, 'v) hmap \<Rightarrow> ('k, 'v) hmap" where
  "hm_upsert k d f m = hm_insert k (f (case map_of m k of None \<Rightarrow> d | Some v \<Rightarrow> v)) m"

text \<open>\<open>get_mut(k)\<close> followed by an update \<open>f\<close> of the entry, when there is one.\<close>

definition hm_modify :: "'k \<Rightarrow> ('v \<Rightarrow> 'v) \<Rightarrow> ('k, 'v) hmap \<Rightarrow> ('k, 'v) hmap" where
  "hm_modify k f m = (case map_of m k of None \<Rightarrow> m | Some v \<Rightarrow> hm_insert k (f v) m)"

text \<open>\<open>iter_mut()\<close> over all entries.\<close>

definition hm_map :: "('k \<Rightarrow> 'v \<Rightarrow> 'w) \<Rightarrow> ('k, 'v) hmap \<Rightarrow> ('k, 'w) hmap" where
  "hm_map f m = map (\<lambda>(k, v). (k, f k v)) m"

definition hm_retain :: "('k \<Rightarrow> 'v \<Rightarrow> bool) \<Rightarrow> ('k, 'v) hmap \<Rightarrow> ('k, 'v) hmap" where
  "hm_retain P m = filter (\<lambda>(k, v). P k v) m"

lemma hm_get_insert [simp, hmap_simps]: "map_of (hm_insert k v m) = (map_of m)(k \<mapsto> v)"
  by (simp add: hm_insert_def update_conv')

lemma hm_get_remove [simp, hmap_simps]: "map_of (hm_remove k m) = (map_of m)(k := None)"
  by (simp add: hm_remove_def delete_conv')

lemma hm_get_upsert [simp, hmap_simps]:
  "map_of (hm_upsert k d f m) = (map_of m)(k \<mapsto> f (case map_of m k of None \<Rightarrow> d | Some v \<Rightarrow> v))"
  by (simp add: hm_upsert_def)

lemma hm_get_modify [simp, hmap_simps]:
  "map_of (hm_modify k f m) = (map_of m)(k := map_option f (map_of m k))"
  by (auto simp: hm_modify_def fun_eq_iff split: option.splits)

lemma hm_get_map [simp, hmap_simps]: "map_of (hm_map f m) k = map_option (f k) (map_of m k)"
  by (induction m) (auto simp: hm_map_def)

lemma hm_get_retain [hmap_simps]:
  assumes "hm_wf m"
  shows "map_of (hm_retain P m) k =
    (case map_of m k of None \<Rightarrow> None | Some v \<Rightarrow> if P k v then Some v else None)"
  using assms
proof (induction m)
  case Nil
  then show ?case by (simp add: hm_retain_def)
next
  case (Cons e m)
  obtain k' v where e: "e = (k', v)" by fastforce
  from Cons.prems e have fresh: "map_of m k' = None" and wf: "hm_wf m"
    by (auto simp: hm_wf_def map_of_eq_None_iff)
  from Cons.IH [OF wf] fresh e show ?case
    by (cases "k = k'") (auto simp: hm_retain_def split: option.splits)
qed

lemma hm_wf_Nil [simp, hmap_wf]: "hm_wf []"
  by (simp add: hm_wf_def)

lemma hm_wf_insert [simp, hmap_wf]: "hm_wf m \<Longrightarrow> hm_wf (hm_insert k v m)"
  by (simp add: hm_wf_def hm_insert_def distinct_update)

lemma hm_wf_remove [simp, hmap_wf]: "hm_wf m \<Longrightarrow> hm_wf (hm_remove k m)"
  by (simp add: hm_wf_def hm_remove_def distinct_delete)

lemma hm_wf_upsert [simp, hmap_wf]: "hm_wf m \<Longrightarrow> hm_wf (hm_upsert k d f m)"
  by (simp add: hm_upsert_def)

lemma hm_wf_modify [simp, hmap_wf]: "hm_wf m \<Longrightarrow> hm_wf (hm_modify k f m)"
  by (simp add: hm_modify_def split: option.splits)

lemma hm_wf_map [simp, hmap_wf]: "hm_wf (hm_map f m) = hm_wf m"
  by (simp add: hm_wf_def hm_map_def comp_def case_prod_unfold)

lemma hm_wf_retain [simp, hmap_wf]: "hm_wf m \<Longrightarrow> hm_wf (hm_retain P m)"
  by (simp add: hm_wf_def hm_retain_def distinct_map_filter)

lemma hm_keys_insert [simp]: "set (hm_keys (hm_insert k v m)) = insert k (set (hm_keys m))"
  by (simp add: hm_keys_def hm_insert_def update_conv' flip: dom_map_of_conv_image_fst)

lemma hm_keys_remove [simp]: "set (hm_keys (hm_remove k m)) = set (hm_keys m) - {k}"
  by (simp add: hm_keys_def hm_remove_def delete_keys)

lemma hm_keys_dom: "set (hm_keys m) = dom (map_of m)"
  by (simp add: hm_keys_def dom_map_of_conv_image_fst)

lemma hm_insert_fresh: "k \<notin> set (hm_keys m) \<Longrightarrow> hm_insert k v m = m @ [(k, v)]"
  unfolding hm_insert_def hm_keys_def
  by (induction m) auto

lemma dom_hm_map [simp]: "dom (map_of (hm_map f m)) = dom (map_of m)"
  by (auto simp: dom_def)

lemma hm_values_conv:
  assumes "hm_wf m"
  shows "v \<in> set (hm_values m) \<longleftrightarrow> (\<exists>k. map_of m k = Some v)"
  using assms by (force simp: hm_values_def hm_wf_def)

text \<open>The total of a measure over the values of a map.\<close>

definition hm_total :: "('v \<Rightarrow> nat) \<Rightarrow> ('k, 'v) hmap \<Rightarrow> nat" where
  "hm_total f m = sum_list (map (f \<circ> snd) m)"

lemma hm_total_remove:
  assumes "hm_wf m" and "map_of m k = Some v"
  shows "hm_total f m = hm_total f (hm_remove k m) + f v"
  using assms
proof (induction m)
  case (Cons e m)
  then show ?case
  proof (cases "fst e = k")
    case True
    with Cons.prems have "snd e = v" and "k \<notin> fst ` set m"
      by (auto simp: hm_wf_def)
    then show ?thesis
      using True by (cases e) (simp add: hm_total_def hm_remove_def delete_id)
  next
    case False
    with Cons show ?thesis
      by (cases e) (auto simp: hm_total_def hm_remove_def hm_wf_def)
  qed
qed simp

lemma hm_total_insert:
  assumes "hm_wf m"
  shows "hm_total f (hm_insert k v m) =
    hm_total f m - (case map_of m k of None \<Rightarrow> 0 | Some p \<Rightarrow> f p) + f v"
proof -
  have "hm_remove k (hm_insert k v m) = hm_remove k m"
    unfolding hm_remove_def hm_insert_def by (induction m) auto
  then have 1: "hm_total f (hm_insert k v m) = hm_total f (hm_remove k m) + f v"
    using assms hm_total_remove [of "hm_insert k v m" k v f] by simp
  show ?thesis
  proof (cases "map_of m k")
    case None
    then have "hm_remove k m = m"
      unfolding hm_remove_def by (intro delete_id) (simp add: map_of_eq_None_iff)
    with 1 None show ?thesis by simp
  next
    case (Some p)
    with 1 show ?thesis using hm_total_remove [OF assms Some, of f] by simp
  qed
qed

lemma hm_total_ge: "hm_wf m \<Longrightarrow> map_of m k = Some v \<Longrightarrow> f v \<le> hm_total f m"
  by (simp add: hm_total_remove [of m k v f])

text \<open>
  The interface of the maps: what the components use of a map, as laws. The rest of the
  development reasons about maps with the derived facts below.
\<close>

locale hash_map =
  fixes get :: "'m \<Rightarrow> 'k \<Rightarrow> 'v option"
    and put :: "'k \<Rightarrow> 'v \<Rightarrow> 'm \<Rightarrow> 'm"
    and del :: "'k \<Rightarrow> 'm \<Rightarrow> 'm"
    and keys :: "'m \<Rightarrow> 'k list"
    and wf :: "'m \<Rightarrow> bool"
  assumes get_put: "wf m \<Longrightarrow> get (put k v m) = (get m)(k \<mapsto> v)"
    and get_del: "wf m \<Longrightarrow> get (del k m) = (get m)(k := None)"
    and keys_dom: "wf m \<Longrightarrow> set (keys m) = dom (get m)"
    and keys_distinct: "wf m \<Longrightarrow> distinct (keys m)"
    and wf_put: "wf m \<Longrightarrow> wf (put k v m)"
    and wf_del: "wf m \<Longrightarrow> wf (del k m)"
begin

lemma keys_put_distinct: "wf m \<Longrightarrow> distinct (keys (put k v m))"
  by (intro keys_distinct wf_put)

lemma keys_del_set: "wf m \<Longrightarrow> set (keys (del k m)) = set (keys m) - {k}"
  by (simp add: keys_dom get_del wf_del)

lemma length_keys_put_fresh:
  assumes "wf m" and "get m k = None"
  shows "length (keys (put k v m)) = Suc (length (keys m))"
proof -
  have "set (keys (put k v m)) = insert k (set (keys m))"
    using assms by (simp add: keys_dom get_put wf_put)
  moreover have "k \<notin> set (keys m)"
    using assms by (simp add: keys_dom domIff)
  ultimately have "card (set (keys (put k v m))) = Suc (card (set (keys m)))"
    by simp
  then show ?thesis
    using assms by (simp add: distinct_card keys_distinct wf_put)
qed

end

interpretation hm: hash_map map_of hm_insert hm_remove hm_keys hm_wf
  by unfold_locales (auto simp: hm_keys_def hm_wf_def dom_map_of_conv_image_fst
    hm_insert_def hm_remove_def update_conv' delete_conv' distinct_update distinct_delete)

section \<open>Transition systems\<close>

inductive reachable :: "('s \<Rightarrow> bool) \<Rightarrow> ('s \<Rightarrow> 's \<Rightarrow> bool) \<Rightarrow> 's \<Rightarrow> bool"
  for init step where
  reach_init: "init s \<Longrightarrow> reachable init step s"
| reach_step: "reachable init step s \<Longrightarrow> step s t \<Longrightarrow> reachable init step t"

text \<open>An actor's contract: its initial states satisfy the invariant and every message handler
  keeps it. The contract gives the invariant in every reachable state and along every run.\<close>

locale invariant_system =
  fixes init :: "'s \<Rightarrow> bool"
    and step :: "'s \<Rightarrow> 's \<Rightarrow> bool"
    and inv :: "'s \<Rightarrow> bool"
  assumes inv_init: "init s \<Longrightarrow> inv s"
    and inv_step: "inv s \<Longrightarrow> step s t \<Longrightarrow> inv t"
begin

lemma reachable_inv: "reachable init step s \<Longrightarrow> inv s"
  by (induction rule: reachable.induct) (auto intro: inv_init inv_step)

lemma run_inv: "step\<^sup>*\<^sup>* s t \<Longrightarrow> inv s \<Longrightarrow> inv t"
  by (induction rule: rtranclp_induct) (auto intro: inv_step)

end

text \<open>Runs of a system whose steps are labelled with events.\<close>

inductive event_run :: "('s \<Rightarrow> 'e \<Rightarrow> 's \<Rightarrow> bool) \<Rightarrow> 's \<Rightarrow> 'e list \<Rightarrow> 's \<Rightarrow> bool"
  for lstep where
  run_nil: "event_run lstep s [] s"
| run_snoc: "event_run lstep s es t \<Longrightarrow> lstep t e u \<Longrightarrow> event_run lstep s (es @ [e]) u"

text \<open>An actor refines an abstract object: every handler changes what \<open>abs\<close> shows of the actor's
  state as the abstract operation \<open>effect\<close> of its event does. The contract gives the abstract value
  after every run.\<close>

locale event_refinement = invariant_system init "\<lambda>s t. \<exists>e. lstep s e t" inv
  for init :: "'s \<Rightarrow> bool" and lstep :: "'s \<Rightarrow> 'e \<Rightarrow> 's \<Rightarrow> bool" and inv :: "'s \<Rightarrow> bool" +
  fixes abs :: "'s \<Rightarrow> 'a"
    and start :: 'a
    and effect :: "'a \<Rightarrow> 'e \<Rightarrow> 'a"
  assumes abs_init: "init s \<Longrightarrow> abs s = start"
    and abs_step: "inv s \<Longrightarrow> lstep s e t \<Longrightarrow> abs t = effect (abs s) e"
begin

lemma event_run_inv: "event_run lstep s es t \<Longrightarrow> inv s \<Longrightarrow> inv t"
  by (induction rule: event_run.induct) (auto intro: inv_step)

lemma abs_run: "event_run lstep s es t \<Longrightarrow> init s \<Longrightarrow> abs t = foldl effect start es"
proof (induction rule: event_run.induct)
  case (run_snoc s es t e u)
  then show ?case using abs_step [of t e u] event_run_inv [of s es t] inv_init [of s] by simp
qed (simp add: abs_init)

end

end
