(* ===== verification/Rust_Text.thy ===== *)
theory Rust_Text
  imports Prelude
begin

text \<open>
  The string operations of Rust's standard library that the sources use. A Rust \<open>String\<close> is
  modelled by its UTF-8 bytes (\<^typ>\<open>string\<close>, lists of 8-bit characters), so \<open>len\<close> counts
  bytes as in Rust, and whitespace is Unicode \<open>White_Space\<close>, given by its UTF-8 encodings.
\<close>

named_theorems text_simps \<open>string operations on literal arguments\<close>

section \<open>Bytes\<close>

abbreviation byte_of :: "char \<Rightarrow> nat" where
  "byte_of c \<equiv> of_char c"

definition is_ascii_digit :: "char \<Rightarrow> bool" where
  "is_ascii_digit c \<longleftrightarrow> 48 \<le> byte_of c \<and> byte_of c \<le> 57"

definition is_ascii_uppercase :: "char \<Rightarrow> bool" where
  "is_ascii_uppercase c \<longleftrightarrow> 65 \<le> byte_of c \<and> byte_of c \<le> 90"

definition is_ascii_lowercase :: "char \<Rightarrow> bool" where
  "is_ascii_lowercase c \<longleftrightarrow> 97 \<le> byte_of c \<and> byte_of c \<le> 122"

definition is_ascii_alphanumeric :: "char \<Rightarrow> bool" where
  "is_ascii_alphanumeric c \<longleftrightarrow>
     is_ascii_digit c \<or> is_ascii_uppercase c \<or> is_ascii_lowercase c"

definition to_ascii_lowercase :: "char \<Rightarrow> char" where
  "to_ascii_lowercase c = (if is_ascii_uppercase c then char_of (byte_of c + 32) else c)"

text \<open>A byte \<open>10xxxxxx\<close> continues a multi-byte character.\<close>

definition is_utf8_continuation :: "char \<Rightarrow> bool" where
  "is_utf8_continuation c \<longleftrightarrow> 128 \<le> byte_of c \<and> byte_of c < 192"

section \<open>Prefixes and searching\<close>

definition starts_with :: "string \<Rightarrow> string \<Rightarrow> bool" where
  "starts_with p s \<longleftrightarrow> take (length p) s = p"

definition strip_prefix :: "string \<Rightarrow> string \<Rightarrow> string option" where
  "strip_prefix p s = (if starts_with p s then Some (drop (length p) s) else None)"

lemma starts_with_append [simp]: "starts_with p (p @ s)"
  by (simp add: starts_with_def)

lemma strip_prefix_append [simp]: "strip_prefix p (p @ s) = Some s"
  by (simp add: strip_prefix_def)

lemma starts_with_iff: "starts_with p s \<longleftrightarrow> (\<exists>r. s = p @ r)"
  by (metis starts_with_def append_take_drop_id starts_with_append)

lemma strip_prefix_Some_iff: "strip_prefix p s = Some r \<longleftrightarrow> s = p @ r"
  by (auto simp: strip_prefix_def starts_with_iff)

lemma starts_with_Cons: "starts_with (a # p) (c # s) \<longleftrightarrow> a = c \<and> starts_with p s"
  by (auto simp: starts_with_def)

lemma starts_with_Nil [simp]: "starts_with [] s"
  by (simp add: starts_with_def)

text \<open>\<open>trim_start_matches(c)\<close> for a single character.\<close>

definition trim_start_char :: "char \<Rightarrow> string \<Rightarrow> string" where
  "trim_start_char c s = dropWhile (\<lambda>x. x = c) s"

fun split_once :: "string \<Rightarrow> string \<Rightarrow> (string \<times> string) option" where
  "split_once p s =
     (if starts_with p s then Some ([], drop (length p) s)
      else case s of
        [] \<Rightarrow> None
      | c # cs \<Rightarrow> map_option (\<lambda>(a, b). (c # a, b)) (split_once p cs))"

declare split_once.simps [simp del]

fun rsplit_once :: "string \<Rightarrow> string \<Rightarrow> (string \<times> string) option" where
  "rsplit_once p [] = (if p = [] then Some ([], []) else None)"
| "rsplit_once p (c # cs) =
     (case rsplit_once p cs of
        Some (a, b) \<Rightarrow> Some (c # a, b)
      | None \<Rightarrow> if starts_with p (c # cs) then Some ([], drop (length p) (c # cs)) else None)"

lemma split_once_first:
  assumes "\<And>i. i < length a \<Longrightarrow> \<not> starts_with p (drop i (a @ p @ b))"
  shows "split_once p (a @ p @ b) = Some (a, b)"
  using assms
proof (induction a)
  case Nil
  then show ?case by (simp add: split_once.simps [of p "p @ b"])
next
  case (Cons c a)
  have "\<not> starts_with p (c # a @ p @ b)"
    using Cons.prems [of 0] by simp
  moreover have "split_once p (a @ p @ b) = Some (a, b)"
    using Cons.prems by (intro Cons.IH) fastforce
  ultimately show ?case
    by (simp add: split_once.simps [of p "c # a @ p @ b"])
qed

lemma rsplit_once_None:
  assumes "p \<noteq> []" and "\<And>i. i < length s \<Longrightarrow> \<not> starts_with p (drop i s)"
  shows "rsplit_once p s = None"
  using assms(2)
proof (induction s)
  case Nil
  with assms(1) show ?case by simp
next
  case (Cons c s)
  have "rsplit_once p s = None"
    using Cons.prems by (intro Cons.IH) fastforce
  moreover have "\<not> starts_with p (c # s)"
    using Cons.prems [of 0] by simp
  ultimately show ?case by simp
qed

lemma rsplit_once_last:
  assumes "p \<noteq> []" and "\<And>i. 0 < i \<Longrightarrow> i < length (p @ b) \<Longrightarrow> \<not> starts_with p (drop i (p @ b))"
  shows "rsplit_once p (a @ p @ b) = Some (a, b)"
proof (induction a)
  case Nil
  obtain c q where p: "p = c # q"
    using assms(1) by (cases p) auto
  have "rsplit_once p (q @ b) = None"
  proof (rule rsplit_once_None [OF assms(1)])
    fix i assume "i < length (q @ b)"
    with assms(2) [of "Suc i"] show "\<not> starts_with p (drop i (q @ b))"
      by (simp add: p)
  qed
  then show ?case by (simp add: p starts_with_def)
next
  case (Cons c a)
  then show ?case by simp
qed

section \<open>Whitespace\<close>

text \<open>The UTF-8 encodings of the characters with the Unicode property \<open>White_Space\<close>.\<close>

definition white_space :: "string list" where
  "white_space =
     [[CHR 0x09], [CHR 0x0A], [CHR 0x0B], [CHR 0x0C], [CHR 0x0D], [CHR 0x20],
      [CHR 0xC2, CHR 0x85], [CHR 0xC2, CHR 0xA0], [CHR 0xE1, CHR 0x9A, CHR 0x80],
      [CHR 0xE2, CHR 0x80, CHR 0x80], [CHR 0xE2, CHR 0x80, CHR 0x81],
      [CHR 0xE2, CHR 0x80, CHR 0x82], [CHR 0xE2, CHR 0x80, CHR 0x83],
      [CHR 0xE2, CHR 0x80, CHR 0x84], [CHR 0xE2, CHR 0x80, CHR 0x85],
      [CHR 0xE2, CHR 0x80, CHR 0x86], [CHR 0xE2, CHR 0x80, CHR 0x87],
      [CHR 0xE2, CHR 0x80, CHR 0x88], [CHR 0xE2, CHR 0x80, CHR 0x89],
      [CHR 0xE2, CHR 0x80, CHR 0x8A], [CHR 0xE2, CHR 0x80, CHR 0xA8],
      [CHR 0xE2, CHR 0x80, CHR 0xA9], [CHR 0xE2, CHR 0x80, CHR 0xAF],
      [CHR 0xE2, CHR 0x81, CHR 0x9F], [CHR 0xE3, CHR 0x80, CHR 0x80]]"

text \<open>Strip one of the given sequences from the front; a sequence list is used with no
  empty member.\<close>

fun strip_any :: "string list \<Rightarrow> string \<Rightarrow> string option" where
  "strip_any [] s = None"
| "strip_any (w # ws) s =
     (if w \<noteq> [] \<and> starts_with w s then Some (drop (length w) s) else strip_any ws s)"

lemma strip_any_shorter: "strip_any ws s = Some r \<Longrightarrow> length r < length s"
  by (induction ws s rule: strip_any.induct)
    (auto simp: starts_with_iff split: if_splits)

function trim_front :: "string list \<Rightarrow> string \<Rightarrow> string" where
  "trim_front ws s = (case strip_any ws s of None \<Rightarrow> s | Some r \<Rightarrow> trim_front ws r)"
  by pat_completeness auto
termination
  by (relation "measure (\<lambda>(ws, s). length s)") (auto dest: strip_any_shorter)

declare trim_front.simps [simp del]

definition trim_start :: "string \<Rightarrow> string" where
  "trim_start s = trim_front white_space s"

definition trim_end :: "string \<Rightarrow> string" where
  "trim_end s = rev (trim_front (map rev white_space) (rev s))"

definition trim :: "string \<Rightarrow> string" where
  "trim s = trim_end (trim_start s)"

text \<open>\<open>split_whitespace\<close>: maximal runs without whitespace.\<close>

fun take_word :: "string \<Rightarrow> string \<times> string" where
  "take_word [] = ([], [])"
| "take_word (c # s) =
     (case strip_any white_space (c # s) of
        Some _ \<Rightarrow> ([], c # s)
      | None \<Rightarrow> (let (w, r) = take_word s in (c # w, r)))"

lemma take_word_le: "length (snd (take_word s)) \<le> length s"
  by (induction s) (auto split: option.splits prod.splits)

lemma trim_front_le: "length (trim_front ws s) \<le> length s"
proof (induction ws s rule: trim_front.induct)
  case (1 ws s)
  then show ?case
    by (cases "strip_any ws s") (auto simp: trim_front.simps [of ws s] dest: strip_any_shorter)
qed

lemma trim_front_stop: "strip_any ws (trim_front ws s) = None"
proof (induction ws s rule: trim_front.induct)
  case (1 ws s)
  then show ?case
    by (cases "strip_any ws s") (auto simp: trim_front.simps [of ws s])
qed

lemma strip_any_None: "strip_any ws s = None \<longleftrightarrow> (\<forall>w \<in> set ws. w \<noteq> [] \<longrightarrow> \<not> starts_with w s)"
  by (induction ws s rule: strip_any.induct) auto

text \<open>A string that neither begins nor ends with whitespace is its own trimming, and a trimmed string does not
  end with whitespace.\<close>

lemma trim_fixed:
  assumes "strip_any white_space s = None" and "strip_any (map rev white_space) (rev s) = None"
  shows "trim s = s"
  using assms by (simp add: trim_def trim_start_def trim_end_def trim_front.simps)

lemma trim_end_stop: "strip_any (map rev white_space) (rev (trim s)) = None"
  by (simp add: trim_def trim_end_def trim_front_stop)

lemma strip_any_Some: "strip_any ws s = Some r \<Longrightarrow> \<exists>w\<in>set ws. s = w @ r"
proof (induction ws s rule: strip_any.induct)
  case (2 w ws s)
  show ?case
  proof (cases "w \<noteq> [] \<and> starts_with w s")
    case True
    with 2(2) have "s = w @ r"
      using append_take_drop_id [of "length w" s] by (simp add: starts_with_def)
    then show ?thesis by simp
  next
    case False
    with 2 show ?thesis by auto
  qed
qed simp

text \<open>A character that is part of no whitespace is not trimmed.\<close>

lemma trim_front_keeps:
  assumes "c \<notin> set (concat ws)"
  shows "\<exists>ys. trim_front ws (xs @ [c]) = ys @ [c]"
proof (induction xs rule: length_induct)
  case (1 xs)
  show ?case
  proof (cases "strip_any ws (xs @ [c])")
    case (Some r)
    from strip_any_Some [OF Some] obtain w where w: "w \<in> set ws" "xs @ [c] = w @ r" by blast
    have "r \<noteq> []"
      using w assms by (cases r) (auto dest: arg_cong [where f = set])
    then obtain ys where ys: "r = ys @ [c]"
      using w(2) by (cases r rule: rev_cases) auto
    moreover have "length ys < length xs"
      using strip_any_shorter [OF Some] by (simp add: ys)
    ultimately show ?thesis
      using 1 Some by (simp add: trim_front.simps [of ws "xs @ [c]"])
  qed (simp add: trim_front.simps)
qed

lemma trim_not_empty:
  assumes "c \<notin> set (concat white_space)"
  shows "trim (c # s) \<noteq> []"
proof -
  have "\<not> starts_with w (c # s)" if "w \<in> set white_space" "w \<noteq> []" for w
    using that assms by (auto simp: starts_with_def neq_Nil_conv)
  then have "strip_any white_space (c # s) = None" by (simp add: strip_any_None)
  then have "trim_start (c # s) = c # s" by (simp add: trim_start_def trim_front.simps)
  moreover obtain ys where "trim_front (map rev white_space) (rev s @ [c]) = ys @ [c]"
    using trim_front_keeps [of c "map rev white_space" "rev s"] assms by auto
  ultimately show ?thesis by (simp add: trim_def trim_end_def)
qed

function split_whitespace :: "string \<Rightarrow> string list" where
  "split_whitespace s =
     (let t = trim_start s in
      if t = [] then [] else fst (take_word t) # split_whitespace (snd (take_word t)))"
  by pat_completeness auto
termination
proof (relation "measure length", goal_cases)
  case 1
  then show ?case by simp
next
  case (2 s t)
  then have ts: "t = trim_start s" and "t \<noteq> []"
    by auto
  then obtain c r where t: "t = c # r"
    by (meson neq_Nil_conv)
  have "strip_any white_space t = None"
    using trim_front_stop by (simp add: ts trim_start_def)
  then have "length (snd (take_word t)) < length t"
    using take_word_le [of r] by (simp add: t case_prod_unfold Let_def)
  also have "length t \<le> length s"
    by (simp add: ts trim_start_def trim_front_le)
  finally show ?case by simp
qed

declare split_whitespace.simps [simp del]

text \<open>\<open>lines\<close>: split at line feeds; a carriage return before the line feed belongs to the
  line ending; a final line without a line feed is kept as it is.\<close>

definition strip_cr :: "string \<Rightarrow> string" where
  "strip_cr l = (if l \<noteq> [] \<and> last l = CHR 0x0D then butlast l else l)"

fun lines_acc :: "string \<Rightarrow> string \<Rightarrow> string list" where
  "lines_acc acc [] = (if acc = [] then [] else [rev acc])"
| "lines_acc acc (c # s) =
     (if c = CHR 0x0A then strip_cr (rev acc) # lines_acc [] s else lines_acc (c # acc) s)"

definition str_lines :: "string \<Rightarrow> string list" where
  "str_lines s = lines_acc [] s"

section \<open>Decimal numbers\<close>

definition digit_val :: "char \<Rightarrow> nat" where
  "digit_val c = byte_of c - 48"

definition digit_char :: "nat \<Rightarrow> char" where
  "digit_char d = char_of (d + 48)"

definition digits_val :: "string \<Rightarrow> nat" where
  "digits_val s = foldl (\<lambda>n c. 10 * n + digit_val c) 0 s"

fun show_nat :: "nat \<Rightarrow> string" where
  "show_nat n =
     (if n < 10 then [digit_char n] else show_nat (n div 10) @ [digit_char (n mod 10)])"

declare show_nat.simps [simp del]

lemma digit_char_digit:
  assumes "d < 10"
  shows "is_ascii_digit (digit_char d)" and "digit_val (digit_char d) = d"
  using assms by (simp_all add: is_ascii_digit_def digit_char_def digit_val_def)

lemma digits_val_snoc: "digits_val (s @ [c]) = 10 * digits_val s + digit_val c"
  by (simp add: digits_val_def)

lemma show_nat_digits: "list_all is_ascii_digit (show_nat n)"
proof (induction n rule: show_nat.induct)
  case (1 n)
  then show ?case
    by (cases "n < 10") (simp_all add: show_nat.simps [of n] digit_char_digit)
qed

lemma show_nat_nonempty [simp]: "show_nat n \<noteq> []"
  by (subst show_nat.simps) simp

lemma digits_val_show_nat [simp]: "digits_val (show_nat n) = n"
proof (induction n rule: show_nat.induct)
  case (1 n)
  show ?case
  proof (cases "n < 10")
    case True
    then show ?thesis
      by (simp add: show_nat.simps [of n] digits_val_def digit_char_digit)
  next
    case False
    with 1 show ?thesis
      by (simp add: show_nat.simps [of n] digits_val_snoc digit_char_digit)
  qed
qed

text \<open>\<open>str::parse::<u32>()\<close>: an optional plus sign, at least one digit, no overflow.\<close>

definition parse_unsigned :: "nat \<Rightarrow> string \<Rightarrow> nat option" where
  "parse_unsigned bound s =
     (let r = (case strip_prefix ''+'' s of Some r \<Rightarrow> r | None \<Rightarrow> s) in
      if r = [] \<or> \<not> list_all is_ascii_digit r then None
      else if digits_val r < bound then Some (digits_val r) else None)"

definition parse_u32 :: "string \<Rightarrow> u32 option" where
  "parse_u32 s = map_option of_nat (parse_unsigned (2 ^ 32) s)"

lemma digit_not_plus: "is_ascii_digit c \<Longrightarrow> c \<noteq> CHR ''+''"
  by (auto simp: is_ascii_digit_def)

lemma strip_plus_digits: "list_all is_ascii_digit s \<Longrightarrow> strip_prefix ''+'' s = None"
  by (cases s) (auto simp: strip_prefix_def starts_with_def dest: digit_not_plus)

lemma parse_u32_show: "parse_u32 (show_nat (unat n)) = Some n"
proof -
  have "unat n < 2 ^ 32"
    using unsigned_less [of n] by simp
  then show ?thesis
    by (simp add: parse_u32_def parse_unsigned_def strip_plus_digits show_nat_digits)
qed

section \<open>Paths\<close>

text \<open>\<open>Path::is_absolute\<close> on Unix: the path starts at the root.\<close>

definition is_absolute :: "string \<Rightarrow> bool" where
  "is_absolute p \<longleftrightarrow> starts_with ''/'' p"

lemma is_absolute_Cons: "is_absolute p \<longleftrightarrow> (\<exists>r. p = CHR ''/'' # r)"
  by (auto simp: is_absolute_def starts_with_iff)

end
