(* ===== verification/Config.thy ===== *)
theory Config
  imports Rust_Text
begin

text \<open>
  Agent configuration (\<open>odorobo/src/config.rs\<close>): the configuration record after command line,
  environment and file have been merged, its accessors with their defaults, and the inference
  of the upstream interface from the routing table.
\<close>

type_synonym ipv4 = u32

record Ipv4Net =
  net_addr :: ipv4
  prefix_len :: u8

record DhcpConfig =
  dhcp_range :: "ipv4 \<times> ipv4"
  dhcp_subnet :: Ipv4Net
  lease_time :: string

datatype NetworkMode =
    HostonlyNat string Ipv4Net ipv4 string   \<comment> \<open>bridge, subnet, gateway, upstream interface\<close>
  | Bridged string Ipv4Net ipv4              \<comment> \<open>bridge, subnet, gateway\<close>

record NetworkConfig =
  dhcp_config :: "DhcpConfig option"
  network_mode :: NetworkMode

record Config =
  manager_enabled :: "bool option"
  cfg_hostname :: "string option"
  datacenter :: "string option"
  region :: "string option"
  sentry_dsn :: "string option"
  reserved_vcpus :: "u32 option"
  cfg_labels :: "(string, string) hmap"
  cfg_annotations :: "(string, string) hmap"
  network :: NetworkConfig
  no_lockfile :: "bool option"

section \<open>Defaults\<close>

definition default_bridge_name :: string where
  "default_bridge_name = ''vmbr0''"

definition default_subnet :: Ipv4Net where
  "default_subnet = \<lparr>net_addr = 0x0A000000, prefix_len = 24\<rparr>"

definition default_gateway :: ipv4 where
  "default_gateway = 0x0A000001"

text \<open>
  The interface of the first default route: the fifth word of the first line that starts with
  \<open>default\<close>. The argument is the output of \<open>ip route\<close>, \<open>None\<close> when the command cannot be run
  or prints invalid UTF-8.
\<close>

definition default_upstream_iface :: "string option \<Rightarrow> string" where
  "default_upstream_iface out =
     (case out of
        None \<Rightarrow> ''eth0''
      | Some txt \<Rightarrow>
          (case find (starts_with ''default'') (str_lines txt) of
             None \<Rightarrow> ''eth0''
           | Some line \<Rightarrow>
               (let ws = split_whitespace line in if 4 < length ws then ws ! 4 else ''eth0'')))"

definition default_network_mode :: "string option \<Rightarrow> NetworkMode" where
  "default_network_mode route =
     HostonlyNat default_bridge_name default_subnet default_gateway (default_upstream_iface route)"

section \<open>Accessors\<close>

definition get_manager_enabled :: "Config \<Rightarrow> bool" where
  "get_manager_enabled c = (case manager_enabled c of Some b \<Rightarrow> b | None \<Rightarrow> False)"

text \<open>The system host name is a parameter; \<open>None\<close> when the system reports none.\<close>

definition get_hostname :: "string option \<Rightarrow> Config \<Rightarrow> string" where
  "get_hostname system_hostname c =
     (case cfg_hostname c of
        Some h \<Rightarrow> h
      | None \<Rightarrow> (case system_hostname of Some h \<Rightarrow> h | None \<Rightarrow> ''odorobo''))"

definition get_datacenter :: "Config \<Rightarrow> string" where
  "get_datacenter c = (case datacenter c of Some d \<Rightarrow> d | None \<Rightarrow> ''Dev'')"

definition get_region :: "Config \<Rightarrow> string" where
  "get_region c = (case region c of Some r \<Rightarrow> r | None \<Rightarrow> ''Local'')"

definition get_reserved_vcpus :: "Config \<Rightarrow> u32" where
  "get_reserved_vcpus c = (case reserved_vcpus c of Some n \<Rightarrow> n | None \<Rightarrow> 2)"

end
