(* ===== verification/Rust_Float.thy ===== *)
theory Rust_Float
  imports Rust_Text "HOL-Library.Log_Nat"
begin

text \<open>
  IEEE 754 binary floating point as Rust's \<open>f32\<close> and \<open>f64\<close> compute it: finite values are
  exact rationals, every operation rounds its exact result to nearest, ties to even, with
  gradual underflow and overflow to infinity. The sign of zero is not represented: no
  operation of the sources can observe it.
\<close>

datatype ieee = Fin rat | PInf | NInf | NaN

record ieee_format =
  fmt_prec :: nat   \<comment> \<open>significand bits, the implicit one included\<close>
  fmt_emin :: int   \<comment> \<open>exponent of the smallest normal number\<close>
  fmt_emax :: int   \<comment> \<open>exponent of the largest finite numbers\<close>

definition binary32 :: ieee_format where
  "binary32 = \<lparr>fmt_prec = 24, fmt_emin = - 126, fmt_emax = 127\<rparr>"

definition binary64 :: ieee_format where
  "binary64 = \<lparr>fmt_prec = 53, fmt_emin = - 1022, fmt_emax = 1023\<rparr>"

section \<open>Rounding\<close>

text \<open>The exponent of a positive rational: the greatest \<open>e\<close> with \<open>2 ^ e \<le> x\<close>.\<close>

definition rat_exponent :: "rat \<Rightarrow> int" where
  "rat_exponent x =
     (if 1 \<le> x then int (floorlog 2 (nat \<lfloor>x\<rfloor>)) - 1
      else - int (floorlog 2 (nat (\<lceil>1 / x\<rceil> - 1))))"

definition round_half_even :: "rat \<Rightarrow> int" where
  "round_half_even x =
     (let f = \<lfloor>x\<rfloor>; d = x - of_int f in
      if d < 1 / 2 then f else if 1 / 2 < d then f + 1 else if even f then f else f + 1)"

definition ieee_round :: "ieee_format \<Rightarrow> rat \<Rightarrow> ieee" where
  "ieee_round fmt x =
     (if x = 0 then Fin 0
      else let e = max (rat_exponent \<bar>x\<bar>) (fmt_emin fmt);
               ulp = 2 powi (e - int (fmt_prec fmt) + 1);
               y = of_int (round_half_even (x / ulp)) * ulp
           in if 2 powi (fmt_emax fmt + 1) \<le> \<bar>y\<bar> then (if 0 < x then PInf else NInf) else Fin y)"

fun is_finite :: "ieee \<Rightarrow> bool" where
  "is_finite (Fin _) = True"
| "is_finite _ = False"

section \<open>Arithmetic and comparison\<close>

fun ieee_neg :: "ieee \<Rightarrow> ieee" where
  "ieee_neg (Fin x) = Fin (- x)"
| "ieee_neg PInf = NInf"
| "ieee_neg NInf = PInf"
| "ieee_neg NaN = NaN"

fun ieee_add :: "ieee_format \<Rightarrow> ieee \<Rightarrow> ieee \<Rightarrow> ieee" where
  "ieee_add fmt (Fin x) (Fin y) = ieee_round fmt (x + y)"
| "ieee_add fmt NaN _ = NaN"
| "ieee_add fmt _ NaN = NaN"
| "ieee_add fmt PInf NInf = NaN"
| "ieee_add fmt NInf PInf = NaN"
| "ieee_add fmt PInf _ = PInf"
| "ieee_add fmt NInf _ = NInf"
| "ieee_add fmt _ PInf = PInf"
| "ieee_add fmt _ NInf = NInf"

text \<open>Division of the non-negative values the sources divide: \<open>0 / 0\<close> is NaN and a
  positive value over zero is infinite. (A negative dividend over zero does not occur.)\<close>

fun ieee_div :: "ieee_format \<Rightarrow> ieee \<Rightarrow> ieee \<Rightarrow> ieee" where
  "ieee_div fmt (Fin x) (Fin y) =
     (if y = 0 then (if x = 0 then NaN else if 0 < x then PInf else NInf)
      else ieee_round fmt (x / y))"
| "ieee_div fmt NaN _ = NaN"
| "ieee_div fmt _ NaN = NaN"
| "ieee_div fmt (Fin x) _ = Fin 0"
| "ieee_div fmt PInf (Fin y) = (if 0 \<le> y then PInf else NInf)"
| "ieee_div fmt NInf (Fin y) = (if 0 \<le> y then NInf else PInf)"
| "ieee_div fmt _ _ = NaN"

instantiation ieee :: ord
begin

fun less_ieee :: "ieee \<Rightarrow> ieee \<Rightarrow> bool" where
  "less_ieee (Fin x) (Fin y) = (x < y)"
| "less_ieee (Fin _) PInf = True"
| "less_ieee NInf (Fin _) = True"
| "less_ieee NInf PInf = True"
| "less_ieee _ _ = False"

definition less_eq_ieee :: "ieee \<Rightarrow> ieee \<Rightarrow> bool" where
  "less_eq_ieee x y \<longleftrightarrow> x < y \<or> (x = y \<and> x \<noteq> NaN)"

instance ..

end

lemma ieee_less_irrefl: "\<not> (x :: ieee) < x"
  by (cases x) auto

lemma ieee_less_trans: "(x :: ieee) < y \<Longrightarrow> y < z \<Longrightarrow> x < z"
  by (cases x; cases y; cases z) auto

lemma ieee_less_total: "x \<noteq> NaN \<Longrightarrow> y \<noteq> NaN \<Longrightarrow> x < y \<or> x = y \<or> y < (x :: ieee)"
  by (cases x; cases y) auto

lemma ieee_less_not_NaN: "(x :: ieee) < y \<Longrightarrow> x \<noteq> NaN \<and> y \<noteq> NaN"
  by (cases x; cases y) auto

lemma NInf_less: "x \<noteq> NaN \<Longrightarrow> x \<noteq> NInf \<Longrightarrow> NInf < x"
  by (cases x) auto

section \<open>Rounding is monotone enough\<close>

definition ieee_nonneg :: "ieee \<Rightarrow> bool" where
  "ieee_nonneg x \<longleftrightarrow> (case x of Fin r \<Rightarrow> 0 \<le> r | PInf \<Rightarrow> True | _ \<Rightarrow> False)"

lemma round_half_even_nonneg: "0 \<le> x \<Longrightarrow> 0 \<le> round_half_even x"
  by (auto simp: round_half_even_def Let_def)

lemma round_half_even_ge:
  assumes "of_int k \<le> x"
  shows "k \<le> round_half_even x"
proof -
  have "k \<le> \<lfloor>x\<rfloor>"
    using assms by (simp add: le_floor_iff)
  also have "\<dots> \<le> round_half_even x"
    by (simp add: round_half_even_def Let_def)
  finally show ?thesis .
qed

lemma round_half_even_le: "of_int (round_half_even x) \<le> x + 1 / 2"
  by (auto simp: round_half_even_def Let_def; linarith)

lemma round_half_even_of_int [simp]: "round_half_even (of_int k) = k"
  by (simp add: round_half_even_def)

lemma ieee_round_not_NaN: "ieee_round fmt x \<noteq> NaN"
  by (simp add: ieee_round_def Let_def)

lemma ieee_round_nonneg: "0 \<le> x \<Longrightarrow> ieee_nonneg (ieee_round fmt x)"
  by (auto simp: ieee_round_def Let_def ieee_nonneg_def round_half_even_nonneg)

lemma ieee_add_nonneg: "ieee_nonneg x \<Longrightarrow> ieee_nonneg y \<Longrightarrow> ieee_nonneg (ieee_add fmt x y)"
  by (cases x; cases y) (auto simp: ieee_nonneg_def intro: ieee_round_nonneg [unfolded ieee_nonneg_def])

lemma ieee_nonneg_not_NaN: "ieee_nonneg x \<Longrightarrow> x \<noteq> NaN \<and> x \<noteq> NInf"
  by (auto simp: ieee_nonneg_def split: ieee.splits)

lemma rat_exponent_le:
  assumes "1 \<le> x"
  shows "2 powi (rat_exponent x) \<le> x" and "0 \<le> rat_exponent x"
proof -
  have pos: "0 < nat \<lfloor>x\<rfloor>"
    using assms by linarith
  let ?l = "floorlog 2 (nat \<lfloor>x\<rfloor>)"
  have l: "0 < ?l"
    using pos by (simp add: floorlog_def)
  have e: "rat_exponent x = int (?l - 1)"
    using assms l by (simp add: rat_exponent_def)
  have "2 ^ (?l - 1) \<le> nat \<lfloor>x\<rfloor>"
    using floorlog_bounds [OF pos, of 2] by simp
  then have "(2::rat) ^ (?l - 1) \<le> of_nat (nat \<lfloor>x\<rfloor>)"
    by (metis of_nat_le_iff of_nat_numeral of_nat_power)
  also have "\<dots> \<le> x"
    using assms by (simp add: of_nat_nat)
  finally show "2 powi (rat_exponent x) \<le> x"
    by (simp add: e)
  show "0 \<le> rat_exponent x"
    by (simp add: e)
qed

text \<open>Conversion of an integer, \<open>n as f32\<close>.\<close>

definition f32_of_nat :: "nat \<Rightarrow> ieee" where
  "f32_of_nat n = ieee_round binary32 (of_nat n)"

lemma f32_of_nat_0 [simp]: "f32_of_nat 0 = Fin 0"
  by (simp add: f32_of_nat_def ieee_round_def)

lemma f32_of_nat_nonneg: "ieee_nonneg (f32_of_nat n)"
  by (simp add: f32_of_nat_def ieee_round_nonneg)

lemma f32_of_nat_pos:
  assumes "0 < n" and "n < 2 ^ 64"
  shows "\<exists>y. f32_of_nat n = Fin y \<and> 0 < y"
proof -
  let ?x = "of_nat n :: rat"
  let ?e = "rat_exponent ?x"
  let ?ulp = "(2::rat) powi (?e - 23)"
  let ?y = "of_int (round_half_even (?x / ?ulp)) * ?ulp"
  have x1: "1 \<le> ?x"
    using assms by (simp add: Suc_leI)
  have e: "0 \<le> ?e" "2 powi ?e \<le> ?x"
    using rat_exponent_le [OF x1] by auto
  have "?ulp \<le> 2 powi ?e"
    by (rule power_int_increasing) simp_all
  then have z: "1 \<le> ?x / ?ulp"
    using e(2) by (simp add: divide_le_eq le_divide_eq)
  then have "1 \<le> round_half_even (?x / ?ulp)"
    by (intro round_half_even_ge) simp
  then have pos: "0 < ?y"
    by (simp add: zero_less_mult_iff)
  have "of_int (round_half_even (?x / ?ulp)) \<le> 2 * (?x / ?ulp)"
    using round_half_even_le [of "?x / ?ulp"] z by linarith
  then have "?y \<le> 2 * ?x"
    by (simp add: field_simps)
  also have "\<dots> < 2 * 2 ^ 64"
    using assms(2) by (metis mult_less_cancel_left_pos of_nat_less_iff of_nat_numeral
        of_nat_power zero_less_numeral)
  also have "\<dots> < (2::rat) powi 128"
    by simp
  finally have "\<not> 2 powi 128 \<le> \<bar>?y\<bar>"
    using pos by simp
  moreover have "max ?e (- 126) = ?e"
    using e(1) by simp
  ultimately show ?thesis
    using assms pos by (auto simp: f32_of_nat_def ieee_round_def binary32_def Let_def algebra_simps)
qed

lemma f32_of_nat_finite: "n < 2 ^ 64 \<Longrightarrow> \<exists>y. f32_of_nat n = Fin y \<and> 0 \<le> y"
  using f32_of_nat_pos [of n] by (cases "n = 0") (auto intro: less_imp_le)

text \<open>A quotient of two integers with a positive divisor is never NaN nor negative.\<close>

lemma f32_ratio_nonneg:
  assumes "0 < d" and "d < 2 ^ 64" and "n < 2 ^ 64"
  shows "ieee_nonneg (ieee_div binary32 (f32_of_nat n) (f32_of_nat d))"
proof -
  obtain y where y: "f32_of_nat d = Fin y" "0 < y"
    using f32_of_nat_pos [OF assms(1,2)] by blast
  obtain x where x: "f32_of_nat n = Fin x" "0 \<le> x"
    using f32_of_nat_finite [OF assms(3)] by blast
  from x y show ?thesis
    by (simp add: ieee_round_nonneg)
qed

section \<open>Parsing\<close>

text \<open>
  \<open>str::parse::<f64>()\<close> with the documented grammar: an optional sign, then \<open>inf\<close>,
  \<open>infinity\<close> or \<open>nan\<close> in any case, or a decimal number with at least one digit, an optional
  fraction and an optional exponent. The value is the exact decimal rounded to binary64.
\<close>

definition split_digits :: "string \<Rightarrow> string \<times> string" where
  "split_digits s = (takeWhile is_ascii_digit s, dropWhile is_ascii_digit s)"

definition split_sign :: "string \<Rightarrow> bool \<times> string" where
  "split_sign s =
     (case s of
        c # r \<Rightarrow> if c = CHR ''-'' then (True, r) else if c = CHR ''+'' then (False, r) else (False, s)
      | [] \<Rightarrow> (False, []))"

definition parse_exponent :: "string \<Rightarrow> int option" where
  "parse_exponent s =
     (case s of
        [] \<Rightarrow> Some 0
      | c # r \<Rightarrow>
          if c = CHR ''e'' \<or> c = CHR ''E'' then
            (let (neg, t) = split_sign r in
             if t \<noteq> [] \<and> list_all is_ascii_digit t
             then Some (if neg then - int (digits_val t) else int (digits_val t)) else None)
          else None)"

definition parse_number :: "string \<Rightarrow> rat option" where
  "parse_number s =
     (let (whole, r) = split_digits s;
          (frac, r') = (case r of c # t \<Rightarrow> if c = CHR ''.'' then split_digits t else ([], r)
                                | [] \<Rightarrow> ([], []))
      in if whole = [] \<and> frac = [] then None
         else map_option
           (\<lambda>e. of_nat (digits_val (whole @ frac)) * 10 powi (e - int (length frac)))
           (parse_exponent r'))"

definition parse_f64 :: "string \<Rightarrow> ieee option" where
  "parse_f64 s =
     (let (neg, r) = split_sign s; l = map to_ascii_lowercase r; sgn = (if neg then ieee_neg else id) in
      if l = ''inf'' \<or> l = ''infinity'' then Some (sgn PInf)
      else if l = ''nan'' then Some NaN
      else map_option (\<lambda>x. sgn (ieee_round binary64 x)) (parse_number r))"

end
