(* ===== verification/Manifest.thy ===== *)
theory Manifest
  imports Rust_Float
begin

text \<open>
  The provider-neutral VM manifest (\<open>odorobo/src/manifest.rs\<close>): its data types, with the
  field and constructor names of the source, and its validation. A \<open>BTreeMap<String, String>\<close>
  is the list of its entries in key order, so that equality of manifests is equality of values.
\<close>

section \<open>Data\<close>

type_synonym btree_map = "(string \<times> string) list"

definition MANIFEST_VERSION :: u32 where
  "MANIFEST_VERSION = 1"

datatype ManifestError =
    UnsupportedVersion u32
  | EmptyMetadataName
  | NoVcpus
  | MaxVcpusLessThanBoot u32 u32
  | NoMemory
  | EmptyStorageId
  | InvalidStorageSource string
  | DuplicateStorageId string
  | NetworkWithoutId nat
  | IncompleteCloudInit
  | EmptyCloudInitData
  | InvalidVsockCid
  | InvalidVsockSocket
  | InvalidAffinityComparison string

record Metadata =
  meta_name :: string
  labels :: btree_map
  annotations :: btree_map

record Compute =
  vcpus :: u32
  max_vcpus :: "u32 option"
  memory_bytes :: u64

record Storage =
  storage_id :: string
  uri :: "string option"
  volume_id :: "ulid option"
  read_only :: bool

record Network =
  network_id :: string
  mac_address :: "string option"

datatype AffinityStrictness = Required | Preferred int

datatype AffinityType = AffinityVirtualMachine | AffinityAgent

datatype MetadataTable = Label | Annotation

datatype Operator = In | NotIn | Lt | Gt

record AffinityRequirement =
  key :: string
  table :: MetadataTable
  operator :: Operator
  "values" :: "string list"

record AffinityRule =
  strictness :: AffinityStrictness
  affinity_type :: AffinityType
  inverse :: bool
  requirements :: "AffinityRequirement list"

record Placement =
  placement_node :: "string option"
  required_labels :: btree_map
  affinity :: "AffinityRule list"

record Boot =
  start :: bool
  firmware :: "string option"
  kernel :: "string option"
  cmdline :: "string option"

record CloudInit =
  user_data :: "string option"
  meta_data :: "string option"

record Vsock =
  guest_cid :: u32
  socket :: string

datatype ObservedStatus =
  StatusUnknown | StatusPending | StatusRunning | StatusStopped | StatusError

record ObservedState =
  status :: ObservedStatus
  observed_node :: "string option"
  cloud_hypervisor_state :: "string option"
  error :: "string option"

record DesiredState =
  metadata :: Metadata
  compute :: Compute
  storage :: "Storage list"
  networks :: "Network list"
  placement :: Placement
  boot :: Boot
  cloud_init :: "CloudInit option"
  vsock :: "Vsock option"

record VmManifest =
  api_version :: u32
  manifest_id :: ulid
  desired :: DesiredState
  observed :: "ObservedState option"

section \<open>Validation\<close>

definition is_blank :: "string \<Rightarrow> bool" where
  "is_blank s \<longleftrightarrow> trim s = []"

definition opt_blank :: "string option \<Rightarrow> bool" where
  "opt_blank s \<longleftrightarrow> (case s of Some d \<Rightarrow> is_blank d | None \<Rightarrow> False)"

text \<open>The loop over storage attachments, with the set of identifiers seen so far.\<close>

definition storage_source_invalid :: "Storage \<Rightarrow> bool" where
  "storage_source_invalid s \<longleftrightarrow>
     opt_blank (uri s) \<or> (uri s \<noteq> None) = (volume_id s \<noteq> None)"

fun validate_storage :: "string list \<Rightarrow> Storage list \<Rightarrow> ManifestError option" where
  "validate_storage seen [] = None"
| "validate_storage seen (s # ss) =
     (if is_blank (storage_id s) then Some EmptyStorageId
      else if storage_id s \<in> set seen then Some (DuplicateStorageId (storage_id s))
      else if storage_source_invalid s then Some (InvalidStorageSource (storage_id s))
      else validate_storage (storage_id s # seen) ss)"

fun validate_networks :: "nat \<Rightarrow> Network list \<Rightarrow> ManifestError option" where
  "validate_networks i [] = None"
| "validate_networks i (n # ns) =
     (if is_blank (network_id n) then Some (NetworkWithoutId i) else validate_networks (Suc i) ns)"

definition valid_comparison :: "string list \<Rightarrow> bool" where
  "valid_comparison vs =
     (case vs of
        [v] \<Rightarrow> (case parse_f64 v of Some x \<Rightarrow> is_finite x | None \<Rightarrow> False)
      | _ \<Rightarrow> False)"

definition requirement_invalid :: "AffinityRequirement \<Rightarrow> bool" where
  "requirement_invalid r \<longleftrightarrow> operator r \<in> {Lt, Gt} \<and> \<not> valid_comparison (values r)"

fun validate_requirements :: "AffinityRequirement list \<Rightarrow> ManifestError option" where
  "validate_requirements [] = None"
| "validate_requirements (r # rs) =
     (if requirement_invalid r then Some (InvalidAffinityComparison (key r))
      else validate_requirements rs)"

fun validate_affinity :: "AffinityRule list \<Rightarrow> ManifestError option" where
  "validate_affinity [] = None"
| "validate_affinity (rule # rules) =
     (case validate_requirements (requirements rule) of
        Some e \<Rightarrow> Some e
      | None \<Rightarrow> validate_affinity rules)"

definition validate_cloud_init :: "CloudInit \<Rightarrow> ManifestError option" where
  "validate_cloud_init c =
     (if (user_data c \<noteq> None) \<noteq> (meta_data c \<noteq> None) \<or> (user_data c = None \<and> meta_data c = None)
      then Some IncompleteCloudInit
      else if opt_blank (user_data c) \<or> opt_blank (meta_data c) then Some EmptyCloudInitData
      else None)"

definition validate_vsock :: "Vsock \<Rightarrow> ManifestError option" where
  "validate_vsock v =
     (if guest_cid v = 0 then Some InvalidVsockCid
      else if is_blank (socket v) \<or> \<not> is_absolute (socket v) then Some InvalidVsockSocket
      else None)"

text \<open>Early returns: the first check that reports an error decides.\<close>

fun first_error :: "'e option list \<Rightarrow> 'e + unit" where
  "first_error [] = Inr ()"
| "first_error (None # cs) = first_error cs"
| "first_error (Some e # cs) = Inl e"

definition DesiredState_validate :: "DesiredState \<Rightarrow> ManifestError + unit" where
  "DesiredState_validate d = first_error
     [if is_blank (meta_name (metadata d)) then Some EmptyMetadataName else None,
      if vcpus (compute d) = 0 then Some NoVcpus else None,
      (case max_vcpus (compute d) of
         Some m \<Rightarrow> if m < vcpus (compute d) then Some (MaxVcpusLessThanBoot (vcpus (compute d)) m) else None
       | None \<Rightarrow> None),
      if memory_bytes (compute d) = 0 then Some NoMemory else None,
      validate_storage [] (storage d),
      validate_networks 0 (networks d),
      validate_affinity (affinity (placement d)),
      (case cloud_init d of Some c \<Rightarrow> validate_cloud_init c | None \<Rightarrow> None),
      (case vsock d of Some v \<Rightarrow> validate_vsock v | None \<Rightarrow> None)]"

definition VmManifest_validate :: "VmManifest \<Rightarrow> ManifestError + unit" where
  "VmManifest_validate m =
     (if api_version m \<noteq> MANIFEST_VERSION then Inl (UnsupportedVersion (api_version m))
      else DesiredState_validate (desired m))"

text \<open>
  \<open>Deserialize for VmManifest\<close>: the derived deserialiser of the mirror struct, a parameter,
  followed by validation. Its error is the serde error type, rebuilt from the manifest error.
\<close>

definition VmManifest_deserialize ::
  "('json \<Rightarrow> 'err + VmManifest) \<Rightarrow> (ManifestError \<Rightarrow> 'err) \<Rightarrow> 'json \<Rightarrow> 'err + VmManifest" where
  "VmManifest_deserialize derived custom j =
     (case derived j of
        Inl e \<Rightarrow> Inl e
      | Inr m \<Rightarrow> (case VmManifest_validate m of Inl e \<Rightarrow> Inl (custom e) | Inr _ \<Rightarrow> Inr m))"

section \<open>The documented contract\<close>

text \<open>The rules of \<open>docs/manifest.md\<close>, independent of the order in which they are checked.\<close>

definition storage_contract :: "Storage list \<Rightarrow> bool" where
  "storage_contract ss \<longleftrightarrow>
     distinct (map storage_id ss) \<and>
     (\<forall>s \<in> set ss. \<not> is_blank (storage_id s) \<and>
        ((\<exists>u. uri s = Some u \<and> \<not> is_blank u \<and> volume_id s = None) \<or>
         (uri s = None \<and> (\<exists>v. volume_id s = Some v))))"

definition comparison_contract :: "AffinityRule list \<Rightarrow> bool" where
  "comparison_contract rules \<longleftrightarrow>
     (\<forall>rule \<in> set rules. \<forall>r \<in> set (requirements rule). operator r \<in> {Lt, Gt} \<longrightarrow>
        (\<exists>v x. values r = [v] \<and> parse_f64 v = Some (Fin x)))"

definition cloud_init_contract :: "CloudInit option \<Rightarrow> bool" where
  "cloud_init_contract c \<longleftrightarrow>
     (\<forall>ci. c = Some ci \<longrightarrow>
        (\<exists>u m. user_data ci = Some u \<and> meta_data ci = Some m \<and> \<not> is_blank u \<and> \<not> is_blank m))"

definition vsock_contract :: "Vsock option \<Rightarrow> bool" where
  "vsock_contract v \<longleftrightarrow>
     (\<forall>vs. v = Some vs \<longrightarrow> guest_cid vs \<noteq> 0 \<and> \<not> is_blank (socket vs) \<and> is_absolute (socket vs))"

definition manifest_contract :: "VmManifest \<Rightarrow> bool" where
  "manifest_contract m \<longleftrightarrow>
     api_version m = MANIFEST_VERSION \<and>
     \<not> is_blank (meta_name (metadata (desired m))) \<and>
     0 < vcpus (compute (desired m)) \<and>
     (\<forall>mx. max_vcpus (compute (desired m)) = Some mx \<longrightarrow> vcpus (compute (desired m)) \<le> mx) \<and>
     0 < memory_bytes (compute (desired m)) \<and>
     storage_contract (storage (desired m)) \<and>
     (\<forall>n \<in> set (networks (desired m)). \<not> is_blank (network_id n)) \<and>
     comparison_contract (affinity (placement (desired m))) \<and>
     cloud_init_contract (cloud_init (desired m)) \<and>
     vsock_contract (vsock (desired m))"

subsection \<open>The checks decide the contract\<close>

lemma first_error_ok: "first_error cs = Inr () \<longleftrightarrow> (\<forall>c \<in> set cs. c = None)"
  by (induction cs rule: first_error.induct) auto

lemma first_error_err: "first_error cs = Inl e \<longleftrightarrow> (\<exists>ds es. cs = ds @ Some e # es \<and> (\<forall>d \<in> set ds. d = None))"
proof (induction cs rule: first_error.induct)
  case (2 cs)
  show ?case
  proof
    assume "first_error (None # cs) = Inl e"
    with 2 obtain ds es where "cs = ds @ Some e # es" "\<forall>d \<in> set ds. d = None" by auto
    then show "\<exists>ds es. None # cs = ds @ Some e # es \<and> (\<forall>d \<in> set ds. d = None)"
      by (intro exI [of _ "None # ds"] exI [of _ es]) simp
  next
    assume "\<exists>ds es. None # cs = ds @ Some e # es \<and> (\<forall>d \<in> set ds. d = None)"
    with 2 show "first_error (None # cs) = Inl e" by (auto simp: Cons_eq_append_conv)
  qed
qed (auto simp: Cons_eq_append_conv)

lemma storage_source_invalid_iff:
  "\<not> storage_source_invalid s \<longleftrightarrow>
     (\<exists>u. uri s = Some u \<and> \<not> is_blank u \<and> volume_id s = None) \<or>
     (uri s = None \<and> (\<exists>v. volume_id s = Some v))"
  by (cases "uri s"; cases "volume_id s") (auto simp: storage_source_invalid_def opt_blank_def)

lemma validate_storage_ok:
  "validate_storage seen ss = None \<longleftrightarrow>
     storage_contract ss \<and> set seen \<inter> set (map storage_id ss) = {}"
proof (induction seen ss rule: validate_storage.induct)
  case (1 seen)
  then show ?case by (simp add: storage_contract_def)
next
  case (2 seen s ss)
  then show ?case
    by (auto simp: storage_contract_def simp flip: storage_source_invalid_iff)
qed

lemma validate_networks_ok:
  "validate_networks i ns = None \<longleftrightarrow> (\<forall>n \<in> set ns. \<not> is_blank (network_id n))"
  by (induction i ns rule: validate_networks.induct) auto

lemma valid_comparison_iff:
  "valid_comparison vs \<longleftrightarrow> (\<exists>v x. vs = [v] \<and> parse_f64 v = Some (Fin x))"
proof -
  have "is_finite x \<longleftrightarrow> (\<exists>r. x = Fin r)" for x
    by (cases x) auto
  then show ?thesis
    by (auto simp: valid_comparison_def split: list.splits option.splits)
qed

lemma validate_requirements_ok:
  "validate_requirements rs = None \<longleftrightarrow>
     (\<forall>r \<in> set rs. operator r \<in> {Lt, Gt} \<longrightarrow> (\<exists>v x. values r = [v] \<and> parse_f64 v = Some (Fin x)))"
  by (induction rs) (auto simp: requirement_invalid_def valid_comparison_iff)

lemma validate_affinity_ok: "validate_affinity rules = None \<longleftrightarrow> comparison_contract rules"
proof -
  have "validate_affinity rules = None \<longleftrightarrow>
      (\<forall>rule \<in> set rules. validate_requirements (requirements rule) = None)"
    by (induction rules) (auto split: option.splits)
  then show ?thesis
    by (simp add: comparison_contract_def validate_requirements_ok)
qed

lemma validate_cloud_init_ok: "validate_cloud_init c = None \<longleftrightarrow> cloud_init_contract (Some c)"
  by (cases "user_data c"; cases "meta_data c")
    (auto simp: validate_cloud_init_def cloud_init_contract_def opt_blank_def)

lemma validate_vsock_ok: "validate_vsock v = None \<longleftrightarrow> vsock_contract (Some v)"
  by (auto simp: validate_vsock_def vsock_contract_def)

lemmas validate_ok_simps = first_error_ok validate_storage_ok validate_networks_ok
  validate_affinity_ok validate_cloud_init_ok validate_vsock_ok

lemma VmManifest_validate_ok: "VmManifest_validate m = Inr () \<longleftrightarrow> manifest_contract m"
proof -
  have "DesiredState_validate (desired m) = Inr () \<longleftrightarrow>
      manifest_contract m" if "api_version m = MANIFEST_VERSION"
    unfolding DesiredState_validate_def validate_ok_simps manifest_contract_def
    using that
    by (auto simp: validate_ok_simps cloud_init_contract_def vsock_contract_def
        word_gt_0 not_less split: option.splits if_splits)
  then show ?thesis
    by (auto simp: VmManifest_validate_def manifest_contract_def)
qed

lemma VmManifest_deserialize_ok:
  "VmManifest_deserialize derived custom j = Inr m \<longleftrightarrow> derived j = Inr m \<and> manifest_contract m"
proof (cases "derived j")
  case (Inr m')
  then show ?thesis
    using VmManifest_validate_ok [of m']
    by (cases "VmManifest_validate m'") (auto simp: VmManifest_deserialize_def)
qed (simp add: VmManifest_deserialize_def)

end
