(* ===== verification/Vm_Messages.thy ===== *)
theory Vm_Messages
  imports Manifest
begin

text \<open>
  The VM messages exchanged by the actors (\<open>odorobo/src/messages/vm.rs\<close>). An \<open>ActorId\<close> of the
  actor library is an opaque identifier compared by equality only; an actor reference is
  represented by the identifier its \<open>id()\<close> returns.
\<close>

type_synonym actor_id = nat
type_synonym bytes = "u8 list"

record CreateVM =
  create_vmid :: ulid
  create_config :: VmManifest

record CreateVMReply =
  reply_config :: "VmManifest option"
  reply_actor_id :: "bytes option"

record MigrateVMReceive =
  migrate_vmid :: ulid
  migrate_config :: VmManifest

record MigrateVMReceiveReply =
  listening_address :: string
  migrate_error :: "string option"

record GetVMInfoReply =
  info_vmid :: ulid
  info_config :: "VmManifest option"

record SendConsoleInputReply =
  written :: nat
  input_error :: "string option"

text \<open>The messages that only carry a VM identifier: \<open>DeleteVM\<close>, \<open>ShutdownVM\<close>,
  \<open>GetConsoleHistory\<close> and \<open>GetVMInfo\<close> (whose identifier is optional), and the unit replies.\<close>

datatype DeleteVM = DeleteVM (delete_vmid: ulid)

datatype ShutdownVM = ShutdownVM (shutdown_vmid: ulid)

datatype GetVMInfo = GetVMInfo (info_request_vmid: "ulid option")

datatype DeleteVMReply = DeleteVMReply

datatype ShutdownVMReply = ShutdownVMReply

end
