(* ===== verification/Agent_Status.thy ===== *)
theory Agent_Status
  imports Prelude
begin

text \<open>
  Revisioned agent status (\<open>odorobo/src/messages/agent.rs\<close>): the messages with which an
  agent reports its VMs, and the application of a full snapshot or of a delta to a cached
  status. A \<open>ByteSize\<close> is its number of bytes.
\<close>

section \<open>Messages\<close>

record ObjectMetadata =
  obj_labels :: "(string \<times> string) list"
  obj_annotations :: "(string \<times> string) list"

record GetAgentStatus =
  since_revision :: u64
  initial :: bool

record AgentStatus =
  hostname :: string
  st_vcpus :: u32
  st_ram :: u64
  st_used_vcpus :: u32
  st_used_ram :: u64
  st_vms :: "ulid list"
  st_metadata :: ObjectMetadata

datatype AgentStatusUpdate =
    Full u64 AgentStatus
  | Delta u64 "ulid list" "ulid list" u32 u64

record MembershipChange =
  mc_revision :: u64
  mc_vmid :: ulid
  mc_added :: bool

definition STATUS_CHANGE_HISTORY_LIMIT :: nat where
  "STATUS_CHANGE_HISTORY_LIMIT = 256"

fun update_revision :: "AgentStatusUpdate \<Rightarrow> u64" where
  "update_revision (Full revision _) = revision"
| "update_revision (Delta revision _ _ _ _) = revision"

section \<open>Binary search\<close>

text \<open>
  \<open>slice::binary_search\<close> of the standard library: the branch-free loop that halves the
  size, then one final comparison. \<open>Inr\<close> is \<open>Ok\<close> with the position of the element,
  \<open>Inl\<close> is \<open>Err\<close> with the position where it can be inserted.
\<close>

function binary_search_loop :: "'a::linorder \<Rightarrow> 'a list \<Rightarrow> nat \<Rightarrow> nat \<Rightarrow> nat" where
  "binary_search_loop x xs base sz =
     (if 1 < sz then
        binary_search_loop x xs
          (if x < xs ! (base + sz div 2) then base else base + sz div 2)
          (sz - sz div 2)
      else base)"
  by pat_completeness auto
termination
  by (relation "measure (\<lambda>(x, xs, base, sz). sz)") auto

declare binary_search_loop.simps [simp del]

definition binary_search :: "'a::linorder \<Rightarrow> 'a list \<Rightarrow> nat + nat" where
  "binary_search x xs =
     (if xs = [] then Inl 0
      else let b = binary_search_loop x xs 0 (length xs) in
        if xs ! b = x then Inr b else Inl (b + (if xs ! b < x then 1 else 0)))"

text \<open>Halving the window keeps everything above it greater than the element searched for.\<close>

lemma halving_keeps_upper:
  assumes "sorted xs" and "\<forall>i. base + sz \<le> i \<and> i < length xs \<longrightarrow> x < xs ! i"
  shows "\<forall>i. (if x < xs ! (base + sz div 2) then base else base + sz div 2) + (sz - sz div 2) \<le> i \<and> i < length xs
    \<longrightarrow> x < xs ! i"
proof (intro allI impI)
  let ?mid = "base + sz div 2"
  fix i assume i: "(if x < xs ! ?mid then base else ?mid) + (sz - sz div 2) \<le> i \<and> i < length xs"
  show "x < xs ! i"
  proof (cases "x < xs ! ?mid")
    case True
    with i have "?mid \<le> i" by (auto split: if_splits)
    with i assms(1) have "xs ! ?mid \<le> xs ! i" by (simp add: sorted_nth_mono)
    with True show ?thesis by simp
  next
    case False
    with i have "base + sz \<le> i" by auto
    with i assms(2) show ?thesis by auto
  qed
qed

lemma binary_search_loop_spec:
  assumes "0 < sz" and "base + sz \<le> length xs" and "sorted xs"
    and "base = 0 \<or> xs ! base \<le> x" and "\<forall>i. base + sz \<le> i \<and> i < length xs \<longrightarrow> x < xs ! i"
  shows "let b = binary_search_loop x xs base sz in
    b < length xs \<and> (b = 0 \<or> xs ! b \<le> x) \<and> (\<forall>i. b < i \<and> i < length xs \<longrightarrow> x < xs ! i)"
  using assms
proof (induction x xs base sz rule: binary_search_loop.induct)
  case (1 x xs base sz)
  show ?case
  proof (cases "1 < sz")
    case False
    with "1.prems" have sz: "sz = 1" by simp
    then have "binary_search_loop x xs base sz = base"
      by (subst binary_search_loop.simps) simp
    with "1.prems" sz show ?thesis
      by (auto simp: Let_def)
  next
    case True
    let ?mid = "base + sz div 2"
    let ?base = "if x < xs ! ?mid then base else ?mid"
    let ?sz = "sz - sz div 2"
    have mid: "?mid < length xs"
      using "1.prems" True by linarith
    have "\<forall>i. ?base + ?sz \<le> i \<and> i < length xs \<longrightarrow> x < xs ! i"
      using "1.prems"(3,5) by (rule halving_keeps_upper)
    moreover have "?base + ?sz \<le> length xs" and "?base = 0 \<or> xs ! ?base \<le> x"
      using "1.prems" by auto
    moreover have "0 < ?sz"
      using True by simp
    ultimately have "let b = binary_search_loop x xs ?base ?sz in
        b < length xs \<and> (b = 0 \<or> xs ! b \<le> x) \<and> (\<forall>i. b < i \<and> i < length xs \<longrightarrow> x < xs ! i)"
      using "1.prems"(3) by (intro "1.IH" [OF True])
    moreover have "binary_search_loop x xs base sz = binary_search_loop x xs ?base ?sz"
      using True by (subst binary_search_loop.simps) simp
    ultimately show ?thesis
      by (simp only:)
  qed
qed

lemma binary_search_loop_position:
  fixes x :: "'a::linorder"
  assumes "xs \<noteq> []" and "sorted_wrt (<) xs"
  defines "b \<equiv> binary_search_loop x xs 0 (length xs)"
  shows "b < length xs" and "b = 0 \<or> xs ! b \<le> x" and "\<forall>i. b < i \<and> i < length xs \<longrightarrow> x < xs ! i"
proof -
  have "sorted xs"
    using assms(2) by (rule strict_sorted_imp_sorted)
  with assms(1) have "let b = binary_search_loop x xs 0 (length xs) in
      b < length xs \<and> (b = 0 \<or> xs ! b \<le> x) \<and> (\<forall>i. b < i \<and> i < length xs \<longrightarrow> x < xs ! i)"
    by (intro binary_search_loop_spec) auto
  then show "b < length xs" and "b = 0 \<or> xs ! b \<le> x" and "\<forall>i. b < i \<and> i < length xs \<longrightarrow> x < xs ! i"
    by (simp_all add: Let_def b_def)
qed

lemma binary_search_Ok:
  assumes "sorted_wrt (<) xs"
  shows "binary_search x xs = Inr i \<longleftrightarrow> i < length xs \<and> xs ! i = x"
proof (cases "xs = []")
  case True
  then show ?thesis by (simp add: binary_search_def)
next
  case False
  let ?b = "binary_search_loop x xs 0 (length xs)"
  note b = binary_search_loop_position [OF False assms, of x]
  have uniq: "i = ?b" if i: "i < length xs" "xs ! i = x"
  proof (rule ccontr)
    assume "i \<noteq> ?b"
    then consider "i < ?b" | "?b < i" by linarith
    then show False
    proof cases
      case 1
      with assms b(1) have "xs ! i < xs ! ?b" by (simp add: sorted_wrt_nth_less)
      with 1 b(2) i show False by auto
    next
      case 2
      with b(3) i show False by auto
    qed
  qed
  show ?thesis
  proof
    assume "binary_search x xs = Inr i"
    with False b(1) show "i < length xs \<and> xs ! i = x"
      by (auto simp: binary_search_def Let_def split: if_splits)
  next
    assume "i < length xs \<and> xs ! i = x"
    moreover from this uniq have "i = ?b" by blast
    ultimately show "binary_search x xs = Inr i"
      using False by (simp add: binary_search_def Let_def)
  qed
qed

lemma binary_search_Err:
  assumes "sorted_wrt (<) xs" and "binary_search x xs = Inl i"
  shows "\<forall>y \<in> set (take i xs). y < x" and "\<forall>y \<in> set (drop i xs). x < y"
proof -
  let ?b = "binary_search_loop x xs 0 (length xs)"
  have split: "(\<forall>y \<in> set (take i xs). y < x) \<and> (\<forall>y \<in> set (drop i xs). x < y)"
  proof (cases "xs = []")
    case True
    then show ?thesis by simp
  next
    case False
    note b = binary_search_loop_position [OF False assms(1), of x]
    from assms(2) False have ne: "xs ! ?b \<noteq> x" and i: "i = ?b + (if xs ! ?b < x then 1 else 0)"
      by (auto simp: binary_search_def Let_def split: if_splits)
    have lo: "xs ! j < x" if "j < i" "j < length xs" for j
    proof (cases "j = ?b")
      case True
      with that i ne show ?thesis by (auto split: if_splits)
    next
      case False
      with that i have "j < ?b" by (auto split: if_splits)
      with assms(1) b(1) have "xs ! j < xs ! ?b" by (simp add: sorted_wrt_nth_less)
      with \<open>j < ?b\<close> b(2) show ?thesis by auto
    qed
    have hi: "x < xs ! j" if "i \<le> j" "j < length xs" for j
    proof (cases "j = ?b")
      case True
      with that i ne show ?thesis by (auto split: if_splits)
    next
      case False
      with that i have "?b < j" by (auto split: if_splits)
      with b(3) that show ?thesis by blast
    qed
    from lo hi show ?thesis
      by (auto simp: in_set_conv_nth)
  qed
  from split show "\<forall>y \<in> set (take i xs). y < x" and "\<forall>y \<in> set (drop i xs). x < y"
    by blast+
qed

section \<open>Applying an update\<close>

text \<open>\<open>Vec::remove(i)\<close> and \<open>Vec::insert(i, v)\<close> at the position the search returned.\<close>

definition vms_remove :: "ulid list \<Rightarrow> ulid \<Rightarrow> ulid list" where
  "vms_remove vms v =
     (case binary_search v vms of Inr i \<Rightarrow> take i vms @ drop (Suc i) vms | Inl _ \<Rightarrow> vms)"

definition vms_insert :: "ulid list \<Rightarrow> ulid \<Rightarrow> ulid list" where
  "vms_insert vms v =
     (case binary_search v vms of Inr _ \<Rightarrow> vms | Inl i \<Rightarrow> take i vms @ v # drop i vms)"

fun apply_status_update :: "AgentStatus \<Rightarrow> AgentStatusUpdate \<Rightarrow> AgentStatus \<times> u64" where
  "apply_status_update st (Full revision next) = (next, revision)"
| "apply_status_update st (Delta revision added removed used_vcpus used_ram) =
     (st\<lparr>st_vms := foldl vms_insert (foldl vms_remove (st_vms st) removed) added,
         st_used_vcpus := used_vcpus,
         st_used_ram := used_ram\<rparr>, revision)"

lemma take_drop_Suc: "i < length xs \<Longrightarrow> take i xs @ xs ! i # drop (Suc i) xs = xs"
  by (simp add: id_take_nth_drop [symmetric])

lemma vms_remove_spec:
  assumes "sorted_wrt (<) vms"
  shows "sorted_wrt (<) (vms_remove vms v) \<and> set (vms_remove vms v) = set vms - {v}"
proof (cases "binary_search v vms")
  case (Inl i)
  then have "v \<notin> set vms"
    using binary_search_Ok [OF assms, of v] by (metis in_set_conv_nth sum.distinct(1))
  with Inl assms show ?thesis by (simp add: vms_remove_def)
next
  case (Inr i)
  then have i: "i < length vms" "vms ! i = v"
    using binary_search_Ok [OF assms] by auto
  have s: "sorted_wrt (<) (take i vms @ v # drop (Suc i) vms)"
    using assms take_drop_Suc [OF i(1)] i(2) by simp
  have m: "set vms = set (take i vms @ v # drop (Suc i) vms)"
    using take_drop_Suc [OF i(1)] i(2) by simp
  from s have "v \<notin> set (take i vms @ drop (Suc i) vms)"
    by (auto simp: sorted_wrt_append)
  with s m Inr show ?thesis
    by (auto simp: vms_remove_def sorted_wrt_append)
qed

lemma vms_insert_spec:
  assumes "sorted_wrt (<) vms"
  shows "sorted_wrt (<) (vms_insert vms v) \<and> set (vms_insert vms v) = insert v (set vms)"
proof (cases "binary_search v vms")
  case (Inl i)
  have "sorted_wrt (<) (take i vms @ v # drop i vms)"
    using binary_search_Err [OF assms Inl] sorted_wrt_append [of "(<)" "take i vms" "drop i vms"] assms
    by (auto simp: sorted_wrt_append)
  moreover have "set (take i vms @ v # drop i vms) = insert v (set vms)"
    by (metis append_take_drop_id list.set_intros(1) list.simps(15) set_append Un_insert_right)
  ultimately show ?thesis
    using Inl by (simp add: vms_insert_def)
next
  case (Inr i)
  then have "v \<in> set vms"
    using binary_search_Ok [OF assms] by (metis nth_mem)
  with Inr assms show ?thesis
    by (auto simp: vms_insert_def)
qed

lemma foldl_vms_remove:
  assumes "sorted_wrt (<) vms"
  shows "sorted_wrt (<) (foldl vms_remove vms rs) \<and> set (foldl vms_remove vms rs) = set vms - set rs"
  using assms
  by (induction rs arbitrary: vms) (auto simp: vms_remove_spec)

lemma foldl_vms_insert:
  assumes "sorted_wrt (<) vms"
  shows "sorted_wrt (<) (foldl vms_insert vms as) \<and> set (foldl vms_insert vms as) = set vms \<union> set as"
  using assms
  by (induction as arbitrary: vms) (auto simp: vms_insert_spec)

lemma apply_delta_vms:
  assumes "sorted_wrt (<) (st_vms st)"
  shows "sorted_wrt (<) (st_vms (fst (apply_status_update st (Delta r as rs u m)))) \<and>
    set (st_vms (fst (apply_status_update st (Delta r as rs u m)))) = (set (st_vms st) - set rs) \<union> set as"
  using foldl_vms_remove [OF assms, of rs] foldl_vms_insert by simp

text \<open>Strictly sorted lists are determined by their elements.\<close>

lemma strict_sorted_unique:
  "sorted_wrt (<) xs \<Longrightarrow> sorted_wrt (<) ys \<Longrightarrow> set xs = set ys \<Longrightarrow> xs = (ys :: 'a::linorder list)"
  by (metis strict_sorted_iff sorted_distinct_set_unique)

lemma strict_sorted_sort: "distinct xs \<Longrightarrow> sorted_wrt (<) (sort xs)"
  by (simp add: strict_sorted_iff)

section \<open>The polling contract\<close>

text \<open>
  The scheduler's side of an update for an agent it already caches: stale and duplicate
  revisions are dropped, newer ones applied.
\<close>

definition accept_update :: "AgentStatusUpdate \<Rightarrow> AgentStatus \<times> u64 \<Rightarrow> AgentStatus \<times> u64" where
  "accept_update update cached =
     (if update_revision update \<le> snd cached then cached
      else apply_status_update (fst cached) update)"

text \<open>Two statuses that agree on everything but the resource usage.\<close>

definition same_membership :: "AgentStatus \<Rightarrow> AgentStatus \<Rightarrow> bool" where
  "same_membership a b \<longleftrightarrow>
     hostname a = hostname b \<and> st_vcpus a = st_vcpus b \<and> st_ram a = st_ram b \<and>
     st_vms a = st_vms b \<and> st_metadata a = st_metadata b"

lemma same_membership_refl [simp]: "same_membership a a"
  by (simp add: same_membership_def)

lemma same_membership_trans: "same_membership a b \<Longrightarrow> same_membership b c \<Longrightarrow> same_membership a c"
  by (simp add: same_membership_def)

text \<open>A cached status and revision track an agent with this status and revision.\<close>

definition tracks :: "AgentStatus \<times> u64 \<Rightarrow> AgentStatus \<Rightarrow> u64 \<Rightarrow> bool" where
  "tracks cached st revision \<longleftrightarrow> same_membership (fst cached) st \<and> snd cached = revision"

text \<open>
  What the scheduler relies on when it polls an agent: an initial request is answered with a
  full snapshot, and a request that carries the revision of an earlier state brings a status
  with that state's membership up to date.
\<close>

locale status_source =
  fixes evolves :: "'s \<Rightarrow> 's \<Rightarrow> bool"
    and inv :: "'s \<Rightarrow> bool"
    and view :: "'s \<Rightarrow> AgentStatus"
    and revision :: "'s \<Rightarrow> u64"
    and poll :: "GetAgentStatus \<Rightarrow> 's \<Rightarrow> AgentStatusUpdate"
  assumes evolves_inv: "inv s \<Longrightarrow> evolves s t \<Longrightarrow> inv t"
    and poll_initial: "initial msg \<Longrightarrow> poll msg s = Full (revision s) (view s)"
    and poll_revision: "update_revision (poll msg s) = revision s"
    and poll_sync: "\<lbrakk>inv s; evolves s t; since_revision msg = revision s; same_membership st (view s)\<rbrakk>
      \<Longrightarrow> apply_status_update st (poll msg t) = (view t, revision t)"
    and same_revision: "\<lbrakk>inv s; evolves s t; revision s = revision t\<rbrakk>
      \<Longrightarrow> same_membership (view s) (view t)"
    and revision_le: "\<lbrakk>inv s; evolves s t\<rbrakk> \<Longrightarrow> revision s \<le> revision t"
begin

lemma tracks_initial: "initial msg \<Longrightarrow> tracks (apply_status_update st (poll msg s)) (view s) (revision s)"
  by (simp add: poll_initial tracks_def)

text \<open>One poll keeps a tracking cache up to date, whatever happened since the previous one; when
  the revision moved, the usage figures are exact again.\<close>

lemma tracks_poll:
  assumes "tracks cached (view s) (revision s)" and "inv s" and "evolves s t"
  shows "tracks (accept_update (poll \<lparr>since_revision = snd cached, initial = False\<rparr> t) cached) (view t) (revision t)"
    and "revision s \<noteq> revision t \<Longrightarrow>
      fst (accept_update (poll \<lparr>since_revision = snd cached, initial = False\<rparr> t) cached) = view t"
proof -
  let ?msg = "\<lparr>since_revision = snd cached, initial = False\<rparr>"
  have sync: "apply_status_update (fst cached) (poll ?msg t) = (view t, revision t)"
    using assms by (intro poll_sync [where s = s]) (auto simp: tracks_def)
  have cached: "snd cached = revision s" and mem: "same_membership (fst cached) (view s)"
    using assms(1) by (auto simp: tracks_def)
  show "tracks (accept_update (poll ?msg t) cached) (view t) (revision t)"
  proof (cases "revision t \<le> revision s")
    case True
    with revision_le [OF assms(2,3)] have eq: "revision s = revision t" by simp
    with True cached have "accept_update (poll ?msg t) cached = cached"
      by (simp add: accept_update_def poll_revision)
    then show ?thesis
      using same_membership_trans [OF mem same_revision [OF assms(2,3) eq]] cached eq
      by (simp add: tracks_def)
  next
    case False
    with cached sync show ?thesis
      by (simp add: accept_update_def poll_revision tracks_def)
  qed
  assume "revision s \<noteq> revision t"
  with revision_le [OF assms(2,3)] have "\<not> revision t \<le> revision s" by simp
  with cached sync show "fst (accept_update (poll ?msg t) cached) = view t"
    by (simp add: accept_update_def poll_revision)
qed

text \<open>The updater's polls of a whole run: each request carries the revision of the previous answer.\<close>

lemma tracks_run:
  assumes "tracks cached (view s) (revision s)" and "inv s" and "successively evolves (s # ts)"
  shows "tracks (foldl (\<lambda>c t. accept_update (poll \<lparr>since_revision = snd c, initial = False\<rparr> t) c) cached ts)
    (view (last (s # ts))) (revision (last (s # ts)))"
  using assms
proof (induction ts arbitrary: cached s)
  case Nil
  then show ?case by simp
next
  case (Cons t ts)
  from Cons.prems have "evolves s t" and rest: "successively evolves (t # ts)" by auto
  moreover from this have "inv t" using Cons.prems(2) by (blast intro: evolves_inv)
  ultimately have "tracks (accept_update (poll \<lparr>since_revision = snd cached, initial = False\<rparr> t) cached) (view t) (revision t)"
    using Cons.prems by (intro tracks_poll(1))
  from Cons.IH [OF this \<open>inv t\<close> rest] show ?case by simp
qed

end

end
