(* ===== verification/Agent_Actor.thy ===== *)
theory Agent_Actor
  imports Config Vm_Messages Agent_Status
begin

text \<open>
  The agent actor (\<open>odorobo/src/actors/agent_actor.rs\<close>): the VMs of one node, their resource
  accounting, and the revisioned membership log from which status deltas are computed.
  Handlers take the outcome of every remote operation as an argument and return the new state,
  the reply and the messages they send.
\<close>

section \<open>State\<close>

record VMCacheData =
  vm_actor :: actor_id
  vm_config :: VmManifest
  vm_vcpus :: u32
  vm_memory :: u64

record AgentActor =
  ag_vcpus :: u32
  ag_memory :: u64
  used_vcpus :: u32
  used_memory_bytes :: u64
  membership_revision :: u64
  status_history :: "MembershipChange list"
  config :: Config
  vms :: "(ulid, VMCacheData) hmap"
  ag_metadata :: ObjectMetadata

datatype agent_effect =
    SpawnVM actor_id ulid "VmManifest option"
  | TellDelete actor_id ulid
  | TellShutdown actor_id ulid
  | ForwardGetVMInfo actor_id ulid
  | KillActor actor_id

definition ObjectMetadata_default :: ObjectMetadata where
  "ObjectMetadata_default = \<lparr>obj_labels = [], obj_annotations = []\<rparr>"

text \<open>
  \<open>on_start\<close>: the number of CPUs and the memory the system reports are parameters, and so
  is the outcome of registering the networking actor.
\<close>

definition AgentActor_on_start :: "Config \<Rightarrow> nat \<Rightarrow> u64 \<Rightarrow> 'e + unit \<Rightarrow> 'e + AgentActor" where
  "AgentActor_on_start args cpus total_memory registered =
     (case registered of
        Inl e \<Rightarrow> Inl e
      | Inr _ \<Rightarrow> Inr
         \<lparr>ag_vcpus = (if cpus < 2 ^ 32 then of_nat cpus else - 1),
          ag_memory = total_memory,
          used_vcpus = 0,
          used_memory_bytes = 0,
          membership_revision = 0,
          status_history = [],
          config = args,
          vms = [],
          ag_metadata = ObjectMetadata_default\<rparr>)"

section \<open>Membership and accounting\<close>

fun trim_history :: "MembershipChange list \<Rightarrow> MembershipChange list" where
  "trim_history h = (if STATUS_CHANGE_HISTORY_LIMIT < length h then trim_history (tl h) else h)"

declare trim_history.simps [simp del]

definition record_membership_change :: "ulid \<Rightarrow> bool \<Rightarrow> AgentActor \<Rightarrow> AgentActor" where
  "record_membership_change vmid added s =
     (let rev = sat_add (membership_revision s) 1 in
      s\<lparr>membership_revision := rev,
        status_history := trim_history
          (status_history s @ [\<lparr>mc_revision = rev, mc_vmid = vmid, mc_added = added\<rparr>])\<rparr>)"

definition insert_vm :: "ulid \<Rightarrow> VMCacheData \<Rightarrow> AgentActor \<Rightarrow> AgentActor" where
  "insert_vm vmid cache s =
     (let previous = map_of (vms s) vmid;
          s1 = s\<lparr>vms := hm_insert vmid cache (vms s)\<rparr>;
          s2 = (case previous of
                  Some p \<Rightarrow> s1\<lparr>used_vcpus := sat_sub (used_vcpus s1) (vm_vcpus p),
                               used_memory_bytes := sat_sub (used_memory_bytes s1) (vm_memory p)\<rparr>
                | None \<Rightarrow> record_membership_change vmid True s1)
      in s2\<lparr>used_vcpus := sat_add (used_vcpus s2) (vm_vcpus cache),
            used_memory_bytes := sat_add (used_memory_bytes s2) (vm_memory cache)\<rparr>)"

definition remove_vm :: "ulid \<Rightarrow> AgentActor \<Rightarrow> AgentActor \<times> VMCacheData option" where
  "remove_vm vmid s =
     (case map_of (vms s) vmid of
        None \<Rightarrow> (s, None)
      | Some removed \<Rightarrow>
          (let s1 = record_membership_change vmid False (s\<lparr>vms := hm_remove vmid (vms s)\<rparr>) in
           (s1\<lparr>used_vcpus := sat_sub (used_vcpus s1) (vm_vcpus removed),
               used_memory_bytes := sat_sub (used_memory_bytes s1) (vm_memory removed)\<rparr>,
            Some removed)))"

section \<open>Message handlers\<close>

definition cache_data :: "actor_id \<Rightarrow> VmManifest \<Rightarrow> VMCacheData" where
  "cache_data actor cfg =
     \<lparr>vm_actor = actor, vm_config = cfg, vm_vcpus = vcpus (compute (desired cfg)),
      vm_memory = memory_bytes (compute (desired cfg))\<rparr>"

text \<open>\<open>new_actor\<close> is the actor that \<open>spawn_link\<close> creates, \<open>to_bytes\<close> the serialisation of
  actor identifiers. Registration results are ignored by the source.\<close>

definition AgentActor_CreateVM ::
  "(actor_id \<Rightarrow> bytes) \<Rightarrow> CreateVM \<Rightarrow> actor_id \<Rightarrow> AgentActor \<Rightarrow> AgentActor \<times> CreateVMReply \<times> agent_effect list" where
  "AgentActor_CreateVM to_bytes msg new_actor s =
     (case map_of (vms s) (create_vmid msg) of
        Some existing \<Rightarrow>
          (s, \<lparr>reply_config = Some (vm_config existing),
               reply_actor_id = Some (to_bytes (vm_actor existing))\<rparr>, [])
      | None \<Rightarrow>
          (insert_vm (create_vmid msg) (cache_data new_actor (create_config msg)) s,
           \<lparr>reply_config = Some (create_config msg), reply_actor_id = Some (to_bytes new_actor)\<rparr>,
           [SpawnVM new_actor (create_vmid msg) (Some (create_config msg))]))"

text \<open>\<open>answer\<close> is the outcome of asking the new VM actor to start receiving: \<open>Inl\<close> when the
  request itself failed.\<close>

definition AgentActor_MigrateVMReceive ::
  "MigrateVMReceive \<Rightarrow> actor_id \<Rightarrow> string + MigrateVMReceiveReply \<Rightarrow> AgentActor
    \<Rightarrow> AgentActor \<times> MigrateVMReceiveReply \<times> agent_effect list" where
  "AgentActor_MigrateVMReceive msg new_actor answer s =
     (let vmid = migrate_vmid msg;
          s1 = insert_vm vmid (cache_data new_actor (migrate_config msg)) s;
          reply = (case answer of
              Inr r \<Rightarrow> r
            | Inl e \<Rightarrow> \<lparr>listening_address = [],
                        migrate_error = Some (''failed to start migration receiver: '' @ e)\<rparr>)
      in if migrate_error reply \<noteq> None then
           (if (case map_of (vms s1) vmid of Some c \<Rightarrow> vm_actor c = new_actor | None \<Rightarrow> False)
            then fst (remove_vm vmid s1) else s1,
            reply, [SpawnVM new_actor vmid None, KillActor new_actor])
         else (s1, reply, [SpawnVM new_actor vmid None]))"

text \<open>\<open>tell_ok\<close>: whether the message could be sent to the VM actor.\<close>

definition AgentActor_DeleteVM ::
  "DeleteVM \<Rightarrow> bool \<Rightarrow> AgentActor \<Rightarrow> AgentActor \<times> DeleteVMReply \<times> agent_effect list" where
  "AgentActor_DeleteVM msg tell_ok s =
     (let (s', removed) = remove_vm (delete_vmid msg) s in
      (s', DeleteVMReply,
       case removed of
         Some c \<Rightarrow> TellDelete (vm_actor c) (delete_vmid msg) # (if tell_ok then [] else [KillActor (vm_actor c)])
       | None \<Rightarrow> []))"

definition AgentActor_ShutdownVM ::
  "ShutdownVM \<Rightarrow> actor_id option \<Rightarrow> (string + ShutdownVMReply) \<times> agent_effect list" where
  "AgentActor_ShutdownVM msg lookup =
     (case lookup of
        Some a \<Rightarrow> (Inr ShutdownVMReply, [TellShutdown a (shutdown_vmid msg)])
      | None \<Rightarrow> (Inl ''VM actor not found for shutdown'', []))"

text \<open>\<open>Inr\<close> is a reply of the agent itself, \<open>Inl\<close> a request forwarded to the VM actor.\<close>

definition AgentActor_GetVMInfo ::
  "GetVMInfo \<Rightarrow> (ulid \<Rightarrow> actor_id option) \<Rightarrow> agent_effect + GetVMInfoReply" where
  "AgentActor_GetVMInfo msg lookup =
     (case info_request_vmid msg of
        None \<Rightarrow> Inr \<lparr>info_vmid = 0, info_config = None\<rparr>
      | Some vmid \<Rightarrow>
          (case lookup vmid of
             None \<Rightarrow> Inr \<lparr>info_vmid = vmid, info_config = None\<rparr>
           | Some a \<Rightarrow> Inl (ForwardGetVMInfo a vmid)))"

definition AgentActor_AgentListVMs :: "AgentActor \<Rightarrow> ulid list" where
  "AgentActor_AgentListVMs s = hm_keys (vms s)"

definition AgentActor_on_link_died :: "actor_id \<Rightarrow> AgentActor \<Rightarrow> AgentActor" where
  "AgentActor_on_link_died i s =
     foldl (\<lambda>s vmid. fst (remove_vm vmid s)) s
       (map fst (filter (\<lambda>(_, vm). vm_actor vm = i) (vms s)))"

definition full_status :: "string option \<Rightarrow> AgentActor \<Rightarrow> AgentStatus" where
  "full_status system_hostname s =
     \<lparr>hostname = get_hostname system_hostname (config s),
      st_vcpus = ag_vcpus s,
      st_ram = ag_memory s,
      st_used_vcpus = sat_add (used_vcpus s) (get_reserved_vcpus (config s)),
      st_used_ram = used_memory_bytes s,
      st_vms = sort (hm_keys (vms s)),
      st_metadata = ag_metadata s\<rparr>"

definition latest_changes :: "MembershipChange list \<Rightarrow> (ulid, bool) hmap" where
  "latest_changes cs = foldl (\<lambda>m c. hm_insert (mc_vmid c) (mc_added c) m) [] cs"

definition needs_full :: "GetAgentStatus \<Rightarrow> AgentActor \<Rightarrow> bool" where
  "needs_full msg s \<longleftrightarrow>
     initial msg \<or> membership_revision s < since_revision msg \<or>
     (case status_history s of
        c # _ \<Rightarrow> sat_add (since_revision msg) 1 < mc_revision c
      | [] \<Rightarrow> False)"

definition AgentActor_GetAgentStatus ::
  "string option \<Rightarrow> GetAgentStatus \<Rightarrow> AgentActor \<Rightarrow> AgentStatusUpdate" where
  "AgentActor_GetAgentStatus system_hostname msg s =
     (if needs_full msg s then Full (membership_revision s) (full_status system_hostname s)
      else
        let latest = latest_changes
              (filter (\<lambda>c. since_revision msg < mc_revision c) (status_history s));
            added = map fst (filter snd latest);
            removed = map fst (filter (Not \<circ> snd) latest)
        in Delta (membership_revision s) (sort added) (sort removed)
             (sat_add (used_vcpus s) (get_reserved_vcpus (config s))) (used_memory_bytes s))"

end
