(* ===== verification/Samples.thy ===== *)
theory Samples
  imports Config Vm_Messages Agent_Status
begin

text \<open>
  Sample data at which the properties of the development are instantiated: a VM manifest, an agent
  configuration and agent statuses with small numbers.
\<close>

definition sample_desired :: DesiredState where
  "sample_desired =
     \<lparr>metadata = \<lparr>meta_name = ''vm'', labels = [(''app'', ''db'')], annotations = []\<rparr>,
      compute = \<lparr>vcpus = 2, max_vcpus = None, memory_bytes = 64\<rparr>,
      storage = [], networks = [],
      placement = \<lparr>placement_node = None, required_labels = [], affinity = []\<rparr>,
      boot = \<lparr>start = True, firmware = None, kernel = None, cmdline = None\<rparr>,
      cloud_init = None, vsock = None\<rparr>"

definition sample_manifest :: VmManifest where
  "sample_manifest = \<lparr>api_version = 1, manifest_id = 7, desired = sample_desired, observed = None\<rparr>"

definition sample_create :: CreateVM where
  "sample_create = \<lparr>create_vmid = 7, create_config = sample_manifest\<rparr>"

definition sample_config :: Config where
  "sample_config =
     \<lparr>manager_enabled = None, cfg_hostname = Some ''node1'', datacenter = None, region = None, sentry_dsn = None,
      reserved_vcpus = None, cfg_labels = [], cfg_annotations = [],
      network = \<lparr>dhcp_config = None, network_mode = default_network_mode None\<rparr>, no_lockfile = None\<rparr>"

definition sample_status :: AgentStatus where
  "sample_status =
     \<lparr>hostname = ''node1'', st_vcpus = 4, st_ram = 256, st_used_vcpus = 2, st_used_ram = 0, st_vms = [],
      st_metadata = \<lparr>obj_labels = [], obj_annotations = []\<rparr>\<rparr>"

lemmas sample_defs = sample_desired_def sample_manifest_def sample_create_def sample_config_def sample_status_def

end
