(* ===== verification/Agent_Invariants.thy ===== *)
theory Agent_Invariants
  imports Agent_Actor Samples
begin

text \<open>
  Invariants of the agent actor: the membership log numbers the changes consecutively and
  keeps the most recent ones, the resource counters are the exact totals of the VMs, and
  every state-changing handler is a sequence of logged membership changes.
\<close>

named_theorems agent_simps \<open>effect of the membership primitives on the agent's fields\<close>

section \<open>The membership log\<close>

definition members :: "AgentActor \<Rightarrow> ulid set" where
  "members s = set (hm_keys (vms s))"

definition replay1 :: "ulid set \<Rightarrow> MembershipChange \<Rightarrow> ulid set" where
  "replay1 M c = (if mc_added c then insert (mc_vmid c) M else M - {mc_vmid c})"

definition replay :: "MembershipChange list \<Rightarrow> ulid set \<Rightarrow> ulid set" where
  "replay cs M = foldl replay1 M cs"

definition consecutive_from :: "nat \<Rightarrow> MembershipChange list \<Rightarrow> bool" where
  "consecutive_from r cs \<longleftrightarrow> (\<forall>i < length cs. unat (mc_revision (cs ! i)) = r + 1 + i)"

text \<open>\<open>log_ext s t cs\<close>: state \<open>t\<close> follows from \<open>s\<close> by the logged changes \<open>cs\<close>.\<close>

definition log_ext :: "AgentActor \<Rightarrow> AgentActor \<Rightarrow> MembershipChange list \<Rightarrow> bool" where
  "log_ext s t cs \<longleftrightarrow>
     unat (membership_revision t) = unat (membership_revision s) + length cs \<and>
     status_history t = trim_history (status_history s @ cs) \<and>
     consecutive_from (unat (membership_revision s)) cs \<and>
     members t = replay cs (members s) \<and>
     config t = config s \<and> ag_metadata t = ag_metadata s \<and>
     ag_vcpus t = ag_vcpus s \<and> ag_memory t = ag_memory s"

definition log_inv :: "AgentActor \<Rightarrow> bool" where
  "log_inv s \<longleftrightarrow>
     hm_wf (vms s) \<and>
     length (status_history s) = min STATUS_CHANGE_HISTORY_LIMIT (unat (membership_revision s)) \<and>
     consecutive_from (unat (membership_revision s) - length (status_history s)) (status_history s)"

lemma trim_history_drop:
  "trim_history h = drop (length h - STATUS_CHANGE_HISTORY_LIMIT) h"
proof (induction h rule: trim_history.induct)
  case (1 h)
  show ?case
  proof (cases "STATUS_CHANGE_HISTORY_LIMIT < length h")
    case True
    then obtain c t where h: "h = c # t" by (cases h) auto
    with True have "length h - STATUS_CHANGE_HISTORY_LIMIT = Suc (length t - STATUS_CHANGE_HISTORY_LIMIT)"
      by simp
    moreover have "trim_history h = trim_history (tl h)"
      using True by (subst trim_history.simps) simp
    ultimately show ?thesis
      using 1 [OF True] h by simp
  next
    case False
    then show ?thesis by (subst trim_history.simps) simp
  qed
qed

lemma trim_history_append: "trim_history (trim_history h @ cs) = trim_history (h @ cs)"
proof -
  let ?L = STATUS_CHANGE_HISTORY_LIMIT
  let ?k = "length h - ?L" and ?n = "length h + length cs - ?L"
  have "trim_history h @ cs = drop ?k (h @ cs)"
    by (simp add: trim_history_drop)
  moreover have "length (drop ?k (h @ cs)) - ?L + ?k = ?n"
    by auto
  ultimately have "trim_history (trim_history h @ cs) = drop ?n (h @ cs)"
    by (simp only: trim_history_drop [of "drop ?k (h @ cs)"] drop_drop)
  then show ?thesis
    by (simp only: trim_history_drop [of "h @ cs"] length_append)
qed

lemma length_trim_history: "length (trim_history h) = min STATUS_CHANGE_HISTORY_LIMIT (length h)"
  by (simp add: trim_history_drop)

lemma replay_append: "replay (cs @ ds) M = replay ds (replay cs M)"
  by (simp add: replay_def)

lemma consecutive_append:
  "consecutive_from r (cs @ ds) \<longleftrightarrow> consecutive_from r cs \<and> consecutive_from (r + length cs) ds"
proof -
  have "(\<forall>i < length (cs @ ds). unat (mc_revision ((cs @ ds) ! i)) = r + 1 + i) \<longleftrightarrow>
    (\<forall>i < length cs. unat (mc_revision (cs ! i)) = r + 1 + i) \<and>
    (\<forall>i < length ds. unat (mc_revision (ds ! i)) = r + length cs + 1 + i)" (is "?L \<longleftrightarrow> ?A \<and> ?B")
  proof
    assume L: ?L
    have ?A
    proof (intro allI impI)
      fix i assume "i < length cs"
      with L show "unat (mc_revision (cs ! i)) = r + 1 + i"
        using L [rule_format, of i] by (simp add: nth_append)
    qed
    moreover have ?B
    proof (intro allI impI)
      fix i assume "i < length ds"
      then show "unat (mc_revision (ds ! i)) = r + length cs + 1 + i"
        using L [rule_format, of "length cs + i"] by simp
    qed
    ultimately show "?A \<and> ?B" ..
  next
    assume "?A \<and> ?B"
    then show ?L by (auto simp: nth_append)
  qed
  then show ?thesis by (simp add: consecutive_from_def)
qed

lemma consecutive_drop: "consecutive_from r cs \<Longrightarrow> consecutive_from (r + k) (drop k cs)"
  by (simp add: consecutive_from_def)

lemma consecutive_Nil [simp]: "consecutive_from r []"
  by (simp add: consecutive_from_def)

lemma log_ext_refl: "log_inv s \<Longrightarrow> log_ext s s []"
  by (simp add: log_ext_def log_inv_def trim_history_drop replay_def)

lemma log_ext_trans: "log_ext s t cs \<Longrightarrow> log_ext t u ds \<Longrightarrow> log_ext s u (cs @ ds)"
  by (auto simp: log_ext_def trim_history_append consecutive_append replay_append add.assoc)

lemma log_ext_inv:
  assumes "log_ext s t cs" and "log_inv s" and "hm_wf (vms t)"
  shows "log_inv t"
proof -
  let ?h = "status_history s" and ?r = "unat (membership_revision s)"
  have len: "length ?h \<le> ?r"
    using assms(2) by (simp add: log_inv_def)
  have "consecutive_from (?r - length ?h) ?h" and "consecutive_from ?r cs"
    using assms(1,2) unfolding log_ext_def log_inv_def by blast+
  then have all: "consecutive_from (?r - length ?h) (?h @ cs)"
    using len by (simp only: consecutive_append le_add_diff_inverse2 simp_thms)
  let ?k = "length (?h @ cs) - STATUS_CHANGE_HISTORY_LIMIT"
  have "consecutive_from (?r - length ?h + ?k) (drop ?k (?h @ cs))"
    using all by (rule consecutive_drop)
  moreover have "?r - length ?h + ?k = ?r + length cs - length (drop ?k (?h @ cs))"
    using len by auto
  ultimately have "consecutive_from (unat (membership_revision t) - length (status_history t)) (status_history t)"
    using assms(1) by (simp add: log_ext_def trim_history_drop)
  moreover have "length (status_history t) = min STATUS_CHANGE_HISTORY_LIMIT (unat (membership_revision t))"
    using assms(1,2) by (auto simp: log_ext_def log_inv_def length_trim_history)
  ultimately show ?thesis
    using assms(3) by (simp add: log_inv_def)
qed

section \<open>The primitives\<close>

lemma record_fields [simp]:
  "vms (record_membership_change v a s) = vms s"
  "used_vcpus (record_membership_change v a s) = used_vcpus s"
  "used_memory_bytes (record_membership_change v a s) = used_memory_bytes s"
  "config (record_membership_change v a s) = config s"
  "ag_metadata (record_membership_change v a s) = ag_metadata s"
  "ag_vcpus (record_membership_change v a s) = ag_vcpus s"
  "ag_memory (record_membership_change v a s) = ag_memory s"
  "membership_revision (record_membership_change v a s) = sat_add (membership_revision s) 1"
  by (simp_all add: record_membership_change_def Let_def)

lemma insert_vm_vms [simp]: "vms (insert_vm v c s) = hm_insert v c (vms s)"
  by (simp add: insert_vm_def Let_def split: option.splits)

lemma remove_vm_vms [simp]: "map_of (vms (fst (remove_vm v s))) = (map_of (vms s))(v := None)"
  by (auto simp: remove_vm_def Let_def split: option.splits)

lemma remove_vm_wf [simp]: "hm_wf (vms s) \<Longrightarrow> hm_wf (vms (fst (remove_vm v s)))"
  by (auto simp: remove_vm_def Let_def split: option.splits)

text \<open>The revision counter has not reached its maximum, so every change got a new number.\<close>

definition revision_room :: "AgentActor \<Rightarrow> bool" where
  "revision_room s \<longleftrightarrow> unat (membership_revision s) < 2 ^ 64 - 1"

lemma unat_sat_succ: "unat (sat_add r (1::u64)) < 2 ^ 64 - 1 \<Longrightarrow> unat (sat_add r 1) = unat r + 1"
  by (simp add: unat_sat_add min_def split: if_splits)

lemma record_log_ext:
  assumes "revision_room (record_membership_change v a s)" and "members t = replay1 (members s) c"
    and "c = \<lparr>mc_revision = sat_add (membership_revision s) 1, mc_vmid = v, mc_added = a\<rparr>"
    and "status_history t = status_history (record_membership_change v a s)"
    and "membership_revision t = sat_add (membership_revision s) 1"
    and "config t = config s" and "ag_metadata t = ag_metadata s"
    and "ag_vcpus t = ag_vcpus s" and "ag_memory t = ag_memory s"
  shows "log_ext s t [c]"
proof -
  have "unat (sat_add (membership_revision s) 1) = unat (membership_revision s) + 1"
    using assms(1) by (intro unat_sat_succ) (simp add: revision_room_def)
  with assms show ?thesis
    by (simp add: log_ext_def consecutive_from_def replay_def record_membership_change_def Let_def)
qed

lemma insert_vm_log_ext:
  assumes "log_inv s" and "revision_room (insert_vm v c s)"
  shows "\<exists>cs. log_ext s (insert_vm v c s) cs"
proof (cases "map_of (vms s) v")
  case None
  then have v: "map_of (vms s) v = None" .
  let ?c = "\<lparr>mc_revision = sat_add (membership_revision s) 1, mc_vmid = v, mc_added = True\<rparr>"
  have "log_ext s (insert_vm v c s) [?c]"
  proof (rule record_log_ext [where v = v and a = True])
    show "revision_room (record_membership_change v True s)"
      using assms(2) v by (simp add: revision_room_def insert_vm_def Let_def)
    show "members (insert_vm v c s) = replay1 (members s) ?c"
      by (simp add: members_def replay1_def)
  qed (use v in \<open>simp_all add: insert_vm_def Let_def record_membership_change_def\<close>)
  then show ?thesis ..
next
  case (Some p)
  then have "v \<in> members s"
    by (force simp: members_def hm_keys_dom)
  moreover have "members (insert_vm v c s) = insert v (members s)"
    by (simp add: members_def)
  moreover have "members s = insert v (members s)"
    using \<open>v \<in> members s\<close> by blast
  ultimately have "log_ext s (insert_vm v c s) []"
    using Some assms(1)
    by (simp add: log_ext_def log_inv_def trim_history_drop replay_def insert_vm_def Let_def)
  then show ?thesis ..
qed

lemma remove_vm_log_ext:
  assumes "log_inv s" and "revision_room (fst (remove_vm v s))"
  shows "\<exists>cs. log_ext s (fst (remove_vm v s)) cs"
proof (cases "map_of (vms s) v")
  case None
  with assms(1) have "log_ext s (fst (remove_vm v s)) []"
    by (simp add: remove_vm_def log_ext_refl)
  then show ?thesis ..
next
  case (Some p)
  let ?c = "\<lparr>mc_revision = sat_add (membership_revision s) 1, mc_vmid = v, mc_added = False\<rparr>"
  have "log_ext s (fst (remove_vm v s)) [?c]"
  proof (rule record_log_ext [where v = v and a = False])
    show "revision_room (record_membership_change v False s)"
      using assms(2) Some by (simp add: revision_room_def remove_vm_def Let_def)
    show "members (fst (remove_vm v s)) = replay1 (members s) ?c"
      using Some by (simp add: members_def replay1_def remove_vm_def Let_def)
  qed (use Some in \<open>simp_all add: remove_vm_def Let_def record_membership_change_def\<close>)
  then show ?thesis ..
qed

lemma revision_mono:
  "unat (membership_revision s) \<le> unat (membership_revision (insert_vm v c s))"
  "unat (membership_revision s) \<le> unat (membership_revision (fst (remove_vm v s)))"
  using unat_le_max [of "membership_revision s"]
  by (auto simp: insert_vm_def remove_vm_def Let_def unat_sat_add split: option.splits)

section \<open>Steps\<close>

text \<open>
  One rule per handler that changes the state; the remaining handlers only read it. The
  predicate \<open>ok\<close> restricts the states a handler passes through: the resulting one, and for a
  migration also the one before a failed receiver is removed again.
\<close>

inductive agent_step :: "(AgentActor \<Rightarrow> bool) \<Rightarrow> AgentActor \<Rightarrow> AgentActor \<Rightarrow> bool" for ok where
  step_create: "t = fst (AgentActor_CreateVM to_bytes msg new_actor s) \<Longrightarrow> ok t \<Longrightarrow> agent_step ok s t"
| step_migrate: "t = fst (AgentActor_MigrateVMReceive mmsg new_actor answer s) \<Longrightarrow>
    ok (insert_vm (migrate_vmid mmsg) (cache_data new_actor (migrate_config mmsg)) s) \<Longrightarrow> ok t
    \<Longrightarrow> agent_step ok s t"
| step_delete: "t = fst (AgentActor_DeleteVM dmsg tell_ok s) \<Longrightarrow> ok t \<Longrightarrow> agent_step ok s t"
| step_link_died: "t = AgentActor_on_link_died i s \<Longrightarrow> ok t \<Longrightarrow> agent_step ok s t"

definition agent_evolves :: "AgentActor \<Rightarrow> AgentActor \<Rightarrow> bool" where
  "agent_evolves = (agent_step revision_room)\<^sup>*\<^sup>*"

lemma create_state:
  "fst (AgentActor_CreateVM tb msg a s) =
     (if map_of (vms s) (create_vmid msg) = None
      then insert_vm (create_vmid msg) (cache_data a (create_config msg)) s else s)"
  by (simp add: AgentActor_CreateVM_def split: option.splits)

lemma delete_state: "fst (AgentActor_DeleteVM msg ok s) = fst (remove_vm (delete_vmid msg) s)"
  by (simp add: AgentActor_DeleteVM_def case_prod_unfold Let_def)

text \<open>A migration receiver that could not start is removed again.\<close>

lemma migrate_state:
  "fst (AgentActor_MigrateVMReceive msg a answer s) =
     (let s1 = insert_vm (migrate_vmid msg) (cache_data a (migrate_config msg)) s in
      if (case answer of Inl _ \<Rightarrow> True | Inr r \<Rightarrow> migrate_error r \<noteq> None)
      then fst (remove_vm (migrate_vmid msg) s1) else s1)"
  by (auto simp: AgentActor_MigrateVMReceive_def Let_def cache_data_def split: sum.splits)

lemmas agent_state_simps = create_state delete_state migrate_state

definition log_step :: "AgentActor \<Rightarrow> AgentActor \<Rightarrow> bool" where
  "log_step s t \<longleftrightarrow> hm_wf (vms t) \<and> (\<exists>cs. log_ext s t cs)"

lemma log_inv_wf: "log_inv s \<Longrightarrow> hm_wf (vms s)"
  by (simp add: log_inv_def)

lemma log_step_refl: "log_inv s \<Longrightarrow> log_step s s"
  by (auto simp: log_step_def log_inv_def [of s] intro!: exI [of _ "[]"] log_ext_refl)

lemma log_step_inv: "log_step s t \<Longrightarrow> log_inv s \<Longrightarrow> log_inv t"
  by (auto simp: log_step_def intro: log_ext_inv)

lemma log_step_trans: "log_step s t \<Longrightarrow> log_step t u \<Longrightarrow> log_step s u"
  by (auto simp: log_step_def intro: log_ext_trans)

lemma insert_vm_log_step:
  "log_inv s \<Longrightarrow> revision_room (insert_vm v c s) \<Longrightarrow> log_step s (insert_vm v c s)"
  using insert_vm_log_ext unfolding log_step_def by (simp add: log_inv_wf)

lemma remove_vm_log_step:
  "log_inv s \<Longrightarrow> revision_room (fst (remove_vm v s)) \<Longrightarrow> log_step s (fst (remove_vm v s))"
  using remove_vm_log_ext unfolding log_step_def by (simp add: log_inv_wf)

lemma remove_all_mono:
  "unat (membership_revision s) \<le> unat (membership_revision (foldl (\<lambda>s v. fst (remove_vm v s)) s vs))"
  by (induction vs arbitrary: s) (auto intro: revision_mono order_trans)

lemma remove_all_log_step:
  assumes "log_inv s" and "revision_room (foldl (\<lambda>s v. fst (remove_vm v s)) s vs)"
  shows "log_step s (foldl (\<lambda>s v. fst (remove_vm v s)) s vs)"
  using assms
proof (induction vs arbitrary: s)
  case Nil
  then show ?case by (simp add: log_step_refl)
next
  case (Cons v vs)
  let ?s1 = "fst (remove_vm v s)"
  have "revision_room ?s1"
    using Cons.prems(2) remove_all_mono [of ?s1 vs] by (simp add: revision_room_def)
  then have 1: "log_step s ?s1"
    using Cons.prems(1) by (rule remove_vm_log_step [rotated])
  then have "log_step ?s1 (foldl (\<lambda>s v. fst (remove_vm v s)) ?s1 vs)"
    using Cons by (auto intro: log_step_inv)
  with 1 show ?case
    by (auto intro: log_step_trans)
qed

lemma agent_step_log_step:
  assumes "agent_step revision_room s t" and "log_inv s"
  shows "log_step s t"
  using assms
proof (induction rule: agent_step.induct)
  case (step_create t tb msg a s)
  then show ?case
    by (auto simp: create_state intro: insert_vm_log_step log_step_refl split: if_splits)
next
  case (step_migrate t msg a answer s)
  let ?s1 = "insert_vm (migrate_vmid msg) (cache_data a (migrate_config msg)) s"
  have 1: "log_step s ?s1"
    using step_migrate by (intro insert_vm_log_step)
  with step_migrate show ?case
    by (auto simp: migrate_state Let_def split: if_splits
        intro: log_step_trans [OF 1] remove_vm_log_step log_step_inv [OF 1])
next
  case (step_delete t msg ok s)
  then show ?case by (auto simp: delete_state intro: remove_vm_log_step)
next
  case (step_link_died t i s)
  then show ?case
    by (auto simp: AgentActor_on_link_died_def intro: remove_all_log_step)
qed

lemma agent_evolves_log_step:
  assumes "agent_evolves s t" and "log_inv s"
  shows "log_step s t"
  using assms(1) unfolding agent_evolves_def
proof (induction rule: rtranclp_induct)
  case base
  show ?case using assms(2) by (rule log_step_refl)
next
  case (step t u)
  with assms(2) show ?case
    by (meson agent_step_log_step log_step_inv log_step_trans)
qed

lemma agent_step_ok: "agent_step ok s t \<Longrightarrow> ok t"
  by (auto elim: agent_step.cases)

definition agent_init :: "AgentActor \<Rightarrow> bool" where
  "agent_init s \<longleftrightarrow> (\<exists>args cpus total. AgentActor_on_start args cpus total (Inr () :: unit + unit) = Inr s)"

definition log_room_inv :: "AgentActor \<Rightarrow> bool" where
  "log_room_inv s \<longleftrightarrow> log_inv s \<and> revision_room s"

interpretation agent_log: invariant_system agent_init "agent_step revision_room" log_room_inv
proof unfold_locales
  fix s assume "agent_init s"
  then show "log_room_inv s"
    by (auto simp: agent_init_def AgentActor_on_start_def log_room_inv_def log_inv_def revision_room_def)
next
  fix s t assume "log_room_inv s" and step: "agent_step revision_room s t"
  then show "log_room_inv t"
    using log_step_inv [OF agent_step_log_step [OF step]] agent_step_ok [OF step]
    by (simp add: log_room_inv_def)
qed

section \<open>Deltas\<close>

lemma latest_changes_snoc:
  "latest_changes (cs @ [c]) = hm_insert (mc_vmid c) (mc_added c) (latest_changes cs)"
  by (simp add: latest_changes_def)

lemma latest_changes_wf: "hm_wf (latest_changes cs)"
  by (induction cs rule: rev_induct) (simp_all add: latest_changes_snoc latest_changes_def)

lemma replay_latest:
  "replay cs M = (M - {v. map_of (latest_changes cs) v = Some False})
     \<union> {v. map_of (latest_changes cs) v = Some True}"
proof (induction cs rule: rev_induct)
  case Nil
  then show ?case by (simp add: replay_def latest_changes_def)
next
  case (snoc c cs)
  then show ?case
    by (auto simp: replay_append latest_changes_snoc replay_def [of "[c]"] replay1_def)
qed

lemma delta_sets:
  assumes "hm_wf m"
  shows "set (map fst (filter snd m)) = {v. map_of m v = Some True}"
    and "set (map fst (filter (Not \<circ> snd) m)) = {v. map_of m v = Some False}"
proof -
  have m: "map_of m v = Some b \<longleftrightarrow> (v, b) \<in> set m" for v b
    using assms by (simp add: hm_wf_def)
  show "set (map fst (filter snd m)) = {v. map_of m v = Some True}"
    unfolding m by force
  show "set (map fst (filter (Not \<circ> snd) m)) = {v. map_of m v = Some False}"
    unfolding m by force
qed

text \<open>When the agent answers with a delta, the log still holds every change after the
  caller's revision, and nothing else is selected from it.\<close>

text \<open>When no snapshot is needed, the log still holds every change since the caller's revision.\<close>

lemma history_reaches_back:
  assumes ext: "log_ext s t cs" and room: "revision_room t"
    and msg: "since_revision msg = membership_revision s" "\<not> needs_full msg t"
  shows "length (status_history s) + length cs - STATUS_CHANGE_HISTORY_LIMIT \<le> length (status_history s)"
proof (rule ccontr)
  let ?h = "status_history s" and ?r = "unat (membership_revision s)"
  let ?k = "length ?h + length cs - STATUS_CHANGE_HISTORY_LIMIT"
  have rt: "unat (membership_revision t) = ?r + length cs"
    using ext by (auto simp: log_ext_def)
  assume "\<not> ?k \<le> length ?h"
  then have j: "length ?h < ?k" "?k - length ?h < length cs"
    by (auto simp: STATUS_CHANGE_HISTORY_LIMIT_def)
  then have "status_history t = drop (?k - length ?h) cs"
    using ext by (simp add: log_ext_def trim_history_drop)
  moreover obtain c ds where c: "drop (?k - length ?h) cs = c # ds"
    using j(2) by (meson drop_eq_Nil linorder_not_le neq_Nil_conv)
  ultimately have h: "status_history t = c # ds" by simp
  have "cs ! (?k - length ?h) = c"
    using c j(2) by (metis nth_via_drop)
  moreover have "consecutive_from ?r cs" using ext by (auto simp: log_ext_def)
  ultimately have "unat (mc_revision c) = ?r + 1 + (?k - length ?h)"
    using j(2) unfolding consecutive_from_def by blast
  moreover have "unat (sat_add (since_revision msg) 1) = ?r + 1"
    using room rt msg(1) by (simp add: unat_sat_add revision_room_def)
  ultimately have "sat_add (since_revision msg) 1 < mc_revision c"
    using j(1) by (simp add: word_less_nat_alt)
  with h msg(2) show False by (simp add: needs_full_def)
qed

lemma delta_changes:
  assumes inv: "log_inv s" and ext: "log_ext s t cs" and room: "revision_room t"
    and msg: "since_revision msg = membership_revision s" "\<not> needs_full msg t"
  shows "filter (\<lambda>c. since_revision msg < mc_revision c) (status_history t) = cs"
proof -
  let ?h = "status_history s" and ?r = "unat (membership_revision s)" and ?L = STATUS_CHANGE_HISTORY_LIMIT
  let ?k = "length ?h + length cs - ?L"
  have hist: "status_history t = drop ?k (?h @ cs)"
    using ext by (simp add: log_ext_def trim_history_drop)
  have cons_cs: "consecutive_from ?r cs"
    using ext by (auto simp: log_ext_def)
  have cons_h: "consecutive_from (?r - length ?h) ?h" and len: "length ?h \<le> ?r"
    using inv unfolding log_inv_def by auto
  have old: "\<not> since_revision msg < mc_revision c" if mem: "c \<in> set (drop ?k ?h)" for c
  proof -
    obtain i where i: "i < length ?h" "c = ?h ! i"
      using in_set_dropD [OF mem] unfolding in_set_conv_nth by blast
    then have "unat (mc_revision c) = ?r - length ?h + 1 + i"
      using cons_h unfolding consecutive_from_def by blast
    with i len msg(1) show ?thesis by (simp add: word_less_nat_alt)
  qed
  have new: "since_revision msg < mc_revision c" if mem: "c \<in> set cs" for c
  proof -
    obtain i where i: "i < length cs" "c = cs ! i"
      using mem unfolding in_set_conv_nth by blast
    then have "unat (mc_revision c) = ?r + 1 + i"
      using cons_cs unfolding consecutive_from_def by blast
    with msg(1) show ?thesis by (simp add: word_less_nat_alt)
  qed
  have "status_history t = drop ?k ?h @ cs"
    using hist history_reaches_back [OF ext room msg] by simp
  with old new show ?thesis
    by simp
qed

lemma full_status_vms: "hm_wf (vms s) \<Longrightarrow> sorted_wrt (<) (st_vms (full_status hn s))"
  by (simp add: full_status_def strict_sorted_sort hm_keys_def hm_wf_def)

lemma set_full_status_vms: "set (st_vms (full_status hn s)) = members s"
  by (simp add: full_status_def members_def)

lemma log_ext_same_membership:
  assumes "log_ext s t cs" and "hm_wf (vms s)" and "hm_wf (vms t)" and "members s = members t"
  shows "same_membership (full_status hn s) (full_status hn t)"
proof -
  have "st_vms (full_status hn s) = st_vms (full_status hn t)"
    using assms by (intro strict_sorted_unique full_status_vms) (simp_all add: set_full_status_vms)
  moreover have "config t = config s" "ag_metadata t = ag_metadata s" "ag_vcpus t = ag_vcpus s"
    "ag_memory t = ag_memory s"
    using assms(1) by (auto simp: log_ext_def)
  ultimately show ?thesis
    by (simp add: same_membership_def full_status_def)
qed

text \<open>A delta answer replays the logged changes on the caller's copy.\<close>

lemma delta_sync:
  assumes inv: "log_inv s" and ext: "log_ext s t cs" and wf: "hm_wf (vms t)" and room: "revision_room t"
    and msg: "since_revision msg = membership_revision s" "\<not> needs_full msg t"
    and st: "same_membership st (full_status hn s)"
  shows "apply_status_update st (AgentActor_GetAgentStatus hn msg t) = (full_status hn t, membership_revision t)"
proof -
  let ?l = "latest_changes cs"
  let ?u = "sat_add (used_vcpus t) (get_reserved_vcpus (config t))" and ?m = "used_memory_bytes t"
  let ?d = "Delta (membership_revision t) (sort (map fst (filter snd ?l)))
    (sort (map fst (filter (Not \<circ> snd) ?l))) ?u ?m"
  have upd: "AgentActor_GetAgentStatus hn msg t = ?d"
    using msg(2) delta_changes [OF inv ext room msg] by (simp add: AgentActor_GetAgentStatus_def Let_def)
  have sorted: "sorted_wrt (<) (st_vms st)" and set_st: "set (st_vms st) = members s"
    using st full_status_vms [OF log_inv_wf [OF inv]] set_full_status_vms
    by (auto simp: same_membership_def)
  let ?v = "st_vms (fst (apply_status_update st ?d))"
  have "set ?v = (members s - {v. map_of ?l v = Some False}) \<union> {v. map_of ?l v = Some True}"
    using apply_delta_vms [OF sorted] delta_sets [OF latest_changes_wf [of cs]] set_st by simp
  also have "\<dots> = members t"
    using ext by (simp add: log_ext_def replay_latest)
  finally have "?v = st_vms (full_status hn t)"
    using apply_delta_vms [OF sorted] wf
    by (intro strict_sorted_unique full_status_vms) (simp_all add: set_full_status_vms)
  moreover have "config t = config s" "ag_metadata t = ag_metadata s" "ag_vcpus t = ag_vcpus s"
    "ag_memory t = ag_memory s"
    using ext by (auto simp: log_ext_def)
  ultimately show ?thesis
    using st unfolding upd
    by (simp add: same_membership_def full_status_def)
qed

lemma full_answer: "needs_full msg t \<Longrightarrow>
  AgentActor_GetAgentStatus hn msg t = Full (membership_revision t) (full_status hn t)"
  by (simp add: AgentActor_GetAgentStatus_def)

text \<open>A VM that joined the agent since the caller's revision is among the added ones of a delta.\<close>

lemma delta_announces:
  assumes inv: "log_inv s" and ext: "log_ext s t cs" and room: "revision_room t"
    and msg: "since_revision msg = membership_revision s" "\<not> needs_full msg t"
    and v: "v \<in> members t" "v \<notin> members s"
  shows "\<exists>added removed n b. AgentActor_GetAgentStatus hn msg t = Delta (membership_revision t) added removed n b \<and>
    v \<in> set added \<and> v \<notin> set removed"
proof -
  have "v \<in> replay cs (members s)" using ext v(1) by (simp add: log_ext_def)
  with v(2) have "map_of (latest_changes cs) v = Some True" by (auto simp: replay_latest)
  then show ?thesis
    using msg(2) delta_changes [OF inv ext room msg] delta_sets [OF latest_changes_wf, of cs]
    by (auto simp: AgentActor_GetAgentStatus_def Let_def)
qed

text \<open>The agent actor is a status source for the scheduler's polling.\<close>

interpretation agent_source: status_source agent_evolves log_room_inv "full_status hn"
    membership_revision "AgentActor_GetAgentStatus hn" for hn
proof unfold_locales
  fix s t assume "log_room_inv s" and "agent_evolves s t"
  then show "log_room_inv t"
    unfolding agent_evolves_def by (blast intro: agent_log.run_inv)
next
  fix msg :: GetAgentStatus and s assume "initial msg"
  then show "AgentActor_GetAgentStatus hn msg s = Full (membership_revision s) (full_status hn s)"
    by (simp add: full_answer needs_full_def)
next
  fix msg s show "update_revision (AgentActor_GetAgentStatus hn msg s) = membership_revision s"
    by (simp add: AgentActor_GetAgentStatus_def Let_def)
next
  fix s t st and msg :: GetAgentStatus
  assume a: "log_room_inv s" "agent_evolves s t" "since_revision msg = membership_revision s"
    "same_membership st (full_status hn s)"
  have "log_room_inv t"
    using a unfolding agent_evolves_def by (blast intro: agent_log.run_inv)
  moreover obtain cs where "log_ext s t cs" "hm_wf (vms t)"
    using agent_evolves_log_step [OF a(2)] a(1) by (auto simp: log_room_inv_def log_step_def)
  ultimately show "apply_status_update st (AgentActor_GetAgentStatus hn msg t) =
      (full_status hn t, membership_revision t)"
    using a delta_sync by (cases "needs_full msg t") (auto simp: full_answer log_room_inv_def)
next
  fix s t assume a: "log_room_inv s" "agent_evolves s t" "membership_revision s = membership_revision t"
  obtain cs where cs: "log_ext s t cs" "hm_wf (vms t)"
    using agent_evolves_log_step [OF a(2)] a(1) by (auto simp: log_room_inv_def log_step_def)
  with a(3) have "cs = []" by (simp add: log_ext_def)
  with cs have "members s = members t" by (simp add: log_ext_def replay_def)
  with cs a(1) show "same_membership (full_status hn s) (full_status hn t)"
    by (intro log_ext_same_membership) (auto simp: log_room_inv_def log_inv_wf)
next
  fix s t assume a: "log_room_inv s" "agent_evolves s t"
  then obtain cs where "log_ext s t cs"
    using agent_evolves_log_step [OF a(2)] by (auto simp: log_room_inv_def log_step_def)
  then show "membership_revision s \<le> membership_revision t"
    by (simp add: log_ext_def word_le_nat_alt)
qed

section \<open>Resource accounting\<close>

definition total_vcpus :: "AgentActor \<Rightarrow> nat" where
  "total_vcpus s = hm_total (unat \<circ> vm_vcpus) (vms s)"

definition total_memory :: "AgentActor \<Rightarrow> nat" where
  "total_memory s = hm_total (unat \<circ> vm_memory) (vms s)"

text \<open>The totals are within the counters' ranges.\<close>

definition totals_fit :: "AgentActor \<Rightarrow> bool" where
  "totals_fit s \<longleftrightarrow> total_vcpus s < 2 ^ 32 \<and> total_memory s < 2 ^ 64"

definition accounted :: "AgentActor \<Rightarrow> bool" where
  "accounted s \<longleftrightarrow> hm_wf (vms s) \<and>
     unat (used_vcpus s) = total_vcpus s \<and> unat (used_memory_bytes s) = total_memory s"

lemmas accounting_defs = accounted_def totals_fit_def total_vcpus_def total_memory_def

lemma insert_vm_accounted:
  assumes "accounted s" and "totals_fit (insert_vm v c s)"
  shows "accounted (insert_vm v c s)"
proof -
  have wf: "hm_wf (vms s)" using assms(1) by (simp add: accounted_def)
  show ?thesis
    using assms hm_total_insert [OF wf, where k = v and v = c]
    by (auto simp: accounting_defs insert_vm_def Let_def sat_simps split: option.splits)
qed

lemma remove_vm_accounted: "accounted s \<Longrightarrow> accounted (fst (remove_vm v s))"
  using hm_total_remove [of "vms s" v]
  by (auto simp: accounting_defs remove_vm_def Let_def sat_simps split: option.splits)

lemma remove_all_accounted: "accounted s \<Longrightarrow> accounted (foldl (\<lambda>s v. fst (remove_vm v s)) s vs)"
  by (induction vs arbitrary: s) (simp_all add: remove_vm_accounted)

lemma agent_step_accounted:
  assumes "agent_step totals_fit s t" and "accounted s"
  shows "accounted t"
  using assms
proof (induction rule: agent_step.induct)
  case (step_migrate t msg a answer s)
  then show ?case
    using insert_vm_accounted remove_vm_accounted by (auto simp: migrate_state Let_def split: if_splits)
qed (auto simp: create_state delete_state AgentActor_on_link_died_def
      intro: insert_vm_accounted remove_vm_accounted remove_all_accounted split: if_splits)

interpretation agent_accounting: invariant_system agent_init "agent_step totals_fit" accounted
proof unfold_locales
  fix s assume "agent_init s"
  then show "accounted s"
    by (auto simp: agent_init_def AgentActor_on_start_def accounting_defs hm_total_def)
qed (rule agent_step_accounted)

section \<open>Properties\<close>

text \<open>A sample run: the agent starts and creates one VM.\<close>

definition sample_agent0 :: AgentActor where
  "sample_agent0 =
     \<lparr>ag_vcpus = 4, ag_memory = 256, used_vcpus = 0, used_memory_bytes = 0, membership_revision = 0,
      status_history = [], config = sample_config, vms = [], ag_metadata = ObjectMetadata_default\<rparr>"

definition sample_agent1 :: AgentActor where
  "sample_agent1 = fst (AgentActor_CreateVM (\<lambda>_. []) sample_create 3 sample_agent0)"

lemma sample_agent0_init: "agent_init sample_agent0"
  unfolding agent_init_def sample_agent0_def AgentActor_on_start_def
  by (intro exI [of _ sample_config] exI [of _ 4] exI [of _ 256]) simp

lemma sample_agent1_eq:
  "sample_agent1 = sample_agent0\<lparr>used_vcpus := 2, used_memory_bytes := 64, membership_revision := 1,
     status_history := [\<lparr>mc_revision = 1, mc_vmid = 7, mc_added = True\<rparr>],
     vms := [(7, cache_data 3 sample_manifest)]\<rparr>"
  by (simp add: sample_agent1_def sample_agent0_def AgentActor_CreateVM_def insert_vm_def Let_def
      record_membership_change_def trim_history_drop STATUS_CHANGE_HISTORY_LIMIT_def sample_defs
      hm_insert_def cache_data_def sat_add_def)

lemma sample_agent1_reachable: "ok sample_agent1 \<Longrightarrow> reachable agent_init (agent_step ok) sample_agent1"
  by (rule reach_step [where s = sample_agent0])
    (auto simp: sample_agent1_def intro: reach_init sample_agent0_init step_create)

text \<open>C6. In every state the agent can reach while the totals of its VMs stay within the counters'
  ranges, the used vCPUs and the used memory are exactly the sums over the VMs it holds: no create,
  failed or successful migration, delete or actor death makes the counters drift.\<close>

theorem agent_accounting_exact:
  assumes "reachable agent_init (agent_step totals_fit) s"
  shows "unat (used_vcpus s) = (\<Sum>(v, c) \<leftarrow> vms s. unat (vm_vcpus c)) \<and>
    unat (used_memory_bytes s) = (\<Sum>(v, c) \<leftarrow> vms s. unat (vm_memory c)) \<and> hm_wf (vms s)"
  using agent_accounting.reachable_inv [OF assms]
  by (simp add: accounting_defs hm_total_def comp_def case_prod_unfold)

theorem agent_accounting_exact_witness:
  "unat (used_vcpus sample_agent1) = 2 \<and> unat (used_memory_bytes sample_agent1) = 64 \<and> hm_wf (vms sample_agent1)"
proof -
  have "totals_fit sample_agent1"
    by (simp add: sample_agent1_eq accounting_defs hm_total_def cache_data_def sample_defs)
  from agent_accounting_exact [OF sample_agent1_reachable [where ok = totals_fit, OF this]] show ?thesis
    by (simp add: sample_agent1_eq cache_data_def sample_defs)
qed

text \<open>C7. The membership log numbers every change consecutively up to the current revision and keeps
  exactly the most recent ones, at most 256, as long as the revision
  counter has not reached its maximum.\<close>

theorem agent_history_consecutive:
  assumes "reachable agent_init (agent_step revision_room) s"
  shows "length (status_history s) = min 256 (unat (membership_revision s)) \<and>
    (\<forall>i < length (status_history s).
       unat (mc_revision (status_history s ! i)) =
         unat (membership_revision s) - length (status_history s) + 1 + i)"
proof -
  have "log_inv s"
    using agent_log.reachable_inv [OF assms] by (simp add: log_room_inv_def)
  then show ?thesis
    unfolding log_inv_def consecutive_from_def STATUS_CHANGE_HISTORY_LIMIT_def by blast
qed

theorem agent_history_consecutive_witness:
  "length (status_history sample_agent1) = 1 \<and> unat (mc_revision (status_history sample_agent1 ! 0)) = 1"
proof -
  have "revision_room sample_agent1"
    by (simp add: sample_agent1_eq revision_room_def)
  from agent_history_consecutive [OF sample_agent1_reachable [where ok = revision_room, OF this]] show ?thesis
    by (simp add: sample_agent1_eq)
qed

end
