(* ===== verification/Scheduling.thy ===== *)
theory Scheduling
  imports Vm_Messages Agent_Status
begin

text \<open>
  The scheduler's state (\<open>odorobo/src/actors/scheduler_actor.rs\<close>) and its scheduling policy
  (\<open>scheduler_actor/scheduling.rs\<close>): lazily cached totals of pending placements, the capacity
  check, affinity evaluation, scores and the choice of the best agent.
\<close>

named_theorems sched_simps \<open>fields of the scheduler state after its updates\<close>

section \<open>State\<close>

type_synonym instant = nat   \<comment> \<open>nanoseconds of a monotonic clock\<close>
type_synonym task = nat      \<comment> \<open>handle of a spawned task\<close>

record CachedAgentActor =
  ca_actor_ref :: actor_id
  ca_data :: AgentStatus
  ca_revision :: u64

datatype VmLifecycle = Pending | Running

record VmPlacement =
  pl_agent :: actor_id
  lifecycle :: VmLifecycle
  created_at :: instant
  last_confirmed_at :: "instant option"

record CachedVMActor =
  cv_actor_ref :: "actor_id option"

datatype CachedActorKind = KindAgent | KindVm

type_synonym manifests = "(ulid, VmManifest) hmap"
type_synonym placements = "(ulid, VmPlacement list) hmap"
type_synonym data_cache = "(ulid, CachedVMActor list) hmap"
type_synonym vm_index = "(actor_id, ulid list) hmap"
type_synonym reservations = "(actor_id, u32 \<times> u64) hmap"

record SchedulerActor =
  agent_data_cache :: "(actor_id, CachedAgentActor) hmap"
  agent_keepalive_tasks :: "(actor_id, task) hmap"
  vm_actorid_ulid_map :: "(actor_id, ulid) hmap"
  vm_manifests :: manifests
  vm_placements :: placements
  vm_data_cache :: data_cache
  vm_keepalive_tasks :: "(actor_id, task) hmap"
  pending_resources_cache :: "reservations option"
  agent_vm_index :: vm_index
  actor_kinds :: "(actor_id, CachedActorKind) hmap"
  cache_actor_finder :: "task option"

section \<open>Pending resources\<close>

definition VCPU_OVERPROVISIONMENT_NUMERATOR :: u32 where
  "VCPU_OVERPROVISIONMENT_NUMERATOR = 2"

definition VCPU_OVERPROVISIONMENT_DENOMINATOR :: u32 where
  "VCPU_OVERPROVISIONMENT_DENOMINATOR = 1"

definition reserve :: "Compute \<Rightarrow> u32 \<times> u64 \<Rightarrow> u32 \<times> u64" where
  "reserve c totals = (sat_add (fst totals) (vcpus c), sat_add (snd totals) (memory_bytes c))"

definition reserve_entries :: "Compute \<Rightarrow> VmPlacement list \<Rightarrow> reservations \<Rightarrow> reservations" where
  "reserve_entries c entries resources =
     foldl (\<lambda>res e. if lifecycle e = Pending then hm_upsert (pl_agent e) (0, 0) (reserve c) res else res)
       resources entries"

definition pending_resources_by_agent :: "manifests \<Rightarrow> placements \<Rightarrow> reservations" where
  "pending_resources_by_agent manifests placements =
     foldl (\<lambda>res (vmid, entries).
        case map_of manifests vmid of
          None \<Rightarrow> res
        | Some m \<Rightarrow> reserve_entries (compute (desired m)) entries res) [] placements"

text \<open>\<open>get(&agent).copied().unwrap_or_default()\<close>.\<close>

definition reserved :: "reservations \<Rightarrow> actor_id \<Rightarrow> u32 \<times> u64" where
  "reserved res a = (case map_of res a of Some p \<Rightarrow> p | None \<Rightarrow> (0, 0))"

definition pending_resources_for_agent :: "manifests \<Rightarrow> placements \<Rightarrow> actor_id \<Rightarrow> u32 \<times> u64" where
  "pending_resources_for_agent manifests placements a =
     reserved (pending_resources_by_agent manifests placements) a"

definition pending_resources :: "SchedulerActor \<Rightarrow> SchedulerActor \<times> reservations" where
  "pending_resources s =
     (case pending_resources_cache s of
        Some res \<Rightarrow> (s, res)
      | None \<Rightarrow>
          (let res = pending_resources_by_agent (vm_manifests s) (vm_placements s)
           in (s\<lparr>pending_resources_cache := Some res\<rparr>, res)))"

definition invalidate_pending_resources :: "SchedulerActor \<Rightarrow> SchedulerActor" where
  "invalidate_pending_resources s = s\<lparr>pending_resources_cache := None\<rparr>"

section \<open>Capacity\<close>

definition has_capacity :: "u32 \<Rightarrow> u32 \<Rightarrow> u32 \<Rightarrow> u64 \<Rightarrow> u64 \<Rightarrow> u64 \<Rightarrow> bool" where
  "has_capacity cpu_limit used_vcpus requested_vcpus max_ram used_ram requested_ram \<longleftrightarrow>
     sat_add used_vcpus requested_vcpus \<le> cpu_limit \<and> sat_add used_ram requested_ram \<le> max_ram"

definition agent_max_vcpus :: "AgentStatus \<Rightarrow> u32" where
  "agent_max_vcpus d =
     (if VCPU_OVERPROVISIONMENT_DENOMINATOR = 0 then - 1
      else sat_mul (st_vcpus d) VCPU_OVERPROVISIONMENT_NUMERATOR div VCPU_OVERPROVISIONMENT_DENOMINATOR)"

section \<open>Affinity\<close>

text \<open>\<open>BTreeMap::get\<close> on the entries of the map.\<close>

type_synonym metadata_tables = "(btree_map \<times> btree_map) list"

definition evaluate_table_value :: "string option \<Rightarrow> AffinityRequirement \<Rightarrow> bool" where
  "evaluate_table_value value_option requirement =
     (case value_option of
        None \<Rightarrow> operator requirement = NotIn
      | Some v \<Rightarrow>
          (case operator requirement of
             In \<Rightarrow> v \<in> set (values requirement)
           | NotIn \<Rightarrow> v \<notin> set (values requirement)
           | _ \<Rightarrow>
               (case values requirement of
                  [r] \<Rightarrow>
                    (case parse_f64 v of
                       None \<Rightarrow> False
                     | Some x \<Rightarrow>
                         (case parse_f64 r of
                            None \<Rightarrow> False
                          | Some y \<Rightarrow> if operator requirement = Lt then x < y else y < x))
                | _ \<Rightarrow> False)))"

definition requirement_table :: "AffinityRequirement \<Rightarrow> btree_map \<times> btree_map \<Rightarrow> btree_map" where
  "requirement_table requirement t =
     (case table requirement of Label \<Rightarrow> fst t | Annotation \<Rightarrow> snd t)"

text \<open>The inner loop, with the outcome so far: it breaks at the first object that fails.\<close>

fun requirement_outcome :: "AffinityRequirement \<Rightarrow> bool \<Rightarrow> metadata_tables \<Rightarrow> bool" where
  "requirement_outcome requirement outcome [] = outcome"
| "requirement_outcome requirement outcome (t # ts) =
     (if \<not> evaluate_table_value (map_of (requirement_table requirement t) (key requirement)) requirement
      then False else requirement_outcome requirement outcome ts)"

text \<open>The outer loop: it breaks at the first requirement that holds.\<close>

fun follows_any :: "metadata_tables \<Rightarrow> AffinityRequirement list \<Rightarrow> bool" where
  "follows_any tables [] = False"
| "follows_any tables (r # rs) =
     (if requirement_outcome r (tables \<noteq> []) tables then True else follows_any tables rs)"

definition evaluate_affinity_rule :: "metadata_tables \<Rightarrow> AffinityRule \<Rightarrow> bool" where
  "evaluate_affinity_rule tables rule \<longleftrightarrow> follows_any tables (requirements rule) \<noteq> inverse rule"

definition affinity_delta :: "AffinityStrictness \<Rightarrow> bool \<Rightarrow> int option" where
  "affinity_delta strict follows_rule =
     (case strict of
        Required \<Rightarrow> if follows_rule then Some 0 else None
      | Preferred weight \<Rightarrow> Some (i64_clamp (of_bool follows_rule * weight)))"

text \<open>\<open>push_new\<close>: \<open>if seen.insert(v) { vmids.push(v) }\<close>; the set of identifiers seen so far is
  the set of the identifiers collected so far.\<close>

definition push_new :: "ulid list \<Rightarrow> ulid \<Rightarrow> ulid list" where
  "push_new vmids v = (if v \<in> set vmids then vmids else vmids @ [v])"

definition placement_vm_ids :: "placements \<Rightarrow> ulid list option \<Rightarrow> actor_id \<Rightarrow> ulid list \<Rightarrow> ulid list" where
  "placement_vm_ids placements indexed agent_id reported =
     (let v1 = foldl push_new [] reported;
          v2 = (case indexed of Some vs \<Rightarrow> foldl push_new v1 vs | None \<Rightarrow> v1)
      in foldl push_new v2
           (map fst (filter (\<lambda>(_, entries). \<exists>e \<in> set entries. pl_agent e = agent_id) placements)))"

section \<open>Scores\<close>

datatype ordering = Less | Equal | Greater

definition ieee_partial_cmp :: "ieee \<Rightarrow> ieee \<Rightarrow> ordering option" where
  "ieee_partial_cmp x y =
     (if x < y then Some Less else if y < x then Some Greater
      else if x = y \<and> x \<noteq> NaN then Some Equal else None)"

definition int_cmp :: "int \<Rightarrow> int \<Rightarrow> ordering" where
  "int_cmp x y = (if x < y then Less else if y < x then Greater else Equal)"

datatype AgentScore = AgentScore (general: ieee) (affinity_total: int)

definition REJECTED :: AgentScore where
  "REJECTED = AgentScore NInf i64_min"

definition AgentScore_default :: AgentScore where
  "AgentScore_default = AgentScore (Fin 0) 0"

definition AgentScore_partial_cmp :: "AgentScore \<Rightarrow> AgentScore \<Rightarrow> ordering option" where
  "AgentScore_partial_cmp a b =
     (let affinity_cmp = int_cmp (affinity_total a) (affinity_total b) in
      if affinity_cmp \<noteq> Equal then Some affinity_cmp
      else ieee_partial_cmp (general a) (general b))"

instantiation AgentScore :: ord
begin

definition less_AgentScore :: "AgentScore \<Rightarrow> AgentScore \<Rightarrow> bool" where
  "less_AgentScore a b \<longleftrightarrow> AgentScore_partial_cmp a b = Some Less"

definition less_eq_AgentScore :: "AgentScore \<Rightarrow> AgentScore \<Rightarrow> bool" where
  "less_eq_AgentScore a b \<longleftrightarrow> AgentScore_partial_cmp a b \<in> {Some Less, Some Equal}"

instance ..

end

definition better :: "AgentScore \<Rightarrow> AgentScore \<Rightarrow> bool" where
  "better score best \<longleftrightarrow> AgentScore_partial_cmp score best = Some Greater"

definition rule_tables :: "SchedulerActor \<Rightarrow> CachedAgentActor \<Rightarrow> AffinityRule \<Rightarrow> metadata_tables" where
  "rule_tables s agent rule =
     (case affinity_type rule of
        AffinityVirtualMachine \<Rightarrow>
          map (\<lambda>m. (labels (metadata (desired m)), annotations (metadata (desired m))))
            (List.map_filter (map_of (vm_manifests s))
              (placement_vm_ids (vm_placements s) (map_of (agent_vm_index s) (ca_actor_ref agent))
                (ca_actor_ref agent) (st_vms (ca_data agent))))
      | AffinityAgent \<Rightarrow>
          [(obj_labels (st_metadata (ca_data agent)), obj_annotations (st_metadata (ca_data agent)))])"

text \<open>The loop over the rules: \<open>None\<close> is the early return with \<open>REJECTED\<close>.\<close>

fun affinity_loop :: "SchedulerActor \<Rightarrow> CachedAgentActor \<Rightarrow> AffinityRule list \<Rightarrow> int \<Rightarrow> int option" where
  "affinity_loop s agent [] acc = Some acc"
| "affinity_loop s agent (rule # rules) acc =
     (case affinity_delta (strictness rule) (evaluate_affinity_rule (rule_tables s agent rule) rule) of
        None \<Rightarrow> None
      | Some delta \<Rightarrow> affinity_loop s agent rules (i64_clamp (acc + delta)))"

definition f32_ratio :: "'a::len word \<Rightarrow> 'a word \<Rightarrow> ieee" where
  "f32_ratio n d = ieee_div binary32 (f32_of_nat (unat n)) (f32_of_nat (unat d))"

definition score_agent :: "SchedulerActor \<Rightarrow> CreateVM \<Rightarrow> CachedAgentActor \<Rightarrow> reservations \<Rightarrow> AgentScore" where
  "score_agent s msg agent pending =
     (let d = ca_data agent;
          cpu_limit = agent_max_vcpus d;
          (pending_vcpus, pending_ram) = reserved pending (ca_actor_ref agent);
          used_vcpus = sat_add (st_used_vcpus d) pending_vcpus;
          used_ram = sat_add (st_used_ram d) pending_ram;
          requested_vcpus = vcpus (compute (desired (create_config msg)));
          requested_memory = memory_bytes (compute (desired (create_config msg)));
          agent_used_vcpus = sat_add used_vcpus requested_vcpus
      in if \<not> has_capacity cpu_limit used_vcpus requested_vcpus (st_ram d) used_ram requested_memory
         then REJECTED
         else
           let vcpu_headroom = f32_ratio (cpu_limit - agent_used_vcpus) cpu_limit;
               general1 = ieee_add binary32 (general AgentScore_default) vcpu_headroom;
               agent_used_ram = sat_add used_ram requested_memory;
               ram_headroom = f32_ratio (sat_sub (st_ram d) agent_used_ram) (st_ram d);
               general2 = ieee_add binary32 general1 ram_headroom
           in case affinity_loop s agent (affinity (placement (desired (create_config msg))))
                     (affinity_total AgentScore_default) of
                None \<Rightarrow> REJECTED
              | Some acc \<Rightarrow> AgentScore general2 acc)"

section \<open>Choosing an agent\<close>

definition consider_agent ::
  "(CachedAgentActor \<Rightarrow> AgentScore) \<Rightarrow> CachedAgentActor option \<times> AgentScore \<Rightarrow> CachedAgentActor
    \<Rightarrow> CachedAgentActor option \<times> AgentScore" where
  "consider_agent score best agent =
     (if better (score agent) (snd best) then (Some agent, score agent) else best)"

definition best_agent :: "SchedulerActor \<Rightarrow> CreateVM \<Rightarrow> reservations \<Rightarrow> CachedAgentActor option" where
  "best_agent s msg pending =
     fst (foldl (consider_agent (\<lambda>agent. score_agent s msg agent pending)) (None, REJECTED)
       (hm_values (agent_data_cache s)))"

definition chosen :: "CachedAgentActor option \<Rightarrow> string + actor_id" where
  "chosen best = (case best of Some agent \<Rightarrow> Inr (ca_actor_ref agent) | None \<Rightarrow> Inl ''No valid agents found.'')"

definition schedule_agent :: "CreateVM \<Rightarrow> SchedulerActor \<Rightarrow> SchedulerActor \<times> (string + actor_id)" where
  "schedule_agent msg s =
     (let (s', pending) = pending_resources s in (s', chosen (best_agent s' msg pending)))"

definition schedule_agents :: "CreateVM list \<Rightarrow> SchedulerActor \<Rightarrow> SchedulerActor \<times> (string + actor_id) list" where
  "schedule_agents msgs s =
     (let (s', pending) = pending_resources s in
      (s', map (\<lambda>msg. chosen (best_agent s' msg pending)) msgs))"

section \<open>Pending totals are the saturated sums\<close>

definition pending_count :: "actor_id \<Rightarrow> VmPlacement list \<Rightarrow> nat" where
  "pending_count a entries = length (filter (\<lambda>e. lifecycle e = Pending \<and> pl_agent e = a) entries)"

text \<open>The exact total of a resource over the pending placements on an agent.\<close>

definition pending_sum :: "(Compute \<Rightarrow> nat) \<Rightarrow> manifests \<Rightarrow> placements \<Rightarrow> actor_id \<Rightarrow> nat" where
  "pending_sum f manifests placements a =
     sum_list (map (\<lambda>(vmid, entries).
       case map_of manifests vmid of None \<Rightarrow> 0 | Some m \<Rightarrow> f (compute (desired m)) * pending_count a entries)
       placements)"

lemma reserved_upsert:
  "reserved (hm_upsert k (0, 0) f res) a = (if a = k then f (reserved res k) else reserved res a)"
  by (simp add: reserved_def)

lemma min_absorb_add: "min M (min M x + y) = min M (x + y :: nat)"
  by simp

lemma reserve_totals:
  "unat (fst (reserve c t)) = min (2 ^ 32 - 1) (unat (fst t) + unat (vcpus c))"
  "unat (snd (reserve c t)) = min (2 ^ 64 - 1) (unat (snd t) + unat (memory_bytes c))"
  by (simp_all add: reserve_def sat_simps)

lemma reserve_entries_totals:
  "unat (fst (reserved (reserve_entries c es res) a)) =
     min (2 ^ 32 - 1) (unat (fst (reserved res a)) + unat (vcpus c) * pending_count a es)"
  "unat (snd (reserved (reserve_entries c es res) a)) =
     min (2 ^ 64 - 1) (unat (snd (reserved res a)) + unat (memory_bytes c) * pending_count a es)"
proof (induction es arbitrary: res)
  case Nil
  { case (1 res) show ?case using unat_le_max [of "fst (reserved res a)"]
      by (simp add: reserve_entries_def pending_count_def) }
  { case (2 res) show ?case using unat_le_max [of "snd (reserved res a)"]
      by (simp add: reserve_entries_def pending_count_def) }
next
  case (Cons e es)
  have step: "reserve_entries c (e # es) res = reserve_entries c es
      (if lifecycle e = Pending then hm_upsert (pl_agent e) (0, 0) (reserve c) res else res)" for res
    by (simp add: reserve_entries_def)
  have count: "pending_count a (e # es) =
      (if lifecycle e = Pending \<and> pl_agent e = a then 1 else 0) + pending_count a es"
    by (simp add: pending_count_def)
  { case (1 res) show ?case unfolding step Cons.IH(1) count
      by (cases "lifecycle e = Pending \<and> pl_agent e = a")
        (auto simp only: reserved_upsert reserve_totals min_absorb_add add_mult_distrib2 add.assoc
          mult_1_right add_0 if_True if_False simp_thms split: if_split) }
  { case (2 res) show ?case unfolding step Cons.IH(2) count
      by (cases "lifecycle e = Pending \<and> pl_agent e = a")
        (auto simp only: reserved_upsert reserve_totals min_absorb_add add_mult_distrib2 add.assoc
          mult_1_right add_0 if_True if_False simp_thms split: if_split) }
qed

lemma pending_resources_totals_aux:
  "unat (fst (reserved (foldl (\<lambda>res (vmid, entries). case map_of ms vmid of None \<Rightarrow> res
      | Some m \<Rightarrow> reserve_entries (compute (desired m)) entries res) res ps) a)) =
     min (2 ^ 32 - 1) (unat (fst (reserved res a)) + pending_sum (unat \<circ> vcpus) ms ps a)"
  "unat (snd (reserved (foldl (\<lambda>res (vmid, entries). case map_of ms vmid of None \<Rightarrow> res
      | Some m \<Rightarrow> reserve_entries (compute (desired m)) entries res) res ps) a)) =
     min (2 ^ 64 - 1) (unat (snd (reserved res a)) + pending_sum (unat \<circ> memory_bytes) ms ps a)"
proof (induction ps arbitrary: res)
  case Nil
  { case (1 res) show ?case using unat_le_max [of "fst (reserved res a)"] by (simp add: pending_sum_def) }
  { case (2 res) show ?case using unat_le_max [of "snd (reserved res a)"] by (simp add: pending_sum_def) }
next
  case (Cons p ps)
  { case 1 show ?case
      using Cons.IH(1) by (cases p) (auto simp: pending_sum_def reserve_entries_totals split: option.splits) }
  { case 2 show ?case
      using Cons.IH(2) by (cases p) (auto simp: pending_sum_def reserve_entries_totals split: option.splits) }
qed

lemma pending_resources_totals:
  "unat (fst (pending_resources_for_agent ms ps a)) = min (2 ^ 32 - 1) (pending_sum (unat \<circ> vcpus) ms ps a)"
  "unat (snd (pending_resources_for_agent ms ps a)) = min (2 ^ 64 - 1) (pending_sum (unat \<circ> memory_bytes) ms ps a)"
  using pending_resources_totals_aux [of ms "[]" ps a]
  by (simp_all add: pending_resources_for_agent_def pending_resources_by_agent_def reserved_def)

section \<open>Selection\<close>

text \<open>
  The contract of a ranking that makes a single pass over candidates sound: on the valid scores
  and the rejected one the ranking is a strict weak order, and every valid score beats the
  rejected one.
\<close>

locale ranking =
  fixes beats :: "'s \<Rightarrow> 's \<Rightarrow> bool"
    and valid :: "'s \<Rightarrow> bool"
    and rejected :: 's
  assumes beats_irrefl: "\<not> beats a a"
    and beats_trans: "beats a b \<Longrightarrow> beats b c \<Longrightarrow> beats a c"
    and not_beats_trans: "\<lbrakk>valid a; valid b; valid c; \<not> beats a b; \<not> beats b c\<rbrakk> \<Longrightarrow> \<not> beats a c"
    and valid_beats_rejected: "valid a \<Longrightarrow> beats a rejected"
begin

lemma rejected_not_valid: "\<not> valid rejected"
  using valid_beats_rejected beats_irrefl by blast

lemma rejected_loses: "valid c \<Longrightarrow> \<not> beats rejected c"
  using valid_beats_rejected beats_irrefl beats_trans by blast

lemma not_beats_step:
  assumes "a = rejected \<or> valid a" and "b = rejected \<or> valid b" and "valid c"
    and "\<not> beats a b" and "\<not> beats b c"
  shows "\<not> beats a c"
  using assms not_beats_trans rejected_loses valid_beats_rejected by blast

lemma not_beats_both:
  assumes "x = rejected \<or> valid x" and "sc = rejected \<or> valid sc" and "valid z"
    and "\<not> beats (if beats x sc then x else sc) z"
  shows "\<not> beats sc z \<and> \<not> beats x z"
proof (cases "beats x sc")
  case True
  with assms(4) have "\<not> beats x z" by simp
  with True show ?thesis using beats_trans by blast
next
  case False
  with assms(4) have "\<not> beats sc z" by simp
  with False show ?thesis using not_beats_step [OF assms(1,2,3)] by blast
qed

lemma select_pass:
  assumes "\<forall>x \<in> set xs. score x = rejected \<or> valid (score x)"
    and "(b = None \<and> sc = rejected) \<or> (\<exists>x. b = Some x \<and> sc = score x \<and> valid sc)"
    and "foldl (\<lambda>best x. if beats (score x) (snd best) then (Some x, score x) else best) (b, sc) xs = (r, rs)"
  shows "(r = None \<longrightarrow> b = None \<and> (\<forall>x \<in> set xs. \<not> valid (score x))) \<and>
    (\<forall>x. r = Some x \<longrightarrow> (x \<in> set xs \<or> b = Some x) \<and> valid (score x) \<and> \<not> beats sc (score x) \<and>
       (\<forall>y \<in> set xs. \<not> beats (score y) (score x)))"
  using assms
proof (induction xs arbitrary: b sc)
  case Nil
  then show ?case using beats_irrefl by auto
next
  case (Cons x xs)
  let ?b = "if beats (score x) sc then Some x else b" and ?sc = "if beats (score x) sc then score x else sc"
  have valid_x: "beats (score x) sc \<Longrightarrow> valid (score x)"
    using Cons.prems(1,2) beats_irrefl valid_beats_rejected beats_trans by (metis list.set_intros(1))
  have "(?b = None \<and> ?sc = rejected) \<or> (\<exists>x. ?b = Some x \<and> ?sc = score x \<and> valid ?sc)"
    using Cons.prems(2) valid_x by auto
  moreover have "foldl (\<lambda>best x. if beats (score x) (snd best) then (Some x, score x) else best) (?b, ?sc) xs = (r, rs)"
    using Cons.prems(3) by (simp split: if_splits)
  ultimately have IH: "(r = None \<longrightarrow> ?b = None \<and> (\<forall>x \<in> set xs. \<not> valid (score x))) \<and>
    (\<forall>z. r = Some z \<longrightarrow> (z \<in> set xs \<or> ?b = Some z) \<and> valid (score z) \<and> \<not> beats ?sc (score z) \<and>
       (\<forall>y \<in> set xs. \<not> beats (score y) (score z)))"
    using Cons.prems(1) by (intro Cons.IH) auto
  show ?case
  proof (intro conjI impI allI)
    assume "r = None"
    with IH have b: "\<not> beats (score x) sc" "b = None" "\<forall>x \<in> set xs. \<not> valid (score x)"
      by (auto split: if_splits)
    with Cons.prems(2) have "sc = rejected" by simp
    with b show "b = None" "\<forall>z \<in> set (x # xs). \<not> valid (score z)"
      using valid_beats_rejected by auto
  next
    fix z assume r: "r = Some z"
    with IH have z: "z \<in> set xs \<or> ?b = Some z" "valid (score z)" "\<not> beats ?sc (score z)"
      "\<forall>y \<in> set xs. \<not> beats (score y) (score z)" by auto
    from z(1) show "z \<in> set (x # xs) \<or> b = Some z" by (auto split: if_splits)
    from z(2) show "valid (score z)" .
    have sc_ok: "sc = rejected \<or> valid sc" and x_ok: "score x = rejected \<or> valid (score x)"
      using Cons.prems(1,2) by auto
    have both: "\<not> beats sc (score z) \<and> \<not> beats (score x) (score z)"
      using not_beats_both [OF x_ok sc_ok z(2,3)] .
    from both show "\<not> beats sc (score z)" ..
    from both z(4) show "\<forall>y \<in> set (x # xs). \<not> beats (score y) (score z)" by simp
  qed
qed

end

definition valid_score :: "AgentScore \<Rightarrow> bool" where
  "valid_score sc \<longleftrightarrow> ieee_nonneg (general sc) \<and> in_i64 (affinity_total sc)"

lemma better_iff:
  "better a b \<longleftrightarrow> affinity_total b < affinity_total a \<or>
     (affinity_total a = affinity_total b \<and> general b < general a)"
  by (auto simp: better_def AgentScore_partial_cmp_def int_cmp_def ieee_partial_cmp_def Let_def
      dest: ieee_less_trans simp: ieee_less_irrefl split: if_splits)

interpretation agent_rank: ranking better valid_score REJECTED
proof unfold_locales
  fix a b c
  show "\<not> better a a" by (simp add: better_iff ieee_less_irrefl)
  show "better a b \<Longrightarrow> better b c \<Longrightarrow> better a c"
    by (auto simp: better_iff dest: ieee_less_trans)
  show "\<lbrakk>valid_score a; valid_score b; valid_score c; \<not> better a b; \<not> better b c\<rbrakk> \<Longrightarrow> \<not> better a c"
    using ieee_less_total [of "general a" "general b"] ieee_less_total [of "general b" "general c"]
    by (auto simp: better_iff valid_score_def dest!: ieee_nonneg_not_NaN dest: ieee_less_trans)
  show "valid_score a \<Longrightarrow> better a REJECTED"
    using NInf_less [of "general a"]
    by (auto simp: better_iff valid_score_def REJECTED_def in_i64_def dest: ieee_nonneg_not_NaN)
qed

section \<open>Eligibility\<close>

text \<open>All required rules hold for the agent.\<close>

definition required_hold :: "SchedulerActor \<Rightarrow> CachedAgentActor \<Rightarrow> AffinityRule list \<Rightarrow> bool" where
  "required_hold s agent rules \<longleftrightarrow>
     (\<forall>rule \<in> set rules. strictness rule = Required \<longrightarrow>
        evaluate_affinity_rule (rule_tables s agent rule) rule)"

text \<open>What a rule adds to the score.\<close>

definition preferred_weight :: "SchedulerActor \<Rightarrow> CachedAgentActor \<Rightarrow> AffinityRule \<Rightarrow> int" where
  "preferred_weight s agent rule =
     (case strictness rule of
        Required \<Rightarrow> 0
      | Preferred w \<Rightarrow> if evaluate_affinity_rule (rule_tables s agent rule) rule then i64_clamp w else 0)"

definition preferred_total :: "SchedulerActor \<Rightarrow> CachedAgentActor \<Rightarrow> AffinityRule list \<Rightarrow> int" where
  "preferred_total s agent rules = foldl (\<lambda>acc rule. i64_clamp (acc + preferred_weight s agent rule)) 0 rules"

text \<open>The request fits beside the reported usage and the reservations, as exact numbers.\<close>

definition capacity_left :: "u32 \<times> u64 \<Rightarrow> Compute \<Rightarrow> AgentStatus \<Rightarrow> bool" where
  "capacity_left p c d \<longleftrightarrow>
     unat (st_used_vcpus d) + unat (fst p) + unat (vcpus c) \<le> 2 * unat (st_vcpus d) \<and>
     unat (st_used_ram d) + unat (snd p) + unat (memory_bytes c) \<le> unat (st_ram d)"

text \<open>Reported sizes below the saturation bounds.\<close>

definition plausible :: "AgentStatus \<Rightarrow> bool" where
  "plausible d \<longleftrightarrow> unat (st_vcpus d) < 2 ^ 31 \<and> unat (st_ram d) < 2 ^ 64 - 1"

definition fits_check :: "u32 \<times> u64 \<Rightarrow> Compute \<Rightarrow> AgentStatus \<Rightarrow> bool" where
  "fits_check p c d \<longleftrightarrow>
     has_capacity (agent_max_vcpus d) (sat_add (st_used_vcpus d) (fst p)) (vcpus c)
       (st_ram d) (sat_add (st_used_ram d) (snd p)) (memory_bytes c)"

definition eligible :: "SchedulerActor \<Rightarrow> CreateVM \<Rightarrow> reservations \<Rightarrow> CachedAgentActor \<Rightarrow> bool" where
  "eligible s msg pending agent \<longleftrightarrow>
     fits_check (reserved pending (ca_actor_ref agent)) (compute (desired (create_config msg))) (ca_data agent) \<and>
     required_hold s agent (affinity (placement (desired (create_config msg))))"

lemma unat_agent_max_vcpus: "unat (agent_max_vcpus d) = min (2 ^ 32 - 1) (2 * unat (st_vcpus d))"
  by (simp add: agent_max_vcpus_def VCPU_OVERPROVISIONMENT_DENOMINATOR_def
      VCPU_OVERPROVISIONMENT_NUMERATOR_def sat_simps mult.commute)

lemma fits_check_exact: "plausible d \<Longrightarrow> fits_check p c d \<longleftrightarrow> capacity_left p c d"
  by (auto simp: plausible_def fits_check_def has_capacity_def capacity_left_def word_le_nat_alt
      unat_agent_max_vcpus sat_simps min_def)

lemma fits_check_pos:
  "fits_check p c d \<Longrightarrow> 0 < vcpus c \<Longrightarrow> 0 < memory_bytes c \<Longrightarrow> 0 < unat (agent_max_vcpus d) \<and> 0 < unat (st_ram d)"
  by (auto simp: fits_check_def has_capacity_def word_le_nat_alt word_less_nat_alt sat_simps)

lemma f32_ratio_word: "0 < unat (d :: 'a::len word) \<Longrightarrow> LENGTH('a) \<le> 64 \<Longrightarrow> ieee_nonneg (f32_ratio n d)"
proof -
  assume d: "0 < unat d" and len: "LENGTH('a) \<le> 64"
  have "unat x < 2 ^ 64" for x :: "'a word"
  proof -
    have "unat x < 2 ^ LENGTH('a)" by (rule unsigned_less)
    also have "\<dots> \<le> 2 ^ 64" using len by (intro power_increasing) simp_all
    finally show ?thesis .
  qed
  with d show ?thesis unfolding f32_ratio_def by (intro f32_ratio_nonneg)
qed

lemma affinity_delta_eq:
  "affinity_delta (strictness rule) (evaluate_affinity_rule (rule_tables s agent rule) rule) =
     (if strictness rule = Required \<and> \<not> evaluate_affinity_rule (rule_tables s agent rule) rule then None
      else Some (preferred_weight s agent rule))"
  by (auto simp: affinity_delta_def preferred_weight_def i64_clamp_id in_i64_def i64_min_def i64_max_def
      split: AffinityStrictness.splits)

lemma affinity_loop_eq:
  "affinity_loop s agent rules acc =
     (if required_hold s agent rules
      then Some (foldl (\<lambda>acc rule. i64_clamp (acc + preferred_weight s agent rule)) acc rules) else None)"
  by (induction rules arbitrary: acc) (auto simp: affinity_delta_eq required_hold_def)

lemma preferred_total_range: "in_i64 (preferred_total s agent rules)"
  unfolding preferred_total_def
  by (induction rules rule: rev_induct) (auto simp: i64_clamp_in_range, simp add: in_i64_def i64_min_def i64_max_def)

text \<open>The score of an agent, on both of its paths.\<close>

lemma score_agent_cases:
  fixes s msg agent pending
  defines "c \<equiv> compute (desired (create_config msg))"
  assumes "0 < vcpus c" and "0 < memory_bytes c"
  shows "if eligible s msg pending agent
    then valid_score (score_agent s msg agent pending) \<and>
      affinity_total (score_agent s msg agent pending) =
        preferred_total s agent (affinity (placement (desired (create_config msg))))
    else score_agent s msg agent pending = REJECTED"
proof (cases "fits_check (reserved pending (ca_actor_ref agent)) c (ca_data agent)")
  case False
  then show ?thesis
    by (simp add: score_agent_def eligible_def fits_check_def c_def Let_def case_prod_unfold)
next
  case True
  let ?d = "ca_data agent"
  from fits_check_pos [OF True assms(2,3)]
  have "ieee_nonneg (f32_ratio n (agent_max_vcpus ?d))" "ieee_nonneg (f32_ratio m (st_ram ?d))" for n m
    by (simp_all add: f32_ratio_word)
  with True show ?thesis
    by (auto simp: score_agent_def eligible_def fits_check_def c_def Let_def case_prod_unfold
        affinity_loop_eq preferred_total_def [symmetric] valid_score_def AgentScore_default_def
        preferred_total_range intro!: ieee_add_nonneg) (simp_all add: ieee_nonneg_def)
qed

lemma score_agent_valid:
  assumes "0 < vcpus (compute (desired (create_config msg)))"
    and "0 < memory_bytes (compute (desired (create_config msg)))"
  shows "valid_score (score_agent s msg agent pending) \<longleftrightarrow> eligible s msg pending agent"
  using score_agent_cases [OF assms, of s pending agent] agent_rank.rejected_not_valid
  by (auto split: if_splits)

lemma best_agent_cases:
  assumes "0 < vcpus (compute (desired (create_config msg)))"
    and "0 < memory_bytes (compute (desired (create_config msg)))"
  shows "case best_agent s msg pending of
      None \<Rightarrow> \<forall>a \<in> set (hm_values (agent_data_cache s)). \<not> eligible s msg pending a
    | Some a \<Rightarrow> a \<in> set (hm_values (agent_data_cache s)) \<and> eligible s msg pending a \<and>
        (\<forall>b \<in> set (hm_values (agent_data_cache s)).
           \<not> better (score_agent s msg b pending) (score_agent s msg a pending))"
proof -
  let ?xs = "hm_values (agent_data_cache s)" and ?sc = "\<lambda>a. score_agent s msg a pending"
  have valid: "\<forall>x \<in> set ?xs. ?sc x = REJECTED \<or> valid_score (?sc x)"
    using score_agent_cases [OF assms, of s pending] by metis
  obtain r rs where fold: "foldl (\<lambda>best x. if better (?sc x) (snd best) then (Some x, ?sc x) else best)
      (None, REJECTED) ?xs = (r, rs)" by fastforce
  then have "best_agent s msg pending = r"
    by (simp add: best_agent_def consider_agent_def [abs_def])
  with agent_rank.select_pass [OF valid _ fold] show ?thesis
    by (auto simp: score_agent_valid [OF assms] split: option.splits)
qed

text \<open>Whatever the request, a chosen agent is eligible.\<close>

lemma score_agent_not_eligible: "\<not> eligible s msg pending a \<Longrightarrow> score_agent s msg a pending = REJECTED"
  by (auto simp: score_agent_def eligible_def fits_check_def Let_def case_prod_unfold affinity_loop_eq)

lemma score_agent_affinity: "i64_min \<le> affinity_total (score_agent s msg a pending)"
  using preferred_total_range [of s a]
  by (auto simp: score_agent_def REJECTED_def Let_def case_prod_unfold affinity_loop_eq
      AgentScore_default_def preferred_total_def in_i64_def split: option.splits)

lemma REJECTED_not_better: "i64_min \<le> affinity_total sc \<Longrightarrow> \<not> better REJECTED sc"
  by (cases "general sc") (auto simp: better_iff REJECTED_def)

lemma best_agent_eligible:
  assumes "best_agent s msg pending = Some a"
  shows "a \<in> set (hm_values (agent_data_cache s)) \<and> eligible s msg pending a"
proof -
  let ?xs = "hm_values (agent_data_cache s)" and ?sc = "\<lambda>a. score_agent s msg a pending"
  define P where "P = (\<lambda>best. i64_min \<le> affinity_total (snd best) \<and>
    (\<forall>a. fst best = Some a \<longrightarrow> a \<in> set ?xs \<and> eligible s msg pending a))"
  have "P (foldl (consider_agent ?sc) (None, REJECTED) ?xs)"
  proof (rule foldl_invariant)
    show "P (None, REJECTED)" by (simp add: P_def REJECTED_def)
  next
    fix best x assume "x \<in> set ?xs" and "P best"
    moreover have "eligible s msg pending x" if "better (?sc x) (snd best)"
    proof (rule ccontr)
      assume "\<not> eligible s msg pending x"
      then have "?sc x = REJECTED" by (rule score_agent_not_eligible)
      with that \<open>P best\<close> REJECTED_not_better [of "snd best"] show False by (simp add: P_def)
    qed
    ultimately show "P (consider_agent ?sc best x)"
      using score_agent_affinity by (auto simp: P_def consider_agent_def)
  qed
  with assms show ?thesis by (simp add: P_def best_agent_def)
qed

section \<open>Affinity rules and the VMs they look at\<close>

lemma requirement_outcome_iff:
  "requirement_outcome r outcome ts \<longleftrightarrow>
     outcome \<and> (\<forall>t \<in> set ts. evaluate_table_value (map_of (requirement_table r t) (key r)) r)"
  by (induction ts) auto

lemma follows_any_iff:
  "follows_any ts rs \<longleftrightarrow> ts \<noteq> [] \<and>
     (\<exists>r \<in> set rs. \<forall>t \<in> set ts. evaluate_table_value (map_of (requirement_table r t) (key r)) r)"
  by (induction rs) (auto simp: requirement_outcome_iff)

lemma foldl_push_new:
  "set (foldl push_new vs ws) = set vs \<union> set ws \<and> (distinct vs \<longrightarrow> distinct (foldl push_new vs ws))"
  by (induction ws arbitrary: vs) (auto simp: push_new_def)

text \<open>The VMs an agent could hold: reported, indexed or placed there, each once.\<close>

lemma placement_vm_ids_spec:
  "set (placement_vm_ids ps indexed a reported) =
     set reported \<union> (case indexed of Some vs \<Rightarrow> set vs | None \<Rightarrow> {}) \<union>
     {v. \<exists>es. (v, es) \<in> set ps \<and> (\<exists>e \<in> set es. pl_agent e = a)}"
  "distinct (placement_vm_ids ps indexed a reported)"
  by (auto simp: placement_vm_ids_def Let_def foldl_push_new image_iff split: option.splits, blast+)

section \<open>The cached totals\<close>

text \<open>The lazily computed totals, when present, are those of the current placements.\<close>

definition pending_coherent :: "SchedulerActor \<Rightarrow> bool" where
  "pending_coherent s \<longleftrightarrow>
     (case pending_resources_cache s of
        None \<Rightarrow> True
      | Some res \<Rightarrow> \<forall>a. reserved res a = pending_resources_for_agent (vm_manifests s) (vm_placements s) a)"

lemma pending_coherent_invalidate [simp]: "pending_coherent (invalidate_pending_resources s)"
  by (simp add: pending_coherent_def invalidate_pending_resources_def)

lemma pending_resources_state [simp]:
  "fst (pending_resources s) = s\<lparr>pending_resources_cache := Some (snd (pending_resources s))\<rparr>"
  by (simp add: pending_resources_def Let_def split: option.splits)

lemma pending_resources_coherent:
  assumes "pending_coherent s"
  shows "reserved (snd (pending_resources s)) a = pending_resources_for_agent (vm_manifests s) (vm_placements s) a"
    and "pending_coherent (fst (pending_resources s))"
  using assms
  by (auto simp: pending_coherent_def pending_resources_def Let_def pending_resources_for_agent_def split: option.splits)

lemma schedule_agent_eq:
  "schedule_agent msg s = (fst (pending_resources s),
     chosen (best_agent (fst (pending_resources s)) msg (snd (pending_resources s))))"
  by (simp add: schedule_agent_def case_prod_unfold Let_def)

end
