(* ===== verification/Scheduler_Cache.thy ===== *)
theory Scheduler_Cache
  imports Scheduling
begin

text \<open>
  Cache maintenance of the scheduler (\<open>scheduler_actor/cache.rs\<close>): expiry of unresolved
  placements, removal of VMs and agents, rollback of failed creates, and reconciliation of the
  placements with the status reported by agents. The current time is an argument.
\<close>

section \<open>Operations\<close>

text \<open>\<open>Duration::from_secs(120)\<close> and \<open>Duration::from_secs(30)\<close> in nanoseconds;
  \<open>duration_since\<close> of a later instant is zero.\<close>

definition UNRESOLVED_VM_CACHE_TIMEOUT :: nat where
  "UNRESOLVED_VM_CACHE_TIMEOUT = 120 * 10 ^ 9"

definition UNCONFIRMED_RUNNING_PLACEMENT_TIMEOUT :: nat where
  "UNCONFIRMED_RUNNING_PLACEMENT_TIMEOUT = 30 * 10 ^ 9"

definition duration_since :: "instant \<Rightarrow> instant \<Rightarrow> nat" where
  "duration_since now earlier = now - earlier"

text \<open>Releasing excess capacity does not change the contents of a vector.\<close>

definition shrink_non_migrating_entries :: "'a list \<Rightarrow> 'a list" where
  "shrink_non_migrating_entries entries = entries"

text \<open>\<open>iter_mut().find(P)\<close> followed by an assignment to the entry found, if there is one.\<close>

fun update_first :: "('a \<Rightarrow> bool) \<Rightarrow> ('a \<Rightarrow> 'a) \<Rightarrow> 'a list \<Rightarrow> 'a list option" where
  "update_first P f [] = None"
| "update_first P f (x # xs) =
     (if P x then Some (f x # xs) else map_option ((#) x) (update_first P f xs))"

definition update_cached_vm_entry :: "CachedVMActor list \<Rightarrow> actor_id \<Rightarrow> CachedVMActor \<Rightarrow> CachedVMActor list" where
  "update_cached_vm_entry entries actor_id cached_vm =
     shrink_non_migrating_entries
       (case update_first (\<lambda>e. cv_actor_ref e = Some actor_id) (\<lambda>_. cached_vm) entries of
          Some es \<Rightarrow> es
        | None \<Rightarrow>
            (case update_first (\<lambda>e. cv_actor_ref e = None) (\<lambda>_. cached_vm) entries of
               Some es \<Rightarrow> es
             | None \<Rightarrow> entries @ [cached_vm]))"

text \<open>Some entry of a VM has a discovered actor.\<close>

definition has_actor :: "CachedVMActor list \<Rightarrow> bool" where
  "has_actor entries \<longleftrightarrow> list_ex (\<lambda>e. cv_actor_ref e \<noteq> None) entries"

definition discovered :: "data_cache \<Rightarrow> ulid \<Rightarrow> bool" where
  "discovered cache vmid \<longleftrightarrow> (case map_of cache vmid of Some es \<Rightarrow> has_actor es | None \<Rightarrow> False)"

definition empty_vmids :: "(ulid, 'a list) hmap \<Rightarrow> ulid list" where
  "empty_vmids m = map fst (filter (\<lambda>(_, entries). entries = []) m)"

definition cleanup_unresolved_vm_cache :: "instant \<Rightarrow> placements \<Rightarrow> data_cache \<Rightarrow> placements \<times> data_cache" where
  "cleanup_unresolved_vm_cache now placements cache =
     (let discovered_vmids = map fst (filter (\<lambda>(_, entries). has_actor entries) cache);
          placements' = hm_map (\<lambda>vmid entries. shrink_non_migrating_entries
            (filter (\<lambda>e. lifecycle e \<noteq> Pending \<or> vmid \<in> set discovered_vmids \<or>
               duration_since now (created_at e) < UNRESOLVED_VM_CACHE_TIMEOUT) entries)) placements
      in (placements',
          foldl (\<lambda>c vmid. if (case map_of c vmid of Some es \<Rightarrow> list_all (\<lambda>e. cv_actor_ref e = None) es
                                                 | None \<Rightarrow> False)
                          then hm_remove vmid c else c) cache (empty_vmids placements')))"

definition remove_vm_state :: "ulid \<Rightarrow> manifests \<Rightarrow> placements \<Rightarrow> data_cache \<Rightarrow> manifests \<times> placements \<times> data_cache" where
  "remove_vm_state vmid manifests placements cache =
     (hm_remove vmid manifests, hm_remove vmid placements, hm_remove vmid cache)"

definition remove_vm_intent :: "ulid \<Rightarrow> SchedulerActor \<Rightarrow> SchedulerActor" where
  "remove_vm_intent vmid s =
     (let (ms, ps, dc) = remove_vm_state vmid (vm_manifests s) (vm_placements s) (vm_data_cache s)
      in invalidate_pending_resources
        (s\<lparr>vm_manifests := ms, vm_placements := ps, vm_data_cache := dc,
           vm_actorid_ulid_map := hm_retain (\<lambda>_ mapped. mapped \<noteq> vmid) (vm_actorid_ulid_map s),
           agent_vm_index := hm_map (\<lambda>_ index. removeAll vmid index) (agent_vm_index s)\<rparr>))"

definition remove_vm_actor :: "actor_id \<Rightarrow> data_cache \<Rightarrow> data_cache" where
  "remove_vm_actor actor_id cache =
     (let cache' = hm_map (\<lambda>_ entries. shrink_non_migrating_entries
            (filter (\<lambda>e. cv_actor_ref e \<noteq> Some actor_id) entries)) cache
      in foldl (\<lambda>c vmid. hm_remove vmid c) cache' (empty_vmids cache'))"

definition remove_agent_placements :: "actor_id \<Rightarrow> ulid list \<Rightarrow> placements \<Rightarrow> placements" where
  "remove_agent_placements agent_id reachable_vmids placements =
     hm_map (\<lambda>vmid entries. shrink_non_migrating_entries
       (filter (\<lambda>e. pl_agent e \<noteq> agent_id \<or> vmid \<in> set reachable_vmids) entries)) placements"

definition rollback_failed_create ::
  "ulid \<Rightarrow> bool \<Rightarrow> actor_id option \<Rightarrow> (actor_id, ulid) hmap \<Rightarrow> manifests \<Rightarrow> placements \<Rightarrow> data_cache
    \<Rightarrow> (actor_id, ulid) hmap \<times> manifests \<times> placements \<times> data_cache" where
  "rollback_failed_create vmid actor_exists actor_id actor_map manifests placements cache =
     (if \<not> actor_exists then
        ((case actor_id of
            Some i \<Rightarrow> if map_of actor_map i = Some vmid then hm_remove i actor_map else actor_map
          | None \<Rightarrow> actor_map),
         remove_vm_state vmid manifests placements cache)
      else (actor_map, manifests, placements, cache))"

definition cleanup_agent_actor :: "actor_id \<Rightarrow> SchedulerActor \<Rightarrow> SchedulerActor" where
  "cleanup_agent_actor actor_id s =
     (let s1 = s\<lparr>agent_keepalive_tasks := hm_remove actor_id (agent_keepalive_tasks s)\<rparr>;
          reachable_vmids = filter (discovered (vm_data_cache s1))
            (case map_of (agent_vm_index s1) actor_id of Some vs \<Rightarrow> vs | None \<Rightarrow> []);
          s2 = s1\<lparr>agent_data_cache := hm_remove actor_id (agent_data_cache s1),
                  agent_vm_index := hm_remove actor_id (agent_vm_index s1)\<rparr>;
          s3 = invalidate_pending_resources s2
      in s3\<lparr>vm_placements := remove_agent_placements actor_id reachable_vmids (vm_placements s3)\<rparr>)"

text \<open>The placements that outlive the last actor of a VM.\<close>

definition keep_without_actor :: "vm_index \<Rightarrow> ulid \<Rightarrow> VmPlacement \<Rightarrow> bool" where
  "keep_without_actor index vmid e \<longleftrightarrow>
     lifecycle e = Pending \<or> (case map_of index (pl_agent e) of Some vs \<Rightarrow> vmid \<in> set vs | None \<Rightarrow> False)"

definition cleanup_vm_actor :: "actor_id \<Rightarrow> SchedulerActor \<Rightarrow> SchedulerActor" where
  "cleanup_vm_actor actor_id s =
     (let s1 = s\<lparr>vm_keepalive_tasks := hm_remove actor_id (vm_keepalive_tasks s)\<rparr>;
          vmid_opt = map_of (vm_actorid_ulid_map s1) actor_id;
          s2 = invalidate_pending_resources
            (s1\<lparr>vm_actorid_ulid_map := hm_remove actor_id (vm_actorid_ulid_map s1)\<rparr>);
          s3 = s2\<lparr>vm_data_cache := remove_vm_actor actor_id (vm_data_cache s2)\<rparr>
      in case vmid_opt of
           None \<Rightarrow> s3
         | Some vmid \<Rightarrow>
             if discovered (vm_data_cache s3) vmid then s3
             else invalidate_pending_resources
               (s3\<lparr>vm_placements := hm_modify vmid
                  (\<lambda>entries. shrink_non_migrating_entries
                     (filter (keep_without_actor (agent_vm_index s3) vmid) entries)) (vm_placements s3)\<rparr>))"

definition running_placement :: "actor_id \<Rightarrow> instant \<Rightarrow> VmPlacement" where
  "running_placement agent_id now =
     \<lparr>pl_agent = agent_id, lifecycle = Running, created_at = now, last_confirmed_at = Some now\<rparr>"

definition confirm :: "instant \<Rightarrow> VmPlacement \<Rightarrow> VmPlacement" where
  "confirm now e = e\<lparr>lifecycle := Running, last_confirmed_at := Some now\<rparr>"

definition reconcile_agent_delta ::
  "instant \<Rightarrow> actor_id \<Rightarrow> ulid list \<Rightarrow> ulid list \<Rightarrow> manifests \<Rightarrow> placements \<Rightarrow> placements" where
  "reconcile_agent_delta now agent_id added removed manifests placements =
     (let p1 = foldl (\<lambda>ps vmid.
            if map_of manifests vmid = None then ps
            else hm_upsert vmid []
              (\<lambda>entries. case update_first (\<lambda>e. pl_agent e = agent_id) (confirm now) entries of
                 Some es \<Rightarrow> es
               | None \<Rightarrow> entries @ [running_placement agent_id now]) ps) placements added
      in foldl (\<lambda>ps vmid. hm_modify vmid
            (\<lambda>entries. shrink_non_migrating_entries
               (filter (\<lambda>e. pl_agent e \<noteq> agent_id \<or> lifecycle e = Pending) entries)) ps) p1 removed)"

definition reconcile_discovered_vm :: "instant \<Rightarrow> ulid \<Rightarrow> vm_index \<Rightarrow> manifests \<Rightarrow> placements \<Rightarrow> placements" where
  "reconcile_discovered_vm now vmid index manifests placements =
     foldl (\<lambda>ps agent_id. reconcile_agent_delta now agent_id [vmid] [] manifests ps) placements
       (map fst (filter (\<lambda>(_, vmids). vmid \<in> set vmids) index))"

text \<open>\<open>retain_mut\<close> of one VM's entries against a complete snapshot.\<close>

definition snapshot_entry :: "instant \<Rightarrow> actor_id \<Rightarrow> bool \<Rightarrow> VmPlacement \<Rightarrow> VmPlacement option" where
  "snapshot_entry now agent_id is_observed e =
     (if pl_agent e \<noteq> agent_id then Some e
      else if is_observed then Some (confirm now e)
      else
        (case lifecycle e of
           Pending \<Rightarrow> if duration_since now (created_at e) < UNRESOLVED_VM_CACHE_TIMEOUT then Some e else None
         | Running \<Rightarrow>
             (case last_confirmed_at e of
                Some l \<Rightarrow> if duration_since now l < UNCONFIRMED_RUNNING_PLACEMENT_TIMEOUT then Some e else None
              | None \<Rightarrow> None)))"

definition reconcile_agent_placements ::
  "instant \<Rightarrow> actor_id \<Rightarrow> AgentStatus \<Rightarrow> manifests \<Rightarrow> placements \<Rightarrow> placements" where
  "reconcile_agent_placements now agent_id st manifests placements =
     (let reported = remdups (st_vms st);
          missing = filter (\<lambda>v. case map_of placements v of
                None \<Rightarrow> True
              | Some es \<Rightarrow> \<not> list_ex (\<lambda>e. pl_agent e = agent_id) es)
            (filter (\<lambda>v. map_of manifests v \<noteq> None) reported);
          p1 = foldl (\<lambda>ps v. hm_upsert v [] (\<lambda>es. es @ [running_placement agent_id now]) ps) placements missing;
          p2 = hm_map (\<lambda>vmid entries. shrink_non_migrating_entries
            (List.map_filter (snapshot_entry now agent_id (vmid \<in> set reported)) entries)) p1
      in foldl (\<lambda>ps vmid. hm_remove vmid ps) p2 (empty_vmids p2))"

definition lookup_agent_by_actor_id :: "actor_id \<Rightarrow> SchedulerActor \<Rightarrow> actor_id option" where
  "lookup_agent_by_actor_id actor_id s = map_option ca_actor_ref (map_of (agent_data_cache s) actor_id)"

definition lookup_agent_by_hostname :: "string \<Rightarrow> SchedulerActor \<Rightarrow> actor_id option" where
  "lookup_agent_by_hostname host s =
     map_option ca_actor_ref (find (\<lambda>c. hostname (ca_data c) = host) (hm_values (agent_data_cache s)))"

end
