(* ===== verification/Scheduler_Actor.thy ===== *)
theory Scheduler_Actor
  imports Scheduler_Cache
begin

text \<open>
  The scheduler actor's message handlers (\<open>scheduler_actor/handlers.rs\<close>) and its discovery and
  polling tasks (\<open>scheduler_actor/discovery.rs\<close>). The actor handles one message at a time, so a
  handler is one state transition; what remote actors, the actor registry, the clock and the
  task runtime answer is an argument.
\<close>

section \<open>Messages and effects\<close>

datatype sched_msg =
    VmActorDiscovered actor_id
  | AgentActorDiscovered actor_id
  | VmUpdated actor_id GetVMInfoReply
  | VmUpdaterStopped actor_id
  | AgentUpdated actor_id actor_id AgentStatusUpdate   \<comment> \<open>\<open>actor_id\<close>, \<open>actor_ref\<close>, \<open>update\<close>\<close>
  | AgentUpdaterStopped actor_id
  | ReconcileVmPlacements

datatype sched_effect =
    AskCreate actor_id CreateVM
  | TellCreate actor_id CreateVM
  | ForwardDelete actor_id ulid
  | ForwardShutdown actor_id ulid

definition pending_placement :: "actor_id \<Rightarrow> instant \<Rightarrow> VmPlacement" where
  "pending_placement agent_id now =
     \<lparr>pl_agent = agent_id, lifecycle = Pending, created_at = now, last_confirmed_at = None\<rparr>"

definition unresolved_vm :: CachedVMActor where
  "unresolved_vm = \<lparr>cv_actor_ref = None\<rparr>"

section \<open>Lifecycle\<close>

definition SchedulerActor_on_start :: "task \<Rightarrow> SchedulerActor" where
  "SchedulerActor_on_start finder =
     \<lparr>agent_data_cache = [], agent_keepalive_tasks = [], vm_actorid_ulid_map = [], vm_manifests = [],
      vm_placements = [], vm_data_cache = [], vm_keepalive_tasks = [], pending_resources_cache = None,
      agent_vm_index = [], actor_kinds = [], cache_actor_finder = Some finder\<rparr>"

text \<open>\<open>alive\<close>: the weak reference to the scheduler itself can still be upgraded. The result says
  whether the actor continues.\<close>

definition SchedulerActor_on_link_died :: "bool \<Rightarrow> actor_id \<Rightarrow> SchedulerActor \<Rightarrow> SchedulerActor \<times> bool" where
  "SchedulerActor_on_link_died alive i s =
     (if \<not> alive then (s, False)
      else
        (let kind = map_of (actor_kinds s) i;
             s1 = s\<lparr>actor_kinds := hm_remove i (actor_kinds s)\<rparr>
         in ((case kind of
                Some KindAgent \<Rightarrow> cleanup_agent_actor i s1
              | Some KindVm \<Rightarrow> cleanup_vm_actor i s1
              | None \<Rightarrow> s1), True)))"

section \<open>Public handlers\<close>

text \<open>
  \<open>CreateVM\<close>: \<open>ask_reply\<close> is what the chosen agent answers, \<open>actor_exists\<close> whether the registry
  finds a VM actor after a failed request, \<open>to_bytes\<close> and \<open>from_bytes\<close> the serialisation of
  actor identifiers.
\<close>

definition existing_actor :: "(actor_id \<Rightarrow> bytes) \<Rightarrow> ulid \<Rightarrow> SchedulerActor \<Rightarrow> bytes option" where
  "existing_actor to_bytes vmid s =
     map_option (to_bytes \<circ> fst) (find (\<lambda>(_, mapped). mapped = vmid) (vm_actorid_ulid_map s))"

definition reserve_placement :: "ulid \<Rightarrow> actor_id \<Rightarrow> instant \<Rightarrow> SchedulerActor \<Rightarrow> SchedulerActor" where
  "reserve_placement vmid agent now s =
     s\<lparr>vm_placements := hm_upsert vmid [] (\<lambda>es. es @ [pending_placement agent now]) (vm_placements s),
       vm_data_cache := hm_upsert vmid [] (\<lambda>es. es @ [unresolved_vm]) (vm_data_cache s)\<rparr>"

definition reply_actor :: "(bytes \<Rightarrow> actor_id option) \<Rightarrow> string + CreateVMReply \<Rightarrow> actor_id option" where
  "reply_actor from_bytes reply =
     (case reply of
        Inr r \<Rightarrow> (case reply_actor_id r of Some bs \<Rightarrow> from_bytes bs | None \<Rightarrow> None)
      | Inl _ \<Rightarrow> None)"

definition settle_create ::
  "(bytes \<Rightarrow> actor_id option) \<Rightarrow> ulid \<Rightarrow> string + CreateVMReply \<Rightarrow> bool \<Rightarrow> SchedulerActor \<Rightarrow> SchedulerActor" where
  "settle_create from_bytes vmid reply actor_exists s =
     (let s1 = (case reply_actor from_bytes reply of
            Some i \<Rightarrow> s\<lparr>vm_actorid_ulid_map := hm_insert i vmid (vm_actorid_ulid_map s)\<rparr>
          | None \<Rightarrow> s)
      in case reply of
           Inr _ \<Rightarrow> s1
         | Inl _ \<Rightarrow>
             (let (am, ms, ps, dc) = rollback_failed_create vmid actor_exists (reply_actor from_bytes reply)
                    (vm_actorid_ulid_map s1) (vm_manifests s1) (vm_placements s1) (vm_data_cache s1)
              in s1\<lparr>vm_actorid_ulid_map := am, vm_manifests := ms, vm_placements := ps, vm_data_cache := dc\<rparr>))"

definition SchedulerActor_CreateVM ::
  "(actor_id \<Rightarrow> bytes) \<Rightarrow> (bytes \<Rightarrow> actor_id option) \<Rightarrow> instant \<Rightarrow> (actor_id \<Rightarrow> string + CreateVMReply) \<Rightarrow> bool
    \<Rightarrow> CreateVM \<Rightarrow> SchedulerActor \<Rightarrow> SchedulerActor \<times> (string + CreateVMReply) \<times> sched_effect list" where
  "SchedulerActor_CreateVM to_bytes from_bytes now ask_reply actor_exists msg s =
     (case map_of (vm_manifests s) (create_vmid msg) of
        Some existing \<Rightarrow>
          if existing \<noteq> create_config msg
          then (s, Inl ''conflicting create request for existing VM ID'', [])
          else (s, Inr \<lparr>reply_config = Some existing,
                        reply_actor_id = existing_actor to_bytes (create_vmid msg) s\<rparr>, [])
      | None \<Rightarrow>
          (case schedule_agent msg s of
             (s1, Inl e) \<Rightarrow> (s1, Inl e, [])
           | (s1, Inr target) \<Rightarrow>
               (let s2 = invalidate_pending_resources
                      (s1\<lparr>vm_manifests := hm_insert (create_vmid msg) (create_config msg) (vm_manifests s1)\<rparr>);
                    s3 = reserve_placement (create_vmid msg) target now s2;
                    reply = ask_reply target
                in (settle_create from_bytes (create_vmid msg) reply actor_exists s3, reply,
                    [AskCreate target msg]))))"

text \<open>
  Requests forwarded to a VM actor: \<open>lookup\<close> is the registry's answer and \<open>ask\<close> the VM actor's.
  \<open>GetConsoleHistory\<close> and \<open>SendConsoleInput\<close> differ only in the message.
\<close>

definition forward_to_vm :: "string + actor_id option \<Rightarrow> (actor_id \<Rightarrow> string + 'r) \<Rightarrow> string + 'r" where
  "forward_to_vm lookup ask =
     (case lookup of
        Inl e \<Rightarrow> Inl e
      | Inr (Some vm) \<Rightarrow> ask vm
      | Inr None \<Rightarrow> Inl ''VM not found'')"

text \<open>Delete and shutdown: \<open>sent\<close> is the outcome of sending the message.\<close>

definition SchedulerActor_DeleteVM ::
  "string + actor_id option \<Rightarrow> string + unit \<Rightarrow> DeleteVM \<Rightarrow> SchedulerActor
    \<Rightarrow> SchedulerActor \<times> (string + DeleteVMReply) \<times> sched_effect list" where
  "SchedulerActor_DeleteVM lookup sent msg s =
     (case lookup of
        Inl e \<Rightarrow> (s, Inl e, [])
      | Inr None \<Rightarrow> (s, Inl ''VM not found'', [])
      | Inr (Some vm) \<Rightarrow>
          (case sent of
             Inl e \<Rightarrow> (s, Inl e, [ForwardDelete vm (delete_vmid msg)])
           | Inr _ \<Rightarrow> (remove_vm_intent (delete_vmid msg) s, Inr DeleteVMReply,
                       [ForwardDelete vm (delete_vmid msg)])))"

definition SchedulerActor_ShutdownVM ::
  "string + actor_id option \<Rightarrow> string + unit \<Rightarrow> ShutdownVM \<Rightarrow> SchedulerActor
    \<Rightarrow> SchedulerActor \<times> (string + ShutdownVMReply) \<times> sched_effect list" where
  "SchedulerActor_ShutdownVM lookup sent msg s =
     (case lookup of
        Inl e \<Rightarrow> (s, Inl e, [])
      | Inr None \<Rightarrow> (s, Inl ''VM not found'', [])
      | Inr (Some vm) \<Rightarrow>
          (case sent of
             Inl e \<Rightarrow> (s, Inl e, [ForwardShutdown vm (shutdown_vmid msg)])
           | Inr _ \<Rightarrow> (remove_vm_intent (shutdown_vmid msg) s, Inr ShutdownVMReply,
                       [ForwardShutdown vm (shutdown_vmid msg)])))"

definition SchedulerActor_GetVMInfo ::
  "(ulid \<Rightarrow> string + actor_id option) \<Rightarrow> (actor_id \<Rightarrow> string + GetVMInfoReply) \<Rightarrow> GetVMInfo \<Rightarrow> string + GetVMInfoReply" where
  "SchedulerActor_GetVMInfo lookup ask msg =
     (case info_request_vmid msg of
        None \<Rightarrow> Inl ''VM ID is required''
      | Some vmid \<Rightarrow>
          (case lookup vmid of
             Inl e \<Rightarrow> Inl e
           | Inr None \<Rightarrow> Inr \<lparr>info_vmid = vmid, info_config = None\<rparr>
           | Inr (Some vm) \<Rightarrow> ask vm))"

definition SchedulerActor_AgentListVMs :: "SchedulerActor \<Rightarrow> ulid list" where
  "SchedulerActor_AgentListVMs s = concat (map (st_vms \<circ> ca_data) (hm_values (agent_data_cache s)))"

section \<open>Discovery\<close>

text \<open>\<open>vm_actor_finder\<close> and \<open>agent_actor_finder\<close>: each element of the registry's stream is
  forwarded to the scheduler until the stream or a send fails.\<close>

fun actor_finder :: "(actor_id \<Rightarrow> sched_msg) \<Rightarrow> (sched_msg \<Rightarrow> string + unit) \<Rightarrow> (string + actor_id) list
    \<Rightarrow> sched_msg list \<times> (string + unit)" where
  "actor_finder wrap send [] = ([], Inr ())"
| "actor_finder wrap send (Inl e # _) = ([], Inl e)"
| "actor_finder wrap send (Inr a # rest) =
     (case send (wrap a) of
        Inl e \<Rightarrow> ([], Inl e)
      | Inr _ \<Rightarrow> (let (ms, r) = actor_finder wrap send rest in (wrap a # ms, r)))"

text \<open>One pass of the discovery loop: failures are only logged.\<close>

definition finder_pass :: "(sched_msg \<Rightarrow> string + unit) \<Rightarrow> (string + actor_id) list \<Rightarrow> (string + actor_id) list
    \<Rightarrow> sched_msg list" where
  "finder_pass send vm_stream agent_stream =
     fst (actor_finder VmActorDiscovered send vm_stream) @
     fst (actor_finder AgentActorDiscovered send agent_stream) @ [ReconcileVmPlacements]"

definition task_running :: "(task \<Rightarrow> bool) \<Rightarrow> (actor_id, task) hmap \<Rightarrow> actor_id \<Rightarrow> bool" where
  "task_running finished tasks i = (case map_of tasks i of Some t \<Rightarrow> \<not> finished t | None \<Rightarrow> False)"

definition handle_VmActorDiscovered ::
  "(task \<Rightarrow> bool) \<Rightarrow> bool \<Rightarrow> task \<Rightarrow> actor_id \<Rightarrow> SchedulerActor \<Rightarrow> SchedulerActor" where
  "handle_VmActorDiscovered finished link_ok new_task i s =
     (if task_running finished (vm_keepalive_tasks s) i then s
      else
        (let s1 = s\<lparr>vm_keepalive_tasks := hm_remove i (vm_keepalive_tasks s)\<rparr> in
         if \<not> link_ok then s1
         else s1\<lparr>actor_kinds := hm_insert i KindVm (actor_kinds s1),
                 vm_keepalive_tasks := hm_insert i new_task (vm_keepalive_tasks s1)\<rparr>))"

definition handle_AgentActorDiscovered ::
  "(task \<Rightarrow> bool) \<Rightarrow> bool \<Rightarrow> task \<Rightarrow> actor_id \<Rightarrow> SchedulerActor \<Rightarrow> SchedulerActor" where
  "handle_AgentActorDiscovered finished link_ok new_task i s =
     (if task_running finished (agent_keepalive_tasks s) i then s
      else
        (let s1 = s\<lparr>agent_keepalive_tasks := hm_remove i (agent_keepalive_tasks s)\<rparr> in
         if \<not> link_ok then s1
         else s1\<lparr>actor_kinds := hm_insert i KindAgent (actor_kinds s1),
                 agent_keepalive_tasks := hm_insert i new_task (agent_keepalive_tasks s1)\<rparr>))"

definition handle_VmUpdated :: "instant \<Rightarrow> actor_id \<Rightarrow> GetVMInfoReply \<Rightarrow> SchedulerActor \<Rightarrow> SchedulerActor" where
  "handle_VmUpdated now actor_id data s =
     (let vmid = info_vmid data;
          s1 = s\<lparr>vm_actorid_ulid_map := hm_insert actor_id vmid (vm_actorid_ulid_map s)\<rparr>;
          s2 = (case info_config data of
                  None \<Rightarrow> s1
                | Some manifest \<Rightarrow>
                    (let ms = hm_insert vmid manifest (vm_manifests s1) in
                     invalidate_pending_resources
                       (s1\<lparr>vm_manifests := ms,
                           vm_placements := reconcile_discovered_vm now vmid (agent_vm_index s1) ms (vm_placements s1)\<rparr>)))
      in s2\<lparr>vm_data_cache := hm_upsert vmid []
            (\<lambda>entries. update_cached_vm_entry entries actor_id \<lparr>cv_actor_ref = Some actor_id\<rparr>) (vm_data_cache s2)\<rparr>)"

definition handle_VmUpdaterStopped :: "actor_id \<Rightarrow> SchedulerActor \<Rightarrow> SchedulerActor" where
  "handle_VmUpdaterStopped i s = cleanup_vm_actor i (s\<lparr>actor_kinds := hm_remove i (actor_kinds s)\<rparr>)"

definition handle_AgentUpdaterStopped :: "actor_id \<Rightarrow> SchedulerActor \<Rightarrow> SchedulerActor" where
  "handle_AgentUpdaterStopped i s = cleanup_agent_actor i (s\<lparr>actor_kinds := hm_remove i (actor_kinds s)\<rparr>)"

text \<open>\<open>extend\<close> and \<open>remove\<close> on the index of one agent.\<close>

definition index_delta :: "ulid list \<Rightarrow> ulid list \<Rightarrow> ulid list \<Rightarrow> ulid list" where
  "index_delta added removed index = foldl (\<lambda>ix v. removeAll v ix) (foldl push_new index added) removed"

definition first_snapshot ::
  "instant \<Rightarrow> actor_id \<Rightarrow> actor_id \<Rightarrow> u64 \<Rightarrow> AgentStatus \<Rightarrow> SchedulerActor \<Rightarrow> SchedulerActor" where
  "first_snapshot now i ref revision st s =
     (let s1 = invalidate_pending_resources
            (s\<lparr>agent_vm_index := hm_insert i (remdups (st_vms st)) (agent_vm_index s)\<rparr>);
          s2 = invalidate_pending_resources
            (s1\<lparr>vm_placements := reconcile_agent_placements now i st (vm_manifests s1) (vm_placements s1)\<rparr>)
      in s2\<lparr>agent_data_cache := hm_insert i \<lparr>ca_actor_ref = ref, ca_data = st, ca_revision = revision\<rparr>
               (agent_data_cache s2)\<rparr>)"

definition handle_AgentUpdated ::
  "instant \<Rightarrow> actor_id \<Rightarrow> actor_id \<Rightarrow> AgentStatusUpdate \<Rightarrow> SchedulerActor \<Rightarrow> SchedulerActor" where
  "handle_AgentUpdated now i ref update s =
     (case map_of (agent_data_cache s) i of
        None \<Rightarrow>
          (case update of
             Full revision st \<Rightarrow> first_snapshot now i ref revision st s
           | Delta _ _ _ _ _ \<Rightarrow> s)
      | Some cached \<Rightarrow>
          if update_revision update \<le> ca_revision cached then s
          else
            (let (data, revision) = apply_status_update (ca_data cached) update;
                 s1 = s\<lparr>agent_data_cache := hm_insert i
                         \<lparr>ca_actor_ref = ref, ca_data = data, ca_revision = revision\<rparr> (agent_data_cache s)\<rparr>
             in case update of
                  Delta _ added removed _ _ \<Rightarrow>
                    (let s2 = invalidate_pending_resources
                           (s1\<lparr>agent_vm_index := hm_upsert i [] (index_delta added removed) (agent_vm_index s1)\<rparr>)
                     in s2\<lparr>vm_placements := reconcile_agent_delta now i added removed (vm_manifests s2) (vm_placements s2)\<rparr>)
                | Full _ _ \<Rightarrow>
                    invalidate_pending_resources
                      (s1\<lparr>agent_vm_index := hm_insert i (remdups (st_vms data)) (agent_vm_index s1),
                          vm_placements := reconcile_agent_placements now i data (vm_manifests s1) (vm_placements s1)\<rparr>)))"

text \<open>
  \<open>ReconcileVmPlacements\<close>: expiry, then one attempt per unplaced VM. \<open>clock\<close> gives the time at
  which each placement is recorded and \<open>tell_ok\<close> whether the request to the agent could be sent.
\<close>

definition unplaced_vms :: "SchedulerActor \<Rightarrow> (ulid \<times> VmManifest) list" where
  "unplaced_vms s =
     filter (\<lambda>(vmid, _). case map_of (vm_placements s) vmid of None \<Rightarrow> True | Some es \<Rightarrow> es = []) (vm_manifests s)"

definition replace_vm ::
  "(ulid \<Rightarrow> instant) \<Rightarrow> (actor_id \<Rightarrow> ulid \<Rightarrow> bool) \<Rightarrow> ulid \<times> VmManifest \<Rightarrow> SchedulerActor
    \<Rightarrow> SchedulerActor \<times> sched_effect list" where
  "replace_vm clock tell_ok = (\<lambda>(vmid, cfg) s.
     let request = \<lparr>create_vmid = vmid, create_config = cfg\<rparr> in
     case schedule_agent request s of
       (s1, Inl _) \<Rightarrow> (s1, [])
     | (s1, Inr agent) \<Rightarrow>
         (let s2 = reserve_placement vmid agent (clock vmid) s1 in
          if tell_ok agent vmid then (invalidate_pending_resources s2, [TellCreate agent request])
          else (s2\<lparr>vm_placements := hm_insert vmid [] (vm_placements s2),
                   vm_data_cache := hm_remove vmid (vm_data_cache s2)\<rparr>, [])))"

definition replace_step ::
  "(ulid \<Rightarrow> instant) \<Rightarrow> (actor_id \<Rightarrow> ulid \<Rightarrow> bool) \<Rightarrow> SchedulerActor \<times> sched_effect list \<Rightarrow> ulid \<times> VmManifest
    \<Rightarrow> SchedulerActor \<times> sched_effect list" where
  "replace_step clock tell_ok st vm =
     (let (s, effects) = replace_vm clock tell_ok vm (fst st) in (s, snd st @ effects))"

definition handle_ReconcileVmPlacements ::
  "instant \<Rightarrow> (ulid \<Rightarrow> instant) \<Rightarrow> (actor_id \<Rightarrow> ulid \<Rightarrow> bool) \<Rightarrow> SchedulerActor \<Rightarrow> SchedulerActor \<times> sched_effect list" where
  "handle_ReconcileVmPlacements now clock tell_ok s =
     (let (ps, dc) = cleanup_unresolved_vm_cache now (vm_placements s) (vm_data_cache s);
          s1 = invalidate_pending_resources (s\<lparr>vm_placements := ps, vm_data_cache := dc\<rparr>)
      in foldl (replace_step clock tell_ok) (s1, []) (unplaced_vms s1))"

section \<open>Polling tasks\<close>

text \<open>
  One iteration of an updater loop: from the outcome of the request, the next loop state
  (\<open>None\<close> when the task returns) and the messages told to the scheduler. \<open>send_ok\<close>: the
  scheduler could be told.
\<close>

record AgentUpdater =
  up_revision :: u64
  up_initial :: bool
  up_fails :: u8

definition agent_updater_start :: AgentUpdater where
  "agent_updater_start = \<lparr>up_revision = 0, up_initial = True, up_fails = 0\<rparr>"

definition agent_updater_request :: "AgentUpdater \<Rightarrow> GetAgentStatus" where
  "agent_updater_request u = \<lparr>since_revision = up_revision u, initial = up_initial u\<rparr>"

definition agent_updater_step ::
  "actor_id \<Rightarrow> bool \<Rightarrow> AgentStatusUpdate option \<Rightarrow> AgentUpdater \<Rightarrow> AgentUpdater option \<times> sched_msg list" where
  "agent_updater_step i send_ok outcome u =
     (case outcome of
        Some update \<Rightarrow>
          (let u1 = u\<lparr>up_revision := update_revision update, up_initial := False\<rparr> in
           if send_ok then (Some (u1\<lparr>up_fails := 0\<rparr>), [AgentUpdated i i update]) else (None, []))
      | None \<Rightarrow>
          (let u1 = u\<lparr>up_fails := sat_add (up_fails u) 1\<rparr> in
           if 5 < up_fails u1 then (None, if send_ok then [AgentUpdaterStopped i] else [])
           else (Some u1, [])))"

record VmUpdater =
  vu_initialized :: bool
  vu_fails :: u8

definition vm_updater_start :: VmUpdater where
  "vm_updater_start = \<lparr>vu_initialized = False, vu_fails = 0\<rparr>"

text \<open>\<open>info\<close> is the answer to the identity request of a task that is not initialised,
  \<open>heartbeat\<close> whether a later heartbeat was answered.\<close>

definition vm_updater_step ::
  "actor_id \<Rightarrow> bool \<Rightarrow> GetVMInfoReply option \<Rightarrow> bool \<Rightarrow> VmUpdater \<Rightarrow> VmUpdater option \<times> sched_msg list" where
  "vm_updater_step i send_ok info heartbeat u =
     (if \<not> vu_initialized u \<and> info \<noteq> None \<and> \<not> send_ok then (None, [])
      else
        (let (u1, msgs) =
           (if \<not> vu_initialized u then
              (case info of
                 Some data \<Rightarrow> (u\<lparr>vu_initialized := True, vu_fails := 0\<rparr>, [VmUpdated i data])
               | None \<Rightarrow> (u\<lparr>vu_fails := sat_add (vu_fails u) 1\<rparr>, []))
            else if heartbeat then (u\<lparr>vu_fails := 0\<rparr>, [])
            else (u\<lparr>vu_fails := sat_add (vu_fails u) 1\<rparr>, []))
         in if 5 < vu_fails u1 then (None, msgs @ (if send_ok then [VmUpdaterStopped i] else []))
            else (Some u1, msgs)))"

text \<open>The loops over a sequence of request outcomes, with every message delivered.\<close>

fun agent_updater_run :: "actor_id \<Rightarrow> AgentStatusUpdate option list \<Rightarrow> AgentUpdater
    \<Rightarrow> AgentUpdater option \<times> sched_msg list" where
  "agent_updater_run i [] u = (Some u, [])"
| "agent_updater_run i (r # rs) u =
     (case agent_updater_step i True r u of
        (None, ms) \<Rightarrow> (None, ms)
      | (Some u', ms) \<Rightarrow> (let (u'', ms') = agent_updater_run i rs u' in (u'', ms @ ms')))"

fun vm_updater_run :: "actor_id \<Rightarrow> (GetVMInfoReply option \<times> bool) list \<Rightarrow> VmUpdater
    \<Rightarrow> VmUpdater option \<times> sched_msg list" where
  "vm_updater_run i [] u = (Some u, [])"
| "vm_updater_run i (r # rs) u =
     (case vm_updater_step i True (fst r) (snd r) u of
        (None, ms) \<Rightarrow> (None, ms)
      | (Some u', ms) \<Rightarrow> (let (u'', ms') = vm_updater_run i rs u' in (u'', ms @ ms')))"

end
