(* ===== verification/Scheduler_Invariants.thy ===== *)
theory Scheduler_Invariants
  imports Scheduler_Actor
begin

text \<open>
  Invariants of the scheduler: its maps have unique keys, every placement belongs to a VM whose
  manifest is kept, a VM has at most one placement per agent, only confirmed placements are
  running, and the cached totals of pending resources are never stale.
\<close>

section \<open>Placements\<close>

definition entries_ok :: "VmPlacement list \<Rightarrow> bool" where
  "entries_ok es \<longleftrightarrow> distinct (map pl_agent es) \<and>
     (\<forall>e \<in> set es. lifecycle e = Running \<longleftrightarrow> last_confirmed_at e \<noteq> None)"

definition placements_ok :: "manifests \<Rightarrow> placements \<Rightarrow> bool" where
  "placements_ok ms ps \<longleftrightarrow> hm_wf ps \<and>
     (\<forall>v es. map_of ps v = Some es \<longrightarrow> map_of ms v \<noteq> None \<and> entries_ok es)"

lemma entries_ok_Nil [simp]: "entries_ok []"
  by (simp add: entries_ok_def)

lemma entries_ok_filter: "entries_ok es \<Longrightarrow> entries_ok (filter P es)"
  by (auto simp: entries_ok_def distinct_map_filter)

lemma entries_ok_snoc:
  "entries_ok es \<Longrightarrow> \<forall>e \<in> set es. pl_agent e \<noteq> pl_agent n \<Longrightarrow>
   (lifecycle n = Running \<longleftrightarrow> last_confirmed_at n \<noteq> None) \<Longrightarrow> entries_ok (es @ [n])"
  by (auto simp: entries_ok_def)

lemma update_first_None: "update_first P f es = None \<longleftrightarrow> (\<forall>e \<in> set es. \<not> P e)"
  by (induction es) auto

lemma confirm_fields [simp]:
  "pl_agent (confirm now e) = pl_agent e" "lifecycle (confirm now e) = Running"
  "last_confirmed_at (confirm now e) = Some now" "created_at (confirm now e) = created_at e"
  by (simp_all add: confirm_def)

lemma update_first_confirm:
  assumes "update_first P (confirm now) es = Some es'"
  shows "map pl_agent es' = map pl_agent es \<and> (\<forall>e \<in> set es'. e \<in> set es \<or> (\<exists>d. e = confirm now d))"
  using assms
proof (induction es arbitrary: es')
  case (Cons e es)
  then show ?case by (cases "P e") fastforce+
qed simp

lemma entries_ok_confirm:
  assumes "entries_ok es" and "update_first P (confirm now) es = Some es'"
  shows "entries_ok es'"
  using assms(1) update_first_confirm [OF assms(2)] unfolding entries_ok_def
  by (metis confirm_fields(2,3) option.distinct(1))

lemma placements_ok_insert:
  "placements_ok ms ps \<Longrightarrow> map_of ms v \<noteq> None \<Longrightarrow> entries_ok es \<Longrightarrow> placements_ok ms (hm_insert v es ps)"
  by (simp add: placements_ok_def)

lemma placements_ok_upsert:
  assumes "placements_ok ms ps" and "map_of ms v \<noteq> None"
    and "\<And>es. entries_ok es \<Longrightarrow> map_of ps v = Some es \<or> (map_of ps v = None \<and> es = []) \<Longrightarrow> entries_ok (f es)"
  shows "placements_ok ms (hm_upsert v [] f ps)"
  unfolding hm_upsert_def using assms
  by (intro placements_ok_insert) (auto simp: placements_ok_def split: option.splits)

lemma placements_ok_remove: "placements_ok ms ps \<Longrightarrow> placements_ok ms (hm_remove v ps)"
  by (simp add: placements_ok_def)

lemma placements_ok_modify:
  assumes "placements_ok ms ps" and "\<And>es. entries_ok es \<Longrightarrow> entries_ok (f es)"
  shows "placements_ok ms (hm_modify v f ps)"
  using assms by (auto simp: placements_ok_def)

lemma placements_ok_map:
  assumes "placements_ok ms ps" and "\<And>v es. entries_ok es \<Longrightarrow> entries_ok (f v es)"
  shows "placements_ok ms (hm_map f ps)"
  using assms by (auto simp: placements_ok_def)

lemma placements_ok_more_manifests:
  "placements_ok ms ps \<Longrightarrow> placements_ok (hm_insert v m ms) ps"
  by (auto simp: placements_ok_def)

lemmas placements_ok_intros = placements_ok_map placements_ok_modify placements_ok_remove
  entries_ok_filter

section \<open>Cache maintenance keeps the placements in order\<close>

lemma cleanup_unresolved_placements:
  "placements_ok ms ps \<Longrightarrow> placements_ok ms (fst (cleanup_unresolved_vm_cache now ps dc))"
  by (auto simp: cleanup_unresolved_vm_cache_def Let_def shrink_non_migrating_entries_def
      intro!: placements_ok_intros)

lemma foldl_hm_remove_wf: "hm_wf m \<Longrightarrow> hm_wf (foldl (\<lambda>m k. hm_remove k m) m ks)"
  by (rule foldl_invariant) simp_all

lemma cleanup_unresolved_cache_wf: "hm_wf dc \<Longrightarrow> hm_wf (snd (cleanup_unresolved_vm_cache now ps dc))"
  unfolding cleanup_unresolved_vm_cache_def Let_def snd_conv
  by (rule foldl_invariant [where P = hm_wf]) simp_all

lemma remove_vm_actor_wf: "hm_wf dc \<Longrightarrow> hm_wf (remove_vm_actor i dc)"
  by (simp add: remove_vm_actor_def Let_def foldl_hm_remove_wf)

lemma remove_agent_placements_ok: "placements_ok ms ps \<Longrightarrow> placements_ok ms (remove_agent_placements a vs ps)"
  by (auto simp: remove_agent_placements_def shrink_non_migrating_entries_def intro!: placements_ok_intros)

lemma running_placement_fields [simp]:
  "pl_agent (running_placement a now) = a" "lifecycle (running_placement a now) = Running"
  "last_confirmed_at (running_placement a now) = Some now" "created_at (running_placement a now) = now"
  by (simp_all add: running_placement_def)

lemma pending_placement_fields [simp]:
  "pl_agent (pending_placement a now) = a" "lifecycle (pending_placement a now) = Pending"
  "last_confirmed_at (pending_placement a now) = None" "created_at (pending_placement a now) = now"
  by (simp_all add: pending_placement_def)

definition observe_entry :: "actor_id \<Rightarrow> instant \<Rightarrow> VmPlacement list \<Rightarrow> VmPlacement list" where
  "observe_entry a now es =
     (case update_first (\<lambda>e. pl_agent e = a) (confirm now) es of
        Some es' \<Rightarrow> es' | None \<Rightarrow> es @ [running_placement a now])"

lemma observe_entry_ok: "entries_ok es \<Longrightarrow> entries_ok (observe_entry a now es)"
  by (auto simp: observe_entry_def update_first_None entries_ok_confirm
      intro!: entries_ok_snoc split: option.splits)

lemma reconcile_agent_delta_ok:
  assumes "placements_ok ms ps"
  shows "placements_ok ms (reconcile_agent_delta now a added removed ms ps)"
  unfolding reconcile_agent_delta_def Let_def shrink_non_migrating_entries_def
  using assms
  by (intro foldl_invariant [where P = "placements_ok ms"])
    (auto intro: placements_ok_intros placements_ok_upsert observe_entry_ok [unfolded observe_entry_def])

lemma reconcile_discovered_vm_ok:
  "placements_ok ms ps \<Longrightarrow> placements_ok ms (reconcile_discovered_vm now v index ms ps)"
  unfolding reconcile_discovered_vm_def
  by (rule foldl_invariant) (simp_all add: reconcile_agent_delta_ok)

lemma snapshot_entry_fields:
  assumes "snapshot_entry now a b e = Some e'"
  shows "pl_agent e' = pl_agent e \<and> (e' = e \<or> e' = confirm now e)"
  using assms by (auto simp: snapshot_entry_def split: if_splits VmLifecycle.splits option.splits)

lemma map_filter_snapshot_ok:
  assumes "entries_ok es"
  shows "entries_ok (List.map_filter (snapshot_entry now a b) es)"
  using assms
proof (induction es)
  case Nil
  then show ?case by (simp add: List.map_filter_def)
next
  case (Cons e es)
  have sub: "set (map pl_agent (List.map_filter (snapshot_entry now a b) es)) \<subseteq> set (map pl_agent es)"
    by (auto simp: List.map_filter_def snapshot_entry_fields)
  have IH: "entries_ok (List.map_filter (snapshot_entry now a b) es)"
    using Cons by (simp add: entries_ok_def)
  show ?case
  proof (cases "snapshot_entry now a b e")
    case None
    with IH show ?thesis by (simp add: List.map_filter_simps)
  next
    case (Some e')
    with IH Cons.prems sub snapshot_entry_fields [OF Some] show ?thesis
      by (auto simp: List.map_filter_simps entries_ok_def)
  qed
qed

lemma push_running_ok:
  assumes "placements_ok ms ps" and "distinct vs" and "\<forall>v \<in> set vs. map_of ms v \<noteq> None"
    and "\<forall>v \<in> set vs. \<forall>es. map_of ps v = Some es \<longrightarrow> (\<forall>e \<in> set es. pl_agent e \<noteq> a)"
  shows "placements_ok ms (foldl (\<lambda>ps v. hm_upsert v [] (\<lambda>es. es @ [running_placement a now]) ps) ps vs)"
  using assms
proof (induction vs arbitrary: ps)
  case (Cons v vs)
  have "placements_ok ms (hm_upsert v [] (\<lambda>es. es @ [running_placement a now]) ps)"
    using Cons.prems by (intro placements_ok_upsert entries_ok_snoc) auto
  moreover have "map_of (hm_upsert v [] (\<lambda>es. es @ [running_placement a now]) ps) w = map_of ps w"
    if "w \<in> set vs" for w
    using that Cons.prems(2) by auto
  ultimately have "placements_ok ms (foldl (\<lambda>ps v. hm_upsert v [] (\<lambda>es. es @ [running_placement a now]) ps)
      (hm_upsert v [] (\<lambda>es. es @ [running_placement a now]) ps) vs)"
    using Cons.prems by (intro Cons.IH) simp_all
  then show ?case by simp
qed simp

lemma reconcile_agent_placements_ok:
  assumes "placements_ok ms ps"
  shows "placements_ok ms (reconcile_agent_placements now a st ms ps)"
  unfolding reconcile_agent_placements_def Let_def shrink_non_migrating_entries_def
  using assms
  by (intro foldl_invariant [where P = "placements_ok ms"] placements_ok_map push_running_ok)
    (auto simp: list_ex_iff placements_ok_remove map_filter_snapshot_ok split: option.splits)

section \<open>Pending totals under changes of the placements\<close>

definition pending_share :: "(Compute \<Rightarrow> nat) \<Rightarrow> manifests \<Rightarrow> actor_id \<Rightarrow> ulid \<Rightarrow> VmPlacement list \<Rightarrow> nat" where
  "pending_share f ms a v es =
     (case map_of ms v of None \<Rightarrow> 0 | Some m \<Rightarrow> f (compute (desired m)) * pending_count a es)"

lemma pending_sum_share: "pending_sum f ms ps a = sum_list (map (\<lambda>(v, es). pending_share f ms a v es) ps)"
  by (simp add: pending_sum_def pending_share_def)

lemma pending_count_Nil [simp]: "pending_count a [] = 0"
  by (simp add: pending_count_def)

lemma pending_count_snoc [simp]:
  "pending_count a (es @ [e]) = pending_count a es + (if lifecycle e = Pending \<and> pl_agent e = a then 1 else 0)"
  by (simp add: pending_count_def)

lemma pending_share_Nil [simp]: "pending_share f ms a v [] = 0"
  by (simp add: pending_share_def split: option.splits)

lemma pending_sum_insert:
  assumes "hm_wf ps"
  shows "pending_sum f ms (hm_insert v es ps) a + (case map_of ps v of None \<Rightarrow> 0 | Some es0 \<Rightarrow> pending_share f ms a v es0)
    = pending_sum f ms ps a + pending_share f ms a v es"
  using assms
proof (induction ps)
  case Nil
  then show ?case by (simp add: pending_sum_share hm_insert_def)
next
  case (Cons p ps)
  obtain w es1 where p: "p = (w, es1)" by fastforce
  then have wf: "hm_wf ps" and "map_of ps w = None"
    using Cons.prems by (auto simp: hm_wf_def map_of_eq_None_iff)
  with Cons.IH p show ?case
    by (auto simp: pending_sum_share hm_insert_def)
qed

text \<open>The exact totals determine the saturated ones.\<close>

lemma reservation_eqI:
  assumes "pending_sum (unat \<circ> vcpus) ms ps a = pending_sum (unat \<circ> vcpus) ms' ps' a"
    and "pending_sum (unat \<circ> memory_bytes) ms ps a = pending_sum (unat \<circ> memory_bytes) ms' ps' a"
  shows "pending_resources_for_agent ms ps a = pending_resources_for_agent ms' ps' a"
proof (rule prod_eqI)
  show "fst (pending_resources_for_agent ms ps a) = fst (pending_resources_for_agent ms' ps' a)"
    using pending_resources_totals(1) [of ms ps a] pending_resources_totals(1) [of ms' ps' a] assms(1)
    by (simp add: word_unat_eq_iff)
  show "snd (pending_resources_for_agent ms ps a) = snd (pending_resources_for_agent ms' ps' a)"
    using pending_resources_totals(2) [of ms ps a] pending_resources_totals(2) [of ms' ps' a] assms(2)
    by (simp add: word_unat_eq_iff)
qed

definition unplaced :: "placements \<Rightarrow> ulid \<Rightarrow> bool" where
  "unplaced ps v \<longleftrightarrow> (case map_of ps v of None \<Rightarrow> True | Some es \<Rightarrow> es = [])"

lemma pending_sum_insert_unplaced:
  "hm_wf ps \<Longrightarrow> unplaced ps v \<Longrightarrow>
     pending_sum f ms (hm_insert v es ps) a = pending_sum f ms ps a + pending_share f ms a v es"
  using pending_sum_insert [of ps f ms v es a] by (auto simp: unplaced_def split: option.splits)

section \<open>The invariant\<close>

definition sched_maps_wf :: "SchedulerActor \<Rightarrow> bool" where
  "sched_maps_wf s \<longleftrightarrow> hm_wf (agent_data_cache s) \<and> hm_wf (vm_actorid_ulid_map s) \<and> hm_wf (vm_manifests s) \<and>
     hm_wf (vm_data_cache s) \<and> hm_wf (agent_vm_index s)"

definition agents_ok :: "SchedulerActor \<Rightarrow> bool" where
  "agents_ok s \<longleftrightarrow> dom (map_of (agent_vm_index s)) = dom (map_of (agent_data_cache s)) \<and>
     (\<forall>a c. map_of (agent_data_cache s) a = Some c \<longrightarrow> ca_actor_ref c = a)"

definition sched_inv :: "SchedulerActor \<Rightarrow> bool" where
  "sched_inv s \<longleftrightarrow> sched_maps_wf s \<and> agents_ok s \<and> placements_ok (vm_manifests s) (vm_placements s) \<and>
     pending_coherent s"

lemmas sched_inv_defs = sched_inv_def sched_maps_wf_def agents_ok_def

lemma pending_coherent_None: "pending_resources_cache s = None \<Longrightarrow> pending_coherent s"
  by (simp add: pending_coherent_def)

lemma pending_coherent_updates [simp]:
  "pending_coherent (s\<lparr>actor_kinds := k\<rparr>) = pending_coherent s"
  "pending_coherent (s\<lparr>vm_keepalive_tasks := t\<rparr>) = pending_coherent s"
  "pending_coherent (s\<lparr>agent_keepalive_tasks := t\<rparr>) = pending_coherent s"
  "pending_coherent (s\<lparr>vm_actorid_ulid_map := m\<rparr>) = pending_coherent s"
  "pending_coherent (s\<lparr>vm_data_cache := c\<rparr>) = pending_coherent s"
  by (simp_all add: pending_coherent_def split: option.splits)

lemma invalidate_fields [simp]:
  "agent_data_cache (invalidate_pending_resources s) = agent_data_cache s"
  "vm_actorid_ulid_map (invalidate_pending_resources s) = vm_actorid_ulid_map s"
  "vm_manifests (invalidate_pending_resources s) = vm_manifests s"
  "vm_placements (invalidate_pending_resources s) = vm_placements s"
  "vm_data_cache (invalidate_pending_resources s) = vm_data_cache s"
  "agent_vm_index (invalidate_pending_resources s) = agent_vm_index s"
  "pending_resources_cache (invalidate_pending_resources s) = None"
  by (simp_all add: invalidate_pending_resources_def)

lemma schedule_agent_state: "fst (schedule_agent msg s) = fst (pending_resources s)"
  by (simp add: schedule_agent_eq)

lemma sched_inv_pending_resources:
  assumes "sched_inv s"
  shows "sched_inv (fst (pending_resources s))"
  using assms pending_resources_coherent(2) [of s]
  by (simp add: sched_inv_defs)

lemma sched_inv_schedule: "sched_inv s \<Longrightarrow> sched_inv (fst (schedule_agent msg s))"
  by (simp add: schedule_agent_state sched_inv_pending_resources del: pending_resources_state)

lemma placements_ok_less_manifests:
  "placements_ok ms ps \<Longrightarrow> placements_ok (hm_remove v ms) (hm_remove v ps)"
  by (auto simp: placements_ok_def)

lemma remove_vm_intent_inv: "sched_inv s \<Longrightarrow> sched_inv (remove_vm_intent v s)"
  by (auto simp: sched_inv_defs remove_vm_intent_def remove_vm_state_def Let_def
      pending_coherent_None placements_ok_less_manifests)

lemma cleanup_agent_actor_inv: "sched_inv s \<Longrightarrow> sched_inv (cleanup_agent_actor i s)"
  by (auto simp: sched_inv_defs cleanup_agent_actor_def Let_def pending_coherent_None remove_agent_placements_ok)

lemma cleanup_vm_actor_inv: "sched_inv s \<Longrightarrow> sched_inv (cleanup_vm_actor i s)"
  by (auto simp: sched_inv_defs cleanup_vm_actor_def Let_def pending_coherent_None remove_vm_actor_wf
      shrink_non_migrating_entries_def intro!: placements_ok_intros split: option.splits)

section \<open>Every handler keeps the invariant\<close>

lemma link_died_inv: "sched_inv s \<Longrightarrow> sched_inv (fst (SchedulerActor_on_link_died alive i s))"
proof -
  assume "sched_inv s"
  then have "sched_inv (s\<lparr>actor_kinds := hm_remove i (actor_kinds s)\<rparr>)"
    by (simp add: sched_inv_defs)
  with \<open>sched_inv s\<close> show ?thesis
    by (simp add: SchedulerActor_on_link_died_def Let_def cleanup_agent_actor_inv cleanup_vm_actor_inv
        split: option.splits CachedActorKind.splits)
qed

text \<open>The state of \<open>CreateVM\<close> once an agent has been chosen, and after the reply.\<close>

lemma settle_create_inv:
  assumes "sched_inv s" and "pending_resources_cache s = None"
  shows "sched_inv (settle_create from_bytes v reply ex s)"
  using assms
  by (auto simp: settle_create_def Let_def rollback_failed_create_def remove_vm_state_def sched_inv_defs
      pending_coherent_None placements_ok_less_manifests reply_actor_def split: sum.splits option.splits)

lemma reserve_placement_ok:
  assumes "placements_ok ms (vm_placements s)" and "map_of ms v \<noteq> None" and "unplaced (vm_placements s) v"
  shows "placements_ok ms (vm_placements (reserve_placement v a now s))"
  using assms
  by (auto simp: reserve_placement_def unplaced_def intro!: placements_ok_upsert entries_ok_snoc split: option.splits)

lemma reserve_placement_fields [simp]:
  "agent_data_cache (reserve_placement v a now s) = agent_data_cache s"
  "vm_actorid_ulid_map (reserve_placement v a now s) = vm_actorid_ulid_map s"
  "vm_manifests (reserve_placement v a now s) = vm_manifests s"
  "agent_vm_index (reserve_placement v a now s) = agent_vm_index s"
  "pending_resources_cache (reserve_placement v a now s) = pending_resources_cache s"
  "hm_wf (vm_data_cache s) \<Longrightarrow> hm_wf (vm_data_cache (reserve_placement v a now s))"
  by (simp_all add: reserve_placement_def)

lemma create_inv:
  assumes "sched_inv s"
  shows "sched_inv (fst (SchedulerActor_CreateVM tb fb now ask ex msg s))"
proof (cases "map_of (vm_manifests s) (create_vmid msg)")
  case (Some m)
  with assms show ?thesis by (simp add: SchedulerActor_CreateVM_def)
next
  case None
  let ?v = "create_vmid msg"
  have free: "unplaced (vm_placements s) ?v"
    using assms None by (fastforce simp: sched_inv_def placements_ok_def unplaced_def split: option.splits)
  obtain s1 r where r: "schedule_agent msg s = (s1, r)" by fastforce
  have inv1: "sched_inv s1" using sched_inv_schedule [OF assms, of msg] r by simp
  have same: "vm_manifests s1 = vm_manifests s" "vm_placements s1 = vm_placements s"
    using schedule_agent_state [of msg s] r by simp_all
  show ?thesis
  proof (cases r)
    case (Inl e)
    with None r inv1 show ?thesis by (simp add: SchedulerActor_CreateVM_def)
  next
    case (Inr a)
    let ?s2 = "invalidate_pending_resources
      (s1\<lparr>vm_manifests := hm_insert ?v (create_config msg) (vm_manifests s1)\<rparr>)"
    let ?s3 = "reserve_placement ?v a now ?s2"
    have "placements_ok (vm_manifests ?s2) (vm_placements ?s2)"
      using inv1 by (simp add: sched_inv_def placements_ok_more_manifests)
    then have "placements_ok (vm_manifests ?s3) (vm_placements ?s3)"
      using free by (simp add: reserve_placement_ok same)
    then have "sched_inv ?s3"
      using inv1 by (simp add: sched_inv_defs pending_coherent_None)
    then have "sched_inv (settle_create fb ?v (ask a) ex ?s3)"
      by (rule settle_create_inv) simp
    with None r Inr show ?thesis by (simp add: SchedulerActor_CreateVM_def Let_def)
  qed
qed

lemma delete_inv: "sched_inv s \<Longrightarrow> sched_inv (fst (SchedulerActor_DeleteVM lookup sent msg s))"
  by (auto simp: SchedulerActor_DeleteVM_def remove_vm_intent_inv split: sum.splits option.splits)

lemma shutdown_inv: "sched_inv s \<Longrightarrow> sched_inv (fst (SchedulerActor_ShutdownVM lookup sent msg s))"
  by (auto simp: SchedulerActor_ShutdownVM_def remove_vm_intent_inv split: sum.splits option.splits)

lemma vm_discovered_inv: "sched_inv s \<Longrightarrow> sched_inv (handle_VmActorDiscovered fin ok t i s)"
  by (simp add: handle_VmActorDiscovered_def Let_def sched_inv_defs)

lemma agent_discovered_inv: "sched_inv s \<Longrightarrow> sched_inv (handle_AgentActorDiscovered fin ok t i s)"
  by (simp add: handle_AgentActorDiscovered_def Let_def sched_inv_defs)

lemma vm_updated_inv: "sched_inv s \<Longrightarrow> sched_inv (handle_VmUpdated now i data s)"
  by (simp add: handle_VmUpdated_def Let_def sched_inv_defs pending_coherent_None
      reconcile_discovered_vm_ok placements_ok_more_manifests split: option.splits)

lemma vm_stopped_inv: "sched_inv s \<Longrightarrow> sched_inv (handle_VmUpdaterStopped i s)"
  unfolding handle_VmUpdaterStopped_def
  by (rule cleanup_vm_actor_inv) (simp add: sched_inv_defs)

lemma agent_stopped_inv: "sched_inv s \<Longrightarrow> sched_inv (handle_AgentUpdaterStopped i s)"
  unfolding handle_AgentUpdaterStopped_def
  by (rule cleanup_agent_actor_inv) (simp add: sched_inv_defs)

lemma agent_updated_inv:
  assumes "sched_inv s"
  shows "sched_inv (handle_AgentUpdated now i i upd s)"
proof (cases "map_of (agent_data_cache s) i")
  case None
  with assms show ?thesis
    by (cases upd) (auto simp: handle_AgentUpdated_def first_snapshot_def Let_def sched_inv_defs
        pending_coherent_None reconcile_agent_placements_ok)
next
  case (Some c)
  with assms show ?thesis
    by (cases upd) (auto simp: handle_AgentUpdated_def Let_def sched_inv_defs
        pending_coherent_None reconcile_agent_placements_ok reconcile_agent_delta_ok)
qed

section \<open>Capacity of the chosen agent\<close>

lemma chosen_agent:
  assumes "schedule_agent msg s = (s1, Inr a)" and "sched_inv s"
  obtains c where "map_of (agent_data_cache s) a = Some c"
    and "eligible s1 msg (snd (pending_resources s)) c" and "ca_actor_ref c = a"
proof -
  from assms(1) have s1: "s1 = fst (pending_resources s)"
    by (simp add: schedule_agent_eq)
  from assms(1) obtain c where best: "best_agent s1 msg (snd (pending_resources s)) = Some c" and a: "a = ca_actor_ref c"
    unfolding s1 by (auto simp: schedule_agent_eq chosen_def split: option.splits)
  then have mem: "c \<in> set (hm_values (agent_data_cache s1))" and el: "eligible s1 msg (snd (pending_resources s)) c"
    using best_agent_eligible by blast+
  have "agent_data_cache s1 = agent_data_cache s" by (simp add: s1)
  with mem assms(2) obtain k where k: "map_of (agent_data_cache s) k = Some c"
    using hm_values_conv [of "agent_data_cache s" c] by (auto simp: sched_inv_defs)
  with assms(2) a have "k = a" by (auto simp: sched_inv_defs)
  with that k el a show ?thesis by blast
qed

text \<open>The exact demand on an agent: reported usage plus all reservations.\<close>

definition demand_vcpus :: "SchedulerActor \<Rightarrow> actor_id \<Rightarrow> AgentStatus \<Rightarrow> nat" where
  "demand_vcpus s a d = unat (st_used_vcpus d) + pending_sum (unat \<circ> vcpus) (vm_manifests s) (vm_placements s) a"

definition demand_memory :: "SchedulerActor \<Rightarrow> actor_id \<Rightarrow> AgentStatus \<Rightarrow> nat" where
  "demand_memory s a d = unat (st_used_ram d) + pending_sum (unat \<circ> memory_bytes) (vm_manifests s) (vm_placements s) a"

definition demand_fits :: "SchedulerActor \<Rightarrow> actor_id \<Rightarrow> AgentStatus \<Rightarrow> bool" where
  "demand_fits s a d \<longleftrightarrow> demand_vcpus s a d \<le> 2 * unat (st_vcpus d) \<and> demand_memory s a d \<le> unat (st_ram d)"

text \<open>From one state to another no agent is loaded beyond its capacity: its demand fits, or it
  did not grow.\<close>

definition no_overcommit :: "SchedulerActor \<Rightarrow> SchedulerActor \<Rightarrow> bool" where
  "no_overcommit s t \<longleftrightarrow> agent_data_cache t = agent_data_cache s \<and>
     (\<forall>a c. map_of (agent_data_cache s) a = Some c \<longrightarrow> plausible (ca_data c) \<longrightarrow>
        demand_fits t a (ca_data c) \<or>
        demand_vcpus t a (ca_data c) \<le> demand_vcpus s a (ca_data c) \<and>
        demand_memory t a (ca_data c) \<le> demand_memory s a (ca_data c))"

lemma no_overcommit_trans: "no_overcommit s t \<Longrightarrow> no_overcommit t u \<Longrightarrow> no_overcommit s u"
  unfolding no_overcommit_def demand_fits_def
  by (intro conjI allI impI; elim conjE; force)

lemma no_overcommit_le:
  assumes "agent_data_cache t = agent_data_cache s"
    and "\<And>f a. pending_sum f (vm_manifests t) (vm_placements t) a \<le> pending_sum f (vm_manifests s) (vm_placements s) a"
  shows "no_overcommit s t"
  using assms by (simp add: no_overcommit_def demand_vcpus_def demand_memory_def)

lemma eligible_demand:
  assumes "sched_inv s" and "eligible s1 msg (snd (pending_resources s)) c" and "ca_actor_ref c = a"
    and "plausible (ca_data c)"
  shows "demand_vcpus s a (ca_data c) + unat (vcpus (compute (desired (create_config msg)))) \<le> 2 * unat (st_vcpus (ca_data c))"
    and "demand_memory s a (ca_data c) + unat (memory_bytes (compute (desired (create_config msg)))) \<le> unat (st_ram (ca_data c))"
proof -
  let ?r = "reserved (snd (pending_resources s)) a"
  have r: "?r = pending_resources_for_agent (vm_manifests s) (vm_placements s) a"
    using assms(1) by (simp add: sched_inv_def pending_resources_coherent(1))
  have left: "capacity_left ?r (compute (desired (create_config msg))) (ca_data c)"
    using assms by (simp add: eligible_def fits_check_exact)
  note tot = pending_resources_totals [of "vm_manifests s" "vm_placements s" a]
  from left tot(1) assms(4)
  show "demand_vcpus s a (ca_data c) + unat (vcpus (compute (desired (create_config msg)))) \<le> 2 * unat (st_vcpus (ca_data c))"
    by (simp add: capacity_left_def r demand_vcpus_def plausible_def min_def split: if_splits)
  from left tot(2) assms(4)
  show "demand_memory s a (ca_data c) + unat (memory_bytes (compute (desired (create_config msg)))) \<le> unat (st_ram (ca_data c))"
    by (simp add: capacity_left_def r demand_memory_def plausible_def min_def split: if_splits)
qed

lemma reserve_no_overcommit:
  assumes "sched_inv s" and "schedule_agent msg s = (s1, Inr a)" and "agent_data_cache t = agent_data_cache s"
    and sums: "\<And>f b. pending_sum f (vm_manifests t) (vm_placements t) b =
      pending_sum f (vm_manifests s) (vm_placements s) b +
        (if b = a then f (compute (desired (create_config msg))) else 0)"
  shows "no_overcommit s t"
  unfolding no_overcommit_def
proof (intro conjI allI impI assms(3))
  fix b c assume c: "map_of (agent_data_cache s) b = Some c" "plausible (ca_data c)"
  show "demand_fits t b (ca_data c) \<or> demand_vcpus t b (ca_data c) \<le> demand_vcpus s b (ca_data c) \<and>
      demand_memory t b (ca_data c) \<le> demand_memory s b (ca_data c)"
  proof (cases "b = a")
    case False
    then show ?thesis by (simp add: demand_vcpus_def demand_memory_def sums)
  next
    case True
    obtain c' where c': "map_of (agent_data_cache s) a = Some c'"
        "eligible s1 msg (snd (pending_resources s)) c'" "ca_actor_ref c' = a"
      using chosen_agent [OF assms(2,1)] by blast
    with c True have "c' = c" by simp
    with eligible_demand [OF assms(1) c'(2,3)] c(2) True show ?thesis
      by (simp add: demand_fits_def demand_vcpus_def demand_memory_def sums add.assoc)
  qed
qed

lemma pending_sum_manifest:
  assumes "hm_wf ps" and "unplaced ps v"
  shows "pending_sum f (hm_insert v m ms) ps a = pending_sum f ms ps a"
proof -
  have "pending_share f (hm_insert v m ms) a w es = pending_share f ms a w es" if "(w, es) \<in> set ps" for w es
  proof (cases "w = v")
    case True
    with that assms have "es = []" by (simp add: unplaced_def hm_wf_def)
    then show ?thesis by simp
  next
    case False
    then show ?thesis by (simp add: pending_share_def)
  qed
  then show ?thesis
    by (auto simp: pending_sum_share intro!: arg_cong [where f = sum_list] map_cong)
qed

lemma pending_sum_remove:
  "pending_sum f (hm_remove v ms) (hm_remove v ps) a \<le> pending_sum f ms ps a"
proof (induction ps)
  case Nil
  then show ?case by (simp add: pending_sum_share hm_remove_def)
next
  case (Cons p ps)
  then show ?case
    by (cases p) (auto simp: pending_sum_share hm_remove_def pending_share_def split: option.splits)
qed

lemma pending_sum_map_le:
  assumes "\<And>v es b. pending_count b (g v es) \<le> pending_count b es"
  shows "pending_sum f ms (hm_map g ps) a \<le> pending_sum f ms ps a"
  using assms
  by (induction ps) (auto simp: pending_sum_share hm_map_def pending_share_def intro!: add_mono mult_le_mono
      split: option.splits)

lemma pending_count_filter_le: "pending_count a (filter P es) \<le> pending_count a es"
  by (induction es) (auto simp: pending_count_def)

lemma settle_create_no_overcommit: "no_overcommit s (settle_create fb v reply ex s)"
  by (rule no_overcommit_le)
    (auto simp: settle_create_def Let_def rollback_failed_create_def remove_vm_state_def reply_actor_def
      pending_sum_remove split: sum.splits option.splits)

lemma reserve_placement_sum:
  assumes "hm_wf (vm_placements s)" and "unplaced (vm_placements s) v" and "map_of (vm_manifests s) v = Some m"
  shows "pending_sum f (vm_manifests s) (vm_placements (reserve_placement v a now s)) b =
    pending_sum f (vm_manifests s) (vm_placements s) b + (if b = a then f (compute (desired m)) else 0)"
proof -
  have "vm_placements (reserve_placement v a now s) = hm_insert v [pending_placement a now] (vm_placements s)"
    using assms(2) by (auto simp: reserve_placement_def hm_upsert_def unplaced_def split: option.splits)
  moreover have "pending_count b [pending_placement a now] = (if b = a then 1 else 0)"
    by (simp add: pending_count_def)
  ultimately show ?thesis
    using assms by (simp add: pending_sum_insert_unplaced pending_share_def)
qed

lemma create_no_overcommit:
  assumes "sched_inv s"
  shows "no_overcommit s (fst (SchedulerActor_CreateVM tb fb now ask ex msg s))"
proof (cases "map_of (vm_manifests s) (create_vmid msg)")
  case (Some m)
  then show ?thesis by (simp add: SchedulerActor_CreateVM_def no_overcommit_le)
next
  case None
  let ?v = "create_vmid msg"
  obtain s1 r where r: "schedule_agent msg s = (s1, r)" by fastforce
  have s1: "s1 = s\<lparr>pending_resources_cache := Some (snd (pending_resources s))\<rparr>"
    using schedule_agent_state [of msg s] r by simp
  show ?thesis
  proof (cases r)
    case (Inl e)
    with None r show ?thesis by (simp add: SchedulerActor_CreateVM_def no_overcommit_le s1)
  next
    case (Inr a)
    let ?s2 = "invalidate_pending_resources
      (s1\<lparr>vm_manifests := hm_insert ?v (create_config msg) (vm_manifests s1)\<rparr>)"
    let ?s3 = "reserve_placement ?v a now ?s2"
    have wf: "hm_wf (vm_placements s)" and free: "unplaced (vm_placements s) ?v"
      using assms None by (fastforce simp: sched_inv_def placements_ok_def unplaced_def split: option.splits)+
    have "no_overcommit s ?s3"
    proof (rule reserve_no_overcommit [OF assms])
      show "schedule_agent msg s = (s1, Inr a)" using r Inr by simp
      show "agent_data_cache ?s3 = agent_data_cache s" by (simp add: s1)
      show "pending_sum f (vm_manifests ?s3) (vm_placements ?s3) b = pending_sum f (vm_manifests s) (vm_placements s) b +
          (if b = a then f (compute (desired (create_config msg))) else 0)" for f b
        using reserve_placement_sum [of ?s2 ?v "create_config msg" f a now b] wf free
        by (simp add: s1 pending_sum_manifest)
    qed
    then have "no_overcommit s (settle_create fb ?v (ask a) ex ?s3)"
      using settle_create_no_overcommit by (rule no_overcommit_trans)
    with None r Inr show ?thesis by (simp add: SchedulerActor_CreateVM_def Let_def)
  qed
qed

section \<open>Periodic reconciliation\<close>

text \<open>What one attempt to place an unplaced VM keeps of the state.\<close>

definition replace_keeps :: "ulid \<Rightarrow> SchedulerActor \<Rightarrow> SchedulerActor \<Rightarrow> bool" where
  "replace_keeps v s t \<longleftrightarrow> sched_inv t \<and> no_overcommit s t \<and> vm_manifests t = vm_manifests s \<and>
     (\<forall>w. w \<noteq> v \<longrightarrow> map_of (vm_placements t) w = map_of (vm_placements s) w)"

lemma reserve_placement_other:
  "w \<noteq> v \<Longrightarrow> map_of (vm_placements (reserve_placement v a now s)) w = map_of (vm_placements s) w"
  by (simp add: reserve_placement_def)

lemma replace_failed_inv:
  assumes "sched_inv s" and "map_of (vm_manifests s) v = Some m" and "unplaced (vm_placements s) v"
  shows "sched_inv (s\<lparr>vm_placements := hm_insert v [] (vm_placements (reserve_placement v a now s)),
    vm_data_cache := hm_remove v (vm_data_cache (reserve_placement v a now s))\<rparr>)" (is "sched_inv ?t")
    and "\<And>f b. pending_sum f (vm_manifests s) (hm_insert v [] (vm_placements (reserve_placement v a now s))) b =
      pending_sum f (vm_manifests s) (vm_placements s) b"
proof -
  have ins: "hm_insert v [] (vm_placements (reserve_placement v a now s)) = hm_insert v [] (vm_placements s)"
    by (simp add: reserve_placement_def hm_upsert_def hm_insert_def)
  show sums: "pending_sum f (vm_manifests s) (hm_insert v [] (vm_placements (reserve_placement v a now s))) b =
      pending_sum f (vm_manifests s) (vm_placements s) b" for f b
    using assms unfolding ins by (simp add: sched_inv_def placements_ok_def pending_sum_insert_unplaced)
  have "pending_coherent ?t"
    using assms(1) reservation_eqI [OF sums sums]
    by (auto simp: sched_inv_def pending_coherent_def split: option.splits)
  moreover have "placements_ok (vm_manifests s) (vm_placements ?t)"
    using assms unfolding ins by (simp add: sched_inv_def ins placements_ok_insert)
  ultimately show "sched_inv ?t"
    using assms(1) by (simp add: sched_inv_defs)
qed

lemma replace_vm_keeps:
  assumes inv: "sched_inv s" and m: "map_of (vm_manifests s) v = Some m" and free: "unplaced (vm_placements s) v"
  shows "replace_keeps v s (fst (replace_vm clock tell_ok (v, m) s))"
proof -
  let ?req = "\<lparr>create_vmid = v, create_config = m\<rparr>"
  obtain s1 r where r: "schedule_agent ?req s = (s1, r)" by fastforce
  have s1: "s1 = s\<lparr>pending_resources_cache := Some (snd (pending_resources s))\<rparr>"
    using schedule_agent_state [of ?req s] r by simp
  have inv1: "sched_inv s1" using sched_inv_schedule [OF inv, of ?req] r by simp
  show ?thesis
  proof (cases r)
    case (Inl e)
    with r inv1 show ?thesis
      by (simp add: replace_vm_def replace_keeps_def no_overcommit_le s1)
  next
    case (Inr a)
    let ?s2 = "reserve_placement v a (clock v) s1"
    have m1: "map_of (vm_manifests s1) v = Some m" and free1: "unplaced (vm_placements s1) v"
      using m free by (simp_all add: s1)
    have ok: "placements_ok (vm_manifests s1) (vm_placements ?s2)"
      using inv1 m1 free1 by (intro reserve_placement_ok) (simp_all add: sched_inv_def)
    then have inv2: "sched_inv (invalidate_pending_resources ?s2)"
      using inv1 by (simp add: sched_inv_defs)
    have over: "no_overcommit s (invalidate_pending_resources ?s2)"
    proof (rule reserve_no_overcommit [OF inv])
      show "schedule_agent ?req s = (s1, Inr a)" using r Inr by simp
      show "agent_data_cache (invalidate_pending_resources ?s2) = agent_data_cache s" by (simp add: s1)
      show "pending_sum f (vm_manifests (invalidate_pending_resources ?s2))
          (vm_placements (invalidate_pending_resources ?s2)) b = pending_sum f (vm_manifests s) (vm_placements s) b +
          (if b = a then f (compute (desired (create_config ?req))) else 0)" for f b
        using reserve_placement_sum [of s1 v m f a "clock v" b] m1 free1 inv1
        by (simp add: s1 sched_inv_def placements_ok_def)
    qed
    let ?s3 = "?s2\<lparr>vm_placements := hm_insert v [] (vm_placements ?s2), vm_data_cache := hm_remove v (vm_data_cache ?s2)\<rparr>"
    have s3: "?s3 = s1\<lparr>vm_placements := hm_insert v [] (vm_placements ?s2), vm_data_cache := hm_remove v (vm_data_cache ?s2)\<rparr>"
      by (simp add: reserve_placement_def)
    have inv3: "sched_inv ?s3" and "no_overcommit s ?s3"
      unfolding s3 using replace_failed_inv [OF inv1 m1 free1, where a = a and now = "clock v"]
      by (auto simp: s1 intro!: no_overcommit_le)
    with r Inr inv2 over show ?thesis
      by (simp add: replace_vm_def replace_keeps_def Let_def reserve_placement_other s1)
  qed
qed

lemma replace_loop_keeps:
  assumes "sched_inv s" and "distinct (map fst vs)"
    and "\<forall>(v, m) \<in> set vs. map_of (vm_manifests s) v = Some m \<and> unplaced (vm_placements s) v"
  shows "let t = fst (foldl (replace_step clock tell_ok) (s, effs) vs) in
    sched_inv t \<and> no_overcommit s t \<and> vm_manifests t = vm_manifests s"
  using assms
proof (induction vs arbitrary: s effs)
  case Nil
  then show ?case by (simp add: no_overcommit_le)
next
  case (Cons p vs)
  obtain v m where p: "p = (v, m)" by fastforce
  let ?s1 = "fst (replace_vm clock tell_ok (v, m) s)"
  have k: "replace_keeps v s ?s1"
    using Cons.prems p by (intro replace_vm_keeps) auto
  have "let t = fst (foldl (replace_step clock tell_ok) (?s1, effs @ snd (replace_vm clock tell_ok (v, m) s)) vs) in
    sched_inv t \<and> no_overcommit ?s1 t \<and> vm_manifests t = vm_manifests ?s1"
  proof (rule Cons.IH)
    show "sched_inv ?s1" using k by (simp add: replace_keeps_def)
    show "distinct (map fst vs)" using Cons.prems(2) by simp
    show "\<forall>(w, n) \<in> set vs. map_of (vm_manifests ?s1) w = Some n \<and> unplaced (vm_placements ?s1) w"
      using k Cons.prems(2,3) p by (force simp: replace_keeps_def unplaced_def)
  qed
  moreover have "replace_step clock tell_ok (s, effs) p = (?s1, effs @ snd (replace_vm clock tell_ok (v, m) s))"
    by (simp add: replace_step_def case_prod_unfold Let_def p)
  ultimately show ?case
    using k no_overcommit_trans by (auto simp: Let_def replace_keeps_def)
qed

lemma unplaced_vms_spec:
  assumes "sched_inv s"
  shows "distinct (map fst (unplaced_vms s))"
    and "\<forall>(v, m) \<in> set (unplaced_vms s). map_of (vm_manifests s) v = Some m \<and> unplaced (vm_placements s) v"
  using assms by (auto simp: unplaced_vms_def sched_inv_defs hm_wf_def distinct_map_filter unplaced_def
      split: option.splits)

definition expire_pending :: "instant \<Rightarrow> SchedulerActor \<Rightarrow> SchedulerActor" where
  "expire_pending now s =
     (let (ps, dc) = cleanup_unresolved_vm_cache now (vm_placements s) (vm_data_cache s)
      in invalidate_pending_resources (s\<lparr>vm_placements := ps, vm_data_cache := dc\<rparr>))"

lemma reconcile_eq:
  "handle_ReconcileVmPlacements now clock tell_ok s =
     foldl (replace_step clock tell_ok) (expire_pending now s, []) (unplaced_vms (expire_pending now s))"
  by (simp add: handle_ReconcileVmPlacements_def expire_pending_def case_prod_unfold Let_def)

lemma expire_pending_inv: "sched_inv s \<Longrightarrow> sched_inv (expire_pending now s)"
  by (simp add: expire_pending_def case_prod_unfold Let_def sched_inv_defs
      cleanup_unresolved_placements cleanup_unresolved_cache_wf)

lemma expire_pending_no_overcommit: "no_overcommit s (expire_pending now s)"
  by (rule no_overcommit_le)
    (auto simp: expire_pending_def case_prod_unfold Let_def cleanup_unresolved_vm_cache_def
      shrink_non_migrating_entries_def pending_count_filter_le intro!: pending_sum_map_le)

lemma reconcile_keeps:
  assumes "sched_inv s"
  shows "sched_inv (fst (handle_ReconcileVmPlacements now clock tell_ok s))"
    and "no_overcommit s (fst (handle_ReconcileVmPlacements now clock tell_ok s))"
    and "vm_manifests (fst (handle_ReconcileVmPlacements now clock tell_ok s)) = vm_manifests s"
proof -
  let ?s1 = "expire_pending now s"
  have inv: "sched_inv ?s1" using assms by (rule expire_pending_inv)
  have man: "vm_manifests ?s1 = vm_manifests s"
    by (simp add: expire_pending_def case_prod_unfold Let_def)
  note loop = replace_loop_keeps [OF inv unplaced_vms_spec [OF inv], of clock tell_ok "[]"]
  show "sched_inv (fst (handle_ReconcileVmPlacements now clock tell_ok s))"
    "vm_manifests (fst (handle_ReconcileVmPlacements now clock tell_ok s)) = vm_manifests s"
    using loop man by (simp_all add: reconcile_eq Let_def)
  show "no_overcommit s (fst (handle_ReconcileVmPlacements now clock tell_ok s))"
    using loop no_overcommit_trans [OF expire_pending_no_overcommit] by (auto simp: reconcile_eq Let_def)
qed

section \<open>The scheduler as a transition system\<close>

inductive sched_step :: "SchedulerActor \<Rightarrow> SchedulerActor \<Rightarrow> bool" where
  on_link_died: "sched_step s (fst (SchedulerActor_on_link_died alive i s))"
| on_create: "sched_step s (fst (SchedulerActor_CreateVM tb fb now ask ex msg s))"
| on_delete: "sched_step s (fst (SchedulerActor_DeleteVM lookup sent dmsg s))"
| on_shutdown: "sched_step s (fst (SchedulerActor_ShutdownVM lookup sent smsg s))"
| on_vm_discovered: "sched_step s (handle_VmActorDiscovered fin ok t i s)"
| on_agent_discovered: "sched_step s (handle_AgentActorDiscovered fin ok t i s)"
| on_vm_updated: "sched_step s (handle_VmUpdated now i data s)"
| on_vm_stopped: "sched_step s (handle_VmUpdaterStopped i s)"
| on_agent_updated: "sched_step s (handle_AgentUpdated now i i upd s)"
| on_agent_stopped: "sched_step s (handle_AgentUpdaterStopped i s)"
| on_reconcile: "sched_step s (fst (handle_ReconcileVmPlacements now clock tell_ok s))"

definition sched_init :: "SchedulerActor \<Rightarrow> bool" where
  "sched_init s \<longleftrightarrow> (\<exists>finder. s = SchedulerActor_on_start finder)"

lemmas handler_invs = link_died_inv create_inv delete_inv shutdown_inv vm_discovered_inv
  agent_discovered_inv vm_updated_inv vm_stopped_inv agent_updated_inv agent_stopped_inv reconcile_keeps(1)

interpretation scheduler: invariant_system sched_init sched_step sched_inv
proof unfold_locales
  fix s assume "sched_init s"
  then show "sched_inv s"
    by (auto simp: sched_init_def SchedulerActor_on_start_def sched_inv_defs placements_ok_def pending_coherent_def)
next
  fix s t assume "sched_inv s" and "sched_step s t"
  from this(2,1) show "sched_inv t"
    by (induction rule: sched_step.induct) (auto intro: handler_invs)
qed

end
