(* ===== verification/Scheduler_Correctness.thy ===== *)
theory Scheduler_Correctness
  imports Scheduler_Invariants Samples
begin

text \<open>
  What the scheduler guarantees: placement decisions are feasible and optimal, reservations never
  exceed capacity, intent follows create and delete requests, and placements follow the observed
  cluster.
\<close>

section \<open>A sample cluster\<close>

definition sample_agent :: CachedAgentActor where
  "sample_agent = \<lparr>ca_actor_ref = 1, ca_data = sample_status, ca_revision = 3\<rparr>"

definition sample_sched :: SchedulerActor where
  "sample_sched =
     \<lparr>agent_data_cache = [(1, sample_agent)], agent_keepalive_tasks = [], vm_actorid_ulid_map = [],
      vm_manifests = [], vm_placements = [], vm_data_cache = [], vm_keepalive_tasks = [],
      pending_resources_cache = None, agent_vm_index = [(1, [])], actor_kinds = [],
      cache_actor_finder = None\<rparr>"

lemma sample_sched_inv: "sched_inv sample_sched"
  by (simp add: sample_sched_def sched_inv_defs placements_ok_def pending_coherent_def hm_wf_def sample_agent_def)

lemma sample_plausible: "plausible sample_status"
  by (simp add: plausible_def sample_defs)

section \<open>Scheduling decisions\<close>

text \<open>An agent that can take the request: the request fits beside usage and reservations, and all
  required affinity rules hold.\<close>

definition suitable :: "SchedulerActor \<Rightarrow> CreateVM \<Rightarrow> actor_id \<Rightarrow> CachedAgentActor \<Rightarrow> bool" where
  "suitable s msg a c \<longleftrightarrow>
     demand_vcpus s a (ca_data c) + unat (vcpus (compute (desired (create_config msg)))) \<le> 2 * unat (st_vcpus (ca_data c)) \<and>
     demand_memory s a (ca_data c) + unat (memory_bytes (compute (desired (create_config msg)))) \<le> unat (st_ram (ca_data c)) \<and>
     required_hold s c (affinity (placement (desired (create_config msg))))"

text \<open>The headroom part of an agent's score under the current reservations.\<close>

definition headroom_score :: "SchedulerActor \<Rightarrow> CreateVM \<Rightarrow> CachedAgentActor \<Rightarrow> ieee" where
  "headroom_score s msg c =
     general (score_agent s msg c (pending_resources_by_agent (vm_manifests s) (vm_placements s)))"

lemma rule_tables_cache [simp]: "rule_tables (s\<lparr>pending_resources_cache := x\<rparr>) = rule_tables s"
  by (simp add: rule_tables_def fun_eq_iff split: AffinityType.splits)

lemma required_hold_cache [simp]: "required_hold (s\<lparr>pending_resources_cache := x\<rparr>) = required_hold s"
  by (simp add: required_hold_def fun_eq_iff)

lemma affinity_loop_cache [simp]: "affinity_loop (s\<lparr>pending_resources_cache := x\<rparr>) a rs acc = affinity_loop s a rs acc"
  by (induction rs arbitrary: acc) (simp_all split: option.splits)

lemma score_agent_reserved:
  assumes "reserved p (ca_actor_ref c) = reserved q (ca_actor_ref c)"
  shows "score_agent (s\<lparr>pending_resources_cache := x\<rparr>) msg c p = score_agent s msg c q"
  by (simp only: score_agent_def assms affinity_loop_cache)

lemma eligible_suitable:
  assumes "sched_inv s" and "map_of (agent_data_cache s) a = Some c" and "plausible (ca_data c)"
  shows "eligible (fst (pending_resources s)) msg (snd (pending_resources s)) c \<longleftrightarrow> suitable s msg a c"
proof -
  have a: "ca_actor_ref c = a" using assms(1,2) by (simp add: sched_inv_defs)
  have r: "reserved (snd (pending_resources s)) a = pending_resources_for_agent (vm_manifests s) (vm_placements s) a"
    using assms(1) by (simp add: sched_inv_def pending_resources_coherent(1))
  note tot = pending_resources_totals [of "vm_manifests s" "vm_placements s" a]
  show ?thesis
    using assms(3)
    by (auto simp: eligible_def suitable_def fits_check_exact capacity_left_def a r tot
        demand_vcpus_def demand_memory_def plausible_def min_def)
qed

text \<open>The score of a decision: computed from the current placements, with the preferred weights as its first part.\<close>

lemma decision_score:
  assumes "sched_inv s"
  shows "score_agent (fst (pending_resources s)) msg c (snd (pending_resources s)) =
    score_agent s msg c (pending_resources_by_agent (vm_manifests s) (vm_placements s))"
  unfolding pending_resources_state
  by (rule score_agent_reserved)
    (use assms in \<open>simp add: sched_inv_def pending_resources_coherent(1) pending_resources_for_agent_def\<close>)

lemma decision_affinity:
  assumes "0 < vcpus (compute (desired (create_config msg)))" and "0 < memory_bytes (compute (desired (create_config msg)))"
    and "eligible (fst (pending_resources s)) msg (snd (pending_resources s)) c"
  shows "affinity_total (score_agent (fst (pending_resources s)) msg c (snd (pending_resources s))) =
    preferred_total s c (affinity (placement (desired (create_config msg))))"
  using score_agent_cases [OF assms(1,2), of "fst (pending_resources s)" "snd (pending_resources s)" c] assms(3)
  by (simp add: preferred_total_def preferred_weight_def cong: AffinityStrictness.case_cong)

text \<open>C1. A scheduling decision is feasible and optimal: the chosen agent can take the request within
  2 times its vCPUs and its RAM, counting all pending reservations, and satisfies every required
  affinity rule; no other such agent has a higher total of preferred weights, nor the same total and
  more headroom. An error is returned exactly when no known agent is suitable.\<close>

theorem schedule_agent_optimal:
  assumes "sched_inv s"
    and "0 < vcpus (compute (desired (create_config msg)))"
    and "0 < memory_bytes (compute (desired (create_config msg)))"
    and "\<forall>(a, c) \<in> set (agent_data_cache s). plausible (ca_data c)"
  defines "rules \<equiv> affinity (placement (desired (create_config msg)))"
  shows "case snd (schedule_agent msg s) of
      Inr a \<Rightarrow> \<exists>c. map_of (agent_data_cache s) a = Some c \<and> suitable s msg a c \<and>
        (\<forall>b d. map_of (agent_data_cache s) b = Some d \<and> suitable s msg b d \<longrightarrow>
           preferred_total s d rules \<le> preferred_total s c rules \<and>
           (preferred_total s d rules = preferred_total s c rules \<longrightarrow>
              \<not> headroom_score s msg c < headroom_score s msg d))
    | Inl e \<Rightarrow> e = ''No valid agents found.'' \<and>
        (\<forall>a c. map_of (agent_data_cache s) a = Some c \<longrightarrow> \<not> suitable s msg a c)"
proof -
  let ?s1 = "fst (pending_resources s)" and ?p = "snd (pending_resources s)"
  let ?sc = "\<lambda>c. score_agent ?s1 msg c ?p"
  have wf: "hm_wf (agent_data_cache s)" using assms(1) by (simp add: sched_inv_defs)
  have pl: "plausible (ca_data c)" if "map_of (agent_data_cache s) a = Some c" for a c
    using assms(4) map_of_SomeD [OF that] by auto
  note el = eligible_suitable [OF assms(1) _ pl]
  note aff = decision_affinity [OF assms(2,3), folded rules_def]
  note best = best_agent_cases [OF assms(2,3), of ?s1 ?p]
  show ?thesis
  proof (cases "best_agent ?s1 msg ?p")
    case None
    have "\<not> suitable s msg a c" if "map_of (agent_data_cache s) a = Some c" for a c
      using best None el [OF that that] that hm_values_conv [OF wf, of c] by auto
    with None show ?thesis by (simp add: schedule_agent_eq chosen_def)
  next
    case (Some c)
    with best have c: "c \<in> set (hm_values (agent_data_cache s))" "eligible ?s1 msg ?p c"
      and max: "\<forall>d \<in> set (hm_values (agent_data_cache s)). \<not> better (?sc d) (?sc c)" by simp_all
    obtain a where a: "map_of (agent_data_cache s) a = Some c"
      using c(1) hm_values_conv [OF wf] by blast
    then have ref: "ca_actor_ref c = a" using assms(1) by (simp add: sched_inv_defs)
    have "preferred_total s d rules \<le> preferred_total s c rules \<and>
        (preferred_total s d rules = preferred_total s c rules \<longrightarrow> \<not> headroom_score s msg c < headroom_score s msg d)"
      if d: "map_of (agent_data_cache s) b = Some d" "suitable s msg b d" for b d
    proof -
      have "d \<in> set (hm_values (agent_data_cache s))" using d(1) hm_values_conv [OF wf] by blast
      moreover have "eligible ?s1 msg ?p d" using d el by blast
      ultimately have "\<not> better (?sc d) (?sc c)" and d_aff: "affinity_total (?sc d) = preferred_total s d rules"
        using max aff by blast+
      moreover have "general (?sc e) = headroom_score s msg e" for e
        by (simp only: headroom_score_def decision_score [OF assms(1)])
      ultimately show ?thesis
        unfolding better_iff d_aff aff [OF c(2)] by auto
    qed
    with a ref el [OF a a] c(2) Some show ?thesis by (auto simp: schedule_agent_eq chosen_def)
  qed
qed

theorem schedule_agent_optimal_witness:
  "snd (schedule_agent sample_create sample_sched) = Inr 1"
proof -
  have pos: "0 < vcpus (compute (desired (create_config sample_create)))"
    "0 < memory_bytes (compute (desired (create_config sample_create)))"
    by (simp_all add: sample_defs)
  have pl: "\<forall>(a, c) \<in> set (agent_data_cache sample_sched). plausible (ca_data c)"
    by (simp add: sample_sched_def sample_agent_def sample_plausible)
  have one: "map_of (agent_data_cache sample_sched) a = Some c \<longleftrightarrow> a = 1 \<and> c = sample_agent" for a c
    by (auto simp: sample_sched_def)
  have suit: "suitable sample_sched sample_create 1 sample_agent"
    by (simp add: suitable_def demand_vcpus_def demand_memory_def pending_sum_def sample_sched_def
        sample_agent_def sample_defs required_hold_def)
  show ?thesis
    using schedule_agent_optimal [OF sample_sched_inv pos pl] suit one
    by (auto split: sum.splits)
qed

text \<open>The pending resources of an agent are the exact sums of the vCPUs and of the memory of the
  pending placements on it, counted with multiplicity, clamped to the range of the counters.\<close>

lemma pending_resources_saturated_sums:
  "unat (fst (pending_resources_for_agent ms ps a)) =
     min (2 ^ 32 - 1) (\<Sum>(v, es) \<leftarrow> ps. case map_of ms v of None \<Rightarrow> 0
       | Some m \<Rightarrow> unat (vcpus (compute (desired m))) * length [e \<leftarrow> es. lifecycle e = Pending \<and> pl_agent e = a]) \<and>
   unat (snd (pending_resources_for_agent ms ps a)) =
     min (2 ^ 64 - 1) (\<Sum>(v, es) \<leftarrow> ps. case map_of ms v of None \<Rightarrow> 0
       | Some m \<Rightarrow> unat (memory_bytes (compute (desired m))) * length [e \<leftarrow> es. lifecycle e = Pending \<and> pl_agent e = a])"
  using pending_resources_totals [of ms ps a]
  unfolding pending_sum_def pending_count_def comp_def by blast

text \<open>C19. An affinity rule holds exactly when some requirement is met by every metadata object in its
  scope, and there is at least one object, negated for inverse rules.\<close>

theorem affinity_rule_meaning:
  "evaluate_affinity_rule tables rule \<longleftrightarrow>
     (tables \<noteq> [] \<and> (\<exists>r \<in> set (requirements rule). \<forall>t \<in> set tables.
        evaluate_table_value (map_of (case table r of Label \<Rightarrow> fst t | Annotation \<Rightarrow> snd t) (key r)) r)) \<noteq> inverse rule"
  by (simp add: evaluate_affinity_rule_def follows_any_iff requirement_table_def)

theorem affinity_rule_meaning_witness:
  "evaluate_affinity_rule [([(''app'', ''db'')], [])]
     \<lparr>strictness = Required, affinity_type = AffinityVirtualMachine, inverse = False,
      requirements = [\<lparr>key = ''app'', table = Label, operator = In, values = [''db'']\<rparr>]\<rparr>"
  unfolding affinity_rule_meaning by (simp add: evaluate_table_value_def)

section \<open>Capacity\<close>

text \<open>C3. Handling a create request never loads an agent beyond its capacity: afterwards every agent's
  reported usage plus reservations fits into 2 times its vCPUs and its RAM, or has not grown.\<close>

theorem create_never_overcommits:
  assumes "sched_inv s" and "map_of (agent_data_cache s) a = Some c" and "plausible (ca_data c)"
  shows "let t = fst (SchedulerActor_CreateVM to_bytes from_bytes now ask_reply actor_exists msg s) in
    demand_fits t a (ca_data c) \<or>
    demand_vcpus t a (ca_data c) \<le> demand_vcpus s a (ca_data c) \<and> demand_memory t a (ca_data c) \<le> demand_memory s a (ca_data c)"
  using create_no_overcommit [OF assms(1)] assms(2,3) unfolding no_overcommit_def Let_def by blast

theorem create_never_overcommits_witness:
  "let t = fst (SchedulerActor_CreateVM (\<lambda>_. []) (\<lambda>_. None) 5 (\<lambda>_. Inl ''lost'') True sample_create sample_sched) in
     demand_fits t 1 sample_status \<or>
     demand_vcpus t 1 sample_status \<le> demand_vcpus sample_sched 1 sample_status \<and>
     demand_memory t 1 sample_status \<le> demand_memory sample_sched 1 sample_status"
proof -
  have "map_of (agent_data_cache sample_sched) 1 = Some sample_agent" "plausible (ca_data sample_agent)"
    by (simp_all add: sample_sched_def sample_agent_def sample_plausible)
  from create_never_overcommits [OF sample_sched_inv this] show ?thesis
    by (simp add: Let_def sample_agent_def)
qed

text \<open>C4. The same holds for a whole reconciliation pass, which may place any number of VMs: each
  attempt sees the reservations of the previous ones.\<close>

theorem reconcile_never_overcommits:
  assumes "sched_inv s" and "map_of (agent_data_cache s) a = Some c" and "plausible (ca_data c)"
  shows "let t = fst (handle_ReconcileVmPlacements now clock tell_ok s) in
    demand_fits t a (ca_data c) \<or>
    demand_vcpus t a (ca_data c) \<le> demand_vcpus s a (ca_data c) \<and> demand_memory t a (ca_data c) \<le> demand_memory s a (ca_data c)"
  using reconcile_keeps(2) [OF assms(1)] assms(2,3) unfolding no_overcommit_def Let_def by blast

theorem reconcile_never_overcommits_witness:
  "let t = fst (handle_ReconcileVmPlacements 9 (\<lambda>_. 9) (\<lambda>_ _. True) sample_sched) in
     demand_fits t 1 sample_status \<or>
     demand_vcpus t 1 sample_status \<le> demand_vcpus sample_sched 1 sample_status \<and>
     demand_memory t 1 sample_status \<le> demand_memory sample_sched 1 sample_status"
proof -
  have "map_of (agent_data_cache sample_sched) 1 = Some sample_agent" "plausible (ca_data sample_agent)"
    by (simp_all add: sample_sched_def sample_agent_def sample_plausible)
  from reconcile_never_overcommits [OF sample_sched_inv this] show ?thesis
    by (simp add: Let_def sample_agent_def)
qed

section \<open>Reachable states\<close>

text \<open>A sample run: the scheduler discovers a VM, then the agent that reports it.\<close>

definition sample_reached :: SchedulerActor where
  "sample_reached =
     handle_AgentUpdated 6 1 1 (Full 3 (sample_status\<lparr>st_vms := [7]\<rparr>))
       (handle_VmUpdated 5 2 \<lparr>info_vmid = 7, info_config = Some sample_manifest\<rparr> (SchedulerActor_on_start 0))"

lemma sample_reached_reachable: "reachable sched_init sched_step sample_reached"
proof -
  have "reachable sched_init sched_step (SchedulerActor_on_start 0)"
    by (rule reach_init) (auto simp: sched_init_def)
  then have "reachable sched_init sched_step
      (handle_VmUpdated 5 2 \<lparr>info_vmid = 7, info_config = Some sample_manifest\<rparr> (SchedulerActor_on_start 0))"
    by (rule reach_step) (rule on_vm_updated)
  then show ?thesis
    unfolding sample_reached_def by (rule reach_step) (rule on_agent_updated)
qed

lemma sample_reached_placements:
  "vm_placements sample_reached = [(7, [running_placement 1 6])]"
  "vm_manifests sample_reached = [(7, sample_manifest)]"
  "pending_resources_cache sample_reached = None"
  by (simp_all add: sample_reached_def handle_AgentUpdated_def handle_VmUpdated_def first_snapshot_def Let_def
      SchedulerActor_on_start_def reconcile_agent_placements_def reconcile_discovered_vm_def hm_upsert_def
      hm_insert_def hm_map_def shrink_non_migrating_entries_def List.map_filter_simps snapshot_entry_def
      confirm_def running_placement_def empty_vmids_def sample_status_def)

text \<open>C5. Whatever messages the scheduler has handled since it started, every VM with a placement still
  has its manifest, has at most one placement per agent, and a placement is running exactly when an
  agent's status has confirmed it.\<close>

theorem scheduler_placements_consistent:
  assumes "reachable sched_init sched_step s" and "map_of (vm_placements s) v = Some es"
  shows "map_of (vm_manifests s) v \<noteq> None \<and> distinct (map pl_agent es) \<and>
    (\<forall>e \<in> set es. lifecycle e = Running \<longleftrightarrow> last_confirmed_at e \<noteq> None)"
  using scheduler.reachable_inv [OF assms(1)] assms(2)
  by (auto simp: sched_inv_def placements_ok_def entries_ok_def)

theorem scheduler_placements_consistent_witness:
  "map_of (vm_placements sample_reached) 7 = Some [running_placement 1 6] \<and> map_of (vm_manifests sample_reached) 7 \<noteq> None"
  using scheduler_placements_consistent [OF sample_reached_reachable, of 7] sample_reached_placements by simp

text \<open>C2. The lazily cached totals of pending resources are never stale: in every reachable state the
  totals a scheduling decision reads are those computed from the current manifests and placements.\<close>

theorem pending_cache_never_stale:
  assumes "reachable sched_init sched_step s"
  shows "reserved (snd (pending_resources s)) a =
    pending_resources_for_agent (vm_manifests s) (vm_placements s) a"
  using scheduler.reachable_inv [OF assms] by (intro pending_resources_coherent(1)) (simp add: sched_inv_def)

theorem pending_cache_never_stale_witness:
  "reserved (snd (pending_resources sample_reached)) 1 = (0, 0)"
  using pending_cache_never_stale [OF sample_reached_reachable, of 1]
  by (simp add: pending_resources_for_agent_def pending_resources_by_agent_def sample_reached_placements
      reserve_entries_def running_placement_def reserved_def)

section \<open>Create and delete requests\<close>

lemma create_new:
  assumes "map_of (vm_manifests s) (create_vmid msg) = None" and "snd (schedule_agent msg s) = Inr a"
  shows "SchedulerActor_CreateVM tb fb now ask ex msg s =
    (settle_create fb (create_vmid msg) (ask a) ex
       (reserve_placement (create_vmid msg) a now
         (s\<lparr>vm_manifests := hm_insert (create_vmid msg) (create_config msg) (vm_manifests s),
            pending_resources_cache := None\<rparr>)),
     ask a, [AskCreate a msg])"
  using assms schedule_agent_state [of msg s]
  by (cases "schedule_agent msg s") (simp add: SchedulerActor_CreateVM_def Let_def invalidate_pending_resources_def)

lemma create_rejected:
  assumes "map_of (vm_manifests s) (create_vmid msg) = None" and "snd (schedule_agent msg s) = Inl e"
  shows "SchedulerActor_CreateVM tb fb now ask ex msg s = (fst (pending_resources s), Inl e, [])"
  using assms schedule_agent_state [of msg s]
  by (cases "schedule_agent msg s") (simp add: SchedulerActor_CreateVM_def)

lemma settle_ok_fields:
  "vm_manifests (settle_create fb v (Inr r) ex s) = vm_manifests s"
  "vm_placements (settle_create fb v (Inr r) ex s) = vm_placements s"
  "vm_data_cache (settle_create fb v (Inr r) ex s) = vm_data_cache s"
  by (simp_all add: settle_create_def split: option.splits)

lemma no_placement_without_manifest:
  "sched_inv s \<Longrightarrow> map_of (vm_manifests s) v = None \<Longrightarrow> map_of (vm_placements s) v = None"
  by (cases "map_of (vm_placements s) v") (fastforce simp: sched_inv_def placements_ok_def)+

text \<open>C12. A successful create records the intent once: the manifest and a single pending placement on
  the agent that was asked. Repeating the request has no further effect and returns the recorded
  manifest; a request for the same VM with another manifest is refused and changes nothing.\<close>

theorem create_records_intent_once:
  assumes "sched_inv s" and "map_of (vm_manifests s) (create_vmid msg) = None"
    and "SchedulerActor_CreateVM to_bytes from_bytes now ask_reply actor_exists msg s = (t, Inr reply, effects)"
  shows "\<exists>a. effects = [AskCreate a msg] \<and> snd (schedule_agent msg s) = Inr a \<and>
      map_of (vm_manifests t) (create_vmid msg) = Some (create_config msg) \<and>
      map_of (vm_placements t) (create_vmid msg) = Some [pending_placement a now] \<and>
      SchedulerActor_CreateVM to_bytes from_bytes now' ask_reply' actor_exists' msg t =
        (t, Inr \<lparr>reply_config = Some (create_config msg), reply_actor_id = existing_actor to_bytes (create_vmid msg) t\<rparr>, []) \<and>
      (other \<noteq> create_config msg \<longrightarrow>
        SchedulerActor_CreateVM to_bytes from_bytes now' ask_reply' actor_exists' (msg\<lparr>create_config := other\<rparr>) t =
          (t, Inl ''conflicting create request for existing VM ID'', []))"
proof (cases "snd (schedule_agent msg s)")
  case (Inl e)
  with assms(2,3) create_rejected [OF assms(2) Inl] show ?thesis by simp
next
  case (Inr a)
  note eq = create_new [OF assms(2) Inr, of to_bytes from_bytes now ask_reply actor_exists]
  with assms(3) have ask: "ask_reply a = Inr reply" and eff: "effects = [AskCreate a msg]" by simp_all
  have free: "map_of (vm_placements s) (create_vmid msg) = None"
    using assms(1,2) by (rule no_placement_without_manifest)
  have m: "map_of (vm_manifests t) (create_vmid msg) = Some (create_config msg)"
    and p: "map_of (vm_placements t) (create_vmid msg) = Some [pending_placement a now]"
    using assms(3) eq ask free by (auto simp: settle_ok_fields reserve_placement_def)
  have "other \<noteq> create_config msg \<longrightarrow>
      SchedulerActor_CreateVM to_bytes from_bytes now' ask_reply' actor_exists' (msg\<lparr>create_config := other\<rparr>) t =
        (t, Inl ''conflicting create request for existing VM ID'', [])"
    using m by (auto simp: SchedulerActor_CreateVM_def)
  with m p eff Inr show ?thesis
    by (intro exI [of _ a]) (simp add: SchedulerActor_CreateVM_def)
qed

text \<open>The sample cluster accepts the sample request.\<close>

lemma sample_schedule_general:
  assumes "sched_inv s" and "agent_data_cache s = [(1, sample_agent\<lparr>ca_revision := n\<rparr>)]" and "vm_placements s = []"
  shows "snd (schedule_agent sample_create s) = Inr 1"
proof -
  let ?s1 = "fst (pending_resources s)" and ?p = "snd (pending_resources s)" and ?a = "sample_agent\<lparr>ca_revision := n\<rparr>"
  have pos: "0 < vcpus (compute (desired (create_config sample_create)))"
    "0 < memory_bytes (compute (desired (create_config sample_create)))"
    by (simp_all add: sample_defs)
  have "suitable s sample_create 1 ?a"
    by (simp add: suitable_def demand_vcpus_def demand_memory_def pending_sum_def assms
        sample_agent_def sample_defs required_hold_def)
  then have "eligible ?s1 sample_create ?p ?a"
    using eligible_suitable [OF assms(1), of 1 ?a] assms(2) sample_plausible
    by (simp add: sample_agent_def)
  moreover have "hm_values (agent_data_cache ?s1) = [?a]"
    by (simp add: assms hm_values_def)
  ultimately have "best_agent ?s1 sample_create ?p = Some ?a"
    using best_agent_cases [OF pos, of ?s1 ?p] by (auto split: option.splits)
  then show ?thesis by (simp add: schedule_agent_eq chosen_def sample_agent_def)
qed

lemma sample_schedule: "snd (schedule_agent sample_create sample_sched) = Inr 1"
  by (rule sample_schedule_general [OF sample_sched_inv, of 3]) (simp_all add: sample_sched_def sample_agent_def)

lemma sample_sched_fresh: "map_of (vm_manifests sample_sched) (create_vmid sample_create) = None"
  by (simp add: sample_sched_def)

theorem create_records_intent_once_witness:
  "\<exists>t reply effects.
     SchedulerActor_CreateVM (\<lambda>_. []) (\<lambda>_. None) 5 (\<lambda>_. Inr \<lparr>reply_config = None, reply_actor_id = None\<rparr>) False sample_create sample_sched
       = (t, Inr reply, effects) \<and> effects = [AskCreate 1 sample_create] \<and>
     map_of (vm_placements t) 7 = Some [pending_placement 1 5]"
proof -
  let ?ask = "\<lambda>_ :: actor_id. Inr \<lparr>reply_config = None, reply_actor_id = None\<rparr> :: string + CreateVMReply"
  obtain t where t: "SchedulerActor_CreateVM (\<lambda>_. []) (\<lambda>_. None) 5 ?ask False sample_create sample_sched
      = (t, Inr \<lparr>reply_config = None, reply_actor_id = None\<rparr>, [AskCreate 1 sample_create])"
    using create_new [OF sample_sched_fresh sample_schedule] by simp
  have "create_vmid sample_create = 7" by (simp add: sample_defs)
  with create_records_intent_once [OF sample_sched_inv sample_sched_fresh t] t show ?thesis
    by (auto simp: sample_schedule)
qed

text \<open>C13. A create request that fails without leaving a VM actor behind is undone: the error is
  returned and every manifest, placement and actor association is as before the request, so nothing
  will be retried or reserved for it.\<close>

theorem failed_create_undone:
  assumes "sched_inv s" and "map_of (vm_manifests s) (create_vmid msg) = None"
    and "\<forall>a. \<exists>e. ask_reply a = Inl e"
  shows "let (t, result, effects) = SchedulerActor_CreateVM to_bytes from_bytes now ask_reply False msg s in
    (\<exists>e. result = Inl e) \<and> map_of (vm_manifests t) = map_of (vm_manifests s) \<and>
    map_of (vm_placements t) = map_of (vm_placements s) \<and> vm_actorid_ulid_map t = vm_actorid_ulid_map s \<and>
    map_of (vm_data_cache t) = (map_of (vm_data_cache s))(create_vmid msg :=
      if \<exists>a. snd (schedule_agent msg s) = Inr a then None else map_of (vm_data_cache s) (create_vmid msg))"
proof (cases "snd (schedule_agent msg s)")
  case (Inl e)
  with create_rejected [OF assms(2) Inl] show ?thesis by simp
next
  case (Inr a)
  obtain e where e: "ask_reply a = Inl e" using assms(3) by blast
  have free: "map_of (vm_placements s) (create_vmid msg) = None"
    using assms(1,2) by (rule no_placement_without_manifest)
  show ?thesis
    unfolding create_new [OF assms(2) Inr] e
    using assms(2) free Inr
    by (auto simp: settle_create_def reply_actor_def rollback_failed_create_def remove_vm_state_def
        reserve_placement_def fun_eq_iff)
qed

theorem failed_create_undone_witness:
  "map_of (vm_placements (fst (SchedulerActor_CreateVM (\<lambda>_. []) (\<lambda>_. None) 5 (\<lambda>_. Inl ''lost'') False sample_create sample_sched)))
     = map_of (vm_placements sample_sched)"
  using failed_create_undone [OF sample_sched_inv sample_sched_fresh, of "\<lambda>_. Inl ''lost''" "\<lambda>_. []" "\<lambda>_. None" 5]
  by (simp add: case_prod_unfold Let_def)

section \<open>Reconciliation creates\<close>

lemma replace_step_simps:
  "fst (replace_step clock tell_ok st p) = fst (replace_vm clock tell_ok p (fst st))"
  "snd (replace_step clock tell_ok st p) = snd st @ snd (replace_vm clock tell_ok p (fst st))"
  by (simp_all add: replace_step_def case_prod_unfold Let_def)

lemma replace_vm_effects:
  "snd (replace_vm clock tell_ok (v, m) s) = [] \<or>
   (\<exists>a. snd (replace_vm clock tell_ok (v, m) s) = [TellCreate a \<lparr>create_vmid = v, create_config = m\<rparr>] \<and>
      vm_placements (fst (replace_vm clock tell_ok (v, m) s)) =
        hm_upsert v [] (\<lambda>es. es @ [pending_placement a (clock v)]) (vm_placements s))"
  using schedule_agent_state [of "\<lparr>create_vmid = v, create_config = m\<rparr>" s]
  by (cases "schedule_agent \<lparr>create_vmid = v, create_config = m\<rparr> s")
    (auto simp: replace_vm_def Let_def reserve_placement_def split: sum.splits)

lemma replace_vm_other:
  "fst q \<noteq> w \<Longrightarrow> map_of (vm_placements (fst (replace_vm clock tell_ok q s))) w = map_of (vm_placements s) w"
  using schedule_agent_state [of "\<lparr>create_vmid = fst q, create_config = snd q\<rparr>" s]
  by (cases q; cases "schedule_agent \<lparr>create_vmid = fst q, create_config = snd q\<rparr> s")
    (auto simp: replace_vm_def Let_def reserve_placement_def split: sum.splits)

lemma replace_loop_frame:
  "w \<notin> fst ` set vs \<Longrightarrow>
     map_of (vm_placements (fst (foldl (replace_step clock tell_ok) st vs))) w = map_of (vm_placements (fst st)) w"
  by (induction vs arbitrary: st) (auto simp: replace_step_simps replace_vm_other)

text \<open>Every create request a pass sends is for an unplaced VM of the list, and leaves it with one
  pending placement on the agent it was sent to.\<close>

lemma replace_loop_effects:
  assumes "sched_inv s" and "distinct (map fst vs)"
    and "\<forall>(v, m) \<in> set vs. map_of (vm_manifests s) v = Some m \<and> unplaced (vm_placements s) v"
    and "eff \<in> set (snd (foldl (replace_step clock tell_ok) (s, effs) vs))" and "eff \<notin> set effs"
  shows "\<exists>a v m. eff = TellCreate a \<lparr>create_vmid = v, create_config = m\<rparr> \<and> (v, m) \<in> set vs \<and>
    map_of (vm_placements (fst (foldl (replace_step clock tell_ok) (s, effs) vs))) v = Some [pending_placement a (clock v)]"
  using assms
proof (induction vs arbitrary: s effs)
  case (Cons p vs)
  obtain v m where p: "p = (v, m)" by fastforce
  let ?s1 = "fst (replace_vm clock tell_ok (v, m) s)" and ?e1 = "effs @ snd (replace_vm clock tell_ok (v, m) s)"
  have free: "unplaced (vm_placements s) v" and "map_of (vm_manifests s) v = Some m"
    using Cons.prems(3) p by auto
  then have k: "replace_keeps v s ?s1" using Cons.prems(1) by (intro replace_vm_keeps)
  have step: "replace_step clock tell_ok (s, effs) p = (?s1, ?e1)"
    by (simp add: prod_eq_iff replace_step_simps p)
  have later: "\<forall>(w, n) \<in> set vs. map_of (vm_manifests ?s1) w = Some n \<and> unplaced (vm_placements ?s1) w"
    using k Cons.prems(2,3) p by (force simp: replace_keeps_def unplaced_def)
  have inv1: "sched_inv ?s1" using k by (simp add: replace_keeps_def)
  have dist: "distinct (map fst vs)" and fresh: "v \<notin> fst ` set vs" using Cons.prems(2) p by auto
  have frame: "map_of (vm_placements (fst (foldl (replace_step clock tell_ok) (?s1, ?e1) vs))) v = map_of (vm_placements ?s1) v"
    using replace_loop_frame [OF fresh] by simp
  show ?case
  proof (cases "eff \<in> set ?e1")
    case True
    with Cons.prems(5) replace_vm_effects [of clock tell_ok v m s] obtain a where
      "eff = TellCreate a \<lparr>create_vmid = v, create_config = m\<rparr>"
      "vm_placements ?s1 = hm_upsert v [] (\<lambda>es. es @ [pending_placement a (clock v)]) (vm_placements s)" by auto
    moreover have "map_of (vm_placements ?s1) v = Some [pending_placement a (clock v)]"
      using calculation(2) free by (auto simp: unplaced_def split: option.splits)
    ultimately show ?thesis
      using frame p step by auto
  next
    case False
    have "\<exists>a w n. eff = TellCreate a \<lparr>create_vmid = w, create_config = n\<rparr> \<and> (w, n) \<in> set vs \<and>
      map_of (vm_placements (fst (foldl (replace_step clock tell_ok) (?s1, ?e1) vs))) w = Some [pending_placement a (clock w)]"
      using Cons.prems(4) step False by (intro Cons.IH [OF inv1 dist later]) simp_all
    with step show ?thesis by auto
  qed
qed simp

text \<open>C11. A reconciliation pass only recreates VMs that are still wanted: every create request it
  sends carries the manifest on record of a VM that has no placement left after expiry, and the VM
  then has exactly one pending placement, on the agent the request was sent to. Manifests are never
  changed by a pass.\<close>

theorem reconcile_recreates_wanted_vms:
  assumes "sched_inv s" and "eff \<in> set (snd (handle_ReconcileVmPlacements now clock tell_ok s))"
  shows "\<exists>a v m. eff = TellCreate a \<lparr>create_vmid = v, create_config = m\<rparr> \<and>
    map_of (vm_manifests s) v = Some m \<and>
    unplaced (fst (cleanup_unresolved_vm_cache now (vm_placements s) (vm_data_cache s))) v \<and>
    map_of (vm_placements (fst (handle_ReconcileVmPlacements now clock tell_ok s))) v = Some [pending_placement a (clock v)] \<and>
    vm_manifests (fst (handle_ReconcileVmPlacements now clock tell_ok s)) = vm_manifests s"
proof -
  have inv: "sched_inv (expire_pending now s)" using assms(1) by (rule expire_pending_inv)
  note spec = unplaced_vms_spec [OF inv]
  have fields: "vm_manifests (expire_pending now s) = vm_manifests s"
    "vm_placements (expire_pending now s) = fst (cleanup_unresolved_vm_cache now (vm_placements s) (vm_data_cache s))"
    by (simp_all add: expire_pending_def case_prod_unfold Let_def)
  from replace_loop_effects [OF inv spec, of eff clock tell_ok "[]"] assms(2)
  obtain a v m where "eff = TellCreate a \<lparr>create_vmid = v, create_config = m\<rparr>" "(v, m) \<in> set (unplaced_vms (expire_pending now s))"
    "map_of (vm_placements (fst (handle_ReconcileVmPlacements now clock tell_ok s))) v = Some [pending_placement a (clock v)]"
    by (auto simp: reconcile_eq)
  with spec(2) reconcile_keeps(3) [OF assms(1)] fields show ?thesis by fastforce
qed

text \<open>The sample cluster with a VM that lost its placement.\<close>

definition sample_orphan :: SchedulerActor where
  "sample_orphan = sample_sched\<lparr>vm_manifests := [(7, sample_manifest)]\<rparr>"

lemma sample_orphan_inv: "sched_inv sample_orphan"
  using sample_sched_inv
  by (simp add: sample_orphan_def sample_sched_def sched_inv_defs placements_ok_def pending_coherent_def hm_wf_def)

lemma sample_orphan_effects:
  "snd (handle_ReconcileVmPlacements now clock (\<lambda>_ _. True) sample_orphan) = [TellCreate 1 sample_create]"
proof -
  have expired: "expire_pending now sample_orphan = sample_orphan"
    by (simp add: expire_pending_def cleanup_unresolved_vm_cache_def sample_orphan_def sample_sched_def
        hm_map_def empty_vmids_def invalidate_pending_resources_def)
  have vms: "unplaced_vms sample_orphan = [(7, sample_manifest)]"
    by (simp add: unplaced_vms_def sample_orphan_def sample_sched_def)
  have "snd (schedule_agent sample_create sample_orphan) = Inr 1"
    by (rule sample_schedule_general [OF sample_orphan_inv, of 3]) (simp_all add: sample_orphan_def sample_sched_def sample_agent_def)
  then have "snd (replace_vm clock (\<lambda>_ _. True) (7, sample_manifest) sample_orphan) = [TellCreate 1 sample_create]"
    by (cases "schedule_agent sample_create sample_orphan")
      (simp add: replace_vm_def Let_def sample_create_def [symmetric])
  then show ?thesis
    by (simp add: reconcile_eq expired vms replace_step_simps)
qed

theorem reconcile_recreates_wanted_vms_witness:
  "map_of (vm_placements (fst (handle_ReconcileVmPlacements 9 (\<lambda>_. 9) (\<lambda>_ _. True) sample_orphan))) 7
     = Some [pending_placement 1 9]"
  using reconcile_recreates_wanted_vms [OF sample_orphan_inv, of "TellCreate 1 sample_create" 9 "\<lambda>_. 9" "\<lambda>_ _. True"]
    sample_orphan_effects [of 9 "\<lambda>_. 9"]
  by (auto simp: sample_create_def)

text \<open>Progress: with every request delivered, demands only grow during a pass, so an agent that could
  still take a VM at the end could have taken it when the VM was tried.\<close>

lemma schedule_error_unsuitable:
  assumes "sched_inv s" and "snd (schedule_agent msg s) = Inl e"
    and "0 < vcpus (compute (desired (create_config msg)))" and "0 < memory_bytes (compute (desired (create_config msg)))"
    and "map_of (agent_data_cache s) a = Some c" and "plausible (ca_data c)"
  shows "\<not> suitable s msg a c"
proof -
  let ?s1 = "fst (pending_resources s)" and ?p = "snd (pending_resources s)"
  have "best_agent ?s1 msg ?p = None"
    using assms(2) by (auto simp: schedule_agent_eq chosen_def split: option.splits)
  moreover have "c \<in> set (hm_values (agent_data_cache ?s1))"
    using assms(1,5) hm_values_conv [of "agent_data_cache s" c] by (auto simp: sched_inv_defs)
  ultimately have "\<not> eligible ?s1 msg ?p c"
    using best_agent_cases [OF assms(3,4), of ?s1 ?p] by simp
  then show ?thesis using eligible_suitable [OF assms(1,5,6)] by blast
qed

definition demands_grow :: "SchedulerActor \<Rightarrow> SchedulerActor \<Rightarrow> bool" where
  "demands_grow s t \<longleftrightarrow> agent_data_cache t = agent_data_cache s \<and> vm_manifests t = vm_manifests s \<and>
     (\<forall>f b. pending_sum f (vm_manifests s) (vm_placements s) b \<le> pending_sum f (vm_manifests s) (vm_placements t) b)"

lemma demands_grow_trans:
  assumes "demands_grow s t" and "demands_grow t u"
  shows "demands_grow s u"
proof -
  have "pending_sum f (vm_manifests s) (vm_placements s) b \<le> pending_sum f (vm_manifests s) (vm_placements u) b" for f b
  proof (rule order_trans)
    show "pending_sum f (vm_manifests s) (vm_placements s) b \<le> pending_sum f (vm_manifests s) (vm_placements t) b"
      using assms(1) by (simp add: demands_grow_def)
    show "pending_sum f (vm_manifests s) (vm_placements t) b \<le> pending_sum f (vm_manifests s) (vm_placements u) b"
      using assms by (auto simp: demands_grow_def)
  qed
  with assms show ?thesis by (simp add: demands_grow_def)
qed

lemma unsuitable_mono:
  assumes "demands_grow s t" and "\<not> suitable s msg a c" and "affinity (placement (desired (create_config msg))) = []"
  shows "\<not> suitable t msg a c"
proof -
  have "demand_vcpus s a d \<le> demand_vcpus t a d" "demand_memory s a d \<le> demand_memory t a d" for d
    using assms(1) by (simp_all add: demands_grow_def demand_vcpus_def demand_memory_def)
  from this [of "ca_data c"] assms(2,3) show ?thesis
    by (auto simp: suitable_def required_hold_def)
qed

lemma replace_vm_told:
  assumes "\<And>a v. tell_ok a v" and "sched_inv s" and "map_of (vm_manifests s) v = Some m" and "unplaced (vm_placements s) v"
  shows "demands_grow s (fst (replace_vm clock tell_ok (v, m) s)) \<and>
    (unplaced (vm_placements (fst (replace_vm clock tell_ok (v, m) s))) v \<longrightarrow>
      (\<exists>e. snd (schedule_agent \<lparr>create_vmid = v, create_config = m\<rparr> s) = Inl e))"
proof -
  obtain s1 r where r: "schedule_agent \<lparr>create_vmid = v, create_config = m\<rparr> s = (s1, r)" by fastforce
  have s1: "s1 = s\<lparr>pending_resources_cache := Some (snd (pending_resources s))\<rparr>"
    using schedule_agent_state [of "\<lparr>create_vmid = v, create_config = m\<rparr>" s] r by simp
  show ?thesis
  proof (cases r)
    case (Inl e)
    with r show ?thesis by (simp add: replace_vm_def demands_grow_def s1)
  next
    case (Inr a)
    have "hm_wf (vm_placements s1)" using assms(2) by (simp add: sched_inv_def placements_ok_def s1)
    with assms(3,4) have "pending_sum f (vm_manifests s) (vm_placements s) b
        \<le> pending_sum f (vm_manifests s) (vm_placements (reserve_placement v a (clock v) s1)) b" for f b
      using reserve_placement_sum [of s1 v m f a "clock v" b] by (simp add: s1)
    moreover have "map_of (vm_placements (reserve_placement v a (clock v) s1)) v = Some [pending_placement a (clock v)]"
      using assms(4) by (auto simp: reserve_placement_def s1 unplaced_def split: option.splits)
    ultimately show ?thesis
      using r Inr assms(1) by (simp add: replace_vm_def demands_grow_def Let_def s1 unplaced_def)
  qed
qed

lemma replace_loop_progress:
  fixes clock :: "ulid \<Rightarrow> instant" and effs :: "sched_effect list"
  assumes told: "\<And>a v. tell_ok a v" and "sched_inv s" and "distinct (map fst vs)"
    and "\<forall>(v, m) \<in> set vs. map_of (vm_manifests s) v = Some m \<and> unplaced (vm_placements s) v"
  defines "t \<equiv> fst (foldl (replace_step clock tell_ok) (s, effs) vs)"
  shows "demands_grow s t \<and> (\<forall>(v, m) \<in> set vs. unplaced (vm_placements t) v \<longrightarrow>
    (\<exists>u e. sched_inv u \<and> demands_grow u t \<and> agent_data_cache u = agent_data_cache s \<and>
       snd (schedule_agent \<lparr>create_vmid = v, create_config = m\<rparr> u) = Inl e))"
  using assms(2-4) unfolding t_def
proof (induction vs arbitrary: s effs)
  case Nil
  then show ?case by (simp add: demands_grow_def)
next
  case (Cons p vs)
  obtain v m where p: "p = (v, m)" by fastforce
  let ?s1 = "fst (replace_vm clock tell_ok (v, m) s)"
  let ?t = "fst (foldl (replace_step clock tell_ok) (s, effs) (p # vs))"
  have pre: "map_of (vm_manifests s) v = Some m" "unplaced (vm_placements s) v" using Cons.prems(3) p by auto
  have k: "replace_keeps v s ?s1" using Cons.prems(1) pre by (rule replace_vm_keeps)
  note step1 = replace_vm_told [of tell_ok, OF told Cons.prems(1) pre, of clock]
  have t: "?t = fst (foldl (replace_step clock tell_ok) (?s1, effs @ snd (replace_vm clock tell_ok (v, m) s)) vs)"
    by (simp add: replace_step_def case_prod_unfold Let_def p)
  have later: "\<forall>(w, n) \<in> set vs. map_of (vm_manifests ?s1) w = Some n \<and> unplaced (vm_placements ?s1) w"
    using k Cons.prems(2,3) p by (force simp: replace_keeps_def unplaced_def)
  have IH: "demands_grow ?s1 ?t \<and> (\<forall>(v, m) \<in> set vs. unplaced (vm_placements ?t) v \<longrightarrow>
    (\<exists>u e. sched_inv u \<and> demands_grow u ?t \<and> agent_data_cache u = agent_data_cache ?s1 \<and>
       snd (schedule_agent \<lparr>create_vmid = v, create_config = m\<rparr> u) = Inl e))"
    unfolding t using k Cons.prems(2) later by (intro Cons.IH) (auto simp: replace_keeps_def)
  have grow: "demands_grow s ?t"
    using step1 IH by (blast intro: demands_grow_trans)
  have "v \<notin> fst ` set vs" using Cons.prems(2) p by auto
  then have "map_of (vm_placements ?t) v = map_of (vm_placements ?s1) v"
    unfolding t by (simp add: replace_loop_frame)
  then have "unplaced (vm_placements ?t) v \<longrightarrow> (\<exists>e. snd (schedule_agent \<lparr>create_vmid = v, create_config = m\<rparr> s) = Inl e)"
    using step1 by (simp add: unplaced_def)
  moreover have "agent_data_cache ?s1 = agent_data_cache s" using step1 by (simp add: demands_grow_def)
  ultimately show ?case
    using grow IH Cons.prems(1) p by auto
qed

text \<open>C8. A reconciliation pass leaves no placeable VM behind: when every create request can be sent, a
  VM that has a manifest without affinity rules and no placement after the pass fits on no known
  agent, given the reservations made by then.\<close>

theorem reconcile_leaves_no_placeable_vm:
  assumes "sched_inv s" and "map_of (vm_manifests s) v = Some m"
    and "0 < vcpus (compute (desired m))" and "0 < memory_bytes (compute (desired m))"
    and "affinity (placement (desired m)) = []"
    and "t = fst (handle_ReconcileVmPlacements now clock (\<lambda>_ _. True) s)"
    and "unplaced (vm_placements t) v"
    and "map_of (agent_data_cache s) a = Some c" and "plausible (ca_data c)"
  shows "\<not> suitable t \<lparr>create_vmid = v, create_config = m\<rparr> a c"
proof -
  let ?s1 = "expire_pending now s" and ?msg = "\<lparr>create_vmid = v, create_config = m\<rparr>"
  have inv: "sched_inv ?s1" using assms(1) by (rule expire_pending_inv)
  have fields: "vm_manifests ?s1 = vm_manifests s" "agent_data_cache ?s1 = agent_data_cache s"
    by (simp_all add: expire_pending_def case_prod_unfold Let_def)
  note spec = unplaced_vms_spec [OF inv]
  have "unplaced (vm_placements ?s1) v"
  proof (cases "v \<in> fst ` set (unplaced_vms ?s1)")
    case True
    then show ?thesis using spec(2) by auto
  next
    case False
    then show ?thesis
      using assms(6,7) by (simp add: reconcile_eq replace_loop_frame unplaced_def)
  qed
  then have "(v, m) \<in> set (unplaced_vms ?s1)"
    using map_of_SomeD [OF assms(2)] fields by (simp add: unplaced_vms_def unplaced_def)
  then obtain u e where u: "sched_inv u" "demands_grow u t" "agent_data_cache u = agent_data_cache s"
      "snd (schedule_agent ?msg u) = Inl e"
    using replace_loop_progress [OF _ inv spec, of "\<lambda>_ _. True" clock "[]"] assms(6,7) fields
    by (auto simp: reconcile_eq)
  then have "\<not> suitable u ?msg a c"
    using assms by (intro schedule_error_unsuitable) simp_all
  with u(2) show ?thesis by (rule unsuitable_mono) (simp add: assms(5))
qed

text \<open>The sample cluster with a VM too large for its agent.\<close>

definition sample_big :: VmManifest where
  "sample_big = sample_manifest\<lparr>desired := sample_desired\<lparr>compute := \<lparr>vcpus = 100, max_vcpus = None, memory_bytes = 64\<rparr>\<rparr>\<rparr>"

definition sample_stuck :: SchedulerActor where
  "sample_stuck = sample_sched\<lparr>vm_manifests := [(7, sample_big)]\<rparr>"

lemma sample_stuck_inv: "sched_inv sample_stuck"
  using sample_sched_inv
  by (simp add: sample_stuck_def sample_sched_def sched_inv_defs placements_ok_def pending_coherent_def hm_wf_def)

lemma sample_stuck_unplaced:
  "unplaced (vm_placements (fst (handle_ReconcileVmPlacements now clock tell_ok sample_stuck))) 7"
proof -
  let ?msg = "\<lparr>create_vmid = 7, create_config = sample_big\<rparr>"
  have expired: "expire_pending now sample_stuck = sample_stuck"
    by (simp add: expire_pending_def cleanup_unresolved_vm_cache_def sample_stuck_def sample_sched_def
        hm_map_def empty_vmids_def invalidate_pending_resources_def)
  have vms: "unplaced_vms sample_stuck = [(7, sample_big)]"
    by (simp add: unplaced_vms_def sample_stuck_def sample_sched_def)
  have "\<exists>e. snd (schedule_agent ?msg sample_stuck) = Inl e"
  proof (cases "schedule_agent ?msg sample_stuck")
    case (Pair s1 r)
    have "r \<noteq> Inr a" for a
    proof
      assume "r = Inr a"
      with Pair obtain c where c: "map_of (agent_data_cache sample_stuck) a = Some c"
          "eligible s1 ?msg (snd (pending_resources sample_stuck)) c" "ca_actor_ref c = a"
        using chosen_agent [OF _ sample_stuck_inv, of ?msg s1 a] by blast
      then have "c = sample_agent" by (auto simp: sample_stuck_def sample_sched_def split: if_splits)
      then have "demand_vcpus sample_stuck a sample_status + 100 \<le> 8"
        using eligible_demand(1) [OF sample_stuck_inv c(2,3)] sample_plausible
        by (simp add: sample_agent_def sample_big_def sample_status_def)
      then show False by simp
    qed
    with Pair show ?thesis by (cases r) auto
  qed
  then have "vm_placements (fst (replace_vm clock tell_ok (7, sample_big) sample_stuck)) = vm_placements sample_stuck"
    using schedule_agent_state [of ?msg sample_stuck]
    by (cases "schedule_agent ?msg sample_stuck") (auto simp: replace_vm_def Let_def)
  moreover have "vm_placements sample_stuck = []"
    by (simp add: sample_stuck_def sample_sched_def)
  ultimately show ?thesis
    by (simp add: reconcile_eq expired vms replace_step_simps unplaced_def)
qed

theorem reconcile_leaves_no_placeable_vm_witness:
  "\<not> suitable (fst (handle_ReconcileVmPlacements 9 (\<lambda>_. 9) (\<lambda>_ _. True) sample_stuck))
       \<lparr>create_vmid = 7, create_config = sample_big\<rparr> 1 sample_agent"
  by (rule reconcile_leaves_no_placeable_vm [OF sample_stuck_inv _ _ _ _ refl sample_stuck_unplaced])
    (simp_all add: sample_stuck_def sample_sched_def sample_big_def sample_defs sample_agent_def plausible_def)

section \<open>Deleting\<close>

lemma remove_vm_intent_forgets:
  assumes "sched_inv s"
  shows "map_of (vm_manifests (remove_vm_intent v s)) = (map_of (vm_manifests s))(v := None)"
    and "map_of (vm_placements (remove_vm_intent v s)) = (map_of (vm_placements s))(v := None)"
    and "map_of (vm_data_cache (remove_vm_intent v s)) = (map_of (vm_data_cache s))(v := None)"
    and "map_of (vm_actorid_ulid_map (remove_vm_intent v s)) i \<noteq> Some v"
    and "map_of (agent_vm_index (remove_vm_intent v s)) a = map_option (removeAll v) (map_of (agent_vm_index s) a)"
  using assms
  by (auto simp: remove_vm_intent_def remove_vm_state_def Let_def sched_inv_defs hm_get_retain split: option.splits)

text \<open>A reconciliation pass creates only VMs that are wanted.\<close>

lemma reconcile_tells_wanted:
  assumes "sched_inv s" and "TellCreate a req \<in> set (snd (handle_ReconcileVmPlacements now clock tell_ok s))"
  shows "map_of (vm_manifests s) (create_vmid req) \<noteq> None"
proof -
  have inv: "sched_inv (expire_pending now s)" using assms(1) by (rule expire_pending_inv)
  note spec = unplaced_vms_spec [OF inv]
  from replace_loop_effects [OF inv spec, of "TellCreate a req" clock tell_ok "[]"] assms(2)
  obtain m where "(create_vmid req, m) \<in> set (unplaced_vms (expire_pending now s))"
    by (auto simp: reconcile_eq)
  with spec(2) show ?thesis
    by (auto simp: expire_pending_def case_prod_unfold Let_def)
qed

text \<open>C10. Once a delete or shutdown request has been forwarded to its VM, the scheduler has forgotten
  the VM everywhere and no other VM is affected; in particular no later reconciliation pass creates
  it again.\<close>

theorem deleted_vm_not_recreated:
  assumes "sched_inv s"
    and "t = fst (SchedulerActor_DeleteVM (Inr (Some vm)) (Inr ()) (DeleteVM v) s) \<or>
         t = fst (SchedulerActor_ShutdownVM (Inr (Some vm)) (Inr ()) (ShutdownVM v) s)"
  shows "map_of (vm_manifests t) = (map_of (vm_manifests s))(v := None) \<and>
    map_of (vm_placements t) = (map_of (vm_placements s))(v := None) \<and>
    map_of (vm_data_cache t) = (map_of (vm_data_cache s))(v := None) \<and>
    (\<forall>i. map_of (vm_actorid_ulid_map t) i \<noteq> Some v) \<and>
    (\<forall>a vs. map_of (agent_vm_index t) a = Some vs \<longrightarrow> v \<notin> set vs) \<and>
    (\<forall>a req. TellCreate a req \<in> set (snd (handle_ReconcileVmPlacements now clock tell_ok t)) \<longrightarrow> create_vmid req \<noteq> v)"
proof -
  have t: "t = remove_vm_intent v s"
    using assms(2) by (auto simp: SchedulerActor_DeleteVM_def SchedulerActor_ShutdownVM_def)
  have inv: "sched_inv t" unfolding t using assms(1) by (rule remove_vm_intent_inv)
  have "create_vmid req \<noteq> v" if "TellCreate a req \<in> set (snd (handle_ReconcileVmPlacements now clock tell_ok t))" for a req
    using reconcile_tells_wanted [OF inv that] remove_vm_intent_forgets(1) [OF assms(1), of v] by (auto simp: t)
  with remove_vm_intent_forgets [OF assms(1), of v] show ?thesis
    by (auto simp: t)
qed

theorem deleted_vm_not_recreated_witness:
  "map_of (vm_manifests (fst (SchedulerActor_DeleteVM (Inr (Some 2)) (Inr ()) (DeleteVM 7) sample_reached))) 7 = None \<and>
   map_of (vm_manifests sample_reached) 7 \<noteq> None"
  using deleted_vm_not_recreated [OF scheduler.reachable_inv [OF sample_reached_reachable] disjI1 [OF refl], of 2 7]
  by (auto simp: sample_reached_placements)

end
