(* ===== verification/Scheduler_Observation.thy ===== *)
theory Scheduler_Observation
  imports Scheduler_Correctness "HOL-Library.Sublist"
begin

text \<open>
  How the scheduler's placements follow what it observes: expiry of unconfirmed placements, the
  departure of agents and VM actors, status deltas, full snapshots, and the polling tasks that
  report unreachable actors.
\<close>

section \<open>Expiry\<close>

lemma discovered_vmids:
  assumes "hm_wf dc"
  shows "v \<in> set (map fst (filter (\<lambda>(_, es). has_actor es) dc)) \<longleftrightarrow> discovered dc v"
proof -
  have "discovered dc v \<longleftrightarrow> (\<exists>es. map_of dc v = Some es \<and> has_actor es)"
    by (simp add: discovered_def split: option.splits)
  also have "\<dots> \<longleftrightarrow> (\<exists>es. (v, es) \<in> set dc \<and> has_actor es)"
    using assms by (simp add: hm_wf_def)
  finally show ?thesis by force
qed

lemma empty_vmids_iff: "hm_wf m \<Longrightarrow> v \<in> set (empty_vmids m) \<longleftrightarrow> map_of m v = Some []"
  by (force simp: empty_vmids_def hm_wf_def)

lemma foldl_remove_if:
  assumes "\<And>c. Q c = (\<lambda>v. case map_of c v of Some es \<Rightarrow> P es | None \<Rightarrow> False)"
  shows "map_of (foldl (\<lambda>c v. if Q c v then hm_remove v c else c) c vs) w =
    (if w \<in> set vs \<and> Q c w then None else map_of c w)"
  by (induction vs arbitrary: c) (auto simp: assms split: option.splits)

text \<open>Expiry removes exactly the pending placements that are at least two minutes old and whose VM
  has no discovered actor; a VM left without placements also loses its unresolved cache entry, and
  nothing else changes.\<close>

lemma expiry_exact:
  assumes "hm_wf placements" and "hm_wf cache"
  shows "let (ps, dc) = cleanup_unresolved_vm_cache now placements cache in
    map_of ps v = map_option (filter (\<lambda>e. \<not> (lifecycle e = Pending \<and> \<not> discovered cache v \<and>
        120 * 10 ^ 9 \<le> now - created_at e))) (map_of placements v) \<and>
    map_of dc v = (if map_of ps v = Some [] \<and> \<not> discovered cache v then None else map_of cache v)"
proof -
  let ?ps = "fst (cleanup_unresolved_vm_cache now placements cache)"
  have ps: "map_of ?ps v = map_option (filter (\<lambda>e. \<not> (lifecycle e = Pending \<and> \<not> discovered cache v \<and>
        120 * 10 ^ 9 \<le> now - created_at e))) (map_of placements v)" for v
    unfolding cleanup_unresolved_vm_cache_def Let_def fst_conv hm_get_map discovered_vmids [OF assms(2)]
    by (rule arg_cong [where f = "\<lambda>g. map_option g (map_of placements v)"])
      (auto simp: fun_eq_iff shrink_non_migrating_entries_def duration_since_def UNRESOLVED_VM_CACHE_TIMEOUT_def
        intro!: filter_cong)
  have wf: "hm_wf ?ps"
    using assms(1) by (simp add: cleanup_unresolved_vm_cache_def Let_def)
  let ?Q = "\<lambda>c v. case map_of c v of Some es \<Rightarrow> list_all (\<lambda>e. cv_actor_ref e = None) es | None \<Rightarrow> False"
  have "snd (cleanup_unresolved_vm_cache now placements cache) =
      foldl (\<lambda>c v. if ?Q c v then hm_remove v c else c) cache (empty_vmids ?ps)"
    by (simp add: cleanup_unresolved_vm_cache_def Let_def)
  then have "map_of (snd (cleanup_unresolved_vm_cache now placements cache)) v =
      (if map_of ?ps v = Some [] \<and> ?Q cache v then None else map_of cache v)"
    by (simp add: foldl_remove_if [where Q = ?Q and P = "list_all (\<lambda>e. cv_actor_ref e = None)"] empty_vmids_iff [OF wf])
  also have "\<dots> = (if map_of ?ps v = Some [] \<and> \<not> discovered cache v then None else map_of cache v)"
    by (auto simp: discovered_def has_actor_def list_ex_iff list_all_iff split: option.splits)
  finally show ?thesis
    using ps by (simp add: case_prod_unfold Let_def)
qed

lemma expiry_exact_instance:
  "map_of (fst (cleanup_unresolved_vm_cache (200 * 10 ^ 9)
     [(7, [pending_placement 1 0, pending_placement 2 (150 * 10 ^ 9)])] [(7, [unresolved_vm])])) 7
   = Some [pending_placement 2 (150 * 10 ^ 9)]"
  using expiry_exact [of "[(7, [pending_placement 1 0, pending_placement 2 (150 * 10 ^ 9)])]" "[(7, [unresolved_vm])]"
      "200 * 10 ^ 9" 7]
  by (simp add: hm_wf_def case_prod_unfold Let_def discovered_def has_actor_def unresolved_vm_def)

section \<open>Departures\<close>

text \<open>The placements that outlive an agent: those of the others, and those of VMs the agent had
  reported and whose actor is still discovered.\<close>

lemma agent_departure:
  "let t = cleanup_agent_actor a s in
     map_of (vm_placements t) v = map_option (filter (\<lambda>e. \<not> (pl_agent e = a \<and>
       \<not> ((\<exists>vs. map_of (agent_vm_index s) a = Some vs \<and> v \<in> set vs) \<and> discovered (vm_data_cache s) v))))
       (map_of (vm_placements s) v) \<and>
     map_of (agent_data_cache t) = (map_of (agent_data_cache s))(a := None) \<and>
     map_of (agent_vm_index t) = (map_of (agent_vm_index s))(a := None) \<and>
     vm_manifests t = vm_manifests s \<and> vm_data_cache t = vm_data_cache s \<and>
     vm_actorid_ulid_map t = vm_actorid_ulid_map s"
proof -
  have reachable: "w \<in> set (filter P (case map_of m a of Some vs \<Rightarrow> vs | None \<Rightarrow> [])) \<longleftrightarrow>
      (\<exists>vs. map_of m a = Some vs \<and> w \<in> set vs) \<and> P w" for w P and m :: vm_index
    by (cases "map_of m a") auto
  show ?thesis
    unfolding cleanup_agent_actor_def Let_def remove_agent_placements_def shrink_non_migrating_entries_def reachable
      de_Morgan_conj not_not
    by simp
qed

lemma remove_vm_actor_spec:
  assumes "hm_wf dc"
  shows "map_of (remove_vm_actor i dc) v =
    (case map_of dc v of
       None \<Rightarrow> None
     | Some es \<Rightarrow> (let es' = filter (\<lambda>e. cv_actor_ref e \<noteq> Some i) es in if es' = [] then None else Some es'))"
proof -
  let ?m = "hm_map (\<lambda>_ es. shrink_non_migrating_entries (filter (\<lambda>e. cv_actor_ref e \<noteq> Some i) es)) dc"
  have "map_of (foldl (\<lambda>c v. hm_remove v c) m vs) w = (if w \<in> set vs then None else map_of m w)"
    for m :: data_cache and vs w
    by (induction vs arbitrary: m) auto
  then have "map_of (remove_vm_actor i dc) v = (if map_of ?m v = Some [] then None else map_of ?m v)"
    using assms by (simp add: remove_vm_actor_def Let_def empty_vmids_iff)
  then show ?thesis
    by (auto simp: shrink_non_migrating_entries_def Let_def split: option.splits)
qed

lemma cleanup_actor_kinds:
  "actor_kinds (cleanup_agent_actor i s) = actor_kinds s"
  "actor_kinds (cleanup_vm_actor i s) = actor_kinds s"
  by (auto simp: cleanup_agent_actor_def cleanup_vm_actor_def invalidate_pending_resources_def Let_def split: option.splits)

definition reported :: "SchedulerActor \<Rightarrow> actor_id \<Rightarrow> ulid \<Rightarrow> bool" where
  "reported s a v \<longleftrightarrow> (\<exists>vs. map_of (agent_vm_index s) a = Some vs \<and> v \<in> set vs)"

text \<open>Whether a placement of VM \<open>v\<close> outlives the death of actor \<open>i\<close>, between the states \<open>s\<close> and \<open>t\<close>.\<close>

fun outlives :: "CachedActorKind \<Rightarrow> actor_id \<Rightarrow> SchedulerActor \<Rightarrow> SchedulerActor \<Rightarrow> ulid \<Rightarrow> VmPlacement \<Rightarrow> bool" where
  "outlives KindAgent i s t v e \<longleftrightarrow> pl_agent e \<noteq> i \<or> reported s i v \<and> discovered (vm_data_cache s) v"
| "outlives KindVm i s t v e \<longleftrightarrow> map_of (vm_actorid_ulid_map s) i \<noteq> Some v \<or> discovered (vm_data_cache t) v \<or>
     lifecycle e = Pending \<or> reported s (pl_agent e) v"

lemma outlives_eta:
  "outlives KindAgent i s t v = (\<lambda>e. pl_agent e = i \<longrightarrow>
     (\<exists>vs. map_of (agent_vm_index s) i = Some vs \<and> v \<in> set vs) \<and> discovered (vm_data_cache s) v)"
  "outlives KindVm i s t v = (\<lambda>e. map_of (vm_actorid_ulid_map s) i \<noteq> Some v \<or> discovered (vm_data_cache t) v \<or>
     lifecycle e = Pending \<or> (\<exists>vs. map_of (agent_vm_index s) (pl_agent e) = Some vs \<and> v \<in> set vs))"
  by (auto simp: fun_eq_iff reported_def)

lemma vm_actor_departure:
  assumes "hm_wf (vm_data_cache s)"
  shows "let t = cleanup_vm_actor i s in
    map_of (vm_placements t) v = map_option (filter (outlives KindVm i s t v)) (map_of (vm_placements s) v) \<and>
    (\<forall>es. map_of (vm_data_cache t) v = Some es \<longrightarrow> \<lparr>cv_actor_ref = Some i\<rparr> \<notin> set es) \<and>
    vm_manifests t = vm_manifests s \<and> map_of (vm_actorid_ulid_map t) i = None"
proof -
  let ?t = "cleanup_vm_actor i s"
  have cache: "vm_data_cache ?t = remove_vm_actor i (vm_data_cache s)"
    by (auto simp: cleanup_vm_actor_def Let_def split: option.splits)
  have keep: "keep_without_actor (agent_vm_index s) w =
      (\<lambda>e. lifecycle e = Pending \<or> (\<exists>vs. map_of (agent_vm_index s) (pl_agent e) = Some vs \<and> w \<in> set vs))" for w
    by (auto simp: keep_without_actor_def fun_eq_iff split: option.splits)
  have all: "map_option (filter (\<lambda>e. True)) x = x" for x :: "VmPlacement list option"
    by (cases x) simp_all
  have "map_of (vm_placements ?t) v = map_option (filter (outlives KindVm i s ?t v)) (map_of (vm_placements s) v)"
    unfolding outlives_eta cache
    by (cases "map_of (vm_actorid_ulid_map s) i = Some v"; cases "discovered (remove_vm_actor i (vm_data_cache s)) v")
      (auto simp: cleanup_vm_actor_def Let_def keep shrink_non_migrating_entries_def all
        split: option.splits)
  moreover have "\<lparr>cv_actor_ref = Some i\<rparr> \<notin> set es" if "map_of (vm_data_cache ?t) v = Some es" for es
    using that by (auto simp: cache remove_vm_actor_spec [OF assms] Let_def split: option.splits if_splits)
  moreover have "vm_manifests ?t = vm_manifests s" "map_of (vm_actorid_ulid_map ?t) i = None"
    by (auto simp: cleanup_vm_actor_def Let_def split: option.splits)
  ultimately show ?thesis by (simp add: Let_def)
qed


definition sample_linked :: SchedulerActor where
  "sample_linked = handle_VmActorDiscovered (\<lambda>_. False) True 3 2 sample_reached"

lemma sample_linked_inv: "sched_inv sample_linked"
  unfolding sample_linked_def
  using scheduler.reachable_inv [OF sample_reached_reachable] by (rule vm_discovered_inv)

lemma sample_linked_fields:
  "map_of (actor_kinds sample_linked) 2 = Some KindVm"
  "vm_placements sample_linked = [(7, [running_placement 1 6])]"
  "map_of (agent_vm_index sample_linked) 1 = Some [7]"
proof -
  have tasks: "vm_keepalive_tasks sample_reached = []"
    and index: "map_of (agent_vm_index sample_reached) 1 = Some [7]"
    by (simp_all add: sample_reached_def handle_AgentUpdated_def handle_VmUpdated_def first_snapshot_def Let_def
        SchedulerActor_on_start_def hm_insert_def sample_status_def invalidate_pending_resources_def)
  show "map_of (actor_kinds sample_linked) 2 = Some KindVm"
    "vm_placements sample_linked = [(7, [running_placement 1 6])]"
    "map_of (agent_vm_index sample_linked) 1 = Some [7]"
    by (simp_all add: sample_linked_def handle_VmActorDiscovered_def task_running_def tasks index
        sample_reached_placements Let_def del: One_nat_def)
qed


section \<open>Status deltas\<close>

text \<open>The placements of a VM; a VM without an entry has none.\<close>

definition entries_of :: "placements \<Rightarrow> ulid \<Rightarrow> VmPlacement list" where
  "entries_of ps v = (case map_of ps v of Some es \<Rightarrow> es | None \<Rightarrow> [])"

text \<open>A single running placement on the agent, confirmed at the given time.\<close>

definition confirmed_on :: "actor_id \<Rightarrow> instant \<Rightarrow> VmPlacement list \<Rightarrow> bool" where
  "confirmed_on a now es \<longleftrightarrow>
     (\<exists>e. filter (\<lambda>e. pl_agent e = a) es = [e] \<and> lifecycle e = Running \<and> last_confirmed_at e = Some now)"

lemma entries_of_simps [simp]:
  "entries_of (hm_upsert k [] f ps) v = (if v = k then f (entries_of ps k) else entries_of ps v)"
  "entries_of (hm_insert k es ps) v = (if v = k then es else entries_of ps v)"
  "entries_of (hm_remove k ps) v = (if v = k then [] else entries_of ps v)"
  by (simp_all add: entries_of_def)

lemma entries_of_modify: "f [] = [] \<Longrightarrow>
  entries_of (hm_modify k f ps) v = (if v = k then f (entries_of ps k) else entries_of ps v)"
  by (simp add: entries_of_def split: option.splits)

lemma entries_of_map: "(\<And>v. f v [] = []) \<Longrightarrow> entries_of (hm_map f ps) v = f v (entries_of ps v)"
  by (simp add: entries_of_def split: option.splits)

lemma confirm_idem [simp]: "confirm now (confirm now e) = confirm now e"
  by (simp add: confirm_def)

lemma observe_entry_Cons:
  "observe_entry a now (e # es) =
     (if pl_agent e = a then confirm now e # es else e # observe_entry a now es)"
  by (simp add: observe_entry_def split: option.splits)

lemma observe_entry_Nil: "observe_entry a now [] = [running_placement a now]"
  by (simp add: observe_entry_def)

lemma observe_entry_idem: "observe_entry a now (observe_entry a now es) = observe_entry a now es"
  by (induction es) (simp_all add: observe_entry_Cons observe_entry_Nil confirm_def running_placement_def)

lemma observe_entry_others: "filter (\<lambda>e. pl_agent e \<noteq> a) (observe_entry a now es) = filter (\<lambda>e. pl_agent e \<noteq> a) es"
  by (induction es) (simp_all add: observe_entry_Cons observe_entry_Nil)

lemma observe_entry_confirmed: "distinct (map pl_agent es) \<Longrightarrow> confirmed_on a now (observe_entry a now es)"
proof (induction es)
  case Nil
  then show ?case by (simp add: observe_entry_Nil confirmed_on_def)
next
  case (Cons e es)
  show ?case
  proof (cases "pl_agent e = a")
    case True
    with Cons.prems have "filter (\<lambda>e. pl_agent e = a) es = []" by (auto simp: filter_empty_conv image_iff)
    with True show ?thesis by (simp add: observe_entry_Cons confirmed_on_def)
  next
    case False
    with Cons show ?thesis by (simp add: observe_entry_Cons confirmed_on_def)
  qed
qed

text \<open>When the placements on the agent were created: an observation creates one where there was none.\<close>

definition known_since :: "actor_id \<Rightarrow> instant \<Rightarrow> VmPlacement list \<Rightarrow> instant list" where
  "known_since a now es =
     (let known = filter (\<lambda>e. pl_agent e = a) es in if known = [] then [now] else map created_at known)"

lemma observe_entry_since:
  "distinct (map pl_agent es) \<Longrightarrow>
     map created_at (filter (\<lambda>e. pl_agent e = a) (observe_entry a now es)) = known_since a now es"
proof (induction es)
  case (Cons e es)
  then show ?case
    by (cases "pl_agent e = a") (auto simp: observe_entry_Cons known_since_def Let_def confirm_def)
qed (simp add: observe_entry_Nil known_since_def running_placement_def)

lemma delta_added:
  "entries_of (foldl (\<lambda>ps v. if map_of ms v = None then ps else hm_upsert v [] (observe_entry a now) ps) ps added) v =
     (if v \<in> set added \<and> map_of ms v \<noteq> None then observe_entry a now (entries_of ps v) else entries_of ps v)"
  by (induction added arbitrary: ps) (auto simp: observe_entry_idem)

lemma delta_removed:
  "entries_of (foldl (\<lambda>ps v. hm_modify v (filter P) ps) ps removed) v =
     (if v \<in> set removed then filter P (entries_of ps v) else entries_of ps v)"
  by (induction removed arbitrary: ps) (auto simp: entries_of_modify)

lemma reconcile_agent_delta_entries:
  "entries_of (reconcile_agent_delta now a added removed ms ps) v =
     (let es = (if v \<in> set added \<and> map_of ms v \<noteq> None then observe_entry a now (entries_of ps v) else entries_of ps v)
      in if v \<in> set removed then filter (\<lambda>e. pl_agent e \<noteq> a \<or> lifecycle e = Pending) es else es)"
proof -
  have observe: "(\<lambda>es. case update_first (\<lambda>e. pl_agent e = a) (confirm now) es of
      Some es' \<Rightarrow> es' | None \<Rightarrow> es @ [running_placement a now]) = observe_entry a now"
    by (simp add: fun_eq_iff observe_entry_def)
  show ?thesis
    unfolding reconcile_agent_delta_def shrink_non_migrating_entries_def Let_def observe delta_removed delta_added ..
qed

lemma distinct_entries: "placements_ok ms ps \<Longrightarrow> distinct (map pl_agent (entries_of ps v))"
  by (auto simp: placements_ok_def entries_ok_def entries_of_def split: option.splits)

text \<open>Without a manifest there are no placements.\<close>

lemma entries_of_unknown: "placements_ok ms ps \<Longrightarrow> map_of ms v = None \<Longrightarrow> entries_of ps v = []"
  by (cases "map_of ps v") (fastforce simp: placements_ok_def entries_of_def)+

text \<open>C14. A status delta of an agent is reflected exactly: every added VM with a manifest has one
  placement on the agent, running and confirmed now, which keeps its creation time if it was known; a
  VM without a manifest, added or not, gets no placement; a removed VM keeps only its pending placement
  there; placements on other agents and VMs the delta does not name are untouched.\<close>

theorem delta_reflected:
  assumes "placements_ok ms ps" and "set added \<inter> set removed = {}"
  shows "let es = entries_of ps v; es' = entries_of (reconcile_agent_delta now a added removed ms ps) v in
    filter (\<lambda>e. pl_agent e \<noteq> a) es' = filter (\<lambda>e. pl_agent e \<noteq> a) es \<and>
    (v \<in> set added \<and> map_of ms v \<noteq> None \<longrightarrow> confirmed_on a now es' \<and>
       map created_at (filter (\<lambda>e. pl_agent e = a) es') = known_since a now es) \<and>
    (map_of ms v = None \<longrightarrow> es' = []) \<and>
    (v \<in> set removed \<longrightarrow> filter (\<lambda>e. pl_agent e = a) es' = filter (\<lambda>e. pl_agent e = a \<and> lifecycle e = Pending) es) \<and>
    (v \<notin> set added \<and> v \<notin> set removed \<longrightarrow> es' = es)"
proof -
  have "confirmed_on a now (observe_entry a now (entries_of ps v))"
    using assms(1) by (intro observe_entry_confirmed distinct_entries)
  moreover have "v \<in> set removed \<Longrightarrow> v \<notin> set added" using assms(2) by blast
  moreover note observe_entry_since [OF distinct_entries [OF assms(1)], of a now v] entries_of_unknown [OF assms(1), of v]
  ultimately show ?thesis
    by (auto simp: reconcile_agent_delta_entries Let_def observe_entry_others conj_commute intro!: filter_cong)
qed

theorem delta_reflected_witness:
  "confirmed_on 1 9 (entries_of (reconcile_agent_delta 9 1 [7] [] [(7, sample_manifest)] [(7, [pending_placement 1 5])]) 7)"
proof -
  have "placements_ok [(7, sample_manifest)] [(7, [pending_placement 1 5])]"
    by (simp add: placements_ok_def hm_wf_def entries_ok_def)
  from delta_reflected [OF this, of "[7]" "[]" 7 9 1] show ?thesis by (simp add: Let_def)
qed

section \<open>Full snapshots\<close>

text \<open>A placement the snapshot does not mention is kept for a while.\<close>

definition still_fresh :: "instant \<Rightarrow> VmPlacement \<Rightarrow> bool" where
  "still_fresh now e \<longleftrightarrow>
     (case lifecycle e of
        Pending \<Rightarrow> now - created_at e < 120 * 10 ^ 9
      | Running \<Rightarrow> (\<exists>l. last_confirmed_at e = Some l \<and> now - l < 30 * 10 ^ 9))"

lemma snapshot_others:
  "filter (\<lambda>e. pl_agent e \<noteq> a) (List.map_filter (snapshot_entry now a b) es) = filter (\<lambda>e. pl_agent e \<noteq> a) es"
  by (induction es) (auto simp: List.map_filter_simps snapshot_entry_def split: option.splits VmLifecycle.splits)

lemma snapshot_observed:
  "filter (\<lambda>e. pl_agent e = a) (List.map_filter (snapshot_entry now a True) es) =
     map (confirm now) (filter (\<lambda>e. pl_agent e = a) es)"
  by (induction es) (auto simp: List.map_filter_simps snapshot_entry_def)

lemma snapshot_absent:
  "filter (\<lambda>e. pl_agent e = a) (List.map_filter (snapshot_entry now a False) es) =
     filter (\<lambda>e. pl_agent e = a \<and> still_fresh now e) es"
  by (induction es)
    (auto simp: List.map_filter_simps snapshot_entry_def still_fresh_def duration_since_def
      UNRESOLVED_VM_CACHE_TIMEOUT_def UNCONFIRMED_RUNNING_PLACEMENT_TIMEOUT_def split: option.splits VmLifecycle.splits)

lemma push_missing_entries:
  assumes "distinct vs"
  shows "entries_of (foldl (\<lambda>ps v. hm_upsert v [] (\<lambda>es. es @ [n]) ps) ps vs) v =
    (if v \<in> set vs then entries_of ps v @ [n] else entries_of ps v)"
  using assms by (induction vs arbitrary: ps) auto

lemma drop_empty_entries:
  assumes "hm_wf ps"
  shows "entries_of (foldl (\<lambda>ps v. hm_remove v ps) ps (empty_vmids ps)) v = entries_of ps v"
proof -
  have "entries_of (foldl (\<lambda>ps v. hm_remove v ps) qs vs) v = (if v \<in> set vs then [] else entries_of qs v)" for qs vs
    by (induction vs arbitrary: qs) auto
  then show ?thesis
    using empty_vmids_iff [OF assms, of v] by (auto simp: entries_of_def)
qed

lemma missing_iff:
  "(case map_of ps v of None \<Rightarrow> True | Some es \<Rightarrow> \<not> list_ex (\<lambda>e. pl_agent e = a) es) \<longleftrightarrow>
     filter (\<lambda>e. pl_agent e = a) (entries_of ps v) = []"
  by (auto simp: entries_of_def list_ex_iff filter_empty_conv split: option.splits)

lemma reconcile_agent_placements_entries:
  assumes "hm_wf ps"
  shows "entries_of (reconcile_agent_placements now a st ms ps) v =
    List.map_filter (snapshot_entry now a (v \<in> set (st_vms st)))
      (if v \<in> set (st_vms st) \<and> map_of ms v \<noteq> None \<and> filter (\<lambda>e. pl_agent e = a) (entries_of ps v) = []
       then entries_of ps v @ [running_placement a now] else entries_of ps v)"
proof -
  have wf: "hm_wf (foldl (\<lambda>ps v. hm_upsert v [] (\<lambda>es. es @ [n]) ps) ps vs)" for n vs
    using assms by (intro foldl_invariant [where P = hm_wf]) simp_all
  show ?thesis
    unfolding reconcile_agent_placements_def Let_def shrink_non_migrating_entries_def missing_iff set_remdups
    by (subst drop_empty_entries)
      (auto simp: wf entries_of_map List.map_filter_simps push_missing_entries)
qed

lemma single_entry:
  "distinct (map pl_agent es) \<Longrightarrow> filter (\<lambda>e. pl_agent e = a) es \<noteq> [] \<Longrightarrow>
     \<exists>e. filter (\<lambda>e. pl_agent e = a) es = [e]"
  by (induction es) (auto simp: filter_empty_conv image_iff)

text \<open>C15. A full snapshot of an agent is reflected exactly: every reported VM with a manifest has one
  placement on the agent, running and confirmed now, which keeps its creation time if it was known; a
  VM without a manifest, reported or not, gets no placement; an unreported placement on the agent survives
  only within its grace period, two minutes after creation when pending and thirty seconds after the
  last confirmation when running; placements on other agents are untouched.\<close>

theorem snapshot_reflected:
  assumes "placements_ok ms ps"
  shows "let es = entries_of ps v; es' = entries_of (reconcile_agent_placements now a st ms ps) v in
    filter (\<lambda>e. pl_agent e \<noteq> a) es' = filter (\<lambda>e. pl_agent e \<noteq> a) es \<and>
    (v \<in> set (st_vms st) \<and> map_of ms v \<noteq> None \<longrightarrow> confirmed_on a now es' \<and>
       map created_at (filter (\<lambda>e. pl_agent e = a) es') = known_since a now es) \<and>
    (map_of ms v = None \<longrightarrow> es' = []) \<and>
    (v \<notin> set (st_vms st) \<longrightarrow>
       filter (\<lambda>e. pl_agent e = a) es' = filter (\<lambda>e. pl_agent e = a \<and> still_fresh now e) es)"
proof -
  have wf: "hm_wf ps" using assms by (simp add: placements_ok_def)
  note one = single_entry [OF distinct_entries [OF assms, of v], of a]
  have since: "created_at (confirm now e) = created_at e" "created_at (running_placement a now) = now" for e
    by (simp_all add: confirm_def running_placement_def)
  show ?thesis
    using one entries_of_unknown [OF assms, of v]
    by (auto simp: Let_def reconcile_agent_placements_entries [OF wf] snapshot_others snapshot_observed
        snapshot_absent confirmed_on_def known_since_def since List.map_filter_simps)
qed

theorem snapshot_reflected_witness:
  "confirmed_on 1 9 (entries_of (reconcile_agent_placements 9 1 (sample_status\<lparr>st_vms := [7]\<rparr>)
     [(7, sample_manifest)] [(7, [pending_placement 1 5])]) 7)"
proof -
  have "placements_ok [(7, sample_manifest)] [(7, [pending_placement 1 5])]"
    by (simp add: placements_ok_def hm_wf_def entries_ok_def)
  from snapshot_reflected [OF this, of 7 9 1 "sample_status\<lparr>st_vms := [7]\<rparr>"] show ?thesis by (simp add: Let_def)
qed

text \<open>Either kind of update confirms a VM it reports on the agent and leaves the placements elsewhere.\<close>

lemma delta_confirms:
  assumes "placements_ok ms ps" and "map_of ms v \<noteq> None" and "v \<in> set added" and "v \<notin> set removed"
  shows "confirmed_on a now (entries_of (reconcile_agent_delta now a added removed ms ps) v) \<and>
    filter (\<lambda>e. pl_agent e \<noteq> a) (entries_of (reconcile_agent_delta now a added removed ms ps) v) =
    filter (\<lambda>e. pl_agent e \<noteq> a) (entries_of ps v)"
  using assms observe_entry_confirmed [OF distinct_entries [OF assms(1)]]
  by (simp add: reconcile_agent_delta_entries observe_entry_others)

lemma snapshot_confirms:
  assumes "placements_ok ms ps" and "map_of ms v \<noteq> None" and "v \<in> set (st_vms st)"
  shows "confirmed_on a now (entries_of (reconcile_agent_placements now a st ms ps) v) \<and>
    filter (\<lambda>e. pl_agent e \<noteq> a) (entries_of (reconcile_agent_placements now a st ms ps) v) =
    filter (\<lambda>e. pl_agent e \<noteq> a) (entries_of ps v)"
proof -
  have wf: "hm_wf ps" using assms(1) by (simp add: placements_ok_def)
  note one = single_entry [OF distinct_entries [OF assms(1), of v], of a]
  show ?thesis
    using one assms(2,3)
    by (auto simp: reconcile_agent_placements_entries [OF wf] snapshot_others snapshot_observed confirmed_on_def)
qed

section \<open>Polling tasks\<close>

lemma fails_bump:
  assumes "unat (f :: u8) \<le> 5"
  shows "sat_add f 1 = f + 1" and "5 < f + 1 \<longleftrightarrow> unat f = 5" and "unat (f + 1) = unat f + 1"
proof -
  have "unat (f + 1) = unat f + 1" using assms by (simp add: unat_word_ariths)
  then show "unat (f + 1) = unat f + 1" "sat_add f 1 = f + 1" "5 < f + 1 \<longleftrightarrow> unat f = 5"
    using assms by (auto simp: sat_add_def word_less_nat_alt)
qed

lemma fails_exceeded: "5 \<le> unat (f :: u8) \<Longrightarrow> 5 < sat_add f 1"
  by (auto simp: sat_add_def word_less_nat_alt word_le_nat_alt unat_word_ariths unsigned_minus_1_eq_mask mask_eq_exp_minus_1)

text \<open>How many of the latest requests failed in a row.\<close>

definition failures_in_a_row :: "bool list \<Rightarrow> nat" where
  "failures_in_a_row oks = length (takeWhile Not (rev oks))"

lemma failures_in_a_row_simps [simp]:
  "failures_in_a_row [] = 0"
  "failures_in_a_row (oks @ [b]) = (if b then 0 else Suc (failures_in_a_row oks))"
  by (simp_all add: failures_in_a_row_def)

lemma failures_in_a_row_sublist: "n \<le> failures_in_a_row oks \<Longrightarrow> sublist (replicate n False) oks"
proof -
  assume n: "n \<le> failures_in_a_row oks"
  have "takeWhile Not xs = replicate (length (takeWhile Not xs)) False" for xs
    by (induction xs) auto
  then have "replicate n False = take n (takeWhile Not (rev oks))"
    using n by (metis failures_in_a_row_def min.absorb1 take_replicate)
  then have "prefix (replicate n False) (rev oks)"
    by (metis prefix_order.trans take_is_prefix takeWhile_is_prefix)
  then show ?thesis
    by (metis rev_replicate suffix_imp_sublist suffix_to_prefix)
qed

lemma no_six_snoc:
  assumes "\<not> sublist (replicate 6 False) (oks @ [b])"
  shows "\<not> sublist (replicate 6 False) oks" and "failures_in_a_row (oks @ [b]) \<le> 5"
proof -
  show "\<not> sublist (replicate 6 False) oks" using assms unfolding sublist_def by (metis append_assoc)
  show "failures_in_a_row (oks @ [b]) \<le> 5"
    using assms failures_in_a_row_sublist [of 6 "oks @ [b]"] by linarith
qed

lemma agent_updater_run_append:
  "agent_updater_run i (rs @ rs') u =
     (case agent_updater_run i rs u of
        (None, ms) \<Rightarrow> (None, ms)
      | (Some u', ms) \<Rightarrow> (let (u'', ms') = agent_updater_run i rs' u' in (u'', ms @ ms')))"
  by (induction rs arbitrary: u) (simp_all add: Let_def case_prod_unfold split: option.splits)

lemma vm_updater_run_append:
  "vm_updater_run i (rs @ rs') u =
     (case vm_updater_run i rs u of
        (None, ms) \<Rightarrow> (None, ms)
      | (Some u', ms) \<Rightarrow> (let (u'', ms') = vm_updater_run i rs' u' in (u'', ms @ ms')))"
  by (induction rs arbitrary: u) (simp_all add: Let_def case_prod_unfold split: option.splits)

text \<open>Which requests to an agent were answered, and what the scheduler is told of the answers.\<close>

abbreviation agent_answered :: "AgentStatusUpdate option list \<Rightarrow> bool list" where
  "agent_answered rs \<equiv> map (\<lambda>r. r \<noteq> None) rs"

abbreviation agent_answers :: "actor_id \<Rightarrow> AgentStatusUpdate option list \<Rightarrow> sched_msg list" where
  "agent_answers i rs \<equiv> map (AgentUpdated i i) (List.map_filter (\<lambda>r. r) rs)"

text \<open>Which requests to a VM actor were answered: first those for its identity, then, once it is known, the
  heartbeats; and what the scheduler is told of them.\<close>

fun vm_answered :: "bool \<Rightarrow> (GetVMInfoReply option \<times> bool) list \<Rightarrow> bool list" where
  "vm_answered known [] = []"
| "vm_answered known ((info, heartbeat) # rs) =
     (let ok = (if known then heartbeat else info \<noteq> None) in ok # vm_answered (known \<or> ok) rs)"

definition vm_identity :: "actor_id \<Rightarrow> (GetVMInfoReply option \<times> bool) list \<Rightarrow> sched_msg list" where
  "vm_identity i rs = map (VmUpdated i) (take 1 (List.map_filter fst rs))"

lemma vm_answered_snoc:
  "vm_answered known (rs @ [r]) =
     vm_answered known rs @ [if known \<or> List.map_filter fst rs \<noteq> [] then snd r else fst r \<noteq> None]"
proof (induction known rs rule: vm_answered.induct)
  case (1 known)
  then show ?case by (cases r) (simp add: List.map_filter_simps)
next
  case (2 known info heartbeat rs)
  then show ?case by (cases info; cases known) (simp_all add: List.map_filter_simps Let_def)
qed

lemma map_filter_snoc: "List.map_filter f (xs @ [x]) = List.map_filter f xs @ (case f x of None \<Rightarrow> [] | Some y \<Rightarrow> [y])"
  by (induction xs) (auto simp: List.map_filter_simps split: option.splits)

lemma agent_updater_persists:
  assumes "\<not> sublist (replicate 6 False) (map (\<lambda>r. r \<noteq> None) rs)"
  shows "\<exists>u. agent_updater_run i rs agent_updater_start = (Some u, agent_answers i rs) \<and>
    unat (up_fails u) = failures_in_a_row (map (\<lambda>r. r \<noteq> None) rs)"
  using assms
proof (induction rs rule: rev_induct)
  case Nil
  then show ?case by (simp add: agent_updater_start_def List.map_filter_simps)
next
  case (snoc r rs)
  let ?oks = "map (\<lambda>r. r \<noteq> None) rs"
  from snoc.prems have "\<not> sublist (replicate 6 False) ?oks" and few: "failures_in_a_row (?oks @ [r \<noteq> None]) \<le> 5"
    using no_six_snoc [of ?oks "r \<noteq> None"] by simp_all
  with snoc.IH obtain u where u: "agent_updater_run i rs agent_updater_start = (Some u, agent_answers i rs)"
      "unat (up_fails u) = failures_in_a_row ?oks" by blast
  show ?case
  proof (cases r)
    case None
    with few u(2) have "unat (up_fails u) \<le> 4" by simp
    with None u fails_bump [of "up_fails u"] show ?thesis
      by (simp add: agent_updater_run_append agent_updater_step_def Let_def map_filter_snoc)
  next
    case (Some upd)
    with u show ?thesis
      by (simp add: agent_updater_run_append agent_updater_step_def Let_def map_filter_snoc)
  qed
qed

lemma vm_updater_persists:
  assumes "\<not> sublist (replicate 6 False) (vm_answered False rs)"
  shows "\<exists>u. vm_updater_run i rs vm_updater_start = (Some u, vm_identity i rs) \<and>
    unat (vu_fails u) = failures_in_a_row (vm_answered False rs) \<and> (vu_initialized u \<longleftrightarrow> List.map_filter fst rs \<noteq> [])"
  using assms
proof (induction rs rule: rev_induct)
  case Nil
  then show ?case by (simp add: vm_updater_start_def vm_identity_def List.map_filter_simps)
next
  case (snoc r rs)
  let ?ok = "if List.map_filter fst rs \<noteq> [] then snd r else fst r \<noteq> None"
  have oks: "vm_answered False (rs @ [r]) = vm_answered False rs @ [?ok]" by (simp add: vm_answered_snoc)
  with snoc.prems have "\<not> sublist (replicate 6 False) (vm_answered False rs)"
    and few: "failures_in_a_row (vm_answered False rs @ [?ok]) \<le> 5"
    using no_six_snoc [of "vm_answered False rs" ?ok] by simp_all
  with snoc.IH obtain u where u: "vm_updater_run i rs vm_updater_start = (Some u, vm_identity i rs)"
      "unat (vu_fails u) = failures_in_a_row (vm_answered False rs)"
      "vu_initialized u \<longleftrightarrow> List.map_filter fst rs \<noteq> []" by blast
  obtain info heartbeat where r: "r = (info, heartbeat)" by (cases r)
  show ?case
  proof (cases ?ok)
    case False
    with few u(2) have "unat (vu_fails u) \<le> 4" by simp
    with False u r oks fails_bump [of "vu_fails u"] show ?thesis
      by (auto simp: vm_updater_run_append vm_updater_step_def Let_def map_filter_snoc vm_identity_def
          Suc_le_eq split: if_splits option.splits)
  next
    case True
    with u r oks show ?thesis
      by (auto simp: vm_updater_run_append vm_updater_step_def Let_def map_filter_snoc vm_identity_def
          Suc_le_eq split: if_splits option.splits)
  qed
qed

lemma sixth_failure:
  assumes "\<not> sublist (replicate 6 False) oks" and "sublist (replicate 6 False) (oks @ [b])"
  shows "\<not> b" and "5 \<le> failures_in_a_row oks"
proof -
  from assms(2) obtain ps ss where ps: "oks @ [b] = ps @ replicate 6 False @ ss" by (auto simp: sublist_def)
  have "ss = []"
  proof (rule ccontr)
    assume "ss \<noteq> []"
    then have "oks = ps @ replicate 6 False @ butlast ss"
      using ps by (metis butlast_append butlast_snoc append_is_Nil_conv)
    with assms(1) show False by (auto simp: sublist_def)
  qed
  moreover have "replicate 6 False = replicate 5 False @ [False]"
    by (simp add: eval_nat_numeral)
  ultimately have *: "oks @ [b] = (ps @ replicate 5 False) @ [False]"
    using ps by simp
  then show "\<not> b" by simp
  have oks: "oks = ps @ replicate 5 False" using * by simp
  have "n \<le> length (takeWhile Not (replicate n False @ qs))" for n qs
    by (induction n) simp_all
  then show "5 \<le> failures_in_a_row oks" by (simp add: oks failures_in_a_row_def)
qed

text \<open>C18. Both polling tasks keep polling until six requests in a row have failed, whatever sequence of answers and
  failures they meet. While no six consecutive requests have failed, the task runs and has told the scheduler
  every status of the agent, or once the identity of the VM; a success, a heartbeat included, starts the count
  anew. At the request that completes the first six failures in a row it ends, with one message that asks the
  scheduler to clean up, and no later answer counts.\<close>

theorem updaters_stop_at_sixth_failure:
  "(\<not> sublist (replicate 6 False) (agent_answered rs) \<longrightarrow>
      (\<exists>u. agent_updater_run i rs agent_updater_start = (Some u, agent_answers i rs))) \<and>
    (\<not> sublist (replicate 6 False) (agent_answered rs) \<and> sublist (replicate 6 False) (agent_answered (rs @ [r])) \<longrightarrow>
      agent_updater_run i (rs @ r # later) agent_updater_start = (None, agent_answers i rs @ [AgentUpdaterStopped i])) \<and>
    (\<not> sublist (replicate 6 False) (vm_answered False rs') \<longrightarrow>
      (\<exists>u. vm_updater_run i rs' vm_updater_start = (Some u, vm_identity i rs'))) \<and>
    (\<not> sublist (replicate 6 False) (vm_answered False rs') \<and> sublist (replicate 6 False) (vm_answered False (rs' @ [r'])) \<longrightarrow>
      vm_updater_run i (rs' @ r' # later') vm_updater_start = (None, vm_identity i rs' @ [VmUpdaterStopped i]))"
proof (intro conjI impI)
  assume "\<not> sublist (replicate 6 False) (agent_answered rs)"
  then show "\<exists>u. agent_updater_run i rs agent_updater_start = (Some u, agent_answers i rs)"
    using agent_updater_persists [of rs i] by auto
next
  assume "\<not> sublist (replicate 6 False) (vm_answered False rs')"
  then show "\<exists>u. vm_updater_run i rs' vm_updater_start = (Some u, vm_identity i rs')"
    using vm_updater_persists [of rs' i] by auto
next
  assume six: "\<not> sublist (replicate 6 False) (agent_answered rs) \<and> sublist (replicate 6 False) (agent_answered (rs @ [r]))"
  then obtain u where u: "agent_updater_run i rs agent_updater_start = (Some u, agent_answers i rs)"
      "unat (up_fails u) = failures_in_a_row (agent_answered rs)"
    using agent_updater_persists [of rs i] by auto
  have "r = None" and "5 \<le> unat (up_fails u)" using six sixth_failure [of "agent_answered rs" "r \<noteq> None"] u(2) by auto
  with u(1) show "agent_updater_run i (rs @ r # later) agent_updater_start = (None, agent_answers i rs @ [AgentUpdaterStopped i])"
    by (simp add: agent_updater_run_append agent_updater_step_def Let_def fails_exceeded)
next
  assume six: "\<not> sublist (replicate 6 False) (vm_answered False rs') \<and> sublist (replicate 6 False) (vm_answered False (rs' @ [r']))"
  then obtain u where u: "vm_updater_run i rs' vm_updater_start = (Some u, vm_identity i rs')"
      "unat (vu_fails u) = failures_in_a_row (vm_answered False rs')" "vu_initialized u \<longleftrightarrow> List.map_filter fst rs' \<noteq> []"
    using vm_updater_persists [of rs' i] by auto
  have "\<not> (if vu_initialized u then snd r' else fst r' \<noteq> None)" and "5 \<le> unat (vu_fails u)"
    using six sixth_failure [of "vm_answered False rs'" "if vu_initialized u then snd r' else fst r' \<noteq> None"] u(2,3)
    by (simp_all add: vm_answered_snoc)
  with u(1) show "vm_updater_run i (rs' @ r' # later') vm_updater_start = (None, vm_identity i rs' @ [VmUpdaterStopped i])"
    by (auto simp: vm_updater_run_append vm_updater_step_def Let_def fails_exceeded split: if_splits option.splits)
qed

theorem updaters_stop_at_sixth_failure_witness:
  "vm_updater_run 4 ((Some \<lparr>info_vmid = 7, info_config = None\<rparr>, True) # replicate 5 (None, False) @
      (None, True) # replicate 5 (None, False) @ (None, False) # [(None, True)]) vm_updater_start =
     (None, [VmUpdated 4 \<lparr>info_vmid = 7, info_config = None\<rparr>, VmUpdaterStopped 4])"
  using updaters_stop_at_sixth_failure [where rs' = "(Some \<lparr>info_vmid = 7, info_config = None\<rparr>, True) #
      replicate 5 (None, False) @ (None, True) # replicate 5 (None, False)" and r' = "(None, False)" and i = 4 and later' = "[(None, True)]"]
  by (simp add: eval_nat_numeral vm_identity_def List.map_filter_simps sublist_code)

end
