(* ===== verification/Polling.thy ===== *)
theory Polling
  imports Agent_Invariants Scheduler_Observation
begin

text \<open>
  An agent, the updater task that polls it and the scheduler, as they run side by side
  (\<open>actors/agent_actor.rs\<close>, \<open>actors/scheduler_actor/discovery.rs\<close>): answers wait in the scheduler's mailbox while the
  agent changes and the task polls again, tasks give up, links die and agents are discovered anew.
\<close>

section \<open>The system\<close>

text \<open>The mailbox holds the messages of the agent's updater tasks. Each carries, for the specification only, the
  agent as it was when the last successful poll before the message was answered; \<open>w_polled\<close> is the agent at the last
  poll whose answer was sent, \<open>w_seen\<close> the one that belongs to the message handled last.\<close>

record watched =
  w_agent :: AgentActor
  w_updater :: "AgentUpdater option"
  w_mailbox :: "(sched_msg \<times> AgentActor option) list"
  w_sched :: SchedulerActor
  w_polled :: "AgentActor option"
  w_seen :: "AgentActor option"

inductive watch_step :: "string option \<Rightarrow> actor_id \<Rightarrow> watched \<Rightarrow> watched \<Rightarrow> bool" for hn i where
  agent_acts: "agent_step revision_room (w_agent w) ag \<Longrightarrow> watch_step hn i w (w\<lparr>w_agent := ag\<rparr>)"
| poll_answered:
    "\<lbrakk>w_updater w = Some u;
      agent_updater_step i True (Some (AgentActor_GetAgentStatus hn (agent_updater_request u) (w_agent w))) u = (u', ms)\<rbrakk>
     \<Longrightarrow> watch_step hn i w (w\<lparr>w_updater := u', w_mailbox := w_mailbox w @ map (\<lambda>m. (m, Some (w_agent w))) ms,
           w_polled := Some (w_agent w)\<rparr>)"
| poll_failed:
    "\<lbrakk>w_updater w = Some u; agent_updater_step i True None u = (u', ms)\<rbrakk>
     \<Longrightarrow> watch_step hn i w (w\<lparr>w_updater := u', w_mailbox := w_mailbox w @ map (\<lambda>m. (m, w_polled w)) ms\<rparr>)"
| updated:
    "w_mailbox w = (AgentUpdated j r upd, g) # q
     \<Longrightarrow> watch_step hn i w (w\<lparr>w_mailbox := q, w_sched := handle_AgentUpdated now j r upd (w_sched w), w_seen := g\<rparr>)"
| stopped:
    "w_mailbox w = (AgentUpdaterStopped j, g) # q
     \<Longrightarrow> watch_step hn i w (w\<lparr>w_mailbox := q, w_sched := handle_AgentUpdaterStopped j (w_sched w), w_seen := g,
           w_updater := None\<rparr>)"
| link_died:
    "map_of (actor_kinds (w_sched w)) i = Some KindAgent
     \<Longrightarrow> watch_step hn i w (w\<lparr>w_sched := fst (SchedulerActor_on_link_died True i (w_sched w)), w_updater := None\<rparr>)"
| discovered:
    "\<lbrakk>w_updater w = None; \<not> task_running finished (agent_keepalive_tasks (w_sched w)) i\<rbrakk>
     \<Longrightarrow> watch_step hn i w (w\<lparr>w_sched := handle_AgentActorDiscovered finished True t i (w_sched w),
           w_updater := Some agent_updater_start\<rparr>)"
| elsewhere:
    "\<lbrakk>sched_step (w_sched w) s; map_of (agent_data_cache s) i = map_of (agent_data_cache (w_sched w)) i\<rbrakk>
     \<Longrightarrow> watch_step hn i w (w\<lparr>w_sched := s\<rparr>)"

definition watch_init :: "actor_id \<Rightarrow> watched \<Rightarrow> bool" where
  "watch_init i w \<longleftrightarrow>
     reachable agent_init (agent_step revision_room) (w_agent w) \<and> w_updater w = None \<and> w_mailbox w = [] \<and>
     map_of (agent_data_cache (w_sched w)) i = None \<and> w_polled w = None \<and> w_seen w = None"

section \<open>What the scheduler holds of the agent\<close>

definition cached_status :: "actor_id \<Rightarrow> SchedulerActor \<Rightarrow> (AgentStatus \<times> u64) option" where
  "cached_status i s = map_option (\<lambda>c. (ca_data c, ca_revision c)) (map_of (agent_data_cache s) i)"

text \<open>The effect of an update on it: an unknown agent becomes known by a snapshot only.\<close>

definition receive :: "AgentStatusUpdate \<Rightarrow> (AgentStatus \<times> u64) option \<Rightarrow> (AgentStatus \<times> u64) option" where
  "receive upd v =
     (case v of
        Some p \<Rightarrow> Some (accept_update upd p)
      | None \<Rightarrow> (case upd of Full r st \<Rightarrow> Some (st, r) | Delta _ _ _ _ _ \<Rightarrow> None))"

fun receive_msg :: "sched_msg \<Rightarrow> (AgentStatus \<times> u64) option \<Rightarrow> (AgentStatus \<times> u64) option" where
  "receive_msg (AgentUpdated _ _ upd) v = receive upd v"
| "receive_msg (AgentUpdaterStopped _) v = None"
| "receive_msg _ v = v"

lemma cached_after_update: "cached_status i (handle_AgentUpdated now i r upd s) = receive upd (cached_status i s)"
  by (cases upd) (auto simp: cached_status_def receive_def handle_AgentUpdated_def first_snapshot_def accept_update_def
      Let_def split: option.splits)

lemma cached_after_cleanup: "cached_status i (cleanup_agent_actor i s) = None"
  by (simp add: cached_status_def cleanup_agent_actor_def Let_def invalidate_pending_resources_def)

text \<open>A status and revision are those of an agent in this state, or in an earlier one that had the same revision.\<close>

definition as_of :: "string option \<Rightarrow> AgentStatus \<times> u64 \<Rightarrow> AgentActor \<Rightarrow> bool" where
  "as_of hn p ag \<longleftrightarrow>
     (\<exists>ag0. log_room_inv ag0 \<and> agent_evolves ag0 ag \<and> membership_revision ag0 = membership_revision ag \<and>
       p = (full_status hn ag0, membership_revision ag0))"

lemma as_of_tracks: "as_of hn p ag \<Longrightarrow> tracks p (full_status hn ag) (membership_revision ag)"
  using agent_source.same_revision by (auto simp: as_of_def tracks_def)

lemma as_of_now: "log_room_inv ag \<Longrightarrow> as_of hn (full_status hn ag, membership_revision ag) ag"
  by (auto simp: as_of_def agent_evolves_def)

lemma as_of_later:
  "as_of hn p ag0 \<Longrightarrow> agent_evolves ag0 ag \<Longrightarrow> membership_revision ag0 = membership_revision ag \<Longrightarrow> as_of hn p ag"
  by (auto simp: as_of_def agent_evolves_def intro: rtranclp_trans)

text \<open>The cache holds nothing, or the agent as of the given state.\<close>

definition holds :: "string option \<Rightarrow> (AgentStatus \<times> u64) option \<Rightarrow> AgentActor option \<Rightarrow> bool" where
  "holds hn v g \<longleftrightarrow> (\<forall>p. v = Some p \<longrightarrow> (\<exists>ag. g = Some ag \<and> as_of hn p ag))"

text \<open>A message in the mailbox: handled in a state that holds the agent of its predecessor it leads to a state that
  holds its own.\<close>

definition msg_ok :: "string option \<Rightarrow> actor_id \<Rightarrow> AgentActor option \<Rightarrow> sched_msg \<Rightarrow> AgentActor option \<Rightarrow> bool" where
  "msg_ok hn i b m g \<longleftrightarrow>
     (\<forall>v. holds hn v b \<longrightarrow> holds hn (receive_msg m v) g) \<and>
     (case m of AgentUpdated j r upd \<Rightarrow> j = i | AgentUpdaterStopped j \<Rightarrow> j = i | _ \<Rightarrow> False)"

fun mailbox_ok ::
  "string option \<Rightarrow> actor_id \<Rightarrow> AgentActor option \<Rightarrow> (sched_msg \<times> AgentActor option) list \<Rightarrow> AgentActor option \<Rightarrow> bool" where
  "mailbox_ok hn i b [] e \<longleftrightarrow> b = e"
| "mailbox_ok hn i b ((m, g) # q) e \<longleftrightarrow> msg_ok hn i b m g \<and> mailbox_ok hn i g q e"

lemma mailbox_ok_append:
  "mailbox_ok hn i b q e \<Longrightarrow> msg_ok hn i e m g \<Longrightarrow> mailbox_ok hn i b (q @ [(m, g)]) g"
  by (induction q arbitrary: b) auto

lemma stop_ok: "msg_ok hn i b (AgentUpdaterStopped i) b"
  by (simp add: msg_ok_def holds_def)

text \<open>An answer of the agent: the first request of a task is answered with a snapshot, which holds whatever the
  cache held before; a later one continues from the state of the previous poll.\<close>

lemma snapshot_received:
  assumes "holds hn v b" and "\<And>ag0. b = Some ag0 \<Longrightarrow> log_room_inv ag0 \<and> agent_evolves ag0 ag" and "log_room_inv ag"
  shows "holds hn (receive (Full (membership_revision ag) (full_status hn ag)) v) (Some ag)"
proof (cases v)
  case None
  with assms(3) show ?thesis by (simp add: receive_def holds_def as_of_now)
next
  case (Some p)
  then obtain ag0 where b: "b = Some ag0" and p: "as_of hn p ag0"
    using assms(1) by (auto simp: holds_def)
  have inv: "log_room_inv ag0" "agent_evolves ag0 ag" using assms(2) b by auto
  have "as_of hn (accept_update (Full (membership_revision ag) (full_status hn ag)) p) ag"
  proof (cases "membership_revision ag \<le> snd p")
    case True
    with as_of_tracks [OF p] agent_source.revision_le [OF inv] have "membership_revision ag0 = membership_revision ag"
      by (simp add: tracks_def)
    with True p inv(2) show ?thesis
      by (simp add: accept_update_def as_of_later)
  qed (simp add: accept_update_def as_of_now assms(3))
  then show ?thesis by (simp add: Some receive_def holds_def)
qed

lemma answer_received:
  assumes "holds hn v (Some ag0)" and "log_room_inv ag0" and "agent_evolves ag0 ag"
    and "since_revision msg = membership_revision ag0" and "\<not> initial msg"
  shows "holds hn (receive (AgentActor_GetAgentStatus hn msg ag) v) (Some ag)"
proof (cases v)
  have inv: "log_room_inv ag" using assms(2,3) by (rule agent_source.evolves_inv)
  {
    case None
    with inv show ?thesis
      by (auto simp: receive_def holds_def AgentActor_GetAgentStatus_def Let_def as_of_now)
  next
    case (Some p)
    then have p: "as_of hn p ag0" using assms(1) by (simp add: holds_def)
    note tr = as_of_tracks [OF p]
    then have msg: "msg = \<lparr>since_revision = snd p, initial = False\<rparr>"
      using assms(4,5) by (simp add: tracks_def)
    have "as_of hn (accept_update (AgentActor_GetAgentStatus hn msg ag) p) ag"
    proof (cases "membership_revision ag0 = membership_revision ag")
      case True
      with tr p assms(3) show ?thesis
        by (simp add: accept_update_def agent_source.poll_revision tracks_def as_of_later)
    next
      case False
      from agent_source.tracks_poll [OF tr assms(2,3)] False
      have "accept_update (AgentActor_GetAgentStatus hn msg ag) p = (full_status hn ag, membership_revision ag)"
        by (auto simp: msg tracks_def intro: prod_eqI)
      with inv show ?thesis by (simp add: as_of_now)
    qed
    then show ?thesis by (simp add: Some receive_def holds_def)
  }
qed

section \<open>Invariant\<close>

abbreviation after_mailbox :: "actor_id \<Rightarrow> watched \<Rightarrow> (AgentStatus \<times> u64) option" where
  "after_mailbox i w \<equiv> foldl (\<lambda>v m. receive_msg (fst m) v) (cached_status i (w_sched w)) (w_mailbox w)"

abbreviation stop_pending :: "watched \<Rightarrow> bool" where
  "stop_pending w \<equiv> \<exists>m \<in> set (w_mailbox w). \<exists>j. fst m = AgentUpdaterStopped j"

text \<open>The updater task knows the revision of the last poll, and once the mailbox has been worked off the agent is
  known, unless a task that gave up is about to remove it.\<close>

definition updater_ok :: "actor_id \<Rightarrow> watched \<Rightarrow> bool" where
  "updater_ok i w \<longleftrightarrow>
     (\<forall>u. w_updater w = Some u \<and> \<not> up_initial u \<longrightarrow>
        (\<exists>ag. w_polled w = Some ag \<and> up_revision u = membership_revision ag) \<and>
        (stop_pending w \<or> after_mailbox i w \<noteq> None))"

definition watch_inv :: "string option \<Rightarrow> actor_id \<Rightarrow> watched \<Rightarrow> bool" where
  "watch_inv hn i w \<longleftrightarrow>
     log_room_inv (w_agent w) \<and>
     (\<forall>ag. w_polled w = Some ag \<longrightarrow> log_room_inv ag \<and> agent_evolves ag (w_agent w)) \<and>
     holds hn (cached_status i (w_sched w)) (w_seen w) \<and>
     mailbox_ok hn i (w_seen w) (w_mailbox w) (w_polled w) \<and>
     updater_ok i w"

lemma agent_acts_inv:
  assumes "watch_inv hn i w" and "agent_step revision_room (w_agent w) ag"
  shows "watch_inv hn i (w\<lparr>w_agent := ag\<rparr>)"
proof -
  have "agent_evolves (w_agent w) ag"
    using assms(2) by (simp add: agent_evolves_def r_into_rtranclp)
  moreover from this have "log_room_inv ag"
    using assms(1) agent_source.evolves_inv by (auto simp: watch_inv_def)
  ultimately show ?thesis
    using assms(1) by (auto simp: watch_inv_def updater_ok_def agent_evolves_def)
qed

lemma answer_ok:
  assumes "watch_inv hn i w" and "w_updater w = Some u"
  shows "msg_ok hn i (w_polled w)
    (AgentUpdated i i (AgentActor_GetAgentStatus hn (agent_updater_request u) (w_agent w))) (Some (w_agent w))"
proof (cases "up_initial u")
  case True
  then have "AgentActor_GetAgentStatus hn (agent_updater_request u) (w_agent w) =
      Full (membership_revision (w_agent w)) (full_status hn (w_agent w))"
    by (intro agent_source.poll_initial) (simp add: agent_updater_request_def)
  then show ?thesis
    using assms(1) by (auto simp: msg_ok_def watch_inv_def intro: snapshot_received)
next
  case False
  then obtain ag where ag: "w_polled w = Some ag" "up_revision u = membership_revision ag"
    using assms by (auto simp: watch_inv_def updater_ok_def)
  then have "log_room_inv ag" "agent_evolves ag (w_agent w)"
    using assms(1) by (auto simp: watch_inv_def)
  then show ?thesis
    using ag False by (auto simp: msg_ok_def agent_updater_request_def intro: answer_received)
qed

lemma poll_answered_inv:
  assumes inv: "watch_inv hn i w" and u: "w_updater w = Some u"
    and step: "agent_updater_step i True (Some (AgentActor_GetAgentStatus hn (agent_updater_request u) (w_agent w))) u = (u', ms)"
  shows "watch_inv hn i (w\<lparr>w_updater := u', w_mailbox := w_mailbox w @ map (\<lambda>m. (m, Some (w_agent w))) ms,
    w_polled := Some (w_agent w)\<rparr>)"
proof -
  let ?upd = "AgentActor_GetAgentStatus hn (agent_updater_request u) (w_agent w)"
  have ms: "ms = [AgentUpdated i i ?upd]"
    and u': "u' = Some (u\<lparr>up_revision := update_revision ?upd, up_initial := False, up_fails := 0\<rparr>)"
    using step by (auto simp: agent_updater_step_def Let_def)
  have known: "stop_pending w \<or> receive ?upd (after_mailbox i w) \<noteq> None"
  proof (cases "up_initial u")
    case True
    then have "?upd = Full (membership_revision (w_agent w)) (full_status hn (w_agent w))"
      by (intro agent_source.poll_initial) (simp add: agent_updater_request_def)
    then show ?thesis by (simp add: receive_def split: option.split)
  next
    case False
    with inv u show ?thesis by (auto simp: watch_inv_def updater_ok_def receive_def)
  qed
  have "mailbox_ok hn i (w_seen w) (w_mailbox w @ [(AgentUpdated i i ?upd, Some (w_agent w))]) (Some (w_agent w))"
    using inv by (intro mailbox_ok_append [where e = "w_polled w"] answer_ok u) (auto simp: watch_inv_def)
  then show ?thesis
    using inv known agent_source.poll_revision [of hn "agent_updater_request u" "w_agent w"]
    by (auto simp: watch_inv_def updater_ok_def ms u' agent_evolves_def)
qed

lemma poll_failed_inv:
  assumes inv: "watch_inv hn i w" and u: "w_updater w = Some u" and step: "agent_updater_step i True None u = (u', ms)"
  shows "watch_inv hn i (w\<lparr>w_updater := u', w_mailbox := w_mailbox w @ map (\<lambda>m. (m, w_polled w)) ms\<rparr>)"
proof (cases u')
  case None
  then have "ms = [AgentUpdaterStopped i]"
    using step by (auto simp: agent_updater_step_def Let_def split: if_splits)
  with inv None show ?thesis
    by (auto simp: watch_inv_def updater_ok_def intro: mailbox_ok_append stop_ok)
next
  case (Some v)
  then have "ms = []" and "up_initial v = up_initial u" and "up_revision v = up_revision u"
    using step by (auto simp: agent_updater_step_def Let_def split: if_splits)
  with inv u Some show ?thesis
    by (auto simp: watch_inv_def updater_ok_def)
qed

lemma updated_inv:
  assumes inv: "watch_inv hn i w" and box: "w_mailbox w = (AgentUpdated j r upd, g) # q"
  shows "watch_inv hn i (w\<lparr>w_mailbox := q, w_sched := handle_AgentUpdated now j r upd (w_sched w), w_seen := g\<rparr>)"
proof -
  have j: "j = i" and ok: "\<And>v. holds hn v (w_seen w) \<Longrightarrow> holds hn (receive upd v) g" and rest: "mailbox_ok hn i g q (w_polled w)"
    using inv by (auto simp: watch_inv_def box msg_ok_def)
  show ?thesis
    using inv ok rest by (auto simp: watch_inv_def updater_ok_def box j cached_after_update)
qed

lemma stopped_inv:
  assumes inv: "watch_inv hn i w" and box: "w_mailbox w = (AgentUpdaterStopped j, g) # q"
  shows "watch_inv hn i (w\<lparr>w_mailbox := q, w_sched := handle_AgentUpdaterStopped j (w_sched w), w_seen := g, w_updater := None\<rparr>)"
  using inv
  by (auto simp: watch_inv_def updater_ok_def box msg_ok_def handle_AgentUpdaterStopped_def cached_after_cleanup holds_def)

lemma link_died_inv_watch:
  assumes "watch_inv hn i w" and "map_of (actor_kinds (w_sched w)) i = Some KindAgent"
  shows "watch_inv hn i (w\<lparr>w_sched := fst (SchedulerActor_on_link_died True i (w_sched w)), w_updater := None\<rparr>)"
  using assms
  by (auto simp: watch_inv_def updater_ok_def SchedulerActor_on_link_died_def Let_def cached_after_cleanup holds_def)

lemma discovered_inv_watch:
  assumes "watch_inv hn i w" and "w_updater w = None"
  shows "watch_inv hn i (w\<lparr>w_sched := handle_AgentActorDiscovered finished True t i (w_sched w),
    w_updater := Some agent_updater_start\<rparr>)"
proof -
  have "cached_status i (handle_AgentActorDiscovered finished True t i (w_sched w)) = cached_status i (w_sched w)"
    by (simp add: cached_status_def handle_AgentActorDiscovered_def Let_def)
  with assms show ?thesis
    by (auto simp: watch_inv_def updater_ok_def agent_updater_start_def)
qed

lemma elsewhere_inv:
  assumes "watch_inv hn i w" and "map_of (agent_data_cache s) i = map_of (agent_data_cache (w_sched w)) i"
  shows "watch_inv hn i (w\<lparr>w_sched := s\<rparr>)"
  using assms by (auto simp: watch_inv_def updater_ok_def cached_status_def)

interpretation watching: invariant_system "watch_init i" "watch_step hn i" "watch_inv hn i" for hn i
proof unfold_locales
  fix w assume "watch_init i w"
  then show "watch_inv hn i w"
    using agent_log.reachable_inv
    by (auto simp: watch_init_def watch_inv_def updater_ok_def holds_def cached_status_def)
next
  fix w w' assume "watch_inv hn i w" and "watch_step hn i w w'"
  from this(2,1) show "watch_inv hn i w'"
    by (induction rule: watch_step.induct)
      (auto intro: agent_acts_inv poll_answered_inv poll_failed_inv updated_inv stopped_inv link_died_inv_watch
        discovered_inv_watch elsewhere_inv)
qed

text \<open>A snapshot that was sent before the link of its agent died is still handled afterwards and makes the agent
  known again, although no task polls it any more.\<close>

lemma late_snapshot_revives:
  "map_of (agent_data_cache (handle_AgentUpdated now i i (Full r st) (cleanup_agent_actor i s))) i \<noteq> None"
  "map_of (agent_keepalive_tasks (handle_AgentUpdated now i i (Full r st) (cleanup_agent_actor i s))) i = None"
  by (simp_all add: handle_AgentUpdated_def first_snapshot_def cleanup_agent_actor_def Let_def
      invalidate_pending_resources_def)

section \<open>Sample run\<close>

text \<open>The agent is discovered and polled, takes a VM, and is polled again before the first answer is handled.\<close>

definition sample_update0 :: AgentStatusUpdate where
  "sample_update0 = AgentActor_GetAgentStatus None (agent_updater_request agent_updater_start) sample_agent0"

definition sample_updater1 :: AgentUpdater where
  "sample_updater1 = agent_updater_start\<lparr>up_revision := update_revision sample_update0, up_initial := False, up_fails := 0\<rparr>"

definition sample_update1 :: AgentStatusUpdate where
  "sample_update1 = AgentActor_GetAgentStatus None (agent_updater_request sample_updater1) sample_agent1"

definition sample_updater2 :: AgentUpdater where
  "sample_updater2 = sample_updater1\<lparr>up_revision := update_revision sample_update1, up_initial := False, up_fails := 0\<rparr>"

definition sample_known :: SchedulerActor where
  "sample_known = handle_AgentActorDiscovered (\<lambda>_. False) True 0 4 (SchedulerActor_on_start 0)"

definition sample_waiting :: watched where
  "sample_waiting =
     \<lparr>w_agent = sample_agent1, w_updater = Some sample_updater2,
      w_mailbox = [(AgentUpdated 4 4 sample_update0, Some sample_agent0), (AgentUpdated 4 4 sample_update1, Some sample_agent1)],
      w_sched = sample_known, w_polled = Some sample_agent1, w_seen = None\<rparr>"

definition sample_handled :: watched where
  "sample_handled = sample_waiting\<lparr>w_mailbox := [],
     w_sched := handle_AgentUpdated 2 4 4 sample_update1 (handle_AgentUpdated 1 4 4 sample_update0 sample_known),
     w_seen := Some sample_agent1\<rparr>"

lemma sample_waiting_reachable: "reachable (watch_init 4) (watch_step None 4) sample_waiting"
proof -
  let ?w0 = "\<lparr>w_agent = sample_agent0, w_updater = None, w_mailbox = [], w_sched = SchedulerActor_on_start 0,
    w_polled = None, w_seen = None\<rparr>"
  let ?w1 = "?w0\<lparr>w_sched := sample_known, w_updater := Some agent_updater_start\<rparr>"
  let ?w2 = "?w1\<lparr>w_updater := Some sample_updater1, w_mailbox := [(AgentUpdated 4 4 sample_update0, Some sample_agent0)],
    w_polled := Some sample_agent0\<rparr>"
  let ?w3 = "?w2\<lparr>w_agent := sample_agent1\<rparr>"
  have "reachable (watch_init 4) (watch_step None 4) ?w0"
    by (rule reach_init) (auto simp: watch_init_def SchedulerActor_on_start_def intro: reach_init sample_agent0_init)
  moreover have "watch_step None 4 ?w0 ?w1"
    using discovered [of ?w0 "\<lambda>_. False" 4 None 0]
    by (simp add: sample_known_def task_running_def SchedulerActor_on_start_def)
  moreover have "watch_step None 4 ?w1 ?w2"
    using poll_answered [of ?w1 agent_updater_start 4 None "Some sample_updater1" "[AgentUpdated 4 4 sample_update0]"]
    by (simp add: agent_updater_step_def sample_updater1_def sample_update0_def Let_def)
  moreover have "revision_room sample_agent1"
    by (simp add: sample_agent1_eq revision_room_def)
  then have "agent_step revision_room sample_agent0 sample_agent1"
    unfolding sample_agent1_def by (intro step_create) simp_all
  then have "watch_step None 4 ?w2 ?w3"
    using agent_acts [of ?w2 sample_agent1 None 4] by simp
  moreover have "watch_step None 4 ?w3 sample_waiting"
    using poll_answered [of ?w3 sample_updater1 4 None "Some sample_updater2" "[AgentUpdated 4 4 sample_update1]"]
    by (simp add: agent_updater_step_def sample_updater2_def sample_update1_def sample_waiting_def Let_def)
  ultimately show ?thesis by (meson reach_step)
qed

lemma sample_handled_reachable: "reachable (watch_init 4) (watch_step None 4) sample_handled"
proof -
  let ?w = "sample_waiting\<lparr>w_mailbox := [(AgentUpdated 4 4 sample_update1, Some sample_agent1)],
    w_sched := handle_AgentUpdated 1 4 4 sample_update0 sample_known, w_seen := Some sample_agent0\<rparr>"
  have "watch_step None 4 sample_waiting ?w"
    using updated [of sample_waiting 4 4 sample_update0 "Some sample_agent0" _ None 4 1] by (simp add: sample_waiting_def)
  moreover have "watch_step None 4 ?w sample_handled"
    using updated [of ?w 4 4 sample_update1 "Some sample_agent1" "[]" None 4 2]
    by (simp add: sample_handled_def sample_waiting_def)
  ultimately show ?thesis
    using sample_waiting_reachable by (meson reach_step)
qed

section \<open>The cache tracks the agent\<close>

text \<open>C20. The scheduler's view of an agent never mixes states of the agent: in every state that agent, updater task
  and scheduler can reach while answers wait in the mailbox, polls fail, tasks give up, links die, the agent is
  discovered anew and other messages are handled in between, a cached status is in every field the status of the
  agent in one state ag0, and the agent came from there to the state ag of the poll whose message was handled
  last without a change of revision. So VM list, capacity, host name, metadata and revision are those of that
  poll, whether it was answered with snapshots or with deltas; the used vCPUs and memory are those of ag0, which
  may be older than the poll, since the replacement of a VM does not change the revision. Once a running task
  has polled and its messages have been handled, the agent is cached and all this holds for its last poll.\<close>

theorem polling_tracks_agent:
  assumes "reachable (watch_init i) (watch_step hn i) w"
  shows "(\<forall>c. map_of (agent_data_cache (w_sched w)) i = Some c \<longrightarrow>
       (\<exists>ag0 ag. w_seen w = Some ag \<and> agent_evolves ag0 ag \<and> ca_data c = full_status hn ag0 \<and>
         same_membership (ca_data c) (full_status hn ag) \<and>
         ca_revision c = membership_revision ag0 \<and> ca_revision c = membership_revision ag)) \<and>
     (w_updater w = Some u \<and> \<not> up_initial u \<and> w_mailbox w = [] \<longrightarrow>
       (\<exists>c. map_of (agent_data_cache (w_sched w)) i = Some c \<and> w_seen w = w_polled w \<and>
         (\<exists>ag. w_polled w = Some ag \<and> agent_evolves ag (w_agent w))))"
proof (intro conjI impI allI)
  have inv: "watch_inv hn i w" using assms by (rule watching.reachable_inv)
  show "\<exists>ag0 ag. w_seen w = Some ag \<and> agent_evolves ag0 ag \<and> ca_data c = full_status hn ag0 \<and>
      same_membership (ca_data c) (full_status hn ag) \<and>
      ca_revision c = membership_revision ag0 \<and> ca_revision c = membership_revision ag"
    if "map_of (agent_data_cache (w_sched w)) i = Some c" for c
  proof -
    have "holds hn (Some (ca_data c, ca_revision c)) (w_seen w)"
      using inv that by (simp add: watch_inv_def cached_status_def)
    then obtain ag where ag: "w_seen w = Some ag" "as_of hn (ca_data c, ca_revision c) ag"
      by (auto simp: holds_def)
    with as_of_tracks [OF ag(2)] show ?thesis
      by (auto simp: as_of_def tracks_def)
  qed
  assume up: "w_updater w = Some u \<and> \<not> up_initial u \<and> w_mailbox w = []"
  then have "cached_status i (w_sched w) \<noteq> None" and same: "w_seen w = w_polled w"
    using inv by (auto simp: watch_inv_def updater_ok_def)
  moreover obtain ag where "w_polled w = Some ag" "agent_evolves ag (w_agent w)"
    using inv up by (auto simp: watch_inv_def updater_ok_def)
  ultimately show "\<exists>c. map_of (agent_data_cache (w_sched w)) i = Some c \<and> w_seen w = w_polled w \<and>
      (\<exists>ag. w_polled w = Some ag \<and> agent_evolves ag (w_agent w))"
    by (auto simp: cached_status_def)
qed

theorem polling_tracks_agent_witness:
  "\<exists>c. map_of (agent_data_cache (w_sched sample_handled)) 4 = Some c \<and> st_vms (ca_data c) = [7] \<and> ca_revision c = 1"
proof -
  have "\<not> up_initial sample_updater2"
    by (simp add: sample_updater2_def)
  then have up: "w_updater sample_handled = Some sample_updater2 \<and> \<not> up_initial sample_updater2 \<and> w_mailbox sample_handled = []"
    and seen: "w_seen sample_handled = Some sample_agent1"
    by (simp_all add: sample_handled_def sample_waiting_def)
  note tracked = polling_tracks_agent [OF sample_handled_reachable, of sample_updater2]
  with up obtain c where c: "map_of (agent_data_cache (w_sched sample_handled)) 4 = Some c" by blast
  with tracked seen have "same_membership (ca_data c) (full_status None sample_agent1)"
    and "ca_revision c = membership_revision sample_agent1" by auto
  with c show ?thesis
    by (auto simp: sample_agent1_eq same_membership_def full_status_def hm_keys_def)
qed

end
