(* ===== verification/Scheduler_Intent.thy ===== *)
theory Scheduler_Intent
  imports Scheduler_Observation
begin

text \<open>
  What the scheduler is asked to keep running, as an abstract object. The manifests of the scheduler
  (\<open>vm_manifests\<close> of \<open>scheduler_actor/mod.rs\<close>) are the cluster's intent: the handlers of
  \<open>handlers.rs\<close> and \<open>discovery.rs\<close> are labelled with what they change of it, and the manifests are
  shown to be exactly what those events add up to, whatever else the scheduler handles in between.
\<close>

section \<open>The abstract object\<close>

datatype intent_event =
    Wanted ulid VmManifest
  | Unwanted ulid
  | Unchanged

fun intent_effect :: "(ulid \<rightharpoonup> VmManifest) \<Rightarrow> intent_event \<Rightarrow> (ulid \<rightharpoonup> VmManifest)" where
  "intent_effect intent (Wanted v m) = intent(v \<mapsto> m)"
| "intent_effect intent (Unwanted v) = intent(v := None)"
| "intent_effect intent Unchanged = intent"

text \<open>The events that name a VM.\<close>

fun event_vmid :: "intent_event \<Rightarrow> ulid option" where
  "event_vmid (Wanted v _) = Some v"
| "event_vmid (Unwanted v) = Some v"
| "event_vmid Unchanged = None"

lemma intent_of_untouched:
  "\<forall>e\<in>set es. event_vmid e \<noteq> Some v \<Longrightarrow> foldl intent_effect intent es v = intent v"
proof (induction es rule: rev_induct)
  case (snoc e es)
  then show ?case by (cases e) auto
qed simp

lemma intent_kept:
  "Unwanted v \<notin> set es \<Longrightarrow> intent v \<noteq> None \<or> (\<exists>m. Wanted v m \<in> set es) \<Longrightarrow>
    foldl intent_effect intent es v \<noteq> None"
proof (induction es rule: rev_induct)
  case (snoc e es)
  then show ?case by (cases e) auto
qed simp

section \<open>Events of the handlers\<close>

text \<open>
  A create request counts when an agent was asked and either accepted it or left a VM actor behind;
  a delete or shutdown request when it was answered; a report of a VM actor when it carries the
  manifest.
\<close>

definition create_event :: "bool \<Rightarrow> CreateVM \<Rightarrow> (string + CreateVMReply) \<times> sched_effect list \<Rightarrow> intent_event" where
  "create_event actor_exists msg outcome =
     (case outcome of
        (reply, AskCreate _ _ # _) \<Rightarrow>
          if isl reply \<and> \<not> actor_exists then Unchanged else Wanted (create_vmid msg) (create_config msg)
      | _ \<Rightarrow> Unchanged)"

definition removal_event :: "ulid \<Rightarrow> string + 'r \<Rightarrow> intent_event" where
  "removal_event v reply = (if isl reply then Unchanged else Unwanted v)"

definition report_event :: "GetVMInfoReply \<Rightarrow> intent_event" where
  "report_event data =
     (case info_config data of Some m \<Rightarrow> Wanted (info_vmid data) m | None \<Rightarrow> Unchanged)"

inductive sched_event :: "SchedulerActor \<Rightarrow> intent_event \<Rightarrow> SchedulerActor \<Rightarrow> bool" where
  ev_create: "SchedulerActor_CreateVM tb fb now ask ex msg s = (t, outcome) \<Longrightarrow>
    sched_event s (create_event ex msg outcome) t"
| ev_delete: "SchedulerActor_DeleteVM lookup sent dmsg s = (t, reply, effects) \<Longrightarrow>
    sched_event s (removal_event (delete_vmid dmsg) reply) t"
| ev_shutdown: "SchedulerActor_ShutdownVM lookup sent smsg s = (t, reply', effects) \<Longrightarrow>
    sched_event s (removal_event (shutdown_vmid smsg) reply') t"
| ev_vm_updated: "sched_event s (report_event data) (handle_VmUpdated now i data s)"
| ev_link_died: "sched_event s Unchanged (fst (SchedulerActor_on_link_died alive i s))"
| ev_vm_discovered: "sched_event s Unchanged (handle_VmActorDiscovered fin ok k i s)"
| ev_agent_discovered: "sched_event s Unchanged (handle_AgentActorDiscovered fin ok k i s)"
| ev_vm_stopped: "sched_event s Unchanged (handle_VmUpdaterStopped i s)"
| ev_agent_updated: "sched_event s Unchanged (handle_AgentUpdated now i i upd s)"
| ev_agent_stopped: "sched_event s Unchanged (handle_AgentUpdaterStopped i s)"
| ev_reconcile: "sched_event s Unchanged (fst (handle_ReconcileVmPlacements now clock tell_ok s))"

text \<open>The labelled steps are the steps of the scheduler, no more and no fewer.\<close>

lemma sched_event_step: "(\<exists>e. sched_event s e t) \<longleftrightarrow> sched_step s t"
proof
  assume "\<exists>e. sched_event s e t"
  then obtain e where "sched_event s e t" ..
  then show "sched_step s t"
  proof cases
    case (ev_create tb fb now ask ex msg outcome)
    then show ?thesis using on_create [of s tb fb now ask ex msg] by simp
  next
    case (ev_delete lookup sent dmsg reply effects)
    then show ?thesis using on_delete [of s lookup sent dmsg] by simp
  next
    case (ev_shutdown lookup sent smsg reply effects)
    then show ?thesis using on_shutdown [of s lookup sent smsg] by simp
  qed (auto intro: sched_step.intros)
next
  assume "sched_step s t"
  then show "\<exists>e. sched_event s e t"
  proof cases
    case (on_create tb fb now ask ex msg)
    then show ?thesis
      using ev_create [of tb fb now ask ex msg s] by (cases "SchedulerActor_CreateVM tb fb now ask ex msg s") auto
  next
    case (on_delete lookup sent dmsg)
    then show ?thesis
      using ev_delete [of lookup sent dmsg s] by (cases "SchedulerActor_DeleteVM lookup sent dmsg s") auto
  next
    case (on_shutdown lookup sent smsg)
    then show ?thesis
      using ev_shutdown [of lookup sent smsg s] by (cases "SchedulerActor_ShutdownVM lookup sent smsg s") auto
  qed (blast intro: sched_event.intros)+
qed

section \<open>What the handlers change of the manifests\<close>

abbreviation intent_of :: "SchedulerActor \<Rightarrow> (ulid \<rightharpoonup> VmManifest)" where
  "intent_of s \<equiv> map_of (vm_manifests s)"

lemma cleanup_manifests [simp]:
  "vm_manifests (cleanup_agent_actor i s) = vm_manifests s"
  "vm_manifests (cleanup_vm_actor i s) = vm_manifests s"
  by (auto simp: cleanup_agent_actor_def cleanup_vm_actor_def Let_def split: option.splits)

lemma observer_manifests:
  "vm_manifests (fst (SchedulerActor_on_link_died alive i s)) = vm_manifests s"
  "vm_manifests (handle_VmActorDiscovered fin ok k i s) = vm_manifests s"
  "vm_manifests (handle_AgentActorDiscovered fin ok k i s) = vm_manifests s"
  "vm_manifests (handle_VmUpdaterStopped i s) = vm_manifests s"
  "vm_manifests (handle_AgentUpdaterStopped i s) = vm_manifests s"
  "vm_manifests (handle_AgentUpdated now i j upd s) = vm_manifests s"
  by (auto simp: SchedulerActor_on_link_died_def handle_VmActorDiscovered_def handle_AgentActorDiscovered_def
      handle_VmUpdaterStopped_def handle_AgentUpdaterStopped_def handle_AgentUpdated_def first_snapshot_def
      Let_def case_prod_unfold split: option.splits CachedActorKind.splits AgentStatusUpdate.splits)

lemma create_intent:
  assumes "SchedulerActor_CreateVM tb fb now ask ex msg s = (t, outcome)"
  shows "intent_of t = intent_effect (intent_of s) (create_event ex msg outcome)"
proof (cases "map_of (vm_manifests s) (create_vmid msg)")
  case (Some m)
  with assms show ?thesis
    by (auto simp: SchedulerActor_CreateVM_def create_event_def split: if_splits)
next
  case None
  show ?thesis
  proof (cases "snd (schedule_agent msg s)")
    case (Inl e)
    with assms create_rejected [OF None Inl] show ?thesis by (auto simp: create_event_def)
  next
    case (Inr a)
    from assms None create_new [OF None Inr] show ?thesis
      by (cases "ask a")
        (auto simp: create_event_def settle_create_def rollback_failed_create_def remove_vm_state_def
          reserve_placement_def reply_actor_def fun_eq_iff split: option.splits)
  qed
qed

lemma removal_intent:
  assumes "sched_inv s"
  shows "SchedulerActor_DeleteVM lookup sent dmsg s = (t, reply, effects) \<Longrightarrow>
      intent_of t = intent_effect (intent_of s) (removal_event (delete_vmid dmsg) reply)"
    and "SchedulerActor_ShutdownVM lookup sent smsg s = (t, reply', effects) \<Longrightarrow>
      intent_of t = intent_effect (intent_of s) (removal_event (shutdown_vmid smsg) reply')"
  using remove_vm_intent_forgets(1) [OF assms]
  by (auto simp: SchedulerActor_DeleteVM_def SchedulerActor_ShutdownVM_def removal_event_def
      split: sum.splits option.splits)

lemma report_intent:
  "intent_of (handle_VmUpdated now i data s) = intent_effect (intent_of s) (report_event data)"
  by (auto simp: handle_VmUpdated_def report_event_def Let_def fun_eq_iff split: option.splits)

lemma event_intent:
  assumes "sched_inv s" and "sched_event s e t"
  shows "intent_of t = intent_effect (intent_of s) e"
  using assms(2,1)
  by (induction rule: sched_event.induct)
    (simp_all add: create_intent removal_intent report_intent observer_manifests reconcile_keeps(3))

interpretation intent: event_refinement sched_init sched_event sched_inv intent_of Map.empty intent_effect
proof unfold_locales
  show "sched_init s \<Longrightarrow> sched_inv s" for s by (rule scheduler.inv_init)
  show "sched_inv s \<Longrightarrow> \<exists>e. sched_event s e t \<Longrightarrow> sched_inv t" for s t
    by (auto simp: sched_event_step intro: scheduler.inv_step)
  show "sched_init s \<Longrightarrow> intent_of s = Map.empty" for s
    by (auto simp: sched_init_def SchedulerActor_on_start_def)
  show "sched_inv s \<Longrightarrow> sched_event s e t \<Longrightarrow> intent_of t = intent_effect (intent_of s) e" for s e t
    by (rule event_intent)
qed

text \<open>C16. What the scheduler keeps running is exactly what it was asked for: after any run from its
  start, whatever departures, timeouts, status reports, failed requests and reconciliation passes
  lie in between, its manifests are the accepted create requests and reported VMs, each as last
  given, less the VMs whose delete or shutdown was answered. A VM that was wanted and never removed
  is still wanted, and a VM nobody asked for or reported is not.\<close>

theorem intent_never_lost:
  assumes "sched_init s0" and "event_run sched_event s0 es s"
  shows "map_of (vm_manifests s) = foldl intent_effect Map.empty es \<and>
    (Wanted v m \<in> set es \<and> Unwanted v \<notin> set es \<longrightarrow> map_of (vm_manifests s) v \<noteq> None) \<and>
    ((\<forall>e\<in>set es. event_vmid e \<noteq> Some v) \<longrightarrow> map_of (vm_manifests s) v = None)"
proof -
  have eq: "intent_of s = foldl intent_effect Map.empty es"
    using intent.abs_run [OF assms(2,1)] .
  show ?thesis
    unfolding eq using intent_kept [of v es Map.empty] intent_of_untouched [of es v Map.empty] by auto
qed

definition sample_departed :: SchedulerActor where
  "sample_departed = fst (SchedulerActor_on_link_died True 2 sample_linked)"

lemma sample_departed_run:
  "event_run sched_event (SchedulerActor_on_start 0) [Wanted 7 sample_manifest, Unchanged, Unchanged, Unchanged] sample_departed"
proof -
  let ?vm = "\<lparr>info_vmid = 7, info_config = Some sample_manifest\<rparr>"
  let ?s1 = "handle_VmUpdated 5 2 ?vm (SchedulerActor_on_start 0)"
  have "event_run sched_event (SchedulerActor_on_start 0) ([] @ [report_event ?vm]) ?s1"
    by (rule run_snoc, rule run_nil, rule ev_vm_updated)
  then have "event_run sched_event (SchedulerActor_on_start 0) (([] @ [report_event ?vm]) @ [Unchanged]) sample_reached"
    unfolding sample_reached_def by (rule run_snoc) (rule ev_agent_updated)
  then have "event_run sched_event (SchedulerActor_on_start 0)
      ((([] @ [report_event ?vm]) @ [Unchanged]) @ [Unchanged]) sample_linked"
    unfolding sample_linked_def by (rule run_snoc) (rule ev_vm_discovered)
  then have "event_run sched_event (SchedulerActor_on_start 0)
      (((([] @ [report_event ?vm]) @ [Unchanged]) @ [Unchanged]) @ [Unchanged]) sample_departed"
    unfolding sample_departed_def by (rule run_snoc) (rule ev_link_died)
  then show ?thesis by (simp add: report_event_def)
qed

theorem intent_never_lost_witness:
  "map_of (vm_manifests sample_departed) 7 = Some sample_manifest"
proof -
  have "sched_init (SchedulerActor_on_start 0)" by (auto simp: sched_init_def)
  from intent_never_lost [OF this sample_departed_run, of 7 sample_manifest]
  show ?thesis by simp
qed

end
