(* ===== verification/Journal.thy ===== *)
theory Journal
  imports Main
begin

text \<open>
  Fallible actions on the outside world. An action returns a result or an error, which is the message
  that \<open>Display\<close> shows, and appends the effects it has to a journal; the failures of effects are
  decided by a function of the journal before them. The combinators are the sequencing constructs of the
  sources: \<open>?\<close>, \<open>wrap_err\<close>, dropped results and loops that stop at the first error.
\<close>

section \<open>Actions\<close>

type_synonym ('e, 'a) act = "'e list \<Rightarrow> (string + 'a) \<times> 'e list"

definition io_return :: "'a \<Rightarrow> ('e, 'a) act" where
  "io_return x j = (Inr x, j)"

definition io_fail :: "string \<Rightarrow> ('e, 'a) act" where
  "io_fail e j = (Inl e, j)"

text \<open>The operator \<open>?\<close>: an error ends the sequence.\<close>

definition io_bind :: "('e, 'a) act \<Rightarrow> ('a \<Rightarrow> ('e, 'b) act) \<Rightarrow> ('e, 'b) act" where
  "io_bind m f j = (case m j of (Inl e, j') \<Rightarrow> (Inl e, j') | (Inr x, j') \<Rightarrow> f x j')"

definition io_then :: "('e, 'a) act \<Rightarrow> ('e, 'b) act \<Rightarrow> ('e, 'b) act" where
  "io_then m n = io_bind m (\<lambda>_. n)"

definition wrap_err :: "string \<Rightarrow> ('e, 'a) act \<Rightarrow> ('e, 'a) act" where
  "wrap_err msg m j = (case m j of (Inl e, j') \<Rightarrow> (Inl msg, j') | (Inr x, j') \<Rightarrow> (Inr x, j'))"

text \<open>\<open>_ = action\<close>: the error is dropped.\<close>

definition ignore_err :: "('e, 'a) act \<Rightarrow> ('e, unit) act" where
  "ignore_err m j = (Inr (), snd (m j))"

text \<open>One effect.\<close>

definition emit :: "('e list \<Rightarrow> 'e \<Rightarrow> string option) \<Rightarrow> 'e \<Rightarrow> ('e, unit) act" where
  "emit fails e j = (case fails j e of None \<Rightarrow> Inr () | Some err \<Rightarrow> Inl err, j @ [e])"

fun run_all :: "('b \<Rightarrow> ('e, unit) act) \<Rightarrow> 'b list \<Rightarrow> ('e, unit) act" where
  "run_all f [] = io_return ()"
| "run_all f (x # xs) = io_then (f x) (run_all f xs)"

section \<open>Actions confined to a kind of effect\<close>

definition confined :: "('e \<Rightarrow> bool) \<Rightarrow> ('e, 'a) act \<Rightarrow> bool" where
  "confined P m \<longleftrightarrow> (\<forall>j. \<exists>es. snd (m j) = j @ es \<and> list_all P es)"

named_theorems confined_intros \<open>actions confined to a kind of effect\<close>

lemma confinedD:
  assumes "confined P m" and "m j = (r, j')"
  obtains es where "j' = j @ es" and "list_all P es"
  using assms unfolding confined_def by (metis snd_conv)

lemma confined_return [confined_intros]: "confined P (io_return x)"
  by (simp add: confined_def io_return_def)

lemma confined_fail [confined_intros]: "confined P (io_fail e)"
  by (simp add: confined_def io_fail_def)

lemma confined_emit [confined_intros]: "P e \<Longrightarrow> confined P (emit fails e)"
  by (simp add: confined_def emit_def)

lemma confined_bind [confined_intros]:
  assumes "confined P m" and "\<And>x. confined P (f x)"
  shows "confined P (io_bind m f)"
  unfolding confined_def
proof
  fix j
  obtain r j1 where m: "m j = (r, j1)" by fastforce
  with assms(1) obtain es where es: "j1 = j @ es" "list_all P es" by (rule confinedD)
  show "\<exists>es. snd (io_bind m f j) = j @ es \<and> list_all P es"
  proof (cases r)
    case (Inl e)
    with m es show ?thesis by (simp add: io_bind_def)
  next
    case (Inr x)
    obtain r2 j2 where f: "f x j1 = (r2, j2)" by fastforce
    with assms(2) obtain fs where "j2 = j1 @ fs" "list_all P fs" by (rule confinedD)
    with m es Inr f show ?thesis by (simp add: io_bind_def)
  qed
qed

lemma confined_then [confined_intros]: "confined P m \<Longrightarrow> confined P n \<Longrightarrow> confined P (io_then m n)"
  unfolding io_then_def by (intro confined_bind)

lemma snd_wrap_err [simp]: "snd (wrap_err msg m j) = snd (m j)"
  by (simp add: wrap_err_def split: prod.splits sum.splits)

lemma confined_wrap [confined_intros]: "confined P m \<Longrightarrow> confined P (wrap_err msg m)"
  by (simp add: confined_def)

lemma confined_run_all [confined_intros]: "(\<And>x. confined P (f x)) \<Longrightarrow> confined P (run_all f xs)"
  by (induction xs) (auto intro: confined_intros)

lemma confined_mono: "confined P m \<Longrightarrow> (\<And>e. P e \<Longrightarrow> Q e) \<Longrightarrow> confined Q m"
  unfolding confined_def by (metis list_all_iff)

lemma wrap_err_Inr: "wrap_err msg m j = (Inr x, j') \<longleftrightarrow> m j = (Inr x, j')"
  by (auto simp: wrap_err_def split: prod.splits sum.splits)

lemma io_bind_Inr: "io_bind m f j = (Inr y, j') \<longleftrightarrow> (\<exists>x j1. m j = (Inr x, j1) \<and> f x j1 = (Inr y, j'))"
  by (auto simp: io_bind_def split: prod.splits sum.splits)

lemma io_then_Inr: "io_then m n j = (Inr y, j') \<longleftrightarrow> (\<exists>x j1. m j = (Inr x, j1) \<and> n j1 = (Inr y, j'))"
  by (simp add: io_then_def io_bind_Inr)

lemma emit_Inr: "emit fails e j = (Inr x, j') \<longleftrightarrow> fails j e = None \<and> j' = j @ [e]"
  by (auto simp: emit_def split: option.splits)

lemmas io_result_simps = wrap_err_Inr io_bind_Inr io_then_Inr emit_Inr

lemma run_all_Inr:
  assumes "\<And>x j j'. x \<in> set xs \<Longrightarrow> f x j = (Inr (), j') \<Longrightarrow> j' = j @ [g x]" and "run_all f xs j = (Inr (), j')"
  shows "j' = j @ map g xs"
  using assms
proof (induction xs arbitrary: j)
  case (Cons x xs)
  from Cons.prems(2) obtain j1 where x: "f x j = (Inr (), j1)" and xs: "run_all f xs j1 = (Inr (), j')"
    by (auto simp: io_then_Inr)
  have "j1 = j @ [g x]" using Cons.prems(1) x by simp
  moreover have "j' = j1 @ map g xs"
    using Cons.IH [OF _ xs] Cons.prems(1) by simp
  ultimately show ?case by simp
qed (simp add: io_return_def)

section \<open>Actions that are a sequence of effects\<close>

text \<open>A sequence of effects is performed in order up to the first that fails.\<close>

fun performed :: "('e list \<Rightarrow> 'e \<Rightarrow> string option) \<Rightarrow> 'e list \<Rightarrow> 'e list \<Rightarrow> bool \<times> 'e list" where
  "performed fails j [] = (True, j)"
| "performed fails j (e # es) = (if fails j e = None then performed fails (j @ [e]) es else (False, j @ [e]))"

definition performs :: "('e list \<Rightarrow> 'e \<Rightarrow> string option) \<Rightarrow> 'e list \<Rightarrow> ('e, 'a) act \<Rightarrow> bool" where
  "performs fails es m \<longleftrightarrow> (\<forall>j. map_prod (Not \<circ> isl) id (m j) = performed fails j es)"

lemma performed_append:
  "performed fails j (es @ fs) = (case performed fails j es of (ok, j') \<Rightarrow> if ok then performed fails j' fs else (ok, j'))"
  by (induction es arbitrary: j) simp_all

lemma performed_ok: "performed fails j es = (True, j') \<Longrightarrow> j' = j @ es"
  by (induction es arbitrary: j) (fastforce split: if_splits)+

lemma performed_stuck:
  "performed fails j es = (False, j') \<Longrightarrow>
     \<exists>k < length es. j' = j @ take (Suc k) es \<and> fails (j @ take k es) (es ! k) \<noteq> None"
proof (induction es arbitrary: j)
  case (Cons e es)
  show ?case
  proof (cases "fails j e")
    case None
    with Cons obtain k where "k < length es" "j' = (j @ [e]) @ take (Suc k) es" "fails ((j @ [e]) @ take k es) (es ! k) \<noteq> None"
      by fastforce
    then show ?thesis by (intro exI [of _ "Suc k"]) simp
  next
    case (Some err)
    with Cons show ?thesis by (intro exI [of _ 0]) simp
  qed
qed simp

lemma io_bind_return: "io_bind (io_return x) f = f x"
  by (simp add: io_bind_def io_return_def fun_eq_iff)

lemma performs_return: "performs fails [] (io_return x)"
  by (simp add: performs_def io_return_def)

lemma performs_emit: "performs fails [e] (emit fails e)"
  by (simp add: performs_def emit_def split: option.splits)

lemma performs_wrap: "performs fails es m \<Longrightarrow> performs fails es (wrap_err msg m)"
proof -
  have "map_prod (Not \<circ> isl) id (wrap_err msg m j) = map_prod (Not \<circ> isl) id (m j)" for j
    by (simp add: wrap_err_def split: prod.splits sum.splits)
  then show "performs fails es m \<Longrightarrow> performs fails es (wrap_err msg m)"
    by (simp add: performs_def)
qed

lemma performs_then:
  assumes "performs fails es m" and "performs fails fs n"
  shows "performs fails (es @ fs) (io_then m n)"
  unfolding performs_def
proof
  fix j
  obtain r j1 where m: "m j = (r, j1)" by fastforce
  with assms(1) have "performed fails j es = (\<not> isl r, j1)" unfolding performs_def by (metis comp_apply id_apply map_prod_simp)
  with m assms(2) show "map_prod (Not \<circ> isl) id (io_then m n j) = performed fails j (es @ fs)"
    by (cases r) (simp_all add: performed_append io_then_def io_bind_def performs_def)
qed

lemma performs_run_all:
  "(\<And>x. x \<in> set xs \<Longrightarrow> performs fails [g x] (f x)) \<Longrightarrow> performs fails (map g xs) (run_all f xs)"
proof (induction xs)
  case (Cons x xs)
  then show ?case using performs_then [of fails "[g x]" "f x" "map g xs"] by simp
qed (simp add: performs_return)

end
