(* ===== verification/Network_Actor.thy ===== *)
theory Network_Actor
  imports Config Journal
begin

text \<open>
  The networking actor of an agent (\<open>odorobo/src/networking/actor_linux.rs\<close>): it prepares the bridge,
  its address and the NAT rules when the agent starts, and attaches TAP devices to the bridge for the
  provisioning hooks. The kernel interfaces (netlink, nftables) and the DHCP server process belong to the
  host: requests are effects of a journal, answers are functions of the journal before them.
\<close>

section \<open>The host\<close>

datatype nf_family = NfIP | NfOther

datatype nft_expr = MetaOifname | StringExpr string | OtherExpr

datatype nft_stmt = NftMatch nft_expr nft_expr bool | Masquerade | OtherStmt   \<comment> \<open>left, right, operator is \<open>EQ\<close>\<close>

record nft_chain =
  ch_family :: nf_family
  ch_table :: string
  ch_name :: string
  ch_type :: "string option"
  ch_hook :: "string option"
  ch_prio :: "int option"
  ch_policy :: "string option"

record nft_rule =
  rl_family :: nf_family
  rl_table :: string
  rl_chain :: string
  rl_expr :: "nft_stmt list"
  rl_comment :: "string option"

datatype nft_object = NftTable nf_family string | NftChain nft_chain | NftRule nft_rule | OtherObject

datatype ip_addr = V4 ipv4 | V6

datatype address_attribute = AttrAddress ip_addr | AttrLocal ip_addr | AttrOther

record address_message =
  am_prefix_len :: u8
  am_attributes :: "address_attribute list"

datatype link_lookup = NoLink | LinkNoDevice | LinkError string | Link u32

datatype add_address_result = AddressAdded | AddressExists | AddressError string

datatype net_effect =
    LinkGet string
  | AddBridge string
  | ListAddresses u32
  | AddAddress u32 ipv4 u8
  | GetRuleset
  | ApplyRuleset "nft_object list"
  | SetController u32 u32
  | SetNoController u32
  | SetUp u32
  | SpawnDhcpActor
  | SpawnDnsmasq "string list"
  | KillDnsmasq
  | WaitDnsmasq
  | StopDhcpActor
  | AbortNetlink

type_synonym net_journal = "net_effect list"
type_synonym 'a net_io = "(net_effect, 'a) act"

record host_network =
  net_failure :: "net_journal \<Rightarrow> net_effect \<Rightarrow> string option"
  link_of :: "net_journal \<Rightarrow> string \<Rightarrow> link_lookup"
  addresses_of :: "net_journal \<Rightarrow> u32 \<Rightarrow> (string + address_message) list"
  add_address :: "net_journal \<Rightarrow> u32 \<Rightarrow> ipv4 \<Rightarrow> u8 \<Rightarrow> add_address_result"
  ruleset_of :: "net_journal \<Rightarrow> string + nft_object list"
  netmask_of :: "Ipv4Net \<Rightarrow> ipv4"
  ipv4_text :: "ipv4 \<Rightarrow> string"

section \<open>DHCP\<close>

record DhcpActor =
  da_config :: DhcpConfig
  da_bridge :: string
  dnsmasq_process :: bool

definition DhcpActor_on_start :: "host_network \<Rightarrow> DhcpConfig \<Rightarrow> string \<Rightarrow> DhcpActor net_io" where
  "DhcpActor_on_start H config bridge =
     (let range = ipv4_text H (fst (dhcp_range config)) @ '','' @ ipv4_text H (snd (dhcp_range config)) @ '','' @
            ipv4_text H (netmask_of H (dhcp_subnet config)) @ '','' @ lease_time config
      in io_then
           (wrap_err (''failed to start dnsmasq on bridge '' @ bridge)
              (emit (net_failure H) (SpawnDnsmasq [''--interface'', bridge, ''--bind-interfaces'', ''--dhcp-range'', range, ''--no-daemon''])))
           (io_return \<lparr>da_config = config, da_bridge = bridge, dnsmasq_process = True\<rparr>))"

definition DhcpActor_on_stop :: "host_network \<Rightarrow> DhcpActor \<Rightarrow> net_journal \<Rightarrow> ((string + unit) \<times> net_journal) \<times> DhcpActor" where
  "DhcpActor_on_stop H a j =
     (if dnsmasq_process a
      then (io_then (wrap_err (''failed to stop dnsmasq on bridge '' @ da_bridge a) (emit (net_failure H) KillDnsmasq))
              (ignore_err (emit (net_failure H) WaitDnsmasq)) j, a\<lparr>dnsmasq_process := False\<rparr>)
      else ((Inr (), j), a))"

section \<open>Addresses\<close>

definition attribute_is :: "ipv4 \<Rightarrow> address_attribute \<Rightarrow> bool" where
  "attribute_is a attr =
     (case attr of
        AttrAddress (V4 b) \<Rightarrow> b = a
      | AttrLocal (V4 b) \<Rightarrow> b = a
      | _ \<Rightarrow> False)"

text \<open>Reading the stream of existing addresses: an error ends it, a match answers the question.\<close>

fun address_present :: "ipv4 \<Rightarrow> u8 \<Rightarrow> (string + address_message) list \<Rightarrow> string + bool" where
  "address_present a p [] = Inr False"
| "address_present a p (Inl e # ms) = Inl e"
| "address_present a p (Inr m # ms) =
     (if am_prefix_len m = p \<and> list_ex (attribute_is a) (am_attributes m) then Inr True else address_present a p ms)"

definition ensure_address :: "host_network \<Rightarrow> u32 \<Rightarrow> string \<Rightarrow> ipv4 \<Rightarrow> u8 \<Rightarrow> unit net_io" where
  "ensure_address H index name a p j =
     (case address_present a p (addresses_of H j index) of
        Inl e \<Rightarrow> (Inl e, j @ [ListAddresses index])
      | Inr True \<Rightarrow> (Inr (), j @ [ListAddresses index])
      | Inr False \<Rightarrow>
          (let j1 = j @ [ListAddresses index] in
           (case add_address H j1 index a p of
              AddressAdded \<Rightarrow> Inr ()
            | AddressExists \<Rightarrow> Inr ()
            | AddressError e \<Rightarrow> Inl (''failed to add address '' @ ipv4_text H a @ ''/'' @ show_nat (unat p) @ '' to '' @ name),
            j1 @ [AddAddress index a p])))"

section \<open>NAT rules\<close>

definition TABLE_NAME :: string where
  "TABLE_NAME = ''odorobo''"

definition CHAIN_NAME :: string where
  "CHAIN_NAME = ''guest_nat''"

definition nft_table_exists :: "nft_object list \<Rightarrow> string \<Rightarrow> bool" where
  "nft_table_exists objs table =
     list_ex (\<lambda>ob. case ob of NftTable f n \<Rightarrow> f = NfIP \<and> n = table | _ \<Rightarrow> False) objs"

definition nft_chain_exists :: "nft_object list \<Rightarrow> string \<Rightarrow> string \<Rightarrow> bool" where
  "nft_chain_exists objs table chain =
     list_ex (\<lambda>ob. case ob of NftChain c \<Rightarrow> ch_family c = NfIP \<and> ch_table c = table \<and> ch_name c = chain | _ \<Rightarrow> False) objs"

definition masquerades :: "nft_stmt list \<Rightarrow> string \<Rightarrow> bool" where
  "masquerades stmts iface =
     (case stmts of
        [NftMatch l r eq, Masquerade] \<Rightarrow> eq \<and> l = MetaOifname \<and> r = StringExpr iface
      | _ \<Rightarrow> False)"

definition nft_postrouting_masquerade_exists :: "nft_object list \<Rightarrow> string \<Rightarrow> string \<Rightarrow> string \<Rightarrow> bool" where
  "nft_postrouting_masquerade_exists objs table chain iface =
     list_ex (\<lambda>ob. case ob of
        NftRule r \<Rightarrow> rl_family r = NfIP \<and> rl_table r = table \<and> rl_chain r = chain \<and> masquerades (rl_expr r) iface
      | _ \<Rightarrow> False) objs"

text \<open>The batch of objects that are added.\<close>

definition nat_batch :: "nft_object list \<Rightarrow> string \<Rightarrow> nft_object list" where
  "nat_batch objs iface =
     (if nft_table_exists objs TABLE_NAME then [] else [NftTable NfIP TABLE_NAME]) @
     (if nft_chain_exists objs TABLE_NAME CHAIN_NAME then []
      else [NftChain \<lparr>ch_family = NfIP, ch_table = TABLE_NAME, ch_name = CHAIN_NAME, ch_type = Some ''nat'',
                      ch_hook = Some ''postrouting'', ch_prio = Some 100, ch_policy = Some ''accept''\<rparr>]) @
     [NftRule \<lparr>rl_family = NfIP, rl_table = TABLE_NAME, rl_chain = CHAIN_NAME,
               rl_expr = [NftMatch MetaOifname (StringExpr iface) True, Masquerade],
               rl_comment = Some ''odorobo host-only NAT''\<rparr>]"

definition ensure_nat_rules :: "host_network \<Rightarrow> string \<Rightarrow> unit net_io" where
  "ensure_nat_rules H iface j =
     (let j1 = j @ [GetRuleset] in
      case ruleset_of H j of
        Inl e \<Rightarrow> (Inl ''failed to fetch current nftables ruleset'', j1)
      | Inr objs \<Rightarrow>
          if nft_postrouting_masquerade_exists objs TABLE_NAME CHAIN_NAME iface then (Inr (), j1)
          else wrap_err (''failed to apply nftables postrouting masquerade for upstream interface '' @ iface)
                 (emit (net_failure H) (ApplyRuleset (nat_batch objs iface))) j1)"

section \<open>The actor\<close>

record NetworkConfigCommon =
  nc_bridge :: string
  nc_subnet :: Ipv4Net
  nc_upstream_iface :: "string option"

record NetworkAgentActor =
  na_config :: NetworkConfig
  na_common :: NetworkConfigCommon
  na_dhcp_actor :: bool

definition network_common :: "NetworkMode \<Rightarrow> NetworkConfigCommon" where
  "network_common mode =
     (case mode of
        HostonlyNat br sn gw up \<Rightarrow> \<lparr>nc_bridge = br, nc_subnet = sn, nc_upstream_iface = Some up\<rparr>
      | Bridged br sn gw \<Rightarrow> \<lparr>nc_bridge = br, nc_subnet = sn, nc_upstream_iface = None\<rparr>)"

definition create_bridge :: "host_network \<Rightarrow> string \<Rightarrow> u32 net_io" where
  "create_bridge H br =
     io_then (wrap_err (''failed to create bridge '' @ br) (emit (net_failure H) (AddBridge br)))
       (\<lambda>j. (case link_of H j br of
               NoLink \<Rightarrow> Inl (''bridge '' @ br @ '' was not found after creation'')
             | Link i \<Rightarrow> Inr i
             | _ \<Rightarrow> Inl (''failed to query bridge '' @ br @ '' after creation''), j @ [LinkGet br]))"

text \<open>The bridge, created when the lookup finds none.\<close>

definition ensure_bridge :: "host_network \<Rightarrow> string \<Rightarrow> u32 net_io" where
  "ensure_bridge H br j =
     (case link_of H j br of
        Link i \<Rightarrow> (Inr i, j @ [LinkGet br])
      | LinkNoDevice \<Rightarrow> create_bridge H br (j @ [LinkGet br])
      | LinkError e \<Rightarrow> (Inl (''failed to query bridge '' @ br), j @ [LinkGet br])
      | NoLink \<Rightarrow> create_bridge H br (j @ [LinkGet br]))"

definition gateway_error :: "host_network \<Rightarrow> string \<Rightarrow> Ipv4Net \<Rightarrow> ipv4 \<Rightarrow> string" where
  "gateway_error H br sn gw =
     ''failed to ensure gateway '' @ ipv4_text H gw @ ''/'' @ show_nat (unat (prefix_len sn)) @ '' exists on bridge '' @ br"

text \<open>The part of the start that depends on the mode. In NAT mode the upstream interface is always
  present in the common configuration.\<close>

definition setup_mode :: "host_network \<Rightarrow> NetworkMode \<Rightarrow> string \<Rightarrow> u32 \<Rightarrow> unit net_io" where
  "setup_mode H mode br index =
     (case mode of
        HostonlyNat _ sn gw up \<Rightarrow>
          io_then (wrap_err (gateway_error H br sn gw) (ensure_address H index br gw (prefix_len sn)))
            (wrap_err (''failed to ensure nftables NAT rules for bridge '' @ br @ '' and upstream '' @ up) (ensure_nat_rules H up))
      | Bridged _ sn gw \<Rightarrow>
          wrap_err (gateway_error H br sn gw) (ensure_address H index br gw (prefix_len sn)))"

definition NetworkAgentActor_on_start :: "host_network \<Rightarrow> NetworkConfig \<Rightarrow> NetworkAgentActor net_io" where
  "NetworkAgentActor_on_start H args =
     (let common = network_common (network_mode args); br = nc_bridge common in
      io_bind (ensure_bridge H br) (\<lambda>index.
      io_then (if dhcp_config args = None then io_return () else ignore_err (emit (net_failure H) SpawnDhcpActor))
      (io_then (setup_mode H (network_mode args) br index)
        (io_return \<lparr>na_config = args, na_common = common, na_dhcp_actor = (dhcp_config args \<noteq> None)\<rparr>))))"

definition NetworkAgentActor_on_stop ::
  "host_network \<Rightarrow> NetworkAgentActor \<Rightarrow> net_journal \<Rightarrow> ((string + unit) \<times> net_journal) \<times> NetworkAgentActor" where
  "NetworkAgentActor_on_stop H a j =
     (io_then (if na_dhcp_actor a then emit (net_failure H) StopDhcpActor else io_return ())
        (ignore_err (emit (net_failure H) AbortNetlink)) j, a\<lparr>na_dhcp_actor := False\<rparr>)"

definition lookup_link_by_name :: "host_network \<Rightarrow> string \<Rightarrow> u32 net_io" where
  "lookup_link_by_name H name j =
     (case link_of H j name of
        NoLink \<Rightarrow> Inl (''link '' @ name @ '' not found'')
      | Link i \<Rightarrow> Inr i
      | _ \<Rightarrow> Inl (''failed to query link '' @ name), j @ [LinkGet name])"

definition NetworkAgentActor_AttachTap :: "host_network \<Rightarrow> string \<Rightarrow> string \<Rightarrow> NetworkAgentActor \<Rightarrow> unit net_io" where
  "NetworkAgentActor_AttachTap H vmid tap_name a =
     (let br = nc_bridge (na_common a) in
      io_bind (wrap_err (''failed to resolve bridge '' @ br @ '' before attaching tap '' @ tap_name) (lookup_link_by_name H br)) (\<lambda>bi.
      io_bind (wrap_err (''failed to resolve tap '' @ tap_name @ '' for vm '' @ vmid) (lookup_link_by_name H tap_name)) (\<lambda>ti.
      io_then (wrap_err (''failed to attach tap '' @ tap_name @ '' to bridge '' @ br) (emit (net_failure H) (SetController ti bi)))
        (wrap_err (''failed to bring tap '' @ tap_name @ '' up'') (emit (net_failure H) (SetUp ti))))))"

definition NetworkAgentActor_DetachTap :: "host_network \<Rightarrow> string \<Rightarrow> string \<Rightarrow> NetworkAgentActor \<Rightarrow> unit net_io" where
  "NetworkAgentActor_DetachTap H vmid tap_name a =
     io_bind (wrap_err (''failed to resolve tap '' @ tap_name @ '' for detach on vm '' @ vmid) (lookup_link_by_name H tap_name)) (\<lambda>ti.
       wrap_err (''failed to detach tap '' @ tap_name @ '' from bridge '' @ nc_bridge (na_common a))
         (emit (net_failure H) (SetNoController ti)))"

end
