(* ===== verification/Network_Correctness.thy ===== *)
theory Network_Correctness
  imports Network_Actor
begin

text \<open>
  Preparing the host network is idempotent: after one successful start of the networking actor another one
  finds everything in place. The hypotheses are what netlink and nftables document about their requests.
\<close>

section \<open>What the host promises\<close>

text \<open>Requests that only read, or that change something else, leave the links, addresses and rules as they
  are; an added address is listed and one that exists is listed already; after a batch of additions was
  applied, each of its objects is listed: a table or chain under its name, whether it is new or was there
  before, a rule with its statements. Nothing is said of the order or of the other objects.\<close>

definition listed :: "nft_object list \<Rightarrow> nft_object \<Rightarrow> bool" where
  "listed objs ob =
     (case ob of
        NftTable f n \<Rightarrow> NftTable f n \<in> set objs
      | NftChain c \<Rightarrow> list_ex (\<lambda>o'. case o' of
            NftChain c' \<Rightarrow> ch_family c' = ch_family c \<and> ch_table c' = ch_table c \<and> ch_name c' = ch_name c | _ \<Rightarrow> False) objs
      | NftRule r \<Rightarrow> list_ex (\<lambda>o'. case o' of
            NftRule r' \<Rightarrow> rl_family r' = rl_family r \<and> rl_table r' = rl_table r \<and> rl_chain r' = rl_chain r \<and> rl_expr r' = rl_expr r
          | _ \<Rightarrow> False) objs
      | OtherObject \<Rightarrow> True)"

fun changes_links :: "net_effect \<Rightarrow> bool" where
  "changes_links (AddBridge _) = True"
| "changes_links _ = False"

fun changes_addresses :: "net_effect \<Rightarrow> bool" where
  "changes_addresses (AddAddress _ _ _) = True"
| "changes_addresses (AddBridge _) = True"
| "changes_addresses _ = False"

fun changes_rules :: "net_effect \<Rightarrow> bool" where
  "changes_rules (ApplyRuleset _) = True"
| "changes_rules _ = False"

definition host_laws :: "host_network \<Rightarrow> bool" where
  "host_laws H \<longleftrightarrow>
     (\<forall>j e. \<not> changes_links e \<longrightarrow> link_of H (j @ [e]) = link_of H j) \<and>
     (\<forall>j e. \<not> changes_addresses e \<longrightarrow> addresses_of H (j @ [e]) = addresses_of H j) \<and>
     (\<forall>j e. \<not> changes_rules e \<longrightarrow> ruleset_of H (j @ [e]) = ruleset_of H j) \<and>
     (\<forall>j i a p. add_address H j i a p = AddressAdded \<longrightarrow>
        address_present a p (addresses_of H j i) = Inr False \<longrightarrow>
        address_present a p (addresses_of H (j @ [AddAddress i a p]) i) = Inr True) \<and>
     (\<forall>j i a p. add_address H j i a p = AddressExists \<longrightarrow> address_present a p (addresses_of H j i) \<noteq> Inr False) \<and>
     (\<forall>j b objs. net_failure H j (ApplyRuleset b) = None \<longrightarrow> ruleset_of H j = Inr objs \<longrightarrow>
        (\<exists>objs'. ruleset_of H (j @ [ApplyRuleset b]) = Inr objs' \<and> list_all (listed objs') b))"

lemma batch_masquerades:
  assumes "list_all (listed objs') (nat_batch objs iface)"
  shows "nft_postrouting_masquerade_exists objs' TABLE_NAME CHAIN_NAME iface"
proof -
  have "list_ex (\<lambda>o'. case o' of
      NftRule r' \<Rightarrow> rl_family r' = NfIP \<and> rl_table r' = TABLE_NAME \<and> rl_chain r' = CHAIN_NAME \<and>
        rl_expr r' = [NftMatch MetaOifname (StringExpr iface) True, Masquerade] | _ \<Rightarrow> False) objs'"
    using assms by (simp add: nat_batch_def listed_def)
  then obtain ob where ob: "ob \<in> set objs'" "case ob of
      NftRule r' \<Rightarrow> rl_family r' = NfIP \<and> rl_table r' = TABLE_NAME \<and> rl_chain r' = CHAIN_NAME \<and>
        rl_expr r' = [NftMatch MetaOifname (StringExpr iface) True, Masquerade] | _ \<Rightarrow> False"
    unfolding list_ex_iff by blast
  then obtain r where "NftRule r \<in> set objs'" "rl_family r = NfIP" "rl_table r = TABLE_NAME" "rl_chain r = CHAIN_NAME"
      "rl_expr r = [NftMatch MetaOifname (StringExpr iface) True, Masquerade]"
    by (cases ob rule: nft_object.exhaust) auto
  then show ?thesis
    by (auto simp: nft_postrouting_masquerade_exists_def masquerades_def list_ex_iff intro!: bexI [of _ "NftRule r"])
qed

text \<open>Everything but a query changes the host.\<close>

fun changes_host :: "net_effect \<Rightarrow> bool" where
  "changes_host (LinkGet _) = False"
| "changes_host (ListAddresses _) = False"
| "changes_host GetRuleset = False"
| "changes_host _ = True"

text \<open>What a configuration asks of the host: the bridge, the gateway address on it and, for NAT, the rule.\<close>

definition mode_gateway :: "NetworkMode \<Rightarrow> ipv4 \<times> u8" where
  "mode_gateway mode = (case mode of HostonlyNat _ sn gw _ \<Rightarrow> (gw, prefix_len sn) | Bridged _ sn gw \<Rightarrow> (gw, prefix_len sn))"

definition nat_present :: "host_network \<Rightarrow> net_journal \<Rightarrow> NetworkMode \<Rightarrow> bool" where
  "nat_present H j mode =
     (case mode of
        HostonlyNat _ _ _ up \<Rightarrow> (case ruleset_of H j of
            Inr objs \<Rightarrow> nft_postrouting_masquerade_exists objs TABLE_NAME CHAIN_NAME up | Inl _ \<Rightarrow> False)
      | Bridged _ _ _ \<Rightarrow> True)"

definition network_ready :: "host_network \<Rightarrow> net_journal \<Rightarrow> NetworkMode \<Rightarrow> bool" where
  "network_ready H j mode \<longleftrightarrow>
     (\<exists>i. link_of H j (nc_bridge (network_common mode)) = Link i \<and>
        address_present (fst (mode_gateway mode)) (snd (mode_gateway mode)) (addresses_of H j i) = Inr True) \<and>
     nat_present H j mode"

lemma frame_run:
  assumes "\<And>j e. \<not> changes e \<Longrightarrow> f (j @ [e]) = f j" and "list_all (\<lambda>e. \<not> changes e) es"
  shows "f (j @ es) = f j"
  using assms(2)
proof (induction es rule: rev_induct)
  case (snoc e es)
  then have "f ((j @ es) @ [e]) = f (j @ es)" by (intro assms(1)) simp
  with snoc show ?case by simp
qed simp

lemma host_frames:
  assumes "host_laws H"
  shows "list_all (\<lambda>e. \<not> changes_links e) es \<Longrightarrow> link_of H (j @ es) = link_of H j"
    and "list_all (\<lambda>e. \<not> changes_addresses e) es \<Longrightarrow> addresses_of H (j @ es) = addresses_of H j"
    and "list_all (\<lambda>e. \<not> changes_rules e) es \<Longrightarrow> ruleset_of H (j @ es) = ruleset_of H j"
  using assms frame_run [of changes_links "link_of H"] frame_run [of changes_addresses "addresses_of H"]
    frame_run [of changes_rules "ruleset_of H"]
  by (auto simp: host_laws_def)

lemma ensure_bridge_ok:
  assumes "host_laws H" and "ensure_bridge H br j = (Inr i, j')"
  shows "link_of H j' br = Link i"
proof -
  have "link_of H (k @ [LinkGet br]) = link_of H k" for k by (simp add: host_frames [OF assms(1)])
  from this [of j] this [of "j @ [LinkGet br, AddBridge br]"] assms(2) show ?thesis
    by (auto simp: ensure_bridge_def create_bridge_def io_result_simps split: link_lookup.splits)
qed

lemma ensure_address_ok:
  assumes "host_laws H" and "ensure_address H i name a p j = (Inr (), j')"
  shows "address_present a p (addresses_of H j' i) = Inr True \<and> link_of H j' = link_of H j \<and> ruleset_of H j' = ruleset_of H j"
proof -
  note fr = host_frames [OF assms(1)]
  consider "address_present a p (addresses_of H j i) = Inr True" "j' = j @ [ListAddresses i]"
    | "address_present a p (addresses_of H j i) = Inr False" "j' = (j @ [ListAddresses i]) @ [AddAddress i a p]"
      "add_address H (j @ [ListAddresses i]) i a p \<in> {AddressAdded, AddressExists}"
    using assms(2)
    by (auto simp: ensure_address_def Let_def split: sum.splits bool.splits add_address_result.splits)
  then show ?thesis
  proof cases
    case 1
    then show ?thesis by (simp add: fr)
  next
    case 2
    have same: "addresses_of H (j @ [ListAddresses i]) = addresses_of H j" by (simp add: fr)
    with 2(1,3) assms(1) have "add_address H (j @ [ListAddresses i]) i a p = AddressAdded"
      unfolding host_laws_def by (metis insertE singletonD)
    with 2(1,2) same assms(1) have "address_present a p (addresses_of H j' i) = Inr True"
      unfolding host_laws_def by metis
    moreover have "link_of H j' = link_of H j" "ruleset_of H j' = ruleset_of H j"
      unfolding 2(2) by (simp_all add: fr)
    ultimately show ?thesis by simp
  qed
qed

lemma ensure_nat_ok:
  assumes "host_laws H" and "ensure_nat_rules H up j = (Inr (), j')"
  shows "(\<exists>objs. ruleset_of H j' = Inr objs \<and> nft_postrouting_masquerade_exists objs TABLE_NAME CHAIN_NAME up) \<and>
    link_of H j' = link_of H j \<and> addresses_of H j' = addresses_of H j"
proof -
  note fr = host_frames [OF assms(1)]
  obtain objs where objs: "ruleset_of H j = Inr objs"
    using assms(2) by (cases "ruleset_of H j") (auto simp: ensure_nat_rules_def Let_def)
  show ?thesis
  proof (cases "nft_postrouting_masquerade_exists objs TABLE_NAME CHAIN_NAME up")
    case True
    with objs assms(2) have "j' = j @ [GetRuleset]" by (simp add: ensure_nat_rules_def Let_def)
    with True objs show ?thesis by (simp add: fr)
  next
    case False
    with objs assms(2) have ok: "net_failure H (j @ [GetRuleset]) (ApplyRuleset (nat_batch objs up)) = None"
        and j': "j' = (j @ [GetRuleset]) @ [ApplyRuleset (nat_batch objs up)]"
      by (auto simp: ensure_nat_rules_def Let_def io_result_simps)
    have "ruleset_of H (j @ [GetRuleset]) = Inr objs" using objs by (simp add: fr)
    with ok assms(1) obtain objs' where "ruleset_of H j' = Inr objs'" "list_all (listed objs') (nat_batch objs up)"
      unfolding j' host_laws_def by blast
    moreover have "link_of H j' = link_of H j" "addresses_of H j' = addresses_of H j"
      unfolding j' by (simp_all add: fr)
    ultimately show ?thesis using batch_masquerades by blast
  qed
qed

text \<open>A start in a ready network succeeds and does nothing but query the host and start the DHCP server.\<close>

definition start_journal :: "NetworkConfig \<Rightarrow> u32 \<Rightarrow> net_journal" where
  "start_journal args i =
     [LinkGet (nc_bridge (network_common (network_mode args)))] @ (if dhcp_config args = None then [] else [SpawnDhcpActor]) @
     [ListAddresses i] @ (case network_mode args of HostonlyNat _ _ _ _ \<Rightarrow> [GetRuleset] | Bridged _ _ _ \<Rightarrow> [])"

lemma start_when_ready:
  assumes "host_laws H" and "network_ready H j (network_mode args)"
  shows "\<exists>a i. NetworkAgentActor_on_start H args j = (Inr a, j @ start_journal args i)"
proof -
  note fr = host_frames [OF assms(1)]
  obtain i where i: "link_of H j (nc_bridge (network_common (network_mode args))) = Link i"
    "address_present (fst (mode_gateway (network_mode args))) (snd (mode_gateway (network_mode args))) (addresses_of H j i) = Inr True"
    using assms(2) by (auto simp: network_ready_def)
  have frames: "addresses_of H (j @ [LinkGet b]) = addresses_of H j" "addresses_of H (j @ [LinkGet b, SpawnDhcpActor]) = addresses_of H j"
      "ruleset_of H (j @ [LinkGet b, ListAddresses i]) = ruleset_of H j"
      "ruleset_of H (j @ [LinkGet b, SpawnDhcpActor, ListAddresses i]) = ruleset_of H j" for b
    by (simp_all add: fr)
  have "NetworkAgentActor_on_start H args j =
      (Inr \<lparr>na_config = args, na_common = network_common (network_mode args), na_dhcp_actor = (dhcp_config args \<noteq> None)\<rparr>,
       j @ start_journal args i)"
    using i assms(2) frames
    by (cases "network_mode args"; cases "dhcp_config args")
      (auto simp: NetworkAgentActor_on_start_def setup_mode_def ensure_bridge_def ensure_address_def ensure_nat_rules_def io_bind_def io_then_def
        io_return_def ignore_err_def emit_def wrap_err_def Let_def start_journal_def network_ready_def nat_present_def mode_gateway_def
        network_common_def split: sum.splits if_splits)
  then show ?thesis by blast
qed

lemma started_state:
  "NetworkAgentActor_on_start H args j = (Inr a, j') \<Longrightarrow>
     a = \<lparr>na_config = args, na_common = network_common (network_mode args), na_dhcp_actor = (dhcp_config args \<noteq> None)\<rparr>"
  by (auto simp: NetworkAgentActor_on_start_def Let_def io_bind_Inr io_then_Inr io_return_def)

lemma start_makes_ready:
  assumes laws: "host_laws H" and ok: "NetworkAgentActor_on_start H args j = (Inr a, j')"
  shows "network_ready H j' (network_mode args)"
proof -
  note fr = host_frames [OF laws]
  let ?mode = "network_mode args" and ?br = "nc_bridge (network_common (network_mode args))"
  let ?js = "if dhcp_config args = None then [] else [SpawnDhcpActor]"
  obtain i j1 where br: "ensure_bridge H ?br j = (Inr i, j1)" and mode: "setup_mode H ?mode ?br i (j1 @ ?js) = (Inr (), j')"
    using ok
    by (auto simp: NetworkAgentActor_on_start_def Let_def io_bind_Inr io_then_Inr io_return_def ignore_err_def emit_def split: if_splits)
  define j2 where "j2 = j1 @ ?js"
  have dhcp: "link_of H j2 = link_of H j1" by (simp add: j2_def fr)
  note mode = mode [folded j2_def, unfolded setup_mode_def]
  have link: "link_of H j2 ?br = Link i" using ensure_bridge_ok [OF laws br] dhcp by simp
  show ?thesis
  proof (cases ?mode)
    case (HostonlyNat b sn gw up)
    with mode obtain j3 where "ensure_address H i ?br gw (prefix_len sn) j2 = (Inr (), j3)" "ensure_nat_rules H up j3 = (Inr (), j')"
      by (auto simp: io_then_Inr wrap_err_Inr)
    with link ensure_address_ok [OF laws this(1)] ensure_nat_ok [OF laws this(2)] HostonlyNat show ?thesis
      by (auto simp: network_ready_def nat_present_def mode_gateway_def)
  next
    case (Bridged b sn gw)
    with mode have "ensure_address H i ?br gw (prefix_len sn) j2 = (Inr (), j')" by (simp add: wrap_err_Inr)
    with link ensure_address_ok [OF laws this] Bridged show ?thesis
      by (auto simp: network_ready_def nat_present_def mode_gateway_def)
  qed
qed


text \<open>A host whose state is what the journal says: adding a table or chain that exists changes nothing, a rule is
  appended.\<close>

definition sample_addresses :: "net_journal \<Rightarrow> u32 \<Rightarrow> (string + address_message) list" where
  "sample_addresses j i = List.map_filter
     (\<lambda>e. case e of AddAddress k a p \<Rightarrow> if k = i then Some (Inr \<lparr>am_prefix_len = p, am_attributes = [AttrLocal (V4 a)]\<rparr>) else None
                  | _ \<Rightarrow> None) j"

definition add_object :: "nft_object list \<Rightarrow> nft_object \<Rightarrow> nft_object list" where
  "add_object objs ob =
     (case ob of NftRule _ \<Rightarrow> objs @ [ob] | _ \<Rightarrow> if listed objs ob then objs else objs @ [ob])"

definition sample_ruleset :: "net_journal \<Rightarrow> nft_object list" where
  "sample_ruleset j = foldl (\<lambda>objs e. case e of ApplyRuleset b \<Rightarrow> foldl add_object objs b | _ \<Rightarrow> objs) [] j"

definition sample_network :: host_network where
  "sample_network =
     \<lparr>net_failure = (\<lambda>_ _. None),
      link_of = (\<lambda>j n. if AddBridge n \<in> set j then Link 5 else NoLink),
      addresses_of = sample_addresses, add_address = (\<lambda>j i a p. AddressAdded),
      ruleset_of = (\<lambda>j. Inr (sample_ruleset j)),
      netmask_of = (\<lambda>_. 0), ipv4_text = (\<lambda>_. [])\<rparr>"

lemma listed_mono: "listed objs ob \<Longrightarrow> listed (add_object objs x) ob"
  by (cases ob; cases x) (auto simp: listed_def add_object_def)

lemma listed_added: "listed (add_object objs ob) ob"
  by (cases ob) (auto simp: listed_def add_object_def)

lemma listed_all: "list_all (listed (foldl add_object objs b)) b"
proof -
  have "listed (foldl add_object objs b) ob" if "listed objs ob" for objs b ob
    using that by (induction b arbitrary: objs) (auto intro: listed_mono)
  then show ?thesis by (induction b arbitrary: objs) (auto simp: listed_added)
qed

lemma address_present_append:
  "address_present a p xs = Inr False \<Longrightarrow> address_present a p (xs @ ys) = address_present a p ys"
  by (induction a p xs rule: address_present.induct) (auto split: if_splits)

lemma sample_network_laws: "host_laws sample_network"
proof -
  have "sample_addresses (j @ [e]) = sample_addresses j" if "\<not> changes_addresses e" for j e
    using that by (cases e) (auto simp: sample_addresses_def List.map_filter_def fun_eq_iff)
  moreover have "(if AddBridge n \<in> set (j @ [e]) then Link 5 else NoLink) = (if AddBridge n \<in> set j then Link 5 else NoLink)"
    if "\<not> changes_links e" for j e n
    using that by auto
  moreover have "sample_ruleset (j @ [e]) = sample_ruleset j" if "\<not> changes_rules e" for j e
    using that by (cases e) (auto simp: sample_ruleset_def)
  moreover have "list_all (listed (sample_ruleset (j @ [ApplyRuleset b]))) b" for j b
    by (simp add: sample_ruleset_def listed_all)
  moreover have "address_present a p (sample_addresses (j @ [AddAddress i a p]) i) = Inr True"
    if "address_present a p (sample_addresses j i) = Inr False" for j i a p
    using address_present_append [OF that, of "[Inr \<lparr>am_prefix_len = p, am_attributes = [AttrLocal (V4 a)]\<rparr>]"]
    by (simp add: sample_addresses_def List.map_filter_def attribute_is_def)
  ultimately show ?thesis
    unfolding host_laws_def by (auto simp: sample_network_def fun_eq_iff)
qed

definition sample_net_config :: NetworkConfig where
  "sample_net_config = \<lparr>dhcp_config = None, network_mode = HostonlyNat ''vmbr0'' \<lparr>net_addr = 0, prefix_len = 24\<rparr> 1 ''eth0''\<rparr>"


end
