(* ===== verification/Ch_Manifest.thy ===== *)
theory Ch_Manifest
  imports Manifest Samples
begin

text \<open>
  The boundary between provider-neutral manifests and Cloud Hypervisor
  (\<open>odorobo/src/ch_driver/manifest.rs\<close>). The hypervisor's configuration types belong to a client
  library; the records below hold the fields the driver sets or reads, all others keep the library's
  defaults.
\<close>

section \<open>Hypervisor configuration\<close>

datatype ImageType = Raw | OtherImage

record DiskConfig =
  disk_id :: "string option"
  disk_path :: "string option"
  readonly :: "bool option"
  image_type :: "ImageType option"

record NetConfig =
  net_id :: "string option"
  mac :: "string option"
  tap :: "string option"

record PayloadConfig =
  pl_firmware :: "string option"
  pl_kernel :: "string option"
  pl_cmdline :: "string option"
  pl_initramfs :: "string option"

record CpusConfig =
  boot_vcpus :: int
  cpus_max :: int

record VsockConfig =
  vs_cid :: int
  vs_socket :: string
  vs_id :: "string option"

datatype ConsoleMode = ConsoleOff | ConsoleSocket | ConsoleOther

record ConsoleConfig =
  console_mode :: ConsoleMode
  console_socket :: "string option"
  console_file :: "string option"

record VmConfig =
  cpus :: "CpusConfig option"
  mem_size :: "int option"
  payload :: PayloadConfig
  disks :: "DiskConfig list option"
  net :: "NetConfig list option"
  vc_vsock :: "VsockConfig option"
  serial_number :: "string option"
  console :: "ConsoleConfig option"
  serial :: "ConsoleConfig option"

section \<open>Conversion\<close>

datatype ConvertError =
    InvalidManifest ManifestError
  | UnsupportedScheme string string
  | UnresolvedVolume string ulid
  | NoUsableSource string
  | CloudInitUnsupported
  | VcpusOutOfRange
  | MaxVcpusOutOfRange
  | MemoryOutOfRange

definition storage_to_disk :: "Storage \<Rightarrow> ConvertError + DiskConfig" where
  "storage_to_disk s =
     (case (uri s, volume_id s) of
        (Some u, None) \<Rightarrow>
          if starts_with ''file://'' u \<or> starts_with ''rbd://'' u \<or> starts_with ''iscsi://'' u
          then Inr \<lparr>disk_id = Some (storage_id s), disk_path = Some u, readonly = Some (read_only s), image_type = Some Raw\<rparr>
          else Inl (UnsupportedScheme (storage_id s) u)
      | (None, Some v) \<Rightarrow> Inl (UnresolvedVolume (storage_id s) v)
      | _ \<Rightarrow> Inl (NoUsableSource (storage_id s)))"

text \<open>\<open>collect::<Result<Vec<_>>>()\<close>: the first error, or all values in order.\<close>

fun collect_results :: "('a \<Rightarrow> 'e + 'b) \<Rightarrow> 'a list \<Rightarrow> 'e + 'b list" where
  "collect_results f [] = Inr []"
| "collect_results f (x # xs) =
     (case f x of
        Inl e \<Rightarrow> Inl e
      | Inr y \<Rightarrow> (case collect_results f xs of Inl e \<Rightarrow> Inl e | Inr ys \<Rightarrow> Inr (y # ys)))"

definition network_to_net :: "Network \<Rightarrow> NetConfig" where
  "network_to_net n = \<lparr>net_id = Some (''net://'' @ network_id n), mac = mac_address n, tap = None\<rparr>"

definition boot_payload :: "Boot \<Rightarrow> PayloadConfig" where
  "boot_payload b =
     \<lparr>pl_firmware = (case firmware b of
          Some f \<Rightarrow> Some f
        | None \<Rightarrow> if kernel b \<noteq> None then None else Some ''/var/lib/odorobo/CLOUDHV.fd''),
      pl_kernel = kernel b, pl_cmdline = cmdline b, pl_initramfs = None\<rparr>"

definition non_empty :: "'a list \<Rightarrow> 'a list option" where
  "non_empty xs = (if xs = [] then None else Some xs)"

text \<open>\<open>i32::try_from\<close> and \<open>i64::try_from\<close> of unsigned values.\<close>

definition i32_try_from :: "u32 \<Rightarrow> int option" where
  "i32_try_from n = (if unat n < 2 ^ 31 then Some (int (unat n)) else None)"

definition i64_try_from :: "u64 \<Rightarrow> int option" where
  "i64_try_from n = (if unat n < 2 ^ 63 then Some (int (unat n)) else None)"

definition to_vm_config :: "VmManifest \<Rightarrow> ConvertError + VmConfig" where
  "to_vm_config m =
     (case VmManifest_validate m of
        Inl e \<Rightarrow> Inl (InvalidManifest e)
      | Inr _ \<Rightarrow>
         (let d = desired m in
          case collect_results storage_to_disk (storage d) of
            Inl e \<Rightarrow> Inl e
          | Inr ds \<Rightarrow>
             (let nets = map network_to_net (networks d) in
              if cloud_init d \<noteq> None then Inl CloudInitUnsupported
              else
                let vs = map_option (\<lambda>v. \<lparr>vs_cid = int (unat (guest_cid v)), vs_socket = socket v,
                                         vs_id = Some ''odorobo-vsock''\<rparr>) (vsock d) in
                case i32_try_from (vcpus (compute d)) of
                  None \<Rightarrow> Inl VcpusOutOfRange
                | Some boot_n \<Rightarrow>
                   (case i32_try_from (case max_vcpus (compute d) of Some n \<Rightarrow> n | None \<Rightarrow> vcpus (compute d)) of
                      None \<Rightarrow> Inl MaxVcpusOutOfRange
                    | Some max_n \<Rightarrow>
                       (case i64_try_from (memory_bytes (compute d)) of
                          None \<Rightarrow> Inl MemoryOutOfRange
                        | Some size_n \<Rightarrow>
                            Inr \<lparr>cpus = Some \<lparr>boot_vcpus = boot_n, cpus_max = max_n\<rparr>, mem_size = Some size_n,
                                 payload = boot_payload (boot d), disks = non_empty ds, net = non_empty nets,
                                 vc_vsock = vs, serial_number = Some ''ds=nocloud'', console = None, serial = None\<rparr>)))))"

section \<open>Conversion is total on supported manifests and preserves the intent\<close>

definition supported_uri :: "string \<Rightarrow> bool" where
  "supported_uri u \<longleftrightarrow> starts_with ''file://'' u \<or> starts_with ''rbd://'' u \<or> starts_with ''iscsi://'' u"

definition convertible :: "VmManifest \<Rightarrow> bool" where
  "convertible m \<longleftrightarrow> manifest_contract m \<and>
     (\<forall>s \<in> set (storage (desired m)). \<exists>u. uri s = Some u \<and> supported_uri u) \<and>
     cloud_init (desired m) = None \<and>
     unat (vcpus (compute (desired m))) < 2 ^ 31 \<and>
     (\<forall>n. max_vcpus (compute (desired m)) = Some n \<longrightarrow> unat n < 2 ^ 31) \<and>
     unat (memory_bytes (compute (desired m))) < 2 ^ 63"

lemma collect_results_Cons:
  "collect_results f (x # xs) = Inr zs \<longleftrightarrow> (\<exists>y ys. f x = Inr y \<and> collect_results f xs = Inr ys \<and> zs = y # ys)"
  by (auto split: sum.splits)

text \<open>The disk of a storage attachment.\<close>

definition logical_disk :: "Storage \<Rightarrow> DiskConfig" where
  "logical_disk s = \<lparr>disk_id = Some (storage_id s), disk_path = uri s, readonly = Some (read_only s), image_type = Some Raw\<rparr>"

lemma storage_to_disk_ok:
  "storage_to_disk s = Inr d \<longleftrightarrow> (\<exists>u. uri s = Some u \<and> supported_uri u) \<and> volume_id s = None \<and> d = logical_disk s"
  by (auto simp: storage_to_disk_def supported_uri_def logical_disk_def split: option.splits)

lemma collect_disks:
  "collect_results storage_to_disk ss = Inr ds \<longleftrightarrow>
     (\<forall>s \<in> set ss. (\<exists>u. uri s = Some u \<and> supported_uri u) \<and> volume_id s = None) \<and> ds = map logical_disk ss"
proof (induction ss arbitrary: ds)
  case (Cons s ss)
  then show ?case
    unfolding collect_results_Cons storage_to_disk_ok by auto
qed auto

lemma contract_no_volume:
  "storage_contract ss \<Longrightarrow> s \<in> set ss \<Longrightarrow> uri s = Some u \<Longrightarrow> volume_id s = None"
  by (auto simp: storage_contract_def)

text \<open>C23. A manifest is converted exactly when it satisfies the manifest contract, all its storage has
  a supported URI, it asks for no cloud-init data and its sizes fit the hypervisor's integers; the
  conversion then keeps vCPUs, memory and vsock, the disks in order with source and access mode, the
  networks in order with identifier and MAC address, kernel, command line and an explicit firmware, and
  defaults the firmware only when no kernel is booted directly; nothing else is configured but the
  serial number that announces the data source.\<close>

theorem to_vm_config_preserves_intent:
  "case to_vm_config m of
     Inl _ \<Rightarrow> \<not> convertible m
   | Inr c \<Rightarrow> convertible m \<and>
       (let d = desired m in
        cpus c = Some \<lparr>boot_vcpus = int (unat (vcpus (compute d))),
          cpus_max = int (unat (case max_vcpus (compute d) of Some n \<Rightarrow> n | None \<Rightarrow> vcpus (compute d)))\<rparr> \<and>
        mem_size c = Some (int (unat (memory_bytes (compute d)))) \<and>
        disks c \<noteq> Some [] \<and> (case disks c of Some ds \<Rightarrow> ds | None \<Rightarrow> []) = map logical_disk (storage d) \<and>
        net c \<noteq> Some [] \<and> (case net c of Some ns \<Rightarrow> ns | None \<Rightarrow> []) =
          map (\<lambda>n. \<lparr>net_id = Some (''net://'' @ network_id n), mac = mac_address n, tap = None\<rparr>) (networks d) \<and>
        pl_kernel (payload c) = kernel (boot d) \<and> pl_cmdline (payload c) = cmdline (boot d) \<and>
        pl_initramfs (payload c) = None \<and>
        pl_firmware (payload c) =
          (case (firmware (boot d), kernel (boot d)) of
             (Some f, _) \<Rightarrow> Some f
           | (None, None) \<Rightarrow> Some ''/var/lib/odorobo/CLOUDHV.fd''
           | (None, Some _) \<Rightarrow> None) \<and>
        serial_number c = Some ''ds=nocloud'' \<and> console c = None \<and> serial c = None \<and>
        vc_vsock c = map_option (\<lambda>v. \<lparr>vs_cid = int (unat (guest_cid v)), vs_socket = socket v, vs_id = Some ''odorobo-vsock''\<rparr>) (vsock d))"
proof (cases "VmManifest_validate m")
  case (Inl e)
  then have "\<not> manifest_contract m" using VmManifest_validate_ok [of m] by auto
  with Inl show ?thesis by (simp add: to_vm_config_def convertible_def)
next
  case (Inr u)
  then have contract: "manifest_contract m" using VmManifest_validate_ok [of m] by auto
  then have sc: "storage_contract (storage (desired m))" by (simp add: manifest_contract_def)
  show ?thesis
  proof (cases "collect_results storage_to_disk (storage (desired m))")
    case (Inl e)
    then have "\<not> (\<forall>s \<in> set (storage (desired m)). (\<exists>u. uri s = Some u \<and> supported_uri u) \<and> volume_id s = None)"
      using collect_disks [of "storage (desired m)" "map logical_disk (storage (desired m))"] by auto
    then have "\<not> convertible m"
      using contract_no_volume [OF sc] unfolding convertible_def by blast
    with Inl Inr show ?thesis by (simp add: to_vm_config_def)
  next
    case ds: (Inr ds)
    then have supported: "\<forall>s \<in> set (storage (desired m)). \<exists>u. uri s = Some u \<and> supported_uri u"
      and "ds = map logical_disk (storage (desired m))"
      using collect_disks by blast+
    with Inr ds contract show ?thesis
      by (auto simp: to_vm_config_def convertible_def Let_def i32_try_from_def i64_try_from_def non_empty_def
          network_to_net_def boot_payload_def split: option.splits)
  qed
qed

end
