(* ===== verification/Transform.thy ===== *)
theory Transform
  imports Ch_Manifest
begin

text \<open>
  Node-local configuration transforms (\<open>odorobo/src/ch_driver/transform/\<close>): the console, network and
  path transforms and the chain that runs them in order. The storage transform has its own theory.
  Paths of a VM instance (\<open>ch_driver/instance.rs\<close>) are included because the transforms use them.
\<close>

section \<open>Instance paths\<close>

text \<open>\<open>Path::join\<close> on Unix: an absolute argument replaces the base.\<close>

definition path_join :: "string \<Rightarrow> string \<Rightarrow> string" where
  "path_join base p =
     (if is_absolute p then p
      else if base = [] \<or> last base = CHR ''/'' then base @ p else base @ ''/'' @ p)"

text \<open>The argument is the value of \<open>ODOROBO_RUNTIME_DIR\<close>, if set.\<close>

definition configured_runtime_root :: "string option \<Rightarrow> string" where
  "configured_runtime_root env = (case env of Some p \<Rightarrow> p | None \<Rightarrow> ''/run/odorobo'')"

definition runtime_root :: "string option \<Rightarrow> string" where
  "runtime_root env = path_join (configured_runtime_root env) ''vms''"

definition runtime_dir_for :: "string option \<Rightarrow> string \<Rightarrow> string" where
  "runtime_dir_for env vmid = path_join (runtime_root env) vmid"

definition console_socket_path :: "string option \<Rightarrow> string \<Rightarrow> string" where
  "console_socket_path env vmid = path_join (runtime_dir_for env vmid) ''console.sock''"

definition str_contains :: "string \<Rightarrow> string \<Rightarrow> bool" where
  "str_contains p s \<longleftrightarrow> list_ex (\<lambda>i. starts_with p (drop i s)) [0..<Suc (length s)]"

definition validate_vmid :: "string \<Rightarrow> string + unit" where
  "validate_vmid vmid =
     (if vmid = [] then Inl ''VM ID cannot be empty''
      else if str_contains ''..'' vmid then Inl ''VM ID cannot contain path traversal sequences''
      else if str_contains ''/'' vmid \<or> str_contains [CHR 0x5C] vmid then Inl ''VM ID cannot contain path separators''
      else if starts_with ''.'' vmid then Inl ''VM ID cannot start with a dot''
      else Inr ())"

section \<open>Transforms\<close>

definition ConsoleTransform :: "string option \<Rightarrow> string \<Rightarrow> VmConfig \<Rightarrow> string + VmConfig" where
  "ConsoleTransform env vmid config =
     Inr (config\<lparr>console := Some \<lparr>console_mode = ConsoleOff, console_socket = None, console_file = None\<rparr>,
                 serial := Some \<lparr>console_mode = ConsoleSocket,
                                 console_socket = Some (runtime_dir_for env vmid @ ''/console.sock''), console_file = None\<rparr>\<rparr>)"

definition not_absolute :: "string option \<Rightarrow> bool" where
  "not_absolute p \<longleftrightarrow> (case p of Some q \<Rightarrow> \<not> is_absolute q | None \<Rightarrow> False)"

fun verify_disks :: "DiskConfig list \<Rightarrow> string option" where
  "verify_disks [] = None"
| "verify_disks (d # ds) =
     (if not_absolute (disk_path d)
      then Some (''disk path for '' @ (case disk_id d of Some i \<Rightarrow> i | None \<Rightarrow> ''<unknown>'') @ '' must be an absolute path'')
      else verify_disks ds)"

definition PathVerify :: "string \<Rightarrow> VmConfig \<Rightarrow> string + VmConfig" where
  "PathVerify vmid config =
     (if not_absolute (pl_kernel (payload config)) then Inl ''Kernel must be an absolute path''
      else if not_absolute (pl_initramfs (payload config)) then Inl ''initramfs must be an absolute path''
      else if not_absolute (pl_firmware (payload config)) then Inl ''firmware must be an absolute path''
      else (case disks config of
              None \<Rightarrow> Inr config
            | Some ds \<Rightarrow> (case verify_disks ds of Some e \<Rightarrow> Inl e | None \<Rightarrow> Inr config)))"

definition NETWORK_URI_PREFIX :: string where
  "NETWORK_URI_PREFIX = ''net://''"

definition TAP_PREFIX :: string where
  "TAP_PREFIX = ''vmtap''"

definition MAX_IFNAME_LEN :: nat where
  "MAX_IFNAME_LEN = 15"

definition ifname_char :: "char \<Rightarrow> bool" where
  "ifname_char c \<longleftrightarrow> is_ascii_alphanumeric c \<or> c = CHR ''-'' \<or> c = CHR ''_''"

definition validate_network_id :: "string \<Rightarrow> string + unit" where
  "validate_network_id i =
     (if i = [] then Inl ''network id must not be empty''
      else if \<not> list_all ifname_char i
        then Inl (''network id must contain only ASCII alphanumeric characters, '' @
          [CHR 0x27, CHR ''-'', CHR 0x27] @ '' or '' @ [CHR 0x27, CHR ''_'', CHR 0x27])
      else Inr ())"

text \<open>\<open>chars().map(..)\<close>: a character is its first byte and the continuation bytes after it.\<close>

definition sanitize_component :: "string \<Rightarrow> string" where
  "sanitize_component s =
     map (\<lambda>c. if ifname_char c then to_ascii_lowercase c else CHR ''-'') (filter (Not \<circ> is_utf8_continuation) s)"

definition keep_suffix :: "nat \<Rightarrow> string \<Rightarrow> string" where
  "keep_suffix budget s = (if budget < length s then drop (length s - budget) s else s)"

definition deterministic_tap_name :: "string \<Rightarrow> string \<Rightarrow> string" where
  "deterministic_tap_name vmid nid =
     (let fixed_len = length TAP_PREFIX + 2;
          available = MAX_IFNAME_LEN - fixed_len
      in if available = 0 then take (min MAX_IFNAME_LEN (length TAP_PREFIX)) TAP_PREFIX
         else
           let vmid_budget = max (available div 2) 1;
               network_budget = max (available - vmid_budget) 1;
               tap_name = TAP_PREFIX @ ''-'' @ keep_suffix vmid_budget (sanitize_component vmid) @ ''-'' @
                 keep_suffix network_budget (sanitize_component nid)
           in if MAX_IFNAME_LEN < length tap_name then take MAX_IFNAME_LEN tap_name else tap_name)"

definition rewrite_net_config :: "string \<Rightarrow> NetConfig \<Rightarrow> string + NetConfig" where
  "rewrite_net_config vmid n =
     (case net_id n of
        None \<Rightarrow> Inr n
      | Some i \<Rightarrow>
          (case strip_prefix NETWORK_URI_PREFIX i of
             None \<Rightarrow> Inr n
           | Some nid \<Rightarrow>
               (case validate_network_id nid of
                  Inl e \<Rightarrow> Inl (''invalid network URI id '' @ i)
                | Inr _ \<Rightarrow> Inr (n\<lparr>net_id := Some i, tap := Some (deterministic_tap_name vmid nid)\<rparr>))))"

definition NetworkTransform :: "string \<Rightarrow> VmConfig \<Rightarrow> string + VmConfig" where
  "NetworkTransform vmid config =
     (case net config of
        None \<Rightarrow> Inr config
      | Some nets \<Rightarrow>
          (case collect_results (rewrite_net_config vmid) nets of
             Inl e \<Rightarrow> Inl e
           | Inr nets' \<Rightarrow> Inr (config\<lparr>net := Some nets'\<rparr>)))"

text \<open>The chain applies its transforms in order and stops at the first error.\<close>

fun TransformChain :: "(string \<Rightarrow> VmConfig \<Rightarrow> string + VmConfig) list \<Rightarrow> string \<Rightarrow> VmConfig \<Rightarrow> string + VmConfig" where
  "TransformChain [] vmid config = Inr config"
| "TransformChain (t # ts) vmid config =
     (case t vmid config of Inl e \<Rightarrow> Inl e | Inr c \<Rightarrow> TransformChain ts vmid c)"

section \<open>The contract of a transform\<close>

text \<open>Transforms localise a configuration; they never change the machine it describes.\<close>

definition same_machine :: "VmConfig \<Rightarrow> VmConfig \<Rightarrow> bool" where
  "same_machine c c' \<longleftrightarrow>
     cpus c' = cpus c \<and> mem_size c' = mem_size c \<and> payload c' = payload c \<and> vc_vsock c' = vc_vsock c \<and>
     serial_number c' = serial_number c \<and>
     map_option (map readonly) (disks c') = map_option (map readonly) (disks c) \<and>
     map_option (map net_id) (net c') = map_option (map net_id) (net c) \<and>
     map_option (map mac) (net c') = map_option (map mac) (net c)"

locale config_transform =
  fixes transform :: "string \<Rightarrow> VmConfig \<Rightarrow> string + VmConfig"
  assumes frame: "transform vmid c = Inr c' \<Longrightarrow> same_machine c c'"
begin

lemma frame_disk_count:
  "transform vmid c = Inr c' \<Longrightarrow> map_option length (disks c') = map_option length (disks c)"
  by (drule frame) (cases "disks c"; cases "disks c'"; auto simp: same_machine_def dest: map_eq_imp_length_eq)

lemma frame_net_count:
  "transform vmid c = Inr c' \<Longrightarrow> map_option length (net c') = map_option length (net c)"
  by (drule frame) (cases "net c"; cases "net c'"; auto simp: same_machine_def dest: map_eq_imp_length_eq)

end

lemma same_machine_refl: "same_machine c c"
  by (simp add: same_machine_def)

lemma same_machine_trans: "same_machine a b \<Longrightarrow> same_machine b c \<Longrightarrow> same_machine a c"
  by (simp add: same_machine_def)

lemma chain_config_transform:
  assumes "\<forall>t \<in> set ts. config_transform t"
  shows "config_transform (TransformChain ts)"
proof
  fix vmid c c' assume "TransformChain ts vmid c = Inr c'"
  with assms show "same_machine c c'"
  proof (induction ts arbitrary: c)
    case Nil
    then show ?case by (simp add: same_machine_refl)
  next
    case (Cons t ts)
    then obtain d where d: "t vmid c = Inr d" "TransformChain ts vmid d = Inr c'"
      by (auto split: sum.splits)
    have "same_machine c d" using Cons.prems(1) d(1) by (auto intro: config_transform.frame)
    with Cons d(2) show ?case by (auto intro: same_machine_trans)
  qed
qed

interpretation console_transform: config_transform "ConsoleTransform env" for env
  by unfold_locales (auto simp: ConsoleTransform_def same_machine_def)

interpretation path_verify: config_transform PathVerify
  by unfold_locales (auto simp: PathVerify_def same_machine_def split: if_splits option.splits)

lemma rewrite_net_keeps: "rewrite_net_config vmid n = Inr n' \<Longrightarrow> net_id n' = net_id n \<and> mac n' = mac n"
  by (auto simp: rewrite_net_config_def split: option.splits sum.splits)

lemma collect_rewrite_keeps:
  "collect_results (rewrite_net_config vmid) ns = Inr ns' \<Longrightarrow> map net_id ns' = map net_id ns \<and> map mac ns' = map mac ns"
proof (induction ns arbitrary: ns')
  case (Cons n ns)
  then show ?case
    using rewrite_net_keeps unfolding collect_results_Cons by fastforce
qed simp

interpretation network_transform: config_transform NetworkTransform
  by unfold_locales
    (auto simp: NetworkTransform_def same_machine_def collect_rewrite_keeps split: option.splits sum.splits)

section \<open>TAP names\<close>

lemma tap_name_eq:
  "deterministic_tap_name vmid nid =
     ''vmtap-'' @ keep_suffix 4 (sanitize_component vmid) @ ''-'' @ keep_suffix 4 (sanitize_component nid)"
proof -
  have "length (keep_suffix 4 s) \<le> 4" for s by (simp add: keep_suffix_def)
  from this [of "sanitize_component vmid"] this [of "sanitize_component nid"] show ?thesis
    by (simp add: deterministic_tap_name_def TAP_PREFIX_def MAX_IFNAME_LEN_def Let_def)
qed

lemma ifname_char_lower: "ifname_char c \<Longrightarrow> ifname_char (to_ascii_lowercase c) \<and> \<not> is_ascii_uppercase (to_ascii_lowercase c)"
  by (auto simp: to_ascii_lowercase_def ifname_char_def is_ascii_alphanumeric_def is_ascii_uppercase_def
      is_ascii_lowercase_def is_ascii_digit_def)

lemma sanitize_chars: "c \<in> set (sanitize_component s) \<Longrightarrow> ifname_char c \<and> \<not> is_ascii_uppercase c"
proof -
  assume "c \<in> set (sanitize_component s)"
  then obtain d where "c = (if ifname_char d then to_ascii_lowercase d else CHR ''-'')"
    unfolding sanitize_component_def set_map by blast
  moreover have "ifname_char (CHR ''-'') \<and> \<not> is_ascii_uppercase (CHR ''-'')"
    by (simp add: ifname_char_def is_ascii_uppercase_def)
  ultimately show ?thesis
    using ifname_char_lower [of d] by (cases "ifname_char d") simp_all
qed

lemma set_keep_suffix: "set (keep_suffix n s) \<subseteq> set s"
  by (auto simp: keep_suffix_def dest: in_set_dropD)

text \<open>C31. The TAP device name of a network is a valid Linux interface name whatever the VM and network
  identifiers are: at most 15 bytes, starting with vmtap-, all lower-case letters, digits, dashes and
  underscores.\<close>

theorem tap_name_is_valid_ifname:
  "let name = deterministic_tap_name vmid nid in
     length name \<le> 15 \<and> starts_with ''vmtap-'' name \<and>
     list_all (\<lambda>c. ifname_char c \<and> \<not> is_ascii_uppercase c) name"
proof -
  have "length (keep_suffix 4 s) \<le> 4" for s by (simp add: keep_suffix_def)
  from this [of "sanitize_component vmid"] this [of "sanitize_component nid"]
  have "length (deterministic_tap_name vmid nid) \<le> 15" by (simp add: tap_name_eq)
  moreover have "list_all (\<lambda>c. ifname_char c \<and> \<not> is_ascii_uppercase c) (keep_suffix 4 (sanitize_component s))" for s
    using sanitize_chars set_keep_suffix by (force simp: list_all_iff)
  then have "list_all (\<lambda>c. ifname_char c \<and> \<not> is_ascii_uppercase c) (deterministic_tap_name vmid nid)"
    by (simp add: tap_name_eq ifname_char_def is_ascii_alphanumeric_def is_ascii_uppercase_def
        is_ascii_lowercase_def is_ascii_digit_def)
  ultimately show ?thesis
    by (simp add: Let_def tap_name_eq starts_with_def)
qed

text \<open>TAP names are not unique: they depend on the last four characters of the VM and of the network
  only, so two networks of a VM, or two VMs on a network, can be given the same device name.\<close>

lemma tap_names_collide:
  assumes "list_all (Not \<circ> is_utf8_continuation) s" and "length s = 4"
    and "list_all (Not \<circ> is_utf8_continuation) t" and "length t = 4"
  shows "deterministic_tap_name (v @ s) (a @ t) = deterministic_tap_name (w @ s) (b @ t)"
proof -
  have "keep_suffix 4 (sanitize_component (x @ y)) = sanitize_component y"
    if "list_all (Not \<circ> is_utf8_continuation) y" and "length y = 4" for x y
    using that by (simp add: keep_suffix_def sanitize_component_def list_all_iff)
  with assms show ?thesis by (simp add: tap_name_eq)
qed

lemma tap_names_collide_example:
  "deterministic_tap_name ''01hzx'' ''prod-vnet'' = deterministic_tap_name ''11hzx'' ''test-vnet''"
  using tap_names_collide [of "''1hzx''" "''vnet''" "''0''" "''prod-''" "''1''" "''test-''"]
  by (simp add: is_utf8_continuation_def)

end
