(* ===== verification/Storage.thy ===== *)
theory Storage
  imports Transform
begin

text \<open>
  Storage resolution (\<open>odorobo/src/ch_driver/transform/storage/\<close>): the file, RBD and iSCSI drivers
  and the transform that turns disk URIs into local device paths and releases them again. URL parsing
  belongs to a library and is a parameter; a parsed URL is the record of what its accessors return.
  Commands are modelled by their argument lists and their outcomes are arguments.
\<close>

section \<open>URLs and commands\<close>

record Url =
  url_scheme :: string
  host_str :: "string option"
  url_port :: "nat option"
  url_path :: string

text \<open>\<open>path_segments()\<close>: the parts of an absolute path between slashes.\<close>

fun split_slash :: "string \<Rightarrow> string list" where
  "split_slash [] = [[]]"
| "split_slash (c # s) =
     (if c = CHR ''/'' then [] # split_slash s
      else (case split_slash s of w # ws \<Rightarrow> (c # w) # ws | [] \<Rightarrow> [[c]]))"

definition path_segments :: "Url \<Rightarrow> string list option" where
  "path_segments u = map_option split_slash (strip_prefix ''/'' (url_path u))"

text \<open>The outcome of running a command: it could not be started, or it ended with a status and its
  two outputs.\<close>

datatype command_result = NotStarted string | Exited bool string string

definition check_command :: "string \<Rightarrow> string \<Rightarrow> command_result \<Rightarrow> string + string" where
  "check_command start_error failure r =
     (case r of
        NotStarted e \<Rightarrow> Inl (start_error @ e)
      | Exited ok out err \<Rightarrow> if ok then Inr out else Inl (failure @ err))"

section \<open>Files\<close>

text \<open>\<open>to_file_path\<close> is the library's conversion of a file URL: a path, or the text of the URL that has none.\<close>

definition FileStorage_resolve :: "(Url \<Rightarrow> string + string) \<Rightarrow> Url \<Rightarrow> string + string" where
  "FileStorage_resolve to_file_path u =
     (case to_file_path u of
        Inr p \<Rightarrow> Inr p
      | Inl uri_text \<Rightarrow> Inl (''Failed to convert file URI to path: '' @ [CHR 0x27] @ uri_text @ [CHR 0x27]))"

definition FileStorage_release :: "Url \<Rightarrow> string + unit" where
  "FileStorage_release u = Inr ()"

section \<open>RBD\<close>

text \<open>The values of \<open>CEPH_CONFIG\<close>, \<open>CEPH_ID\<close>, \<open>CEPH_KEYFILE\<close> and \<open>CEPH_CLUSTER\<close>.\<close>

record ceph_env =
  ceph_config :: "string option"
  ceph_id :: "string option"
  ceph_keyfile :: "string option"
  ceph_cluster :: "string option"

definition opt_arg :: "string \<Rightarrow> string option \<Rightarrow> string list" where
  "opt_arg flag v = (case v of Some x \<Rightarrow> [flag @ x] | None \<Rightarrow> [])"

definition rbd_extra_args :: "ceph_env \<Rightarrow> string list" where
  "rbd_extra_args env =
     opt_arg ''--conf='' (ceph_config env) @ opt_arg ''--id='' (ceph_id env) @
     opt_arg ''--keyfile='' (ceph_keyfile env) @ opt_arg ''--cluster='' (ceph_cluster env)"

text \<open>One line of \<open>rbd device list\<close>.\<close>

definition rbd_line :: "string \<Rightarrow> (string \<times> string) option" where
  "rbd_line line =
     (case split_whitespace line of
        _ # pool # field # nxt # fifth # rest \<Rightarrow>
          (case rest of
             device # _ \<Rightarrow> Some (pool @ ''/'' @ nxt, device)
           | [] \<Rightarrow> if starts_with ''/dev/'' fifth then Some (pool @ ''/'' @ field, fifth) else None)
      | _ \<Rightarrow> None)"

definition rbd_lines_list :: "string \<Rightarrow> (string \<times> string) list" where
  "rbd_lines_list input = List.map_filter rbd_line (drop 1 (str_lines input))"

definition rbd_map_list :: "command_result \<Rightarrow> string + (string \<times> string) list" where
  "rbd_map_list listed =
     (case check_command ''Failed to execute rbd command: '' ''rbd command failed: '' listed of
        Inl e \<Rightarrow> Inl e
      | Inr out \<Rightarrow> Inr (rbd_lines_list out))"

record RbdImage =
  rbd_pool :: string
  rbd_image :: string

definition rbd_path :: "RbdImage \<Rightarrow> string" where
  "rbd_path i = rbd_pool i @ ''/'' @ rbd_image i"

definition rbd_device_path :: "RbdImage \<Rightarrow> string" where
  "rbd_device_path i = ''/dev/rbd/'' @ rbd_pool i @ ''/'' @ rbd_image i"

definition RbdImage_try_from :: "Url \<Rightarrow> string + RbdImage" where
  "RbdImage_try_from u =
     (case host_str u of
        None \<Rightarrow> Inl ''RBD URI must have a host (pool name)''
      | Some pool \<Rightarrow>
          if url_path u = [] \<or> url_path u = ''/'' then Inl ''RBD URI must have a path (image name)''
          else Inr \<lparr>rbd_pool = pool, rbd_image = trim_start_char (CHR ''/'') (url_path u)\<rparr>)"

text \<open>\<open>RbdImage::map\<close>: the result and the commands it runs.\<close>

definition rbd_list_command :: "ceph_env \<Rightarrow> string list" where
  "rbd_list_command env = ''rbd'' # rbd_extra_args env @ [''device'', ''list'']"

definition rbd_map :: "ceph_env \<Rightarrow> command_result \<Rightarrow> command_result \<Rightarrow> RbdImage \<Rightarrow> (string + unit) \<times> string list list" where
  "rbd_map env listed mapped i =
     (case rbd_map_list listed of
        Inl e \<Rightarrow> (Inl e, [rbd_list_command env])
      | Inr mappings \<Rightarrow>
          if list_ex (\<lambda>(p, _). p = rbd_path i) mappings then (Inr (), [rbd_list_command env])
          else
            ((case check_command ''Failed to execute rbd command: '' ''rbd map failed: '' mapped of
                Inl e \<Rightarrow> Inl e | Inr _ \<Rightarrow> Inr ()),
             [rbd_list_command env,
              ''rbd'' # rbd_extra_args env @ [''device'', ''map'', ''--options'', ''noudev'', rbd_path i]]))"

definition rbd_unmap :: "ceph_env \<Rightarrow> command_result \<Rightarrow> RbdImage \<Rightarrow> (string + unit) \<times> string list list" where
  "rbd_unmap env unmapped i =
     ((case check_command ''Failed to execute rbd command: '' ''rbd unmap failed: '' unmapped of
         Inl e \<Rightarrow> Inl e | Inr _ \<Rightarrow> Inr ()),
      [''rbd'' # rbd_extra_args env @ [''device'', ''unmap'', ''--options'', ''noudev'', rbd_path i]])"

text \<open>\<open>appears\<close>: whether the stable path shows up within the hundred checks; \<open>relisted\<close> the second
  listing.\<close>

definition RbdStorage_resolve ::
  "ceph_env \<Rightarrow> command_result \<Rightarrow> command_result \<Rightarrow> bool \<Rightarrow> command_result \<Rightarrow> Url \<Rightarrow> string + string" where
  "RbdStorage_resolve env listed mapped appears relisted u =
     (case RbdImage_try_from u of
        Inl e \<Rightarrow> Inl e
      | Inr i \<Rightarrow>
          (case fst (rbd_map env listed mapped i) of
             Inl e \<Rightarrow> Inl e
           | Inr _ \<Rightarrow>
               if appears then Inr (rbd_device_path i)
               else
                 (case rbd_map_list relisted of
                    Inl e \<Rightarrow> Inl e
                  | Inr mappings \<Rightarrow>
                      (case find (\<lambda>(p, _). p = rbd_path i) mappings of
                         Some (_, device) \<Rightarrow> Inr device
                       | None \<Rightarrow> Inl (''RBD image '' @ rbd_path i @ '' is mapped but no device name was found'')))))"

definition RbdStorage_release :: "ceph_env \<Rightarrow> command_result \<Rightarrow> Url \<Rightarrow> string + unit" where
  "RbdStorage_release env unmapped u =
     (case RbdImage_try_from u of Inl e \<Rightarrow> Inl e | Inr i \<Rightarrow> fst (rbd_unmap env unmapped i))"

section \<open>iSCSI\<close>

record ISCSITarget =
  iscsi_host :: string
  iqn :: string
  lun :: u32

definition to_device_path :: "ISCSITarget \<Rightarrow> string" where
  "to_device_path t =
     ''/dev/disk/by-path/ip-'' @ iscsi_host t @ ''-iscsi-'' @ iqn t @ ''-lun-'' @ show_nat (unat (lun t))"

definition iscsiadm :: "ISCSITarget \<Rightarrow> string \<Rightarrow> string list" where
  "iscsiadm t action = [''iscsiadm'', ''-m'', ''node'', ''-T'', iqn t, ''-p'', iscsi_host t, action]"

definition attach :: "command_result \<Rightarrow> ISCSITarget \<Rightarrow> (string + string) \<times> string list list" where
  "attach login t =
     ((case check_command ''Failed to execute iscsiadm command: '' ''iscsiadm login failed: '' login of
         Inl e \<Rightarrow> Inl e | Inr _ \<Rightarrow> Inr (to_device_path t)),
      [iscsiadm t ''--login''])"

definition detach :: "command_result \<Rightarrow> ISCSITarget \<Rightarrow> (string + unit) \<times> string list list" where
  "detach logout t =
     ((case check_command ''Failed to execute iscsiadm command: '' ''iscsiadm logout failed: '' logout of
         Inl e \<Rightarrow> Inl e | Inr _ \<Rightarrow> Inr ()),
      [iscsiadm t ''--logout''])"

definition nth_or_empty :: "string list \<Rightarrow> nat \<Rightarrow> string" where
  "nth_or_empty ws i = (if i < length ws then ws ! i else [])"

definition parse_u32_or_0 :: "string \<Rightarrow> u32" where
  "parse_u32_or_0 s = (case parse_u32 s of Some n \<Rightarrow> n | None \<Rightarrow> 0)"

definition ISCSITarget_from :: "Url \<Rightarrow> ISCSITarget" where
  "ISCSITarget_from u =
     (let host_ip = (case host_str u of Some h \<Rightarrow> h | None \<Rightarrow> []);
          port = (case url_port u of Some p \<Rightarrow> p | None \<Rightarrow> 3260);
          segments = (case path_segments u of Some ws \<Rightarrow> ws | None \<Rightarrow> []);
          lun_str = nth_or_empty segments 1
      in \<lparr>iscsi_host = host_ip @ '':'' @ show_nat port, iqn = nth_or_empty segments 0,
          lun = parse_u32_or_0 (case strip_prefix ''lun'' lun_str of Some r \<Rightarrow> r | None \<Rightarrow> lun_str)\<rparr>)"

text \<open>\<open>Path::file_name\<close>, empty when there is none: the last component, where empty components
  and single dots do not count and a final parent directory is no name.\<close>

definition file_name :: "string \<Rightarrow> string" where
  "file_name p =
     (let comps = filter (\<lambda>w. w \<noteq> [] \<and> w \<noteq> ''.'') (split_slash p)
      in if comps = [] \<or> last comps = ''..'' then [] else last comps)"

definition ISCSITarget_try_from :: "string \<Rightarrow> string + ISCSITarget" where
  "ISCSITarget_try_from path =
     (case strip_prefix ''ip-'' (file_name path) of
        None \<Rightarrow> Inl (''Device path does not start with '' @ [CHR 0x27] @ ''ip-'' @ [CHR 0x27] @ '': '' @ path)
      | Some stripped \<Rightarrow>
          (case split_once ''-iscsi-'' stripped of
             None \<Rightarrow> Inl (''Failed to parse iSCSI target from device path: '' @ path)
           | Some (host_part, rest) \<Rightarrow>
               (let (iqn_part, lun_part) = (case rsplit_once ''-lun-'' rest of Some x \<Rightarrow> x | None \<Rightarrow> (rest, ''0''))
                in Inr \<lparr>iscsi_host = host_part, iqn = iqn_part, lun = parse_u32_or_0 lun_part\<rparr>)))"

definition ISCSIStorage_resolve :: "command_result \<Rightarrow> Url \<Rightarrow> string + string" where
  "ISCSIStorage_resolve login u = fst (attach login (ISCSITarget_from u))"

definition ISCSIStorage_release :: "command_result \<Rightarrow> Url \<Rightarrow> string + unit" where
  "ISCSIStorage_release logout u = fst (detach logout (ISCSITarget_from u))"

section \<open>The storage transform\<close>

record StorageDriver =
  drv_scheme :: string
  drv_resolve :: "Url \<Rightarrow> string + string"
  drv_release :: "Url \<Rightarrow> string + unit"

definition find_backend :: "StorageDriver list \<Rightarrow> Url \<Rightarrow> StorageDriver option" where
  "find_backend backends u = find (\<lambda>b. drv_scheme b = url_scheme u) backends"

text \<open>The URL library: \<open>Url::parse\<close>, and appending the query pair \<open>id\<close>.\<close>

record url_library =
  url_parse :: "string \<Rightarrow> Url option"
  with_disk_id :: "string \<Rightarrow> string \<Rightarrow> string"   \<comment> \<open>original URL text, disk identifier\<close>

definition backend_for :: "url_library \<Rightarrow> StorageDriver list \<Rightarrow> string \<Rightarrow> (Url \<times> StorageDriver) option" where
  "backend_for lib backends s =
     (case url_parse lib s of
        None \<Rightarrow> None
      | Some u \<Rightarrow> map_option (\<lambda>b. (u, b)) (find_backend backends u))"

definition transform_disk :: "url_library \<Rightarrow> StorageDriver list \<Rightarrow> DiskConfig \<Rightarrow> string + DiskConfig" where
  "transform_disk lib backends d =
     (case disk_path d of
        None \<Rightarrow> Inr d
      | Some path \<Rightarrow>
          (case backend_for lib backends path of
             None \<Rightarrow> Inr d
           | Some (u, b) \<Rightarrow>
               (case drv_resolve b u of
                  Inl e \<Rightarrow> Inl e
                | Inr resolved \<Rightarrow>
                    Inr (d\<lparr>disk_id := Some (with_disk_id lib path
                             (case disk_id d of Some i \<Rightarrow> i | None \<Rightarrow> ''<unknown>'')),
                           disk_path := Some resolved\<rparr>))))"

definition StorageTransform :: "url_library \<Rightarrow> StorageDriver list \<Rightarrow> string \<Rightarrow> VmConfig \<Rightarrow> string + VmConfig" where
  "StorageTransform lib backends vmid config =
     (case disks config of
        None \<Rightarrow> Inr config
      | Some ds \<Rightarrow>
          (case collect_results (transform_disk lib backends) ds of
             Inl e \<Rightarrow> Inl e
           | Inr ds' \<Rightarrow> Inr (config\<lparr>disks := Some ds'\<rparr>)))"

text \<open>\<open>release_config\<close>: for every disk the first of path and identifier that is a URI of a registered
  scheme is released; failures are only logged.\<close>

definition release_candidate :: "url_library \<Rightarrow> StorageDriver list \<Rightarrow> DiskConfig \<Rightarrow> (Url \<times> StorageDriver) option" where
  "release_candidate lib backends d =
     (case Option.bind (disk_path d) (backend_for lib backends) of
        Some x \<Rightarrow> Some x
      | None \<Rightarrow> Option.bind (disk_id d) (backend_for lib backends))"

definition release_config :: "url_library \<Rightarrow> StorageDriver list \<Rightarrow> VmConfig \<Rightarrow> (Url \<times> (string + unit)) list" where
  "release_config lib backends config =
     (case disks config of
        None \<Rightarrow> []
      | Some ds \<Rightarrow> map (\<lambda>(u, b). (u, drv_release b u)) (List.map_filter (release_candidate lib backends) ds))"

text \<open>Of the transforms only storage has a teardown; it never fails. The other arguments of the chain's
  teardown are no-ops.\<close>

type_synonym teardown = "string \<Rightarrow> VmConfig \<Rightarrow> (Url \<times> (string + unit)) list \<times> (string + unit)"

definition no_teardown :: teardown where
  "no_teardown vmid config = ([], Inr ())"

definition StorageTransform_teardown :: "url_library \<Rightarrow> StorageDriver list \<Rightarrow> teardown" where
  "StorageTransform_teardown lib backends vmid config = (release_config lib backends config, Inr ())"

fun teardown_in_order :: "teardown list \<Rightarrow> teardown" where
  "teardown_in_order [] vmid config = ([], Inr ())"
| "teardown_in_order (t # ts) vmid config =
     (case t vmid config of
        (released, Inl e) \<Rightarrow> (released, Inl e)
      | (released, Inr _) \<Rightarrow> (case teardown_in_order ts vmid config of (later, r) \<Rightarrow> (released @ later, r)))"

definition TransformChain_teardown :: "teardown list \<Rightarrow> teardown" where
  "TransformChain_teardown ts = teardown_in_order (rev ts)"

text \<open>The registered backends, with the outcomes of the commands they run per URL.\<close>

record storage_host =
  file_paths :: "Url \<Rightarrow> string + string"
  ceph :: ceph_env
  cmd_list :: "Url \<Rightarrow> command_result"
  cmd_map :: "Url \<Rightarrow> command_result"
  udev_appears :: "Url \<Rightarrow> bool"
  cmd_relist :: "Url \<Rightarrow> command_result"
  cmd_unmap :: "Url \<Rightarrow> command_result"
  cmd_login :: "Url \<Rightarrow> command_result"
  cmd_logout :: "Url \<Rightarrow> command_result"

definition default_backends :: "storage_host \<Rightarrow> StorageDriver list" where
  "default_backends h =
     [\<lparr>drv_scheme = ''file'', drv_resolve = FileStorage_resolve (file_paths h), drv_release = FileStorage_release\<rparr>,
      \<lparr>drv_scheme = ''rbd'',
       drv_resolve = (\<lambda>u. RbdStorage_resolve (ceph h) (cmd_list h u) (cmd_map h u) (udev_appears h u) (cmd_relist h u) u),
       drv_release = (\<lambda>u. RbdStorage_release (ceph h) (cmd_unmap h u) u)\<rparr>,
      \<lparr>drv_scheme = ''iscsi'', drv_resolve = (\<lambda>u. ISCSIStorage_resolve (cmd_login h u) u),
       drv_release = (\<lambda>u. ISCSIStorage_release (cmd_logout h u) u)\<rparr>]"

definition default_chain :: "string option \<Rightarrow> url_library \<Rightarrow> storage_host \<Rightarrow> (string \<Rightarrow> VmConfig \<Rightarrow> string + VmConfig) list" where
  "default_chain env lib h =
     [StorageTransform lib (default_backends h), ConsoleTransform env, NetworkTransform, PathVerify]"

definition default_teardown :: "url_library \<Rightarrow> storage_host \<Rightarrow> teardown" where
  "default_teardown lib h =
     TransformChain_teardown [StorageTransform_teardown lib (default_backends h), no_teardown, no_teardown, no_teardown]"

end
