(* ===== verification/Console.thy ===== *)
theory Console
  imports Vm_Messages
begin

text \<open>
  The bounded serial-console history of a VM (\<open>odorobo/src/ch_driver/actor.rs\<close>): a queue of output
  chunks with the total of their lengths, trimmed at the front whenever it exceeds one megabyte.
\<close>

section \<open>Operations\<close>

definition CONSOLE_SPOOL_SIZE :: nat where
  "CONSOLE_SPOOL_SIZE = 1024 * 1024"

text \<open>\<open>usize::saturating_add\<close> on a 64-bit target.\<close>

definition usize_sat_add :: "nat \<Rightarrow> nat \<Rightarrow> nat" where
  "usize_sat_add a b = min (2 ^ 64 - 1) (a + b)"

record ConsoleBuffer =
  ring :: "bytes list"
  buf_len :: nat

text \<open>The shared state of a console: the buffer, and whether the write half of a socket is attached.\<close>

record Console =
  con_inner :: ConsoleBuffer
  con_writer :: bool

definition Console_default :: Console where
  "Console_default = \<lparr>con_inner = \<lparr>ring = [], buf_len = 0\<rparr>, con_writer = False\<rparr>"

text \<open>The trimming loop of \<open>push\<close>.\<close>

function trim_ring :: "bytes list \<Rightarrow> nat \<Rightarrow> bytes list \<times> nat" where
  "trim_ring chunks n =
     (if CONSOLE_SPOOL_SIZE < n then
        (let excess = n - CONSOLE_SPOOL_SIZE in
         case chunks of
           [] \<Rightarrow> ([], 0)
         | oldest # rest \<Rightarrow>
             if excess < length oldest then trim_ring (drop excess oldest # rest) (n - excess)
             else trim_ring rest (n - length oldest))
      else (chunks, n))"
  by pat_completeness auto
termination
  by (relation "measures [\<lambda>(chunks, n). length chunks, \<lambda>(chunks, n). n]") auto

declare trim_ring.simps [simp del]

definition push :: "bytes \<Rightarrow> ConsoleBuffer \<Rightarrow> ConsoleBuffer" where
  "push chunk buffer =
     (let c = (if CONSOLE_SPOOL_SIZE < length chunk then drop (length chunk - CONSOLE_SPOOL_SIZE) chunk else chunk);
          (chunks, n) = trim_ring (ring buffer @ [c]) (usize_sat_add (buf_len buffer) (length c))
      in \<lparr>ring = chunks, buf_len = n\<rparr>)"

definition history :: "Console \<Rightarrow> bytes" where
  "history c = concat (ring (con_inner c))"

text \<open>
  \<open>attach_socket\<close>: the outcome of connecting is an argument. The first attachment stores the write
  half and starts the reader task; a later one closes the new connection again.
\<close>

definition attach_socket :: "string + unit \<Rightarrow> Console \<Rightarrow> Console \<times> (string + unit) \<times> bool" where
  "attach_socket connect c =
     (case connect of
        Inl e \<Rightarrow> (c, Inl (''failed to attach console spool to '' @ e), False)
      | Inr _ \<Rightarrow> if con_writer c then (c, Inr (), False) else (c\<lparr>con_writer := True\<rparr>, Inr (), True))"

text \<open>The reader task over a sequence of read results: it ends at an empty read or an error.\<close>

fun spool :: "(string + bytes) list \<Rightarrow> Console \<Rightarrow> Console" where
  "spool [] c = c"
| "spool (Inl _ # _) c = c"
| "spool (Inr chunk # rest) c =
     (if chunk = [] then c else spool rest (c\<lparr>con_inner := push chunk (con_inner c)\<rparr>))"

definition write_input :: "Console \<Rightarrow> string option \<Rightarrow> string + unit" where
  "write_input c write_error =
     (if \<not> con_writer c then Inl ''console is not attached''
      else (case write_error of
              None \<Rightarrow> Inr ()
            | Some e \<Rightarrow> Inl (''failed to write to serial console: '' @ e)))"

definition VMActor_SendConsoleInput :: "Console \<Rightarrow> string option \<Rightarrow> bytes \<Rightarrow> SendConsoleInputReply" where
  "VMActor_SendConsoleInput c write_error input =
     (case write_input c write_error of
        Inr _ \<Rightarrow> \<lparr>written = length input, input_error = None\<rparr>
      | Inl e \<Rightarrow> \<lparr>written = 0, input_error = Some e\<rparr>)"

section \<open>The history is the most recent output\<close>

definition buffer_ok :: "ConsoleBuffer \<Rightarrow> bool" where
  "buffer_ok b \<longleftrightarrow> buf_len b = length (concat (ring b)) \<and> buf_len b \<le> CONSOLE_SPOOL_SIZE"

definition last_bytes :: "bytes \<Rightarrow> bytes" where
  "last_bytes out = drop (length out - CONSOLE_SPOOL_SIZE) out"

lemma trim_ring_spec:
  assumes "n = length (concat chunks)"
  shows "concat (fst (trim_ring chunks n)) = drop (n - CONSOLE_SPOOL_SIZE) (concat chunks) \<and>
    snd (trim_ring chunks n) = length (concat (fst (trim_ring chunks n)))"
  using assms
proof (induction chunks n rule: trim_ring.induct)
  case (1 chunks n)
  show ?case
  proof (cases "CONSOLE_SPOOL_SIZE < n")
    case False
    then have "trim_ring chunks n = (chunks, n)" by (subst trim_ring.simps) simp
    with False "1.prems" show ?thesis by simp
  next
    case True
    with "1.prems" obtain oldest rest where chunks: "chunks = oldest # rest" by (cases chunks) auto
    let ?x = "n - CONSOLE_SPOOL_SIZE"
    show ?thesis
    proof (cases "?x < length oldest")
      case cut: True
      have "trim_ring chunks n = trim_ring (drop ?x oldest # rest) (n - ?x)"
        using True cut by (subst trim_ring.simps) (simp add: chunks Let_def)
      moreover have len: "n - ?x = length (concat (drop ?x oldest # rest))"
        using "1.prems" cut by (simp add: chunks)
      moreover have "n - ?x - CONSOLE_SPOOL_SIZE = 0" using True by simp
      ultimately show ?thesis
        using "1.IH"(1) [OF True refl chunks cut len] cut by (simp only: drop_0) (simp add: chunks)
    next
      case False
      have "trim_ring chunks n = trim_ring rest (n - length oldest)"
        using True False by (subst trim_ring.simps) (simp add: chunks Let_def)
      with "1.IH"(2) [OF True refl chunks False] "1.prems" False show ?thesis
        by (simp add: chunks diff_right_commute)
    qed
  qed
qed

lemma push_spec:
  assumes "buffer_ok b"
  shows "buffer_ok (push chunk b) \<and> concat (ring (push chunk b)) = last_bytes (concat (ring b) @ chunk)"
proof -
  let ?c = "if CONSOLE_SPOOL_SIZE < length chunk then drop (length chunk - CONSOLE_SPOOL_SIZE) chunk else chunk"
  let ?n = "buf_len b + length ?c"
  have "usize_sat_add (buf_len b) (length ?c) = ?n"
    using assms by (simp add: usize_sat_add_def buffer_ok_def CONSOLE_SPOOL_SIZE_def)
  moreover have n: "?n = length (concat (ring b @ [?c]))"
    using assms by (simp add: buffer_ok_def)
  ultimately have "concat (ring (push chunk b)) = drop (?n - CONSOLE_SPOOL_SIZE) (concat (ring b @ [?c]))"
    and "buf_len (push chunk b) = length (concat (ring (push chunk b)))"
    using trim_ring_spec [OF n] by (simp_all add: push_def Let_def case_prod_unfold)
  with assms show ?thesis
    by (auto simp: buffer_ok_def last_bytes_def)
qed

lemma last_bytes_append: "last_bytes (last_bytes a @ b) = last_bytes (a @ b)"
proof -
  let ?k = "length a - CONSOLE_SPOOL_SIZE" and ?n = "length (a @ b) - CONSOLE_SPOOL_SIZE"
  have "last_bytes a @ b = drop ?k (a @ b)"
    by (simp add: last_bytes_def)
  moreover have "length (drop ?k (a @ b)) - CONSOLE_SPOOL_SIZE + ?k = ?n"
    by auto
  ultimately show ?thesis
    by (simp only: last_bytes_def [of "drop ?k (a @ b)"] last_bytes_def [of "a @ b"] drop_drop)
qed

text \<open>The output the reader task has taken from the socket.\<close>

fun spooled :: "(string + bytes) list \<Rightarrow> bytes" where
  "spooled [] = []"
| "spooled (Inl _ # _) = []"
| "spooled (Inr chunk # rest) = (if chunk = [] then [] else chunk @ spooled rest)"

lemma spool_spec:
  assumes "buffer_ok (con_inner c)" and "history c = last_bytes out"
  shows "buffer_ok (con_inner (spool reads c)) \<and> history (spool reads c) = last_bytes (out @ spooled reads)"
  using assms
proof (induction reads c arbitrary: out rule: spool.induct)
  case (3 chunk rest c)
  show ?case
  proof (cases "chunk = []")
    case True
    with 3 show ?thesis by simp
  next
    case False
    have "buffer_ok (push chunk (con_inner c))" "concat (ring (push chunk (con_inner c))) = last_bytes (out @ chunk)"
      using push_spec [OF "3.prems"(1), of chunk] "3.prems"(2) by (simp_all add: history_def last_bytes_append)
    with False "3.IH" [OF False, of "out @ chunk"] show ?thesis
      by (simp add: history_def)
  qed
qed simp_all

text \<open>C28. The retained console history is exactly the last megabyte of everything the VM has written to
  its serial socket, in order, for any sequence of reads, whatever their sizes; and the recorded
  length is the number of bytes retained.\<close>

theorem console_history_is_last_megabyte:
  "history (spool reads (fst (attach_socket connect Console_default))) =
     drop (length (spooled reads) - 1024 * 1024) (spooled reads) \<and>
   buf_len (con_inner (spool reads (fst (attach_socket connect Console_default)))) =
     min (1024 * 1024) (length (spooled reads))"
proof -
  let ?c = "fst (attach_socket connect Console_default)"
  have "buffer_ok (con_inner ?c)" and "history ?c = last_bytes []"
    by (auto simp: attach_socket_def Console_default_def buffer_ok_def history_def last_bytes_def split: sum.splits)
  from spool_spec [OF this, of reads] show ?thesis
    by (auto simp: last_bytes_def buffer_ok_def history_def CONSOLE_SPOOL_SIZE_def)
qed

end
