(* ===== verification/Vm_Instance.thy ===== *)
theory Vm_Instance
  imports Storage Console Journal
begin

text \<open>
  The life cycle of a Cloud Hypervisor instance (\<open>odorobo/src/ch_driver/instance.rs\<close>) with its
  provisioning hooks (\<open>ch_driver/provisioning/hooks/\<close>). Everything the driver does to the outside
  (the hypervisor's API, its process, the file system, the networking actor) is an effect, recorded in
  a journal in the order of execution. The environment decides the outcome of every effect from the
  whole journal before it, so a statement for all environments holds for every behaviour of the
  hypervisor and the host.
\<close>

section \<open>Effects\<close>

datatype VmState = VmCreated | VmRunning | VmPaused | VmShutdown | VmBreakPoint

record VmInfo =
  vi_config :: VmConfig
  vi_state :: VmState

datatype effect =
    CreateDirAll string
  | SpawnVmm string
  | Ping
  | Sleep nat
  | KillChild
  | WaitChild
  | GetInfo
  | CreateVm VmConfig
  | BootVm
  | PauseVm
  | ResumeVm
  | ShutdownVm
  | PowerButton
  | DeleteVmConfig
  | ShutdownVmm
  | SendMigration string bool
  | ReceiveMigration string
  | PickPort
  | LookupNetworkActor
  | AttachTap ulid string
  | DetachTap ulid string
  | ResolveStorage VmConfig
  | ReleaseStorage VmConfig
  | RemoveDirAll string
  | RemoveFile string
  | ConnectConsole string
  | OpenConsole string
  | OpenFile string
  | CreateFile string
  | WriteConfig string VmConfig
  | ReadDir string

type_synonym journal = "effect list"

text \<open>The environment: the error of an effect, if it fails; what the API reports; the port that is
  picked; which paths exist; the answers of the storage host; the configuration a file holds, if it parses; the
  entries of a directory, each with its name and, when its type can be read, whether it is a directory. The remaining components are the libraries'
  URL and ULID functions and the value of \<open>ODOROBO_RUNTIME_DIR\<close>.\<close>

record environment =
  failure :: "journal \<Rightarrow> effect \<Rightarrow> string option"
  vm_info_of :: "journal \<Rightarrow> string + VmInfo"
  port_of :: "journal \<Rightarrow> string + u16"
  path_exists :: "journal \<Rightarrow> string \<Rightarrow> bool"
  host_of :: "journal \<Rightarrow> storage_host"
  config_in_file :: "journal \<Rightarrow> string \<Rightarrow> VmConfig option"
  dir_entries :: "journal \<Rightarrow> string \<Rightarrow> (string \<times> bool option) option list"
  env_urls :: url_library
  ulid_text :: "ulid \<Rightarrow> string"
  ulid_from_string :: "string \<Rightarrow> string + ulid"
  runtime_var :: "string option"

text \<open>Actions over these effects.\<close>

type_synonym 'a io = "(effect, 'a) act"

definition perform :: "environment \<Rightarrow> effect \<Rightarrow> unit io" where
  "perform E e = emit (failure E) e"

section \<open>Provisioning hooks\<close>

record ProvisioningHook =
  before_start :: "string \<Rightarrow> VmConfig \<Rightarrow> unit io"
  after_start :: "string \<Rightarrow> VmInfo \<Rightarrow> int \<Rightarrow> unit io"
  before_stop :: "string \<Rightarrow> VmInfo \<Rightarrow> unit io"
  after_stop :: "string \<Rightarrow> VmConfig \<Rightarrow> unit io"
  before_boot :: "string \<Rightarrow> VmConfig \<Rightarrow> unit io"
  after_boot :: "string \<Rightarrow> VmInfo \<Rightarrow> unit io"

definition no_hook :: ProvisioningHook where
  "no_hook =
     \<lparr>before_start = \<lambda>_ _. io_return (), after_start = \<lambda>_ _ _. io_return (), before_stop = \<lambda>_ _. io_return (),
      after_stop = \<lambda>_ _. io_return (), before_boot = \<lambda>_ _. io_return (), after_boot = \<lambda>_ _. io_return ()\<rparr>"

definition HookManager_before_start :: "ProvisioningHook list \<Rightarrow> string \<Rightarrow> VmConfig \<Rightarrow> unit io" where
  "HookManager_before_start hooks vmid c = run_all (\<lambda>hk. before_start hk vmid c) hooks"

definition HookManager_after_start :: "ProvisioningHook list \<Rightarrow> string \<Rightarrow> VmInfo \<Rightarrow> int \<Rightarrow> unit io" where
  "HookManager_after_start hooks vmid i pid = run_all (\<lambda>hk. after_start hk vmid i pid) hooks"

definition HookManager_before_stop :: "ProvisioningHook list \<Rightarrow> string \<Rightarrow> VmInfo \<Rightarrow> unit io" where
  "HookManager_before_stop hooks vmid i = run_all (\<lambda>hk. before_stop hk vmid i) hooks"

definition HookManager_after_stop :: "ProvisioningHook list \<Rightarrow> string \<Rightarrow> VmConfig \<Rightarrow> unit io" where
  "HookManager_after_stop hooks vmid c = run_all (\<lambda>hk. after_stop hk vmid c) hooks"

definition HookManager_before_boot :: "ProvisioningHook list \<Rightarrow> string \<Rightarrow> VmConfig \<Rightarrow> unit io" where
  "HookManager_before_boot hooks vmid c = run_all (\<lambda>hk. before_boot hk vmid c) hooks"

definition HookManager_after_boot :: "ProvisioningHook list \<Rightarrow> string \<Rightarrow> VmInfo \<Rightarrow> unit io" where
  "HookManager_after_boot hooks vmid i = run_all (\<lambda>hk. after_boot hk vmid i) hooks"

text \<open>The networking hook.\<close>

definition network_agent :: "environment \<Rightarrow> unit io" where
  "network_agent E = perform E LookupNetworkActor"

definition managed_net :: "NetConfig \<Rightarrow> bool" where
  "managed_net n \<longleftrightarrow> (case net_id n of Some i \<Rightarrow> starts_with ''net://'' i | None \<Rightarrow> False)"

definition tap_names :: "VmInfo \<Rightarrow> string list" where
  "tap_names i =
     (case net (vi_config i) of
        Some nets \<Rightarrow> List.map_filter tap (filter managed_net nets)
      | None \<Rightarrow> [])"

definition parse_vmid :: "environment \<Rightarrow> string \<Rightarrow> ulid io" where
  "parse_vmid E vmid =
     (case ulid_from_string E vmid of
        Inl _ \<Rightarrow> io_fail ''failed to parse vmid for networking hook''
      | Inr v \<Rightarrow> io_return v)"

definition attach_tap :: "environment \<Rightarrow> ulid \<Rightarrow> string \<Rightarrow> unit io" where
  "attach_tap E v t = wrap_err (''failed to send AttachTap for tap '' @ t) (perform E (AttachTap v t))"

definition detach_tap :: "environment \<Rightarrow> ulid \<Rightarrow> string \<Rightarrow> unit io" where
  "detach_tap E v t = wrap_err (''failed to send DetachTap for tap '' @ t) (perform E (DetachTap v t))"

definition NetworkProvisioningHook_after_boot :: "environment \<Rightarrow> string \<Rightarrow> VmInfo \<Rightarrow> unit io" where
  "NetworkProvisioningHook_after_boot E vmid i =
     io_bind (parse_vmid E vmid) (\<lambda>v.
       let taps = tap_names i in
       if taps = [] then io_return ()
       else io_then (wrap_err ''failed to look up network actor'' (network_agent E))
              (run_all (attach_tap E v) taps))"

definition NetworkProvisioningHook_before_stop :: "environment \<Rightarrow> string \<Rightarrow> VmInfo \<Rightarrow> unit io" where
  "NetworkProvisioningHook_before_stop E vmid i =
     io_bind (parse_vmid E vmid) (\<lambda>v.
       let taps = tap_names i in
       if taps = [] then io_return ()
       else io_then (wrap_err ''failed to look up network actor'' (network_agent E))
              (run_all (detach_tap E v) taps))"

definition NetworkProvisioningHook :: "environment \<Rightarrow> ProvisioningHook" where
  "NetworkProvisioningHook E =
     no_hook\<lparr>after_boot := NetworkProvisioningHook_after_boot E, before_stop := NetworkProvisioningHook_before_stop E\<rparr>"

definition HookManager_default :: "environment \<Rightarrow> ProvisioningHook list" where
  "HookManager_default E = [NetworkProvisioningHook E]"

section \<open>Instances\<close>

definition CONFIG_FILE_NAME :: string where
  "CONFIG_FILE_NAME = ''config.json''"

definition SOCKET_FILE_NAME :: string where
  "SOCKET_FILE_NAME = ''ch.sock''"

record VMInstance =
  inst_id :: string
  ch_socket_path :: string
  child_process :: bool
  inst_config :: "VmConfig option"

definition VMInstance_new :: "string \<Rightarrow> string \<Rightarrow> bool \<Rightarrow> VMInstance" where
  "VMInstance_new i sock child = \<lparr>inst_id = i, ch_socket_path = sock, child_process = child, inst_config = None\<rparr>"

definition take_child_process :: "VMInstance \<Rightarrow> bool \<times> VMInstance" where
  "take_child_process i = (child_process i, i\<lparr>child_process := False\<rparr>)"

definition runtime_dir :: "environment \<Rightarrow> VMInstance \<Rightarrow> string" where
  "runtime_dir E i = runtime_dir_for (runtime_var E) (inst_id i)"

definition config_path :: "environment \<Rightarrow> VMInstance \<Rightarrow> string" where
  "config_path E i = path_join (runtime_dir E i) CONFIG_FILE_NAME"

definition VMInstance_info :: "environment \<Rightarrow> VMInstance \<Rightarrow> VmInfo io" where
  "VMInstance_info E i = wrap_err (''Failed to get VM info for '' @ inst_id i) (\<lambda>j. (vm_info_of E j, j @ [GetInfo]))"

definition VMInstance_pause :: "environment \<Rightarrow> VMInstance \<Rightarrow> unit io" where
  "VMInstance_pause E i = wrap_err (''Failed to pause VM '' @ inst_id i) (perform E PauseVm)"

definition VMInstance_resume :: "environment \<Rightarrow> VMInstance \<Rightarrow> unit io" where
  "VMInstance_resume E i = wrap_err (''Failed to resume VM '' @ inst_id i) (perform E ResumeVm)"

definition VMInstance_shutdown :: "environment \<Rightarrow> VMInstance \<Rightarrow> unit io" where
  "VMInstance_shutdown E i = wrap_err (''Failed to shutdown VM '' @ inst_id i) (perform E ShutdownVm)"

definition VMInstance_acpi_power_button :: "environment \<Rightarrow> VMInstance \<Rightarrow> unit io" where
  "VMInstance_acpi_power_button E i =
     wrap_err (''Failed to send ACPI power button event to VM '' @ inst_id i) (perform E PowerButton)"

definition VMInstance_ping :: "environment \<Rightarrow> VMInstance \<Rightarrow> unit io" where
  "VMInstance_ping E i = wrap_err (''Failed to ping VM '' @ inst_id i) (perform E Ping)"

definition VMInstance_boot :: "environment \<Rightarrow> VMInstance \<Rightarrow> unit io" where
  "VMInstance_boot E i =
     io_bind (VMInstance_info E i) (\<lambda>before.
     io_then (HookManager_before_boot (HookManager_default E) (inst_id i) (vi_config before))
     (io_then (wrap_err (''Failed to boot VM '' @ inst_id i) (perform E BootVm))
     (io_bind (VMInstance_info E i) (\<lambda>after.
        HookManager_after_boot (HookManager_default E) (inst_id i) after))))"

text \<open>Applying and undoing the default transform chain on the host.\<close>

definition apply_transforms :: "environment \<Rightarrow> VMInstance \<Rightarrow> VmConfig \<Rightarrow> VmConfig io" where
  "apply_transforms E i c j =
     (TransformChain (default_chain (runtime_var E) (env_urls E) (host_of E j)) (inst_id i) c, j @ [ResolveStorage c])"

definition undo_transforms :: "environment \<Rightarrow> VMInstance \<Rightarrow> VmConfig \<Rightarrow> unit io" where
  "undo_transforms E i c j =
     (snd (default_teardown (env_urls E) (host_of E j) (inst_id i) c), j @ [ReleaseStorage c])"

text \<open>\<open>create_config\<close>; the instance keeps the transformed configuration from the moment the transforms
  succeeded, also when a later step fails.\<close>

definition VMInstance_create_config ::
  "environment \<Rightarrow> VMInstance \<Rightarrow> VmConfig \<Rightarrow> bool \<Rightarrow> journal \<Rightarrow> ((string + unit) \<times> journal) \<times> VMInstance" where
  "VMInstance_create_config E i config boot_vm j =
     (case wrap_err (''Failed to apply config transforms for VM '' @ inst_id i) (apply_transforms E i config) j of
        (Inl e, j1) \<Rightarrow> ((Inl e, j1), i)
      | (Inr c, j1) \<Rightarrow>
          (let i' = i\<lparr>inst_config := Some c\<rparr> in
           (io_then (wrap_err (''Failed to create VM '' @ inst_id i) (perform E (CreateVm c)))
              (if boot_vm then wrap_err (''Failed to boot VM '' @ inst_id i) (VMInstance_boot E i') else io_return ()) j1,
            i')))"

definition VMInstance_prep_config ::
  "environment \<Rightarrow> VMInstance \<Rightarrow> VmConfig \<Rightarrow> journal \<Rightarrow> ((string + unit) \<times> journal) \<times> VMInstance" where
  "VMInstance_prep_config E i config j =
     (let i' = i\<lparr>inst_config := Some config\<rparr> in
      (io_then (wrap_err (''Failed to apply config transforms for VM '' @ inst_id i) (apply_transforms E i' config))
         (HookManager_before_boot (HookManager_default E) (inst_id i) config) j,
       i'))"

definition stop_child_after_failed_start :: "environment \<Rightarrow> VMInstance \<Rightarrow> journal \<Rightarrow> journal" where
  "stop_child_after_failed_start E i j =
     (if child_process i
      then snd (io_then (ignore_err (perform E KillChild)) (ignore_err (perform E WaitChild)) j) else j)"

definition MAX_ATTEMPTS :: nat where
  "MAX_ATTEMPTS = 31"

text \<open>The loop of \<open>spawn\<close> with the number of attempts left.\<close>

fun spawn_poll ::
  "environment \<Rightarrow> VMInstance \<Rightarrow> VmConfig option \<Rightarrow> bool \<Rightarrow> nat \<Rightarrow> journal \<Rightarrow> (string + VMInstance) \<times> journal" where
  "spawn_poll E i config boot_vm 0 j =
     (Inl (''CH socket not available after '' @ show_nat MAX_ATTEMPTS @ '' attempts for VM '' @ inst_id i),
      stop_child_after_failed_start E i j)"
| "spawn_poll E i config boot_vm (Suc n) j =
     (case perform E Ping j of
        (Inr _, j1) \<Rightarrow>
          (case config of
             None \<Rightarrow> (Inr i, j1)
           | Some c \<Rightarrow>
               (case VMInstance_create_config E i c boot_vm j1 of
                  ((Inl e, j2), i') \<Rightarrow> (Inl e, stop_child_after_failed_start E i' j2)
                | ((Inr _, j2), i') \<Rightarrow> (Inr i', j2)))
      | (Inl _, j1) \<Rightarrow> spawn_poll E i config boot_vm n (if 0 < n then j1 @ [Sleep 1] else j1))"

definition VMInstance_spawn :: "environment \<Rightarrow> string \<Rightarrow> VmConfig option \<Rightarrow> bool \<Rightarrow> VMInstance io" where
  "VMInstance_spawn E i config boot_vm =
     (let dir = runtime_dir_for (runtime_var E) i; sock = path_join dir SOCKET_FILE_NAME in
      io_then (\<lambda>j. if path_exists E j dir then (Inr (), j) else perform E (CreateDirAll dir) j)
      (io_then (perform E (SpawnVmm sock))
         (spawn_poll E (VMInstance_new i sock True) config boot_vm MAX_ATTEMPTS)))"

text \<open>\<open>VmConfig::default()\<close>.\<close>

definition VmConfig_default :: VmConfig where
  "VmConfig_default =
     \<lparr>cpus = None, mem_size = None,
      payload = \<lparr>pl_firmware = None, pl_kernel = None, pl_cmdline = None, pl_initramfs = None\<rparr>,
      disks = None, net = None, vc_vsock = None, serial_number = None, console = None, serial = None\<rparr>"

definition config_or_default :: "VMInstance \<Rightarrow> VmConfig" where
  "config_or_default i = (case inst_config i of Some c \<Rightarrow> c | None \<Rightarrow> VmConfig_default)"

definition purge_instance_data :: "environment \<Rightarrow> VMInstance \<Rightarrow> journal \<Rightarrow> ((string + unit) \<times> journal) \<times> VMInstance" where
  "purge_instance_data E i j =
     (io_then (undo_transforms E i (config_or_default i))
        (\<lambda>j. if path_exists E j (runtime_dir E i)
             then wrap_err (''Failed to remove runtime directory for '' @ inst_id i) (perform E (RemoveDirAll (runtime_dir E i))) j
             else (Inr (), j)) j,
      i\<lparr>inst_config := None\<rparr>)"

text \<open>The part of \<open>destroy\<close> that may fail before the hypervisor is shut down.\<close>

definition stop_guest :: "environment \<Rightarrow> VMInstance \<Rightarrow> unit io" where
  "stop_guest E i j =
     (case VMInstance_info E i j of
        (Inl _, j1) \<Rightarrow> (Inr (), j1)
      | (Inr vi, j1) \<Rightarrow>
          io_then (HookManager_before_stop (HookManager_default E) (inst_id i) vi)
            (if vi_state vi \<in> {VmRunning, VmPaused} then VMInstance_shutdown E i else io_return ()) j1)"

definition VMInstance_destroy :: "environment \<Rightarrow> VMInstance \<Rightarrow> journal \<Rightarrow> ((string + unit) \<times> journal) \<times> VMInstance" where
  "VMInstance_destroy E i j =
     (case stop_guest E i j of
        (Inl e, j1) \<Rightarrow> ((Inl e, j1), i)
      | (Inr _, j1) \<Rightarrow>
          (let j2 = snd (ignore_err (perform E ShutdownVmm) j1);
               (had_child, i') = take_child_process i;
               j3 = (if had_child then snd (io_then (ignore_err (perform E KillChild)) (ignore_err (perform E WaitChild)) j2) else j2)
           in case HookManager_after_stop (HookManager_default E) (inst_id i) (config_or_default i) j3 of
                (Inl e, j4) \<Rightarrow> ((Inl e, j4), i')
              | (Inr _, j4) \<Rightarrow>
                  (case purge_instance_data E i' j4 of ((_, j5), i'') \<Rightarrow> ((Inr (), j5), i''))))"

definition VMInstance_send_migration ::
  "environment \<Rightarrow> VMInstance \<Rightarrow> string \<Rightarrow> bool \<Rightarrow> journal \<Rightarrow> ((string + unit) \<times> journal) \<times> VMInstance" where
  "VMInstance_send_migration E i dest is_local j =
     (case wrap_err (''Failed to send migration command for '' @ inst_id i) (perform E (SendMigration dest is_local)) j of
        (Inl e, j1) \<Rightarrow> ((Inl e, j1), i)
      | (Inr _, j1) \<Rightarrow>
          (case purge_instance_data E i j1 of
             (r, i') \<Rightarrow> (wrap_err ''Failed to purge instance data after migration'' (\<lambda>_. r) j1, i')))"

text \<open>\<open>receive_migration\<close> answers with the address; the receiving itself is a background task.\<close>

definition VMInstance_receive_migration :: "environment \<Rightarrow> VMInstance \<Rightarrow> string io" where
  "VMInstance_receive_migration E i j =
     (case port_of E j of
        Inl e \<Rightarrow> (Inl e, j @ [PickPort])
      | Inr p \<Rightarrow> (Inr (''tcp:0.0.0.0:'' @ show_nat (unat p)), j @ [PickPort]))"

definition migration_task :: "environment \<Rightarrow> string \<Rightarrow> journal \<Rightarrow> journal" where
  "migration_task E url j =
     (case perform E (ReceiveMigration url) j of
        (Inr _, j1) \<Rightarrow> snd (ignore_err (perform E ShutdownVmm) j1)
      | (Inl _, j1) \<Rightarrow> j1)"

definition VMInstance_delete_config :: "environment \<Rightarrow> VMInstance \<Rightarrow> unit io" where
  "VMInstance_delete_config E i =
     io_then (wrap_err (''Failed to delete VM '' @ inst_id i) (perform E DeleteVmConfig))
       (\<lambda>j. if path_exists E j (config_path E i)
            then wrap_err (''Failed to remove config file for '' @ inst_id i) (perform E (RemoveFile (config_path E i))) j
            else (Inr (), j))"

section \<open>Files of an instance\<close>

definition load_config :: "environment \<Rightarrow> VMInstance \<Rightarrow> VmConfig io" where
  "load_config E i =
     io_then (wrap_err (''Failed to read config file for '' @ inst_id i) (perform E (OpenFile (config_path E i))))
       (\<lambda>j. case config_in_file E j (config_path E i) of
              None \<Rightarrow> (Inl (''Failed to parse config JSON for '' @ inst_id i), j)
            | Some c \<Rightarrow> (Inr c, j))"

definition save_config :: "environment \<Rightarrow> VMInstance \<Rightarrow> VmConfig \<Rightarrow> unit io" where
  "save_config E i c =
     io_then (wrap_err (''Failed to open config file for '' @ inst_id i) (perform E (CreateFile (config_path E i))))
       (wrap_err (''Failed to write config file for '' @ inst_id i) (perform E (WriteConfig (config_path E i) c)))"

text \<open>\<open>list\<close> takes every directory below the runtime root for an instance; unreadable entries are left out.\<close>

definition listed_instance :: "environment \<Rightarrow> (string \<times> bool option) option \<Rightarrow> VMInstance option" where
  "listed_instance E entry =
     (case entry of
        Some (name, Some True) \<Rightarrow>
          Some (VMInstance_new name (path_join (runtime_dir_for (runtime_var E) name) SOCKET_FILE_NAME) False)
      | _ \<Rightarrow> None)"

definition VMInstance_list :: "environment \<Rightarrow> VMInstance list io" where
  "VMInstance_list E =
     (let root = runtime_root (runtime_var E) in
      io_then (perform E (CreateDirAll root))
      (io_then (perform E (ReadDir root))
         (\<lambda>j. (Inr (List.map_filter (listed_instance E) (dir_entries E j root)), j))))"

definition VMInstance_get :: "environment \<Rightarrow> string \<Rightarrow> journal \<Rightarrow> VMInstance option \<times> journal" where
  "VMInstance_get E vmid j =
     (case VMInstance_list E j of
        (Inl _, j') \<Rightarrow> (None, j')
      | (Inr is, j') \<Rightarrow> (find (\<lambda>i. inst_id i = vmid) is, j'))"

definition console_path :: "environment \<Rightarrow> VMInstance \<Rightarrow> string io" where
  "console_path E i =
     io_bind (VMInstance_info E i) (\<lambda>vi.
       case serial (vi_config vi) of
         None \<Rightarrow> io_fail (''No serial console configured for '' @ inst_id i)
       | Some c \<Rightarrow>
           (case console_file c of
              None \<Rightarrow> io_fail (''Serial console is not configured as a file for '' @ inst_id i)
            | Some path \<Rightarrow> io_return path))"

definition open_console :: "environment \<Rightarrow> VMInstance \<Rightarrow> unit io" where
  "open_console E i =
     io_bind (console_path E i) (\<lambda>pty_path.
       wrap_err (''Failed to open console PTY for '' @ inst_id i @ '' at '' @ pty_path) (perform E (OpenConsole pty_path)))"

end
