(* ===== verification/Ch_Api.thy ===== *)
theory Ch_Api
  imports Vm_Instance
begin

text \<open>
  The proxy to a VM's hypervisor API (\<open>odorobo/src/ch_driver/api.rs\<close>): requests are sent to the socket of
  the instance, below the API root, and the answer is passed back. The HTTP client is a parameter; building
  a request or a response from parts that are already typed cannot fail.
\<close>

section \<open>Hypervisor API paths\<close>

definition normalize_api_path :: "string \<Rightarrow> string + string" where
  "normalize_api_path p =
     (let path = trim p in
      if path = [] then Inl ''CH API path cannot be empty''
      else
        (let stripped = (case strip_prefix ''/api/v1'' path of
                           Some r \<Rightarrow> r
                         | None \<Rightarrow> (case strip_prefix ''api/v1'' path of Some r \<Rightarrow> r | None \<Rightarrow> path));
             rest = trim_start_char (CHR ''/'') stripped
         in if rest = [] then Inl ''CH API path cannot point to the API root only'' else Inr (''/'' @ rest)))"

definition build_api_path :: "string \<Rightarrow> string option \<Rightarrow> string + string" where
  "build_api_path path query =
     (case normalize_api_path path of
        Inl e \<Rightarrow> Inl e
      | Inr p \<Rightarrow>
          (case query of
             Some q \<Rightarrow> if q = [] then Inr (''/api/v1'' @ p) else Inr (''/api/v1'' @ p @ ''?'' @ q)
           | None \<Rightarrow> Inr (''/api/v1'' @ p)))"

section \<open>Requests\<close>

text \<open>Names of headers are in lower case, as the library keeps them.\<close>

record http_request =
  rq_method :: string
  rq_path :: string
  rq_query :: "string option"
  rq_headers :: "(string \<times> bytes) list"
  rq_body :: bytes

record http_response =
  rs_status :: nat
  rs_headers :: "(string \<times> bytes) list"
  rs_body :: bytes

text \<open>What is sent to a socket: method, path with query, headers, body. The client answers with an error, or
  with status, headers and the outcome of reading the body.\<close>

record sent_request =
  sent_method :: string
  sent_uri :: string
  sent_headers :: "(string \<times> bytes) list"
  sent_body :: bytes

type_synonym http_client = "string \<Rightarrow> sent_request \<Rightarrow> string + nat \<times> (string \<times> bytes) list \<times> (string + bytes)"

definition forwarded_header :: "string \<times> bytes \<Rightarrow> bool" where
  "forwarded_header h \<longleftrightarrow> \<not> (fst h = ''host'' \<or> fst h = ''content-length'')"

definition call_request :: "http_client \<Rightarrow> string \<Rightarrow> http_request \<Rightarrow> string + http_response" where
  "call_request client sock r =
     (case build_api_path (rq_path r) (rq_query r) of
        Inl e \<Rightarrow> Inl e
      | Inr api_path \<Rightarrow>
          (case client sock \<lparr>sent_method = rq_method r, sent_uri = api_path,
                               sent_headers = filter forwarded_header (rq_headers r), sent_body = rq_body r\<rparr> of
             Inl _ \<Rightarrow> Inl ''Failed to send CH API request over unix socket''
           | Inr (code, headers, Inl _) \<Rightarrow> Inl ''Failed to read CH API response body''
           | Inr (code, headers, Inr body) \<Rightarrow> Inr \<lparr>rs_status = code, rs_headers = headers, rs_body = body\<rparr>))"

text \<open>\<open>call\<close>: \<open>parse_uri\<close> splits a path into path and query, \<open>json_type\<close> is the value of the content type,
  \<open>show_status\<close> and \<open>lossy\<close> are the display of a status and of a body.\<close>

definition ch_call ::
  "(string \<Rightarrow> (string \<times> string option) option) \<Rightarrow> bytes \<Rightarrow> (nat \<Rightarrow> string) \<Rightarrow> (bytes \<Rightarrow> string) \<Rightarrow> http_client
    \<Rightarrow> string \<Rightarrow> string \<Rightarrow> string \<Rightarrow> bytes option \<Rightarrow> string + unit" where
  "ch_call parse_uri json_type show_status lossy client sock meth path body =
     (case parse_uri path of
        None \<Rightarrow> Inl ''Failed to build CH API request''
      | Some (p, q) \<Rightarrow>
          (case call_request client sock
             \<lparr>rq_method = meth, rq_path = p, rq_query = q,
              rq_headers = (if body \<noteq> None then [(''content-type'', json_type)] else []),
              rq_body = (case body of Some b \<Rightarrow> b | None \<Rightarrow> [])\<rparr> of
             Inl e \<Rightarrow> Inl e
           | Inr r \<Rightarrow>
               if 200 \<le> rs_status r \<and> rs_status r < 300 then Inr ()
               else Inl (''CH API returned '' @ show_status (rs_status r) @ '' for '' @ path @ '': '' @ lossy (rs_body r))))"

definition VMInstance_call_request :: "http_client \<Rightarrow> VMInstance \<Rightarrow> http_request \<Rightarrow> string + http_response" where
  "VMInstance_call_request client i r =
     (case call_request client (ch_socket_path i) r of
        Inl _ \<Rightarrow> Inl (''Failed to proxy CH API request for '' @ inst_id i)
      | Inr x \<Rightarrow> Inr x)"

section \<open>Proxied requests stay below the API root\<close>

definition API_ROOT :: string where
  "API_ROOT = ''/api/v1/''"

lemma white_space_no_slash: "w \<in> set white_space \<Longrightarrow> CHR ''/'' \<notin> set w"
  by (auto simp: white_space_def)

lemma trim_below_root:
  assumes "trim p = x @ r"
  shows "trim (API_ROOT @ r) = API_ROOT @ r"
proof (rule trim_fixed)
  show "strip_any white_space (API_ROOT @ r) = None"
    unfolding strip_any_None
  proof (intro ballI impI notI)
    fix w assume w: "w \<in> set white_space" "w \<noteq> []" "starts_with w (API_ROOT @ r)"
    from w(2,3) obtain w' where "w = CHR ''/'' # w'"
      by (cases w) (auto simp: starts_with_Cons API_ROOT_def)
    with w(1) white_space_no_slash show False by fastforce
  qed
  show "strip_any (map rev white_space) (rev (API_ROOT @ r)) = None"
    unfolding strip_any_None
  proof (intro ballI impI notI)
    fix v assume "v \<in> set (map rev white_space)" and v: "v \<noteq> []" "starts_with v (rev (API_ROOT @ r))"
    then obtain w where w: "v = rev w" "w \<in> set white_space" by auto
    from v(2) obtain s where "rev r @ rev API_ROOT = v @ s" by (auto simp: starts_with_iff)
    then consider us where "rev r = v @ us" | us where "v = rev r @ CHR ''/'' # us"
      by (cases "length v \<le> length r") (auto simp: append_eq_append_conv2 API_ROOT_def Cons_eq_append_conv)
    then show False
    proof cases
      case 1
      then have "starts_with v (rev (trim p))" by (simp add: assms)
      with w v(1) trim_end_stop [of p] show False by (auto simp: strip_any_None)
    next
      case 2
      with w white_space_no_slash show False by (metis in_set_conv_decomp set_rev)
    qed
  qed
qed

lemma strip_suffix: "\<exists>x. s = x @ (case strip_prefix a s of Some r \<Rightarrow> r | None \<Rightarrow>
    (case strip_prefix b s of Some r \<Rightarrow> r | None \<Rightarrow> s))"
  by (auto simp: strip_prefix_Some_iff split: option.split)

lemma trim_start_char_suffix: "\<exists>x. s = x @ trim_start_char c s"
  unfolding trim_start_char_def by (metis takeWhile_dropWhile_id)

lemma trim_start_char_head: "trim_start_char c s \<noteq> [] \<Longrightarrow> hd (trim_start_char c s) \<noteq> c"
  unfolding trim_start_char_def by (metis (full_types) hd_dropWhile)

lemma trim_start_char_fixed: "hd r \<noteq> c \<Longrightarrow> trim_start_char c (c # r) = r"
  by (cases r) (auto simp: trim_start_char_def)

text \<open>A normalised path is a slash followed by the end of the trimmed path, which does not begin with a
  slash.\<close>

lemma normalize_api_path_Inr:
  assumes "normalize_api_path p = Inr q"
  obtains x r where "trim p = x @ r" and "q = CHR ''/'' # r" and "r \<noteq> []" and "hd r \<noteq> CHR ''/''"
proof -
  let ?s = "case strip_prefix ''/api/v1'' (trim p) of Some r \<Rightarrow> r | None \<Rightarrow>
    (case strip_prefix ''api/v1'' (trim p) of Some r \<Rightarrow> r | None \<Rightarrow> trim p)"
  let ?r = "trim_start_char (CHR ''/'') ?s"
  have q: "q = CHR ''/'' # ?r" "?r \<noteq> []"
    using assms by (auto simp: normalize_api_path_def Let_def split: if_splits)
  obtain y where y: "trim p = y @ ?s" using strip_suffix by metis
  obtain z where z: "?s = z @ ?r" using trim_start_char_suffix by metis
  have "trim p = (y @ z) @ ?r" unfolding append_assoc z [symmetric] by (rule y)
  from that [OF this q] trim_start_char_head [OF q(2)] show thesis by blast
qed

text \<open>Whatever path is asked for, the hypervisor sees one below the API root, and asking for that path
  again changes nothing; the query is kept.\<close>

lemma proxied_path_normal_form:
  assumes "build_api_path p None = Inr u"
  shows "build_api_path u None = Inr u \<and> (\<exists>c r. u = API_ROOT @ c # r \<and> c \<noteq> CHR ''/'') \<and>
    (q \<noteq> [] \<longrightarrow> build_api_path p (Some q) = Inr (u @ ''?'' @ q))"
proof -
  from assms obtain v where v: "normalize_api_path p = Inr v" "u = ''/api/v1'' @ v"
    by (auto simp: build_api_path_def split: sum.splits)
  from v(1) obtain x r where r: "trim p = x @ r" "v = CHR ''/'' # r" "r \<noteq> []" "hd r \<noteq> CHR ''/''"
    by (rule normalize_api_path_Inr)
  have u: "u = API_ROOT @ r" by (simp add: v(2) r(2) API_ROOT_def)
  have "strip_prefix ''/api/v1'' (API_ROOT @ r) = Some (CHR ''/'' # r)"
    by (simp add: strip_prefix_Some_iff API_ROOT_def)
  then have "normalize_api_path u = Inr v"
    using trim_below_root [OF r(1)] trim_start_char_fixed [OF r(4)] r(2,3)
    by (simp add: u normalize_api_path_def API_ROOT_def)
  moreover have "\<exists>c s. u = API_ROOT @ c # s \<and> c \<noteq> CHR ''/''"
    using r(3,4) by (cases r) (auto simp: u)
  ultimately show ?thesis using v by (simp add: build_api_path_def)
qed

text \<open>The proxy is transparent: method, body, query and all headers but two reach the hypervisor, and its
  answer comes back as it is, error statuses included.\<close>

lemma call_request_transparent:
  assumes "build_api_path (rq_path r) (rq_query r) = Inr u"
    and "client sock \<lparr>sent_method = rq_method r, sent_uri = u,
           sent_headers = filter (\<lambda>(n, _). n \<notin> {''host'', ''content-length''}) (rq_headers r), sent_body = rq_body r\<rparr> =
         Inr (code, headers, Inr body)"
  shows "call_request client sock r = Inr \<lparr>rs_status = code, rs_headers = headers, rs_body = body\<rparr>"
proof -
  have "forwarded_header = (\<lambda>(n, _). n \<notin> {''host'', ''content-length''})"
    by (auto simp: forwarded_header_def)
  with assms show ?thesis by (simp add: call_request_def)
qed

end
