(* ===== verification/Vm_Actor.thy ===== *)
theory Vm_Actor
  imports Vm_Instance Ch_Manifest
begin

text \<open>
  The actor of one VM (\<open>odorobo/src/ch_driver/actor.rs\<close>): it converts the manifest, runs the
  hypervisor instance, keeps the serial console and takes part in migrations. Tasks and messages that a
  handler starts are values; \<open>vm_step\<close> runs them in any order.
\<close>

section \<open>Error messages\<close>

text \<open>\<open>Display\<close> of the manifest and conversion errors.\<close>

fun ManifestError_display :: "ManifestError \<Rightarrow> string" where
  "ManifestError_display (UnsupportedVersion v) = ''manifest version '' @ show_nat (unat v) @ '' is unsupported''"
| "ManifestError_display EmptyMetadataName = ''metadata must define a non-empty name''"
| "ManifestError_display NoVcpus = ''manifest must define at least one vCPU''"
| "ManifestError_display (MaxVcpusLessThanBoot n mx) =
     ''max_vcpus ('' @ show_nat (unat mx) @ '') must be greater than or equal to vcpus ('' @ show_nat (unat n) @ '')''"
| "ManifestError_display NoMemory = ''memory must be greater than zero''"
| "ManifestError_display EmptyStorageId = ''storage attachment must define a non-empty id''"
| "ManifestError_display (InvalidStorageSource i) =
     ''storage attachment '' @ i @ '' must define exactly one usable source (URI or volume reference)''"
| "ManifestError_display (DuplicateStorageId i) = ''storage attachment '' @ i @ '' has a duplicate id''"
| "ManifestError_display (NetworkWithoutId n) = ''network '' @ show_nat n @ '' must define an id''"
| "ManifestError_display IncompleteCloudInit = ''cloud-init user-data and meta-data must be supplied together''"
| "ManifestError_display EmptyCloudInitData = ''cloud-init user-data and meta-data must both be non-empty''"
| "ManifestError_display InvalidVsockCid = ''vsock requires a non-zero guest CID''"
| "ManifestError_display InvalidVsockSocket = ''vsock requires a non-empty absolute socket path''"
| "ManifestError_display (InvalidAffinityComparison k) =
     ''affinity comparison for key '' @ k @ '' requires exactly one finite numeric value''"

fun ConvertError_display :: "(ulid \<Rightarrow> string) \<Rightarrow> ConvertError \<Rightarrow> string" where
  "ConvertError_display ulid_str (InvalidManifest e) = ManifestError_display e"
| "ConvertError_display ulid_str (UnsupportedScheme i u) = ''storage '' @ i @ '' URI scheme is unsupported: '' @ u"
| "ConvertError_display ulid_str (UnresolvedVolume i v) =
     ''storage '' @ i @ '' references volume '' @ ulid_str v @ ''; volume resolution contract is not defined yet''"
| "ConvertError_display ulid_str (NoUsableSource i) = ''storage '' @ i @ '' has no usable source''"
| "ConvertError_display ulid_str CloudInitUnsupported = ''Cloud Hypervisor cloud-init conversion is not implemented yet''"
| "ConvertError_display ulid_str VcpusOutOfRange = ''vCPU count exceeds Cloud Hypervisor limits''"
| "ConvertError_display ulid_str MaxVcpusOutOfRange = ''maximum vCPU count exceeds Cloud Hypervisor limits''"
| "ConvertError_display ulid_str MemoryOutOfRange = ''memory size exceeds Cloud Hypervisor limits''"

section \<open>State and handlers\<close>

text \<open>The task handle of a migration is only ever taken out and awaited; the flag says whether it is still
  there.\<close>

record MigrationState =
  ms_listening_address :: string
  ms_config :: VmConfig
  ms_migration_task :: bool

record VMActor =
  va_vmid :: ulid
  va_instance :: VMInstance
  va_migration :: "MigrationState option"
  va_console :: Console
  va_manifest :: "VmManifest option"

definition console_connect :: "environment \<Rightarrow> VMInstance \<Rightarrow> string" where
  "console_connect E i = path_join (runtime_dir E i) ''console.sock''"

text \<open>Attaching a console to the socket of an instance.\<close>

definition attach_console :: "environment \<Rightarrow> VMInstance \<Rightarrow> Console \<Rightarrow> Console io" where
  "attach_console E i c j =
     (let sock = console_connect E i;
          (r, j') = perform E (ConnectConsole sock) j;
          connect = (case r of Inl e \<Rightarrow> Inl (sock @ '': '' @ e) | Inr _ \<Rightarrow> Inr ())
      in case attach_socket connect c of
           (c', Inl e, _) \<Rightarrow> (Inl e, j')
         | (c', Inr _, _) \<Rightarrow> (Inr c', j'))"

text \<open>\<open>on_start\<close>: the actor, and whether a task watches the hypervisor process.\<close>

definition VMActor_on_start :: "environment \<Rightarrow> ulid \<Rightarrow> VmManifest option \<Rightarrow> (VMActor \<times> bool) io" where
  "VMActor_on_start E vmid manifest =
     (let boot_vm = (case manifest of Some m \<Rightarrow> start (boot (desired m)) | None \<Rightarrow> False) in
      io_bind
        (case manifest of
           None \<Rightarrow> io_return None
         | Some m \<Rightarrow> (case to_vm_config m of
                        Inl e \<Rightarrow> io_fail (ConvertError_display (ulid_text E) e)
                      | Inr c \<Rightarrow> io_return (Some c)))
        (\<lambda>config. io_bind (VMInstance_spawn E (ulid_text E vmid) config boot_vm) (\<lambda>i.
           io_bind (if manifest = None then io_return Console_default else attach_console E i Console_default) (\<lambda>con.
             let (watched, i') = take_child_process i in
             io_return (\<lparr>va_vmid = vmid, va_instance = i', va_migration = None, va_console = con, va_manifest = manifest\<rparr>,
                        watched)))))"

definition VMActor_on_stop :: "environment \<Rightarrow> VMActor \<Rightarrow> journal \<Rightarrow> ((string + unit) \<times> journal) \<times> VMActor" where
  "VMActor_on_stop E a j =
     (case VMInstance_destroy E (va_instance a) j of (r, i) \<Rightarrow> (r, a\<lparr>va_instance := i\<rparr>))"

text \<open>What the watcher of the hypervisor process does when it ends.\<close>

datatype stop_request = StopGracefully | KillActor

definition child_exited :: "(string + bool) \<Rightarrow> stop_request" where
  "child_exited r = (case r of Inr True \<Rightarrow> StopGracefully | _ \<Rightarrow> KillActor)"

definition VMActor_GetConsoleHistory :: "VMActor \<Rightarrow> bytes" where
  "VMActor_GetConsoleHistory a = history (va_console a)"

definition VMActor_GetVMInfo :: "VMActor \<Rightarrow> GetVMInfoReply" where
  "VMActor_GetVMInfo a = \<lparr>info_vmid = va_vmid a, info_config = va_manifest a\<rparr>"

definition VMActor_GetVMHeartbeat :: "VMActor \<Rightarrow> ulid" where
  "VMActor_GetVMHeartbeat a = va_vmid a"

datatype vm_task =
    ReceiveTask string          \<comment> \<open>the spawned receiver, whose end is followed by \<open>MigrationFinished\<close>\<close>
  | FinishedMsg                 \<comment> \<open>\<open>MigrationFinished\<close> on its way\<close>
  | PrepMsg VmManifest          \<comment> \<open>\<open>PrepMigration\<close> on its way\<close>
  | AttachLoop                  \<comment> \<open>the loop that attaches the console of a migrated VM\<close>

definition VMActor_MigrateVMReceive ::
  "environment \<Rightarrow> MigrateVMReceive \<Rightarrow> VMActor \<Rightarrow> journal \<Rightarrow> MigrateVMReceiveReply \<times> VMActor \<times> journal \<times> vm_task list" where
  "VMActor_MigrateVMReceive E msg a j =
     (case va_migration a of
        Some ms \<Rightarrow> (\<lparr>listening_address = ms_listening_address ms, migrate_error = None\<rparr>, a, j, [])
      | None \<Rightarrow>
         (case to_vm_config (migrate_config msg) of
            Inl e \<Rightarrow> (\<lparr>listening_address = [], migrate_error = Some (ConvertError_display (ulid_text E) e)\<rparr>, a, j, [])
          | Inr config \<Rightarrow>
             (case VMInstance_receive_migration E (va_instance a) j of
                (Inl e, j') \<Rightarrow> (\<lparr>listening_address = [], migrate_error = Some e\<rparr>, a, j', [])
              | (Inr addr, j') \<Rightarrow>
                  (\<lparr>listening_address = addr, migrate_error = None\<rparr>,
                   a\<lparr>va_migration := Some \<lparr>ms_listening_address = addr, ms_config = config, ms_migration_task = False\<rparr>\<rparr>,
                   j', [ReceiveTask addr, AttachLoop, PrepMsg (migrate_config msg)]))))"

definition VMActor_MigrationFinished :: "VMActor \<Rightarrow> VMActor" where
  "VMActor_MigrationFinished a = a\<lparr>va_migration := None\<rparr>"

definition VMActor_PrepMigration :: "environment \<Rightarrow> VmManifest \<Rightarrow> VMActor \<Rightarrow> journal \<Rightarrow> VMActor \<times> journal" where
  "VMActor_PrepMigration E m a j =
     (case to_vm_config m of
        Inl _ \<Rightarrow> (a, j)
      | Inr config \<Rightarrow>
          (case VMInstance_prep_config E (va_instance a) config j of ((_, j'), i) \<Rightarrow> (a\<lparr>va_instance := i\<rparr>, j')))"

text \<open>\<open>ShutdownVM\<close> and \<open>DeleteVM\<close> both stop the actor, which then runs \<open>on_stop\<close>.\<close>

definition VMActor_ShutdownVM :: "VMActor \<Rightarrow> stop_request" where
  "VMActor_ShutdownVM a = StopGracefully"

definition VMActor_DeleteVM :: "VMActor \<Rightarrow> stop_request" where
  "VMActor_DeleteVM a = StopGracefully"

section \<open>Runs of a VM actor\<close>

record vm_system =
  sys_actor :: VMActor
  sys_journal :: journal
  sys_tasks :: "vm_task list"

inductive vm_step :: "environment \<Rightarrow> vm_system \<Rightarrow> vm_system \<Rightarrow> bool" for E where
  step_receive:
    "VMActor_MigrateVMReceive E msg (sys_actor s) (sys_journal s) = (reply, a, j, ts) \<Longrightarrow>
     vm_step E s \<lparr>sys_actor = a, sys_journal = j, sys_tasks = sys_tasks s @ ts\<rparr>"
| step_receive_task:
    "sys_tasks s = xs @ ReceiveTask url # ys \<Longrightarrow>
     vm_step E s (s\<lparr>sys_journal := migration_task E url (sys_journal s), sys_tasks := xs @ FinishedMsg # ys\<rparr>)"
| step_finished:
    "sys_tasks s = xs @ FinishedMsg # ys \<Longrightarrow>
     vm_step E s (s\<lparr>sys_actor := VMActor_MigrationFinished (sys_actor s), sys_tasks := xs @ ys\<rparr>)"
| step_prep:
    "sys_tasks s = xs @ PrepMsg m # ys \<Longrightarrow> VMActor_PrepMigration E m (sys_actor s) (sys_journal s) = (a, j) \<Longrightarrow>
     vm_step E s \<lparr>sys_actor = a, sys_journal = j, sys_tasks = xs @ ys\<rparr>"
| step_attach:
    "sys_tasks s = xs @ AttachLoop # ys \<Longrightarrow>
     attach_console E (va_instance (sys_actor s)) (va_console (sys_actor s)) (sys_journal s) = (Inr c, j) \<Longrightarrow>
     vm_step E s \<lparr>sys_actor = (sys_actor s)\<lparr>va_console := c\<rparr>, sys_journal = j, sys_tasks = xs @ ys\<rparr>"
| step_attach_failed:
    "sys_tasks s = xs @ AttachLoop # ys \<Longrightarrow>
     attach_console E (va_instance (sys_actor s)) (va_console (sys_actor s)) (sys_journal s) = (Inl e, j) \<Longrightarrow>
     vm_step E s (s\<lparr>sys_journal := j @ [Sleep 1]\<rparr>)"
| step_output:
    "vm_step E s (s\<lparr>sys_actor := (sys_actor s)\<lparr>va_console := spool reads (va_console (sys_actor s))\<rparr>\<rparr>)"

end
