(* ===== verification/Frontend.thy ===== *)
theory Frontend
  imports Vm_Actor Config
begin

text \<open>
  The ways in: the HTTP API (\<open>odorobo/src/http_api/\<close>, \<open>actors/http_actor.rs\<close>), the command-line client
  (\<open>odoroboctl/src/cli.rs\<close>), and the MAC addresses of VMs (\<open>actors/ip_management_actor.rs\<close>).
\<close>

section \<open>HTTP actor\<close>

text \<open>Every handler asks the scheduler and names the operation in the error.\<close>

definition scheduler_ask :: "string \<Rightarrow> string + 'r \<Rightarrow> string + 'r" where
  "scheduler_ask context r = (case r of Inl _ \<Rightarrow> Inl context | Inr x \<Rightarrow> Inr x)"

definition HTTPActor_CreateVM :: "string + CreateVMReply \<Rightarrow> string + CreateVMReply" where
  "HTTPActor_CreateVM = scheduler_ask ''failed to create VM via scheduler''"

definition HTTPActor_DeleteVM :: "string + DeleteVMReply \<Rightarrow> string + DeleteVMReply" where
  "HTTPActor_DeleteVM = scheduler_ask ''failed to delete VM via scheduler''"

definition HTTPActor_GetConsoleHistory :: "string + bytes \<Rightarrow> string + bytes" where
  "HTTPActor_GetConsoleHistory = scheduler_ask ''failed to retrieve VM console history via scheduler''"

definition HTTPActor_ShutdownVM :: "string + ShutdownVMReply \<Rightarrow> string + ShutdownVMReply" where
  "HTTPActor_ShutdownVM = scheduler_ask ''failed to shut down VM via scheduler''"

definition HTTPActor_GetVMInfo :: "string + GetVMInfoReply \<Rightarrow> string + GetVMInfoReply" where
  "HTTPActor_GetVMInfo = scheduler_ask ''failed to get VM info via scheduler''"

definition HTTPActor_AgentListVMs :: "string + ulid list \<Rightarrow> string + ulid list" where
  "HTTPActor_AgentListVMs = scheduler_ask ''failed to list VMs via scheduler''"

section \<open>API handlers\<close>

datatype OdoroboError = NotFound string | ReportError string

fun status_code :: "OdoroboError \<Rightarrow> nat" where
  "status_code (NotFound _) = 404"
| "status_code (ReportError _) = 500"

text \<open>The error of a handler reply reaches the client as it is.\<close>

definition from_send :: "string + 'r \<Rightarrow> OdoroboError + 'r" where
  "from_send r = (case r of Inl e \<Rightarrow> Inl (ReportError e) | Inr x \<Rightarrow> Inr x)"

definition list_vms :: "string + ulid list \<Rightarrow> OdoroboError + ulid list" where
  "list_vms reply = from_send (HTTPActor_AgentListVMs reply)"

definition vm_info :: "(ulid \<Rightarrow> string) \<Rightarrow> (GetVMInfo \<Rightarrow> string + GetVMInfoReply) \<Rightarrow> ulid \<Rightarrow> OdoroboError + GetVMInfoReply" where
  "vm_info ulid_str scheduler vmid =
     (case from_send (HTTPActor_GetVMInfo (scheduler (GetVMInfo (Some vmid)))) of
        Inl e \<Rightarrow> Inl e
      | Inr reply \<Rightarrow> if info_config reply = None then Inl (NotFound (''VM '' @ ulid_str vmid @ '' not found'')) else Inr reply)"

definition create_vm :: "(CreateVM \<Rightarrow> string + CreateVMReply) \<Rightarrow> VmManifest \<Rightarrow> OdoroboError + CreateVMReply" where
  "create_vm scheduler vm = from_send (HTTPActor_CreateVM (scheduler \<lparr>create_vmid = manifest_id vm, create_config = vm\<rparr>))"

definition delete_vm :: "(DeleteVM \<Rightarrow> string + DeleteVMReply) \<Rightarrow> ulid \<Rightarrow> OdoroboError + unit" where
  "delete_vm scheduler vmid = map_sum id (\<lambda>_. ()) (from_send (HTTPActor_DeleteVM (scheduler (DeleteVM vmid))))"

definition shutdown_vm :: "(ShutdownVM \<Rightarrow> string + ShutdownVMReply) \<Rightarrow> ulid \<Rightarrow> OdoroboError + unit" where
  "shutdown_vm scheduler vmid = map_sum id (\<lambda>_. ()) (from_send (HTTPActor_ShutdownVM (scheduler (ShutdownVM vmid))))"

definition console_history :: "(ulid \<Rightarrow> string + bytes) \<Rightarrow> ulid \<Rightarrow> OdoroboError + bytes" where
  "console_history scheduler vmid = from_send (HTTPActor_GetConsoleHistory (scheduler vmid))"

text \<open>Updates are refused: the status and the message of the answer.\<close>

definition update_vm :: "ulid \<Rightarrow> nat \<times> string" where
  "update_vm vmid = (501, ''VM configuration updates are not supported'')"

section \<open>Command line\<close>

datatype Command =
    Create string string u32 u64      \<comment> \<open>image, name, vCPUs, bytes of memory\<close>
  | ListVms
  | DeleteCmd string
  | ShutdownCmd string

definition cli_manifest :: "ulid \<Rightarrow> string \<Rightarrow> string \<Rightarrow> u32 \<Rightarrow> u64 \<Rightarrow> VmManifest" where
  "cli_manifest i img name n mem =
     \<lparr>api_version = MANIFEST_VERSION, manifest_id = i,
      desired =
        \<lparr>metadata = \<lparr>meta_name = name, labels = [], annotations = []\<rparr>,
         compute = \<lparr>vcpus = n, max_vcpus = None, memory_bytes = mem\<rparr>,
         storage = [\<lparr>storage_id = ''root'', uri = Some img, volume_id = None, read_only = False\<rparr>],
         networks = [],
         placement = \<lparr>placement_node = None, required_labels = [], affinity = []\<rparr>,
         boot = \<lparr>start = True, firmware = None, kernel = None, cmdline = None\<rparr>,
         cloud_init = None, vsock = None\<rparr>,
      observed = None\<rparr>"

datatype cli_request = Post string VmManifest | Get string | Delete string | Put string

text \<open>The request a command sends, given the generated identifier; an invalid manifest is not sent.\<close>

fun run_command :: "ulid \<Rightarrow> string \<Rightarrow> Command \<Rightarrow> ManifestError + cli_request" where
  "run_command i base_url (Create img name n mem) =
     (let vm = cli_manifest i img name n mem in
      case VmManifest_validate vm of
        Inl e \<Rightarrow> Inl e
      | Inr _ \<Rightarrow> Inr (Post (base_url @ ''/vms'') vm))"
| "run_command i base_url ListVms = Inr (Get (base_url @ ''/vms''))"
| "run_command i base_url (DeleteCmd vmid) = Inr (Delete (base_url @ ''/vms/'' @ vmid))"
| "run_command i base_url (ShutdownCmd vmid) = Inr (Put (base_url @ ''/vms/'' @ vmid @ ''/shutdown''))"

text \<open>What the client prints for a response. \<open>show_error\<close> is the debug output of a body that parses as an
  \<open>APIError\<close>, \<open>show_text\<close> that of any other body, \<open>show_url\<close> that of the URL of the response.\<close>

datatype cli_output = Stdout string | Stderr string

definition print_api_error :: "(string \<Rightarrow> string option) \<Rightarrow> (string \<Rightarrow> string) \<Rightarrow> nat \<Rightarrow> string \<Rightarrow> cli_output list" where
  "print_api_error show_error show_text code body =
     [Stderr (''Error (HTTP '' @ show_nat code @ ''): '' @ (case show_error body of Some e \<Rightarrow> e | None \<Rightarrow> show_text body))]"

definition print_message_response ::
  "(string \<Rightarrow> string option) \<Rightarrow> (string \<Rightarrow> string) \<Rightarrow> string \<Rightarrow> nat \<Rightarrow> string \<Rightarrow> cli_output list" where
  "print_message_response show_error show_text success_message code body =
     (if 200 \<le> code \<and> code < 300 then [Stdout body, Stdout success_message]
      else print_api_error show_error show_text code body)"

text \<open>The end of a command: what it prints, and the error it returns. \<open>parse_list\<close> reads the identifiers of a
  list response.\<close>

fun finish_command ::
  "(string \<Rightarrow> string option) \<Rightarrow> (string \<Rightarrow> string) \<Rightarrow> (string \<Rightarrow> string) \<Rightarrow> (string \<Rightarrow> string + string list)
    \<Rightarrow> cli_request \<Rightarrow> nat \<Rightarrow> string \<Rightarrow> cli_output list \<times> (string + unit)" where
  "finish_command show_error show_text show_url parse_list (Post url _) code body =
     (Stdout (show_url url) # print_message_response show_error show_text ''VM create request sent successfully'' code body, Inr ())"
| "finish_command show_error show_text show_url parse_list (Get url) code body =
     (if 200 \<le> code \<and> code < 300
      then (case parse_list body of Inl e \<Rightarrow> ([], Inl e) | Inr ids \<Rightarrow> (map Stdout ids, Inr ()))
      else (print_api_error show_error show_text code body, Inr ()))"
| "finish_command show_error show_text show_url parse_list (Delete url) code body =
     (print_message_response show_error show_text ''VM delete request sent successfully'' code body, Inr ())"
| "finish_command show_error show_text show_url parse_list (Put url) code body =
     (print_message_response show_error show_text ''VM shutdown request sent successfully'' code body, Inr ())"

section \<open>Utilities\<close>

definition FYRA_OUI :: "u8 list" where
  "FYRA_OUI = [0x46, 0x59, 0x52]"

definition calculate_mac_address :: "u8 \<times> u8 \<times> u8 \<times> u8 \<Rightarrow> u8 list" where
  "calculate_mac_address ip = (case ip of (a, b, c, d) \<Rightarrow> FYRA_OUI @ [b, c, d])"

section \<open>Requests of the command-line client\<close>

lemma root_not_blank: "\<not> is_blank ''root''"
  by (simp add: is_blank_def trim_def trim_start_def trim_end_def trim_front.simps white_space_def starts_with_def)

lemma cli_contract:
  "manifest_contract (cli_manifest i img name n mem) \<longleftrightarrow> \<not> is_blank name \<and> 0 < n \<and> 0 < mem \<and> \<not> is_blank img"
  by (auto simp: manifest_contract_def cli_manifest_def storage_contract_def comparison_contract_def
      cloud_init_contract_def vsock_contract_def root_not_blank)

lemma cli_sent:
  "run_command i base (Create img name n mem) = Inr (Post (base @ ''/vms'') (cli_manifest i img name n mem)) \<longleftrightarrow>
     manifest_contract (cli_manifest i img name n mem)"
  using VmManifest_validate_ok [of "cli_manifest i img name n mem"]
  by (cases "VmManifest_validate (cli_manifest i img name n mem)") (auto simp: Let_def)

lemma cli_converts:
  "\<not> isl (to_vm_config (cli_manifest i img name n mem)) \<longleftrightarrow>
     manifest_contract (cli_manifest i img name n mem) \<and> supported_uri img \<and> unat n < 2 ^ 31 \<and> unat mem < 2 ^ 63"
proof (cases "VmManifest_validate (cli_manifest i img name n mem)")
  case (Inl e)
  then have "\<not> manifest_contract (cli_manifest i img name n mem)"
    using VmManifest_validate_ok [of "cli_manifest i img name n mem"] by simp
  with Inl show ?thesis by (simp add: to_vm_config_def)
next
  case (Inr u)
  then have "manifest_contract (cli_manifest i img name n mem)"
    using VmManifest_validate_ok [of "cli_manifest i img name n mem"] by simp
  moreover have "\<not> isl (to_vm_config (cli_manifest i img name n mem)) \<longleftrightarrow> supported_uri img \<and> unat n < 2 ^ 31 \<and> unat mem < 2 ^ 63"
    using Inr by (auto simp: to_vm_config_def Let_def cli_manifest_def storage_to_disk_def supported_uri_def
        i32_try_from_def i64_try_from_def)
  ultimately show ?thesis by blast
qed

text \<open>A request that the manager refuses is reported on standard error only: the command itself succeeds.\<close>

lemma refused_command_succeeds:
  assumes "\<not> (200 \<le> code \<and> code < 300)"
  shows "snd (finish_command show_error show_text show_url parse_list req code body) = Inr ()"
    and "\<exists>m. Stderr m \<in> set (fst (finish_command show_error show_text show_url parse_list req code body))"
  using assms by (cases req; auto simp: print_message_response_def print_api_error_def)+

text \<open>What odoroboctl create checks and what an agent accepts: the client sends its manifest exactly when
  the name and the image are not blank and vCPUs and memory are positive; the agent's driver can start
  what was sent exactly when, in addition, the image is a file, rbd or iscsi URI and the sizes fit the
  hypervisor's integers. An image given as a plain path is sent and then refused by every agent.\<close>

lemma cli_create_accepted:
  "(run_command i base (Create img name n mem) = Inr (Post (base @ ''/vms'') (cli_manifest i img name n mem))) =
     (\<not> is_blank name \<and> 0 < n \<and> 0 < mem \<and> \<not> is_blank img) \<and>
   (\<not> isl (to_vm_config (cli_manifest i img name n mem))) =
     (\<not> is_blank name \<and> 0 < n \<and> 0 < mem \<and> \<not> is_blank img \<and> supported_uri img \<and> unat n < 2 ^ 31 \<and> unat mem < 2 ^ 63)"
  using cli_sent [of i base img name n mem] cli_converts [of i img name n mem] cli_contract [of i img name n mem]
  by blast

end
