(* ===== verification/Json.thy ===== *)
theory Json
  imports Rust_Float "HOL-Library.Char_ord" "HOL-Library.List_Lexorder" "HOL-Library.Monad_Syntax"
begin

text \<open>
  The JSON wire format: documents as trees, and the behaviour of the serialisers that \<open>serde\<close> derives
  for the types of the sources. A reader answers \<open>None\<close> for a document it refuses. Reading and printing the
  characters of a document is the library's; everything the attributes of a type decide is here:
  which fields are required, which are defaulted, what an unknown or repeated field does.
\<close>

named_theorems json_defs \<open>definitions of the derived readers and writers\<close>

section \<open>Documents\<close>

datatype json =
    JNull
  | JBool bool
  | JInt int                              \<comment> \<open>a number without fraction or exponent\<close>
  | JFloat ieee
  | JStr string
  | JArr "json list"
  | JObj "(string \<times> json) list"      \<comment> \<open>the members in document order, repetitions included\<close>

section \<open>Values\<close>

definition dec_bool :: "json \<Rightarrow> bool option" where
  "dec_bool j = (case j of JBool b \<Rightarrow> Some b | _ \<Rightarrow> None)"

definition dec_string :: "json \<Rightarrow> string option" where
  "dec_string j = (case j of JStr s \<Rightarrow> Some s | _ \<Rightarrow> None)"

text \<open>An unsigned integer is read from a number in the range of its type only.\<close>

definition enc_uint :: "'w::len word \<Rightarrow> json" where
  "enc_uint w = JInt (uint w)"

definition dec_uint :: "json \<Rightarrow> 'w::len word option" where
  "dec_uint j =
     (case j of JInt n \<Rightarrow> if 0 \<le> n \<and> n < 2 ^ LENGTH('w) then Some (word_of_int n) else None | _ \<Rightarrow> None)"

definition dec_i64 :: "json \<Rightarrow> int option" where
  "dec_i64 j = (case j of JInt n \<Rightarrow> if in_i64 n then Some n else None | _ \<Rightarrow> None)"

definition enc_list :: "('a \<Rightarrow> json) \<Rightarrow> 'a list \<Rightarrow> json" where
  "enc_list enc xs = JArr (map enc xs)"

definition dec_list :: "(json \<Rightarrow> 'a option) \<Rightarrow> json \<Rightarrow> 'a list option" where
  "dec_list dec j = (case j of JArr js \<Rightarrow> those (map dec js) | _ \<Rightarrow> None)"

definition enc_option :: "('a \<Rightarrow> json) \<Rightarrow> 'a option \<Rightarrow> json" where
  "enc_option enc x = (case x of None \<Rightarrow> JNull | Some y \<Rightarrow> enc y)"

definition dec_option :: "(json \<Rightarrow> 'a option) \<Rightarrow> json \<Rightarrow> 'a option option" where
  "dec_option dec j = (if j = JNull then Some None else map_option Some (dec j))"

text \<open>A \<open>Ulid\<close> is written as its text; \<open>to_str\<close> and \<open>parse\<close> are the functions of its library.\<close>

definition enc_ulid :: "(ulid \<Rightarrow> string) \<Rightarrow> ulid \<Rightarrow> json" where
  "enc_ulid to_str u = JStr (to_str u)"

definition dec_ulid :: "(string \<Rightarrow> ulid option) \<Rightarrow> json \<Rightarrow> ulid option" where
  "dec_ulid parse j = Option.bind (dec_string j) parse"

section \<open>Ordered maps\<close>

text \<open>A \<open>BTreeMap<String, String>\<close> is the list of its entries in strictly increasing key order.\<close>

definition btree_wf :: "(string \<times> string) list \<Rightarrow> bool" where
  "btree_wf m \<longleftrightarrow> sorted_wrt (<) (map fst m)"

fun btree_insert :: "string \<Rightarrow> string \<Rightarrow> (string \<times> string) list \<Rightarrow> (string \<times> string) list" where
  "btree_insert k v [] = [(k, v)]"
| "btree_insert k v ((k', v') # m) =
     (if k < k' then (k, v) # (k', v') # m
      else if k = k' then (k, v) # m
      else (k', v') # btree_insert k v m)"

definition enc_btree :: "(string \<times> string) list \<Rightarrow> json" where
  "enc_btree m = JObj (map (\<lambda>(k, v). (k, JStr v)) m)"

text \<open>Members are inserted in document order: of a repeated key the last one stays.\<close>

fun btree_collect :: "(string \<times> string) list \<Rightarrow> (string \<times> json) list \<Rightarrow> (string \<times> string) list option" where
  "btree_collect m [] = Some m"
| "btree_collect m ((k, j) # es) =
     (case dec_string j of None \<Rightarrow> None | Some v \<Rightarrow> btree_collect (btree_insert k v m) es)"

definition dec_btree :: "json \<Rightarrow> (string \<times> string) list option" where
  "dec_btree j = (case j of JObj es \<Rightarrow> btree_collect [] es | _ \<Rightarrow> None)"

section \<open>Structs and enums\<close>

text \<open>
  A struct is read from an object or, position by position, from an array. A repeated field is refused in
  an object, an unknown one when the type denies unknown fields; an array must not be longer than the
  list of fields. The result says whether the fields were named.
\<close>

type_synonym fields = "bool \<times> (string \<times> json) list"

definition struct_fields :: "bool \<Rightarrow> string list \<Rightarrow> json \<Rightarrow> fields option" where
  "struct_fields deny names j =
     (case j of
        JObj es \<Rightarrow>
          if distinct (filter (\<lambda>k. k \<in> set names) (map fst es)) \<and> (deny \<longrightarrow> set (map fst es) \<subseteq> set names)
          then Some (True, es) else None
      | JArr js \<Rightarrow> if length js \<le> length names then Some (False, zip names js) else None
      | _ \<Rightarrow> None)"

text \<open>A required field, a field with a default, and an \<open>Option\<close> without a default, which may be left
  out of an object but not of an array.\<close>

definition field_req :: "string \<Rightarrow> (json \<Rightarrow> 'a option) \<Rightarrow> fields \<Rightarrow> 'a option" where
  "field_req k dec fs = Option.bind (map_of (snd fs) k) dec"

definition field_default :: "string \<Rightarrow> 'a \<Rightarrow> (json \<Rightarrow> 'a option) \<Rightarrow> fields \<Rightarrow> 'a option" where
  "field_default k d dec fs = (case map_of (snd fs) k of None \<Rightarrow> Some d | Some j \<Rightarrow> dec j)"

definition field_option :: "string \<Rightarrow> (json \<Rightarrow> 'a option) \<Rightarrow> fields \<Rightarrow> 'a option option" where
  "field_option k dec fs =
     (case map_of (snd fs) k of None \<Rightarrow> if fst fs then Some None else None | Some j \<Rightarrow> dec_option dec j)"

text \<open>\<open>skip_serializing_if = Option::is_none\<close>: the member of a field that may be left out.\<close>

definition opt_member :: "string \<Rightarrow> ('a \<Rightarrow> json) \<Rightarrow> 'a option \<Rightarrow> (string \<times> json) list" where
  "opt_member k enc x = (case x of None \<Rightarrow> [] | Some y \<Rightarrow> [(k, enc y)])"

text \<open>A variant without data is its name, or an object with its name and null.\<close>

definition dec_unit_enum :: "(string \<times> 'a) list \<Rightarrow> json \<Rightarrow> 'a option" where
  "dec_unit_enum variants j =
     (case j of
        JStr s \<Rightarrow> map_of variants s
      | JObj [(s, JNull)] \<Rightarrow> map_of variants s
      | _ \<Rightarrow> None)"

lemmas field_defs = field_req_def field_default_def field_option_def

section \<open>Codecs\<close>

text \<open>What the types promise each other: a well-formed value is read back from its document, and only
  well-formed values are read.\<close>

locale json_codec =
  fixes enc :: "'a \<Rightarrow> json" and dec :: "json \<Rightarrow> 'a option" and ok :: "'a \<Rightarrow> bool"
  assumes dec_enc: "ok x \<Longrightarrow> dec (enc x) = Some x"
    and dec_ok: "dec j = Some x \<Longrightarrow> ok x"
    and enc_not_null: "enc x \<noteq> JNull"
begin

lemma reread: "dec j = Some x \<Longrightarrow> dec (enc x) = Some x"
  by (rule dec_enc) (rule dec_ok)

lemma enc_inject: "ok x \<Longrightarrow> ok y \<Longrightarrow> enc x = enc y \<Longrightarrow> x = y"
  by (metis dec_enc option.inject)

lemma those_enc: "list_all ok xs \<Longrightarrow> those (map (\<lambda>x. dec (enc x)) xs) = Some xs"
  by (induction xs) (simp_all add: dec_enc)

lemma those_ok: "those (map dec js) = Some xs \<Longrightarrow> list_all ok xs"
  by (induction js arbitrary: xs) (auto simp: dec_ok split: option.splits)

lemma dec_list_enc: "list_all ok xs \<Longrightarrow> dec_list dec (enc_list enc xs) = Some xs"
  by (simp add: enc_list_def dec_list_def comp_def those_enc)

lemma dec_list_ok: "dec_list dec j = Some xs \<Longrightarrow> list_all ok xs"
  by (cases j) (simp_all add: dec_list_def those_ok)

lemma list_codec: "json_codec (enc_list enc) (dec_list dec) (list_all ok)"
  by (rule json_codec.intro) (simp_all add: dec_list_enc dec_list_ok, simp add: enc_list_def)

lemma dec_option_enc: "pred_option ok x \<Longrightarrow> dec_option dec (enc_option enc x) = Some x"
  by (cases x) (auto simp: dec_option_def enc_option_def dec_enc enc_not_null)

lemma dec_option_ok: "dec_option dec j = Some x \<Longrightarrow> pred_option ok x"
  by (auto simp: dec_option_def dec_ok split: if_splits)

lemma dec_option_some: "ok x \<Longrightarrow> dec_option dec (enc x) = Some (Some x)"
  by (simp add: dec_option_def dec_enc enc_not_null)

end

lemma uint_codec: "json_codec enc_uint dec_uint (\<lambda>_. True)"
  by unfold_locales (auto simp: enc_uint_def dec_uint_def word_of_int_uint)

interpretation u32_json: json_codec "enc_uint :: u32 \<Rightarrow> json" dec_uint "\<lambda>_. True"
  by (rule uint_codec)

interpretation u64_json: json_codec "enc_uint :: u64 \<Rightarrow> json" dec_uint "\<lambda>_. True"
  by (rule uint_codec)

interpretation bool_json: json_codec JBool dec_bool "\<lambda>_. True"
  by unfold_locales (auto simp: dec_bool_def)

interpretation string_json: json_codec JStr dec_string "\<lambda>_. True"
  by unfold_locales (auto simp: dec_string_def)

interpretation i64_json: json_codec JInt dec_i64 in_i64
  by unfold_locales (auto simp: dec_i64_def split: json.splits if_splits)

lemma ulid_codec:
  "(\<And>u. parse (to_str u) = Some u) \<Longrightarrow> json_codec (enc_ulid to_str) (dec_ulid parse) (\<lambda>_. True)"
  by unfold_locales (auto simp: enc_ulid_def dec_ulid_def dec_string_def)

subsection \<open>Ordered maps\<close>

lemma btree_insert_keys: "set (map fst (btree_insert k v m)) = insert k (set (map fst m))"
  by (induction k v m rule: btree_insert.induct) auto

lemma btree_insert_wf: "btree_wf m \<Longrightarrow> btree_wf (btree_insert k v m)"
proof (induction k v m rule: btree_insert.induct)
  case (2 k v k' v' m)
  then show ?case
    using btree_insert_keys [of k v m] by (auto simp: btree_wf_def)
qed (simp add: btree_wf_def)

lemma btree_insert_lookup: "btree_wf m \<Longrightarrow> map_of (btree_insert k v m) = (map_of m)(k \<mapsto> v)"
proof (induction k v m rule: btree_insert.induct)
  case (2 k v k' v' m)
  then show ?case by (auto simp: btree_wf_def fun_eq_iff)
qed simp

lemma btree_insert_last:
  "\<forall>k' \<in> set (map fst m). k' < k \<Longrightarrow> btree_insert k v m = m @ [(k, v)]"
  by (induction m) auto

lemma btree_collect_wf: "btree_wf m \<Longrightarrow> btree_collect m es = Some m' \<Longrightarrow> btree_wf m'"
  by (induction m es rule: btree_collect.induct) (auto simp: btree_insert_wf split: option.splits)

lemma btree_collect_enc:
  "btree_wf (m @ es) \<Longrightarrow> btree_collect m (map (\<lambda>(k, v). (k, JStr v)) es) = Some (m @ es)"
proof (induction es arbitrary: m)
  case (Cons e es)
  obtain k v where e: "e = (k, v)" by fastforce
  have "btree_insert k v m = m @ [(k, v)]"
    using Cons.prems by (intro btree_insert_last) (auto simp: e btree_wf_def sorted_wrt_append)
  then show ?case
    using Cons.IH [of "m @ [(k, v)]"] Cons.prems by (simp add: e dec_string_def)
qed simp

interpretation btree_json: json_codec enc_btree dec_btree btree_wf
  by unfold_locales
    (auto simp: enc_btree_def dec_btree_def btree_collect_enc [of "[]", simplified] btree_wf_def [of "[]"]
      dest: btree_collect_wf [rotated] split: json.splits)

text \<open>Reading a document into a map keeps, for every key, the last value the document gives it.\<close>

lemma btree_collect_lookup:
  "btree_wf m \<Longrightarrow> btree_collect m es = Some m' \<Longrightarrow>
     map_of m' k = (case map_of (rev es) k of Some j \<Rightarrow> dec_string j | None \<Rightarrow> map_of m k)"
proof (induction m es rule: btree_collect.induct)
  case (2 m k' j es)
  then show ?case
    by (auto simp: btree_insert_wf btree_insert_lookup map_of_append map_add_def split: option.splits)
qed simp

end
