(* ===== verification/Manifest_Json.thy ===== *)
theory Manifest_Json
  imports Manifest Json
begin

text \<open>
  The serialised manifest (\<open>odorobo/src/manifest.rs\<close>): for every type the reader and the writer that its
  \<open>serde\<close> attributes derive, and the reader of whole manifests, which validates what it has read. The to_str
  form of identifiers belongs to the \<open>ulid\<close> library and is a parameter.
\<close>

section \<open>Readers and writers\<close>

definition Metadata_serialize :: "Metadata \<Rightarrow> json" where
  "Metadata_serialize m = JObj
     [(''name'', JStr (meta_name m)), (''labels'', enc_btree (labels m)),
      (''annotations'', enc_btree (annotations m))]"

definition Metadata_deserialize :: "json \<Rightarrow> Metadata option" where
  "Metadata_deserialize j = do {
     fs \<leftarrow> struct_fields True [''name'', ''labels'', ''annotations''] j;
     n \<leftarrow> field_req ''name'' dec_string fs;
     ls \<leftarrow> field_default ''labels'' [] dec_btree fs;
     as \<leftarrow> field_default ''annotations'' [] dec_btree fs;
     Some \<lparr>meta_name = n, labels = ls, annotations = as\<rparr> }"

definition Compute_serialize :: "Compute \<Rightarrow> json" where
  "Compute_serialize c = JObj
     ((''vcpus'', enc_uint (vcpus c)) # opt_member ''max_vcpus'' enc_uint (max_vcpus c) @
      [(''memory_bytes'', enc_uint (memory_bytes c))])"

definition Compute_deserialize :: "json \<Rightarrow> Compute option" where
  "Compute_deserialize j = do {
     fs \<leftarrow> struct_fields True [''vcpus'', ''max_vcpus'', ''memory_bytes''] j;
     n \<leftarrow> field_req ''vcpus'' dec_uint fs;
     mx \<leftarrow> field_default ''max_vcpus'' None (dec_option dec_uint) fs;
     mem \<leftarrow> field_req ''memory_bytes'' dec_uint fs;
     Some \<lparr>vcpus = n, max_vcpus = mx, memory_bytes = mem\<rparr> }"

definition Storage_serialize :: "(ulid \<Rightarrow> string) \<Rightarrow> Storage \<Rightarrow> json" where
  "Storage_serialize to_str s = JObj
     ((''id'', JStr (storage_id s)) # opt_member ''uri'' JStr (uri s) @
      opt_member ''volume_id'' (enc_ulid to_str) (volume_id s) @ [(''read_only'', JBool (read_only s))])"

definition Storage_deserialize :: "(string \<Rightarrow> ulid option) \<Rightarrow> json \<Rightarrow> Storage option" where
  "Storage_deserialize parse j = do {
     fs \<leftarrow> struct_fields True [''id'', ''uri'', ''volume_id'', ''read_only''] j;
     i \<leftarrow> field_req ''id'' dec_string fs;
     u \<leftarrow> field_default ''uri'' None (dec_option dec_string) fs;
     v \<leftarrow> field_default ''volume_id'' None (dec_option (dec_ulid parse)) fs;
     r \<leftarrow> field_default ''read_only'' False dec_bool fs;
     Some \<lparr>storage_id = i, uri = u, volume_id = v, read_only = r\<rparr> }"

definition Network_serialize :: "Network \<Rightarrow> json" where
  "Network_serialize n = JObj ((''id'', JStr (network_id n)) # opt_member ''mac_address'' JStr (mac_address n))"

definition Network_deserialize :: "json \<Rightarrow> Network option" where
  "Network_deserialize j = do {
     fs \<leftarrow> struct_fields True [''id'', ''mac_address''] j;
     i \<leftarrow> field_req ''id'' dec_string fs;
     a \<leftarrow> field_default ''mac_address'' None (dec_option dec_string) fs;
     Some \<lparr>network_id = i, mac_address = a\<rparr> }"

fun AffinityStrictness_serialize :: "AffinityStrictness \<Rightarrow> json" where
  "AffinityStrictness_serialize Required = JStr ''required''"
| "AffinityStrictness_serialize (Preferred w) = JObj [(''preferred'', JObj [(''weight'', JInt w)])]"

definition AffinityStrictness_deserialize :: "json \<Rightarrow> AffinityStrictness option" where
  "AffinityStrictness_deserialize j =
     (case j of
        JStr s \<Rightarrow> if s = ''required'' then Some Required else None
      | JObj [(s, v)] \<Rightarrow>
          if s = ''required'' then (if v = JNull then Some Required else None)
          else if s = ''preferred'' then do {
            fs \<leftarrow> struct_fields False [''weight''] v;
            w \<leftarrow> field_req ''weight'' dec_i64 fs;
            Some (Preferred w) }
          else None
      | _ \<Rightarrow> None)"

fun AffinityType_serialize :: "AffinityType \<Rightarrow> json" where
  "AffinityType_serialize AffinityVirtualMachine = JStr ''virtual_machine''"
| "AffinityType_serialize AffinityAgent = JStr ''agent''"

definition AffinityType_deserialize :: "json \<Rightarrow> AffinityType option" where
  "AffinityType_deserialize = dec_unit_enum
     [(''virtual_machine'', AffinityVirtualMachine), (''agent'', AffinityAgent)]"

fun MetadataTable_serialize :: "MetadataTable \<Rightarrow> json" where
  "MetadataTable_serialize Label = JStr ''label''"
| "MetadataTable_serialize Annotation = JStr ''annotation''"

definition MetadataTable_deserialize :: "json \<Rightarrow> MetadataTable option" where
  "MetadataTable_deserialize = dec_unit_enum [(''label'', Label), (''annotation'', Annotation)]"

fun Operator_serialize :: "Operator \<Rightarrow> json" where
  "Operator_serialize In = JStr ''in''"
| "Operator_serialize NotIn = JStr ''not_in''"
| "Operator_serialize Lt = JStr ''lt''"
| "Operator_serialize Gt = JStr ''gt''"

definition Operator_deserialize :: "json \<Rightarrow> Operator option" where
  "Operator_deserialize = dec_unit_enum [(''in'', In), (''not_in'', NotIn), (''lt'', Lt), (''gt'', Gt)]"

definition AffinityRequirement_serialize :: "AffinityRequirement \<Rightarrow> json" where
  "AffinityRequirement_serialize r = JObj
     [(''key'', JStr (key r)), (''table'', MetadataTable_serialize (table r)),
      (''operator'', Operator_serialize (operator r)), (''values'', enc_list JStr (values r))]"

definition AffinityRequirement_deserialize :: "json \<Rightarrow> AffinityRequirement option" where
  "AffinityRequirement_deserialize j = do {
     fs \<leftarrow> struct_fields True [''key'', ''table'', ''operator'', ''values''] j;
     k \<leftarrow> field_req ''key'' dec_string fs;
     t \<leftarrow> field_req ''table'' MetadataTable_deserialize fs;
     p \<leftarrow> field_req ''operator'' Operator_deserialize fs;
     vs \<leftarrow> field_req ''values'' (dec_list dec_string) fs;
     Some \<lparr>key = k, table = t, operator = p, values = vs\<rparr> }"

definition AffinityRule_serialize :: "AffinityRule \<Rightarrow> json" where
  "AffinityRule_serialize r = JObj
     [(''strictness'', AffinityStrictness_serialize (strictness r)),
      (''affinity_type'', AffinityType_serialize (affinity_type r)), (''inverse'', JBool (inverse r)),
      (''requirements'', enc_list AffinityRequirement_serialize (requirements r))]"

definition AffinityRule_deserialize :: "json \<Rightarrow> AffinityRule option" where
  "AffinityRule_deserialize j = do {
     fs \<leftarrow> struct_fields True [''strictness'', ''affinity_type'', ''inverse'', ''requirements''] j;
     s \<leftarrow> field_req ''strictness'' AffinityStrictness_deserialize fs;
     t \<leftarrow> field_req ''affinity_type'' AffinityType_deserialize fs;
     i \<leftarrow> field_default ''inverse'' False dec_bool fs;
     rs \<leftarrow> field_req ''requirements'' (dec_list AffinityRequirement_deserialize) fs;
     Some \<lparr>strictness = s, affinity_type = t, inverse = i, requirements = rs\<rparr> }"

definition Placement_serialize :: "Placement \<Rightarrow> json" where
  "Placement_serialize p = JObj
     (opt_member ''node'' JStr (placement_node p) @
      [(''required_labels'', enc_btree (required_labels p)),
       (''affinity'', enc_list AffinityRule_serialize (affinity p))])"

definition Placement_default :: Placement where
  "Placement_default = \<lparr>placement_node = None, required_labels = [], affinity = []\<rparr>"

definition Placement_deserialize :: "json \<Rightarrow> Placement option" where
  "Placement_deserialize j = do {
     fs \<leftarrow> struct_fields True [''node'', ''required_labels'', ''affinity''] j;
     n \<leftarrow> field_default ''node'' None (dec_option dec_string) fs;
     ls \<leftarrow> field_default ''required_labels'' [] dec_btree fs;
     rules \<leftarrow> field_default ''affinity'' [] (dec_list AffinityRule_deserialize) fs;
     Some \<lparr>placement_node = n, required_labels = ls, affinity = rules\<rparr> }"

definition Boot_serialize :: "Boot \<Rightarrow> json" where
  "Boot_serialize b = JObj
     ((''start'', JBool (start b)) # opt_member ''firmware'' JStr (firmware b) @
      opt_member ''kernel'' JStr (kernel b) @ opt_member ''cmdline'' JStr (cmdline b))"

definition Boot_deserialize :: "json \<Rightarrow> Boot option" where
  "Boot_deserialize j = do {
     fs \<leftarrow> struct_fields True [''start'', ''firmware'', ''kernel'', ''cmdline''] j;
     s \<leftarrow> field_default ''start'' False dec_bool fs;
     fw \<leftarrow> field_default ''firmware'' None (dec_option dec_string) fs;
     k \<leftarrow> field_default ''kernel'' None (dec_option dec_string) fs;
     c \<leftarrow> field_default ''cmdline'' None (dec_option dec_string) fs;
     Some \<lparr>start = s, firmware = fw, kernel = k, cmdline = c\<rparr> }"

definition CloudInit_serialize :: "CloudInit \<Rightarrow> json" where
  "CloudInit_serialize c = JObj
     (opt_member ''user_data'' JStr (user_data c) @ opt_member ''meta_data'' JStr (meta_data c))"

definition CloudInit_deserialize :: "json \<Rightarrow> CloudInit option" where
  "CloudInit_deserialize j = do {
     fs \<leftarrow> struct_fields True [''user_data'', ''meta_data''] j;
     u \<leftarrow> field_default ''user_data'' None (dec_option dec_string) fs;
     m \<leftarrow> field_default ''meta_data'' None (dec_option dec_string) fs;
     Some \<lparr>user_data = u, meta_data = m\<rparr> }"

definition Vsock_serialize :: "Vsock \<Rightarrow> json" where
  "Vsock_serialize v = JObj [(''guest_cid'', enc_uint (guest_cid v)), (''socket'', JStr (socket v))]"

definition Vsock_deserialize :: "json \<Rightarrow> Vsock option" where
  "Vsock_deserialize j = do {
     fs \<leftarrow> struct_fields True [''guest_cid'', ''socket''] j;
     c \<leftarrow> field_req ''guest_cid'' dec_uint fs;
     s \<leftarrow> field_req ''socket'' dec_string fs;
     Some \<lparr>guest_cid = c, socket = s\<rparr> }"

fun ObservedStatus_serialize :: "ObservedStatus \<Rightarrow> json" where
  "ObservedStatus_serialize StatusUnknown = JStr ''unknown''"
| "ObservedStatus_serialize StatusPending = JStr ''pending''"
| "ObservedStatus_serialize StatusRunning = JStr ''running''"
| "ObservedStatus_serialize StatusStopped = JStr ''stopped''"
| "ObservedStatus_serialize StatusError = JStr ''error''"

definition ObservedStatus_deserialize :: "json \<Rightarrow> ObservedStatus option" where
  "ObservedStatus_deserialize = dec_unit_enum
     [(''unknown'', StatusUnknown), (''pending'', StatusPending), (''running'', StatusRunning),
      (''stopped'', StatusStopped), (''error'', StatusError)]"

definition ObservedState_serialize :: "ObservedState \<Rightarrow> json" where
  "ObservedState_serialize s = JObj
     ((''status'', ObservedStatus_serialize (status s)) # opt_member ''node'' JStr (observed_node s) @
      opt_member ''cloud_hypervisor_state'' JStr (cloud_hypervisor_state s) @
      opt_member ''error'' JStr (error s))"

definition ObservedState_deserialize :: "json \<Rightarrow> ObservedState option" where
  "ObservedState_deserialize j = do {
     fs \<leftarrow> struct_fields True [''status'', ''node'', ''cloud_hypervisor_state'', ''error''] j;
     s \<leftarrow> field_req ''status'' ObservedStatus_deserialize fs;
     n \<leftarrow> field_default ''node'' None (dec_option dec_string) fs;
     c \<leftarrow> field_default ''cloud_hypervisor_state'' None (dec_option dec_string) fs;
     e \<leftarrow> field_default ''error'' None (dec_option dec_string) fs;
     Some \<lparr>status = s, observed_node = n, cloud_hypervisor_state = c, error = e\<rparr> }"

definition DesiredState_serialize :: "(ulid \<Rightarrow> string) \<Rightarrow> DesiredState \<Rightarrow> json" where
  "DesiredState_serialize to_str d = JObj
     ([(''metadata'', Metadata_serialize (metadata d)), (''compute'', Compute_serialize (compute d)),
       (''storage'', enc_list (Storage_serialize to_str) (storage d)),
       (''networks'', enc_list Network_serialize (networks d)),
       (''placement'', Placement_serialize (placement d)), (''boot'', Boot_serialize (boot d))] @
      opt_member ''cloud_init'' CloudInit_serialize (cloud_init d) @
      opt_member ''vsock'' Vsock_serialize (vsock d))"

definition DesiredState_deserialize :: "(string \<Rightarrow> ulid option) \<Rightarrow> json \<Rightarrow> DesiredState option" where
  "DesiredState_deserialize parse j = do {
     fs \<leftarrow> struct_fields True [''metadata'', ''compute'', ''storage'', ''networks'', ''placement'', ''boot'',
                              ''cloud_init'', ''vsock''] j;
     m \<leftarrow> field_req ''metadata'' Metadata_deserialize fs;
     c \<leftarrow> field_req ''compute'' Compute_deserialize fs;
     ss \<leftarrow> field_default ''storage'' [] (dec_list (Storage_deserialize parse)) fs;
     ns \<leftarrow> field_default ''networks'' [] (dec_list Network_deserialize) fs;
     p \<leftarrow> field_default ''placement'' Placement_default Placement_deserialize fs;
     b \<leftarrow> field_req ''boot'' Boot_deserialize fs;
     ci \<leftarrow> field_default ''cloud_init'' None (dec_option CloudInit_deserialize) fs;
     v \<leftarrow> field_default ''vsock'' None (dec_option Vsock_deserialize) fs;
     Some \<lparr>metadata = m, compute = c, storage = ss, networks = ns, placement = p, boot = b,
           cloud_init = ci, vsock = v\<rparr> }"

definition VmManifest_serialize :: "(ulid \<Rightarrow> string) \<Rightarrow> VmManifest \<Rightarrow> json" where
  "VmManifest_serialize to_str m = JObj
     ([(''api_version'', enc_uint (api_version m)), (''id'', enc_ulid to_str (manifest_id m)),
       (''desired'', DesiredState_serialize to_str (desired m))] @
      opt_member ''observed'' ObservedState_serialize (observed m))"

definition DeserializableVmManifest_deserialize :: "(string \<Rightarrow> ulid option) \<Rightarrow> json \<Rightarrow> VmManifest option" where
  "DeserializableVmManifest_deserialize parse j = do {
     fs \<leftarrow> struct_fields True [''api_version'', ''id'', ''desired'', ''observed''] j;
     a \<leftarrow> field_req ''api_version'' dec_uint fs;
     i \<leftarrow> field_req ''id'' (dec_ulid parse) fs;
     d \<leftarrow> field_req ''desired'' (DesiredState_deserialize parse) fs;
     s \<leftarrow> field_default ''observed'' None (dec_option ObservedState_deserialize) fs;
     Some \<lparr>api_version = a, manifest_id = i, desired = d, observed = s\<rparr> }"

text \<open>The reader of manifests: the error is \<open>None\<close> for a document of the wrong shape, and the validation
  error otherwise.\<close>

definition VmManifest_from_json :: "(string \<Rightarrow> ulid option) \<Rightarrow> json \<Rightarrow> ManifestError option + VmManifest" where
  "VmManifest_from_json parse =
     VmManifest_deserialize
       (\<lambda>j. case DeserializableVmManifest_deserialize parse j of None \<Rightarrow> Inl None | Some m \<Rightarrow> Inr m) Some"

section \<open>Well-formed manifests\<close>

text \<open>What the types of the source guarantee and lists of entries and integers do not: maps are ordered,
  weights fit 64 bits.\<close>

definition Metadata_wf :: "Metadata \<Rightarrow> bool" where
  "Metadata_wf m \<longleftrightarrow> btree_wf (labels m) \<and> btree_wf (annotations m)"

fun AffinityStrictness_wf :: "AffinityStrictness \<Rightarrow> bool" where
  "AffinityStrictness_wf Required = True"
| "AffinityStrictness_wf (Preferred w) = in_i64 w"

definition AffinityRule_wf :: "AffinityRule \<Rightarrow> bool" where
  "AffinityRule_wf r \<longleftrightarrow> AffinityStrictness_wf (strictness r)"

definition Placement_wf :: "Placement \<Rightarrow> bool" where
  "Placement_wf p \<longleftrightarrow> btree_wf (required_labels p) \<and> list_all AffinityRule_wf (affinity p)"

definition DesiredState_wf :: "DesiredState \<Rightarrow> bool" where
  "DesiredState_wf d \<longleftrightarrow> Metadata_wf (metadata d) \<and> Placement_wf (placement d)"

definition manifest_wf :: "VmManifest \<Rightarrow> bool" where
  "manifest_wf m \<longleftrightarrow> DesiredState_wf (desired m)"

section \<open>Every type is read back from what was written\<close>

lemmas struct_simps = struct_fields_def field_defs opt_member_def

lemmas value_reads = string_json.dec_enc bool_json.dec_enc u32_json.dec_enc u64_json.dec_enc i64_json.dec_enc
  btree_json.dec_enc string_json.dec_option_some u32_json.dec_option_some string_json.dec_list_enc

lemma list_all_True [simp]: "list_all (\<lambda>_. True) xs"
  by (simp add: list_all_iff)

interpretation Metadata_json: json_codec Metadata_serialize Metadata_deserialize Metadata_wf
proof
  show "Metadata_deserialize (Metadata_serialize m) = Some m" if "Metadata_wf m" for m
    using that by (simp add: Metadata_serialize_def Metadata_deserialize_def Metadata_wf_def struct_simps value_reads)
  show "Metadata_wf m" if "Metadata_deserialize j = Some m" for j m
    using that by (auto simp: Metadata_deserialize_def Metadata_wf_def field_defs btree_wf_def [of "[]"]
        bind_eq_Some_conv btree_json.dec_ok split: option.splits)
qed (simp add: Metadata_serialize_def)

interpretation Compute_json: json_codec Compute_serialize Compute_deserialize "\<lambda>_. True"
proof
  show "Compute_deserialize (Compute_serialize c) = Some c" for c
    by (cases "max_vcpus c") (simp_all add: Compute_serialize_def Compute_deserialize_def struct_simps value_reads)
qed (simp_all add: Compute_serialize_def)

interpretation Network_json: json_codec Network_serialize Network_deserialize "\<lambda>_. True"
proof
  show "Network_deserialize (Network_serialize n) = Some n" for n
    by (cases "mac_address n") (simp_all add: Network_serialize_def Network_deserialize_def struct_simps value_reads)
qed (simp_all add: Network_serialize_def)

lemma Storage_codec:
  assumes "\<And>u. parse (to_str u) = Some u"
  shows "json_codec (Storage_serialize to_str) (Storage_deserialize parse) (\<lambda>_. True)"
proof
  note ulid = json_codec.dec_option_some [OF ulid_codec [of parse to_str, OF assms], OF TrueI]
  show "Storage_deserialize parse (Storage_serialize to_str s) = Some s" for s
    by (cases "uri s"; cases "volume_id s")
      (simp_all add: Storage_serialize_def Storage_deserialize_def struct_simps value_reads ulid)
qed (simp_all add: Storage_serialize_def)

interpretation AffinityStrictness_json:
  json_codec AffinityStrictness_serialize AffinityStrictness_deserialize AffinityStrictness_wf
proof
  show "AffinityStrictness_deserialize (AffinityStrictness_serialize s) = Some s" if "AffinityStrictness_wf s" for s
    using that by (cases s) (simp_all add: AffinityStrictness_deserialize_def struct_simps value_reads)
  show "AffinityStrictness_wf s" if "AffinityStrictness_deserialize j = Some s" for j s
    using that by (auto simp: AffinityStrictness_deserialize_def field_req_def bind_eq_Some_conv i64_json.dec_ok
        split: json.splits list.splits prod.splits if_splits)
  show "AffinityStrictness_serialize s \<noteq> JNull" for s
    by (cases s) simp_all
qed

lemma unit_enum_reads:
  "AffinityType_deserialize (AffinityType_serialize t) = Some t"
  "MetadataTable_deserialize (MetadataTable_serialize b) = Some b"
  "Operator_deserialize (Operator_serialize p) = Some p"
  "ObservedStatus_deserialize (ObservedStatus_serialize s) = Some s"
proof -
  show "AffinityType_deserialize (AffinityType_serialize t) = Some t"
    by (cases t) (simp_all add: AffinityType_deserialize_def dec_unit_enum_def)
  show "MetadataTable_deserialize (MetadataTable_serialize b) = Some b"
    by (cases b) (simp_all add: MetadataTable_deserialize_def dec_unit_enum_def)
  show "Operator_deserialize (Operator_serialize p) = Some p"
    by (cases p) (simp_all add: Operator_deserialize_def dec_unit_enum_def)
  show "ObservedStatus_deserialize (ObservedStatus_serialize s) = Some s"
    by (cases s) (simp_all add: ObservedStatus_deserialize_def dec_unit_enum_def)
qed

interpretation AffinityRequirement_json:
  json_codec AffinityRequirement_serialize AffinityRequirement_deserialize "\<lambda>_. True"
proof
  show "AffinityRequirement_deserialize (AffinityRequirement_serialize r) = Some r" for r
    by (simp add: AffinityRequirement_serialize_def AffinityRequirement_deserialize_def struct_simps value_reads
        unit_enum_reads)
qed (simp_all add: AffinityRequirement_serialize_def)

interpretation AffinityRule_json: json_codec AffinityRule_serialize AffinityRule_deserialize AffinityRule_wf
proof
  show "AffinityRule_deserialize (AffinityRule_serialize r) = Some r" if "AffinityRule_wf r" for r
    using that by (simp add: AffinityRule_serialize_def AffinityRule_deserialize_def AffinityRule_wf_def struct_simps
        value_reads unit_enum_reads AffinityStrictness_json.dec_enc AffinityRequirement_json.dec_list_enc)
  show "AffinityRule_wf r" if "AffinityRule_deserialize j = Some r" for j r
    using that by (auto simp: AffinityRule_deserialize_def AffinityRule_wf_def field_req_def bind_eq_Some_conv
        AffinityStrictness_json.dec_ok)
qed (simp add: AffinityRule_serialize_def)

interpretation Placement_json: json_codec Placement_serialize Placement_deserialize Placement_wf
proof
  show "Placement_deserialize (Placement_serialize p) = Some p" if "Placement_wf p" for p
    using that by (cases "placement_node p") (simp_all add: Placement_serialize_def Placement_deserialize_def
        Placement_wf_def struct_simps value_reads AffinityRule_json.dec_list_enc)
  show "Placement_wf p" if "Placement_deserialize j = Some p" for j p
    using that by (auto simp: Placement_deserialize_def Placement_wf_def field_default_def btree_wf_def [of "[]"]
        bind_eq_Some_conv btree_json.dec_ok AffinityRule_json.dec_list_ok split: option.splits)
qed (simp add: Placement_serialize_def)

interpretation Boot_json: json_codec Boot_serialize Boot_deserialize "\<lambda>_. True"
proof
  show "Boot_deserialize (Boot_serialize b) = Some b" for b
    by (cases "firmware b"; cases "kernel b"; cases "cmdline b")
      (simp_all add: Boot_serialize_def Boot_deserialize_def struct_simps value_reads)
qed (simp_all add: Boot_serialize_def)

interpretation CloudInit_json: json_codec CloudInit_serialize CloudInit_deserialize "\<lambda>_. True"
proof
  show "CloudInit_deserialize (CloudInit_serialize c) = Some c" for c
    by (cases "user_data c"; cases "meta_data c")
      (simp_all add: CloudInit_serialize_def CloudInit_deserialize_def struct_simps value_reads)
qed (simp_all add: CloudInit_serialize_def)

interpretation Vsock_json: json_codec Vsock_serialize Vsock_deserialize "\<lambda>_. True"
  by unfold_locales (simp_all add: Vsock_serialize_def Vsock_deserialize_def struct_simps value_reads)

interpretation ObservedState_json: json_codec ObservedState_serialize ObservedState_deserialize "\<lambda>_. True"
proof
  show "ObservedState_deserialize (ObservedState_serialize s) = Some s" for s
    by (cases "observed_node s"; cases "cloud_hypervisor_state s"; cases "error s")
      (simp_all add: ObservedState_serialize_def ObservedState_deserialize_def struct_simps value_reads unit_enum_reads)
qed (simp_all add: ObservedState_serialize_def)

lemma DesiredState_codec:
  assumes "\<And>u. parse (to_str u) = Some u"
  shows "json_codec (DesiredState_serialize to_str) (DesiredState_deserialize parse) DesiredState_wf"
proof
  note storage = json_codec.dec_list_enc [OF Storage_codec [of parse to_str, OF assms]]
  show "DesiredState_deserialize parse (DesiredState_serialize to_str d) = Some d" if "DesiredState_wf d" for d
    using that
    by (cases "cloud_init d"; cases "vsock d")
      (simp_all add: DesiredState_serialize_def DesiredState_deserialize_def DesiredState_wf_def struct_simps
        Metadata_json.dec_enc Compute_json.dec_enc storage Network_json.dec_list_enc Placement_json.dec_enc
        Boot_json.dec_enc CloudInit_json.dec_option_some Vsock_json.dec_option_some)
  have "Placement_wf Placement_default"
    by (simp add: Placement_wf_def Placement_default_def btree_wf_def)
  then show "DesiredState_wf d" if "DesiredState_deserialize parse j = Some d" for j d
    using that by (auto simp: DesiredState_deserialize_def DesiredState_wf_def field_defs bind_eq_Some_conv
        Metadata_json.dec_ok Placement_json.dec_ok split: option.splits)
qed (simp add: DesiredState_serialize_def)

lemma VmManifest_codec:
  assumes "\<And>u. parse (to_str u) = Some u"
  shows "json_codec (VmManifest_serialize to_str) (DeserializableVmManifest_deserialize parse) manifest_wf"
proof
  note ulid = json_codec.dec_enc [OF ulid_codec [of parse to_str, OF assms], OF TrueI]
  note desired = DesiredState_codec [of parse to_str, OF assms]
  show "DeserializableVmManifest_deserialize parse (VmManifest_serialize to_str m) = Some m" if "manifest_wf m" for m
    using that
    by (cases "observed m")
      (simp_all add: VmManifest_serialize_def DeserializableVmManifest_deserialize_def manifest_wf_def struct_simps
        value_reads ulid json_codec.dec_enc [OF desired] ObservedState_json.dec_option_some)
  show "manifest_wf m" if "DeserializableVmManifest_deserialize parse j = Some m" for j m
    using that by (auto simp: DeserializableVmManifest_deserialize_def manifest_wf_def field_req_def bind_eq_Some_conv
        json_codec.dec_ok [OF desired])
qed (simp add: VmManifest_serialize_def)

lemma VmManifest_from_json_ok:
  "VmManifest_from_json parse j = Inr m \<longleftrightarrow>
     DeserializableVmManifest_deserialize parse j = Some m \<and> manifest_contract m"
  by (auto simp: VmManifest_from_json_def VmManifest_deserialize_ok split: option.splits)

lemma VmManifest_from_json_invalid:
  "VmManifest_from_json parse j = Inl (Some e) \<longleftrightarrow>
     (\<exists>m. DeserializableVmManifest_deserialize parse j = Some m \<and> VmManifest_validate m = Inl e)"
  by (auto simp: VmManifest_from_json_def VmManifest_deserialize_def split: option.splits sum.splits)

lemma VmManifest_read_back:
  assumes "\<And>u. parse (to_str u) = Some u"
  shows "VmManifest_from_json parse (VmManifest_serialize to_str m) = Inr m \<longleftrightarrow> manifest_wf m \<and> manifest_contract m"
  using json_codec.dec_enc [OF VmManifest_codec [of parse to_str, OF assms]]
    json_codec.dec_ok [OF VmManifest_codec [of parse to_str, OF assms]]
  by (auto simp: VmManifest_from_json_ok)

text \<open>A member that the type does not have is refused, wherever it stands in the object.\<close>

lemma unknown_member_refused:
  assumes "k \<notin> {''api_version'', ''id'', ''desired'', ''observed''}"
  shows "VmManifest_from_json parse (JObj (es @ (k, v) # es')) = Inl None"
  using assms
  by (auto simp: VmManifest_from_json_def VmManifest_deserialize_def DeserializableVmManifest_deserialize_def
      struct_fields_def)

section \<open>Sample\<close>

text \<open>Identifiers in decimal, and a document that uses what the readers allow: members in any order, a
  struct as an array, labels out of order and repeated, defaults left out.\<close>

definition sample_ulid_str :: "ulid \<Rightarrow> string" where
  "sample_ulid_str u = show_nat (unat u)"

definition sample_ulid_parse :: "string \<Rightarrow> ulid option" where
  "sample_ulid_parse s = map_option of_nat (parse_unsigned (2 ^ 128) s)"

lemma sample_ulid_read: "sample_ulid_parse (sample_ulid_str u) = Some u"
proof -
  have "unat u < 2 ^ 128"
    using unsigned_less [of u] by simp
  then show ?thesis
    by (simp add: sample_ulid_parse_def sample_ulid_str_def parse_unsigned_def strip_plus_digits show_nat_digits)
qed

definition sample_document :: json where
  "sample_document = JObj
     [(''id'', JStr ''7''),
      (''desired'', JObj
         [(''boot'', JObj [(''start'', JBool True)]),
          (''compute'', JArr [JInt 2, JNull, JInt 512]),
          (''metadata'', JObj
             [(''name'', JStr ''vm''),
              (''labels'', JObj [(''b'', JStr ''1''), (''a'', JStr ''2''), (''b'', JStr ''3'')])]),
          (''storage'', JArr [JObj [(''volume_id'', JStr ''9''), (''id'', JStr ''root'')]])]),
      (''api_version'', JInt 1)]"

definition sample_document_manifest :: VmManifest where
  "sample_document_manifest =
     \<lparr>api_version = 1, manifest_id = 7,
      desired =
        \<lparr>metadata = \<lparr>meta_name = ''vm'', labels = [(''a'', ''2''), (''b'', ''3'')], annotations = []\<rparr>,
         compute = \<lparr>vcpus = 2, max_vcpus = None, memory_bytes = 512\<rparr>,
         storage = [\<lparr>storage_id = ''root'', uri = None, volume_id = Some 9, read_only = False\<rparr>],
         networks = [], placement = Placement_default,
         boot = \<lparr>start = True, firmware = None, kernel = None, cmdline = None\<rparr>,
         cloud_init = None, vsock = None\<rparr>,
      observed = None\<rparr>"

lemma sample_digit_read: "sample_ulid_parse ''7'' = Some 7" "sample_ulid_parse ''9'' = Some 9"
  by (simp_all add: sample_ulid_parse_def parse_unsigned_def strip_prefix_def starts_with_def is_ascii_digit_def
      digits_val_def digit_val_def)

lemma sample_labels_read:
  "dec_btree (JObj [(''b'', JStr ''1''), (''a'', JStr ''2''), (''b'', JStr ''3'')]) = Some [(''a'', ''2''), (''b'', ''3'')]"
  by (simp add: dec_btree_def dec_string_def less_char_def)

lemma sample_document_read:
  "DeserializableVmManifest_deserialize sample_ulid_parse sample_document = Some sample_document_manifest"
  by (simp add: sample_document_def sample_document_manifest_def DeserializableVmManifest_deserialize_def
      DesiredState_deserialize_def Metadata_deserialize_def Compute_deserialize_def Storage_deserialize_def
      Boot_deserialize_def struct_fields_def field_defs dec_uint_def dec_string_def dec_option_def dec_ulid_def
      dec_list_def dec_bool_def sample_digit_read sample_labels_read)

lemma sample_texts_not_blank: "\<not> is_blank ''vm''" "\<not> is_blank ''root''"
  by (simp_all add: is_blank_def trim_def trim_start_def trim_end_def trim_front.simps white_space_def starts_with_def)

lemma sample_document_contract: "manifest_contract sample_document_manifest"
  by (simp add: manifest_contract_def sample_document_manifest_def MANIFEST_VERSION_def storage_contract_def
      comparison_contract_def cloud_init_contract_def vsock_contract_def Placement_default_def sample_texts_not_blank)

section \<open>Reading and writing manifests\<close>

text \<open>C24. A manifest is accepted exactly when its document has the shape that the types prescribe and the manifest
  satisfies every documented rule; no value that came off the wire violates the contract. A document of the
  right shape that violates a rule is refused with the validation error, any other document with a
  structural error.\<close>

theorem deserialized_manifest_contract:
  "(VmManifest_from_json parse j = Inr m) =
     (DeserializableVmManifest_deserialize parse j = Some m \<and> manifest_contract m) \<and>
   (VmManifest_from_json parse j = Inl (Some e)) =
     (\<exists>m. DeserializableVmManifest_deserialize parse j = Some m \<and> VmManifest_validate m = Inl e) \<and>
   (VmManifest_from_json parse j = Inl None) = (DeserializableVmManifest_deserialize parse j = None)"
proof -
  have "(VmManifest_from_json parse j = Inl None) = (DeserializableVmManifest_deserialize parse j = None)"
    by (auto simp: VmManifest_from_json_def VmManifest_deserialize_def split: option.splits sum.splits)
  then show ?thesis
    using VmManifest_from_json_ok VmManifest_from_json_invalid by blast
qed

text \<open>C25. Manifests survive the wire: a manifest is read back from the document written for it exactly when its maps
  are ordered, its weights fit and it satisfies the contract. In particular every manifest that was accepted, from
  whatever document, with fields in any order, as arrays, with defaults left out or labels repeated, is written to a
  document from which the same manifest is read.\<close>

theorem manifest_json_roundtrip:
  assumes "\<And>u. parse (to_str u) = Some u"
  shows "(VmManifest_from_json parse (VmManifest_serialize to_str m) = Inr m) = (manifest_wf m \<and> manifest_contract m) \<and>
    (VmManifest_from_json parse j = Inr m \<longrightarrow>
       manifest_wf m \<and> VmManifest_from_json parse (VmManifest_serialize to_str m) = Inr m)"
  using VmManifest_read_back [of parse to_str m, OF assms]
    json_codec.dec_ok [OF VmManifest_codec [of parse to_str, OF assms], of j m]
  by (auto simp: VmManifest_from_json_ok)

theorem manifest_json_roundtrip_witness:
  "VmManifest_from_json sample_ulid_parse sample_document = Inr sample_document_manifest \<and>
   VmManifest_from_json sample_ulid_parse (VmManifest_serialize sample_ulid_str sample_document_manifest) =
     Inr sample_document_manifest"
proof -
  have "VmManifest_from_json sample_ulid_parse sample_document = Inr sample_document_manifest"
    by (simp add: VmManifest_from_json_ok sample_document_read sample_document_contract)
  then show ?thesis
    using manifest_json_roundtrip [of sample_ulid_parse sample_ulid_str sample_document_manifest sample_document,
        OF sample_ulid_read] by blast
qed

end
