(* ===== verification/Api_Types.thy ===== *)
theory Api_Types
  imports Manifest_Json Agent_Status
begin

text \<open>
  The types of the HTTP API (\<open>odorobo/src/types.rs\<close>) with their derived readers and writers. Unlike the
  manifest they ignore unknown fields, and their optional fields are written as null. URLs belong to the
  \<open>url\<close> library: a URL is its serialised text, and \<open>url_norm\<close> parses a text to the URL it denotes.
\<close>

section \<open>Identifiers and sizes\<close>

text \<open>\<open>VmId\<close> and \<open>VolumeId\<close> are written as the identifier they wrap, a \<open>ByteSize\<close> as its number of bytes.\<close>

datatype VmId = VmId ulid

datatype VolumeId = VolumeId ulid

definition VmId_serialize :: "(ulid \<Rightarrow> string) \<Rightarrow> VmId \<Rightarrow> json" where
  "VmId_serialize to_str v = (case v of VmId u \<Rightarrow> enc_ulid to_str u)"

definition VmId_deserialize :: "(string \<Rightarrow> ulid option) \<Rightarrow> json \<Rightarrow> VmId option" where
  "VmId_deserialize parse j = map_option VmId (dec_ulid parse j)"

definition VolumeId_deserialize :: "(string \<Rightarrow> ulid option) \<Rightarrow> json \<Rightarrow> VolumeId option" where
  "VolumeId_deserialize parse j = map_option VolumeId (dec_ulid parse j)"

definition bytesize_serialize :: "u64 \<Rightarrow> json" where
  "bytesize_serialize b = enc_uint b"

definition bytesize_deserialize :: "json \<Rightarrow> u64 option" where
  "bytesize_deserialize j = dec_uint j"

definition opt_bytesize_serialize :: "u64 option \<Rightarrow> json" where
  "opt_bytesize_serialize b = enc_option enc_uint b"

definition opt_bytesize_deserialize :: "json \<Rightarrow> u64 option option" where
  "opt_bytesize_deserialize j = dec_option dec_uint j"

section \<open>Volumes\<close>

datatype StorageUri = StorageUri string

definition StorageUri_default :: StorageUri where
  "StorageUri_default = StorageUri ''file:///tmp''"

definition StorageUri_serialize :: "StorageUri \<Rightarrow> json" where
  "StorageUri_serialize u = (case u of StorageUri s \<Rightarrow> JStr s)"

definition StorageUri_deserialize :: "(string \<Rightarrow> string option) \<Rightarrow> json \<Rightarrow> StorageUri option" where
  "StorageUri_deserialize url_norm j = map_option StorageUri (Option.bind (dec_string j) url_norm)"

record Volume =
  vol_id :: ulid
  vol_name :: string
  vol_size :: u64
  vol_uri :: StorageUri

definition Volume_default :: Volume where
  "Volume_default = \<lparr>vol_id = 0, vol_name = [], vol_size = 0, vol_uri = StorageUri_default\<rparr>"

definition Volume_serialize :: "(ulid \<Rightarrow> string) \<Rightarrow> Volume \<Rightarrow> json" where
  "Volume_serialize to_str v = JObj
     [(''id'', enc_ulid to_str (vol_id v)), (''name'', JStr (vol_name v)), (''size'', bytesize_serialize (vol_size v)),
      (''uri'', StorageUri_serialize (vol_uri v))]"

definition Volume_deserialize :: "(string \<Rightarrow> ulid option) \<Rightarrow> (string \<Rightarrow> string option) \<Rightarrow> json \<Rightarrow> Volume option" where
  "Volume_deserialize parse url_norm j = do {
     fs \<leftarrow> struct_fields False [''id'', ''name'', ''size'', ''uri''] j;
     i \<leftarrow> field_req ''id'' (dec_ulid parse) fs;
     n \<leftarrow> field_req ''name'' dec_string fs;
     s \<leftarrow> field_req ''size'' bytesize_deserialize fs;
     u \<leftarrow> field_req ''uri'' (StorageUri_deserialize url_norm) fs;
     Some \<lparr>vol_id = i, vol_name = n, vol_size = s, vol_uri = u\<rparr> }"

datatype VolumeStatus = VolumeAvailable | VolumeAttached string | VolumeProvisioning | VolumeError string

fun VolumeStatus_serialize :: "VolumeStatus \<Rightarrow> json" where
  "VolumeStatus_serialize VolumeAvailable = JStr ''Available''"
| "VolumeStatus_serialize (VolumeAttached vm) = JObj [(''Attached'', JStr vm)]"
| "VolumeStatus_serialize VolumeProvisioning = JStr ''Provisioning''"
| "VolumeStatus_serialize (VolumeError e) = JObj [(''Error'', JStr e)]"

record VolumeInfo =
  info_volume :: Volume
  info_volume_status :: VolumeStatus

definition VolumeInfo_default :: VolumeInfo where
  "VolumeInfo_default = \<lparr>info_volume = Volume_default, info_volume_status = VolumeProvisioning\<rparr>"

definition VolumeInfo_serialize :: "(ulid \<Rightarrow> string) \<Rightarrow> VolumeInfo \<Rightarrow> json" where
  "VolumeInfo_serialize to_str v = JObj
     [(''data'', Volume_serialize to_str (info_volume v)),
      (''status'', VolumeStatus_serialize (info_volume_status v))]"

section \<open>Nodes\<close>

datatype NodeStatus = NodeStatus ieee   \<comment> \<open>CPU usage\<close>

record Node =
  node_hostname :: string
  total_vcpus :: u32
  total_memory :: u64
  node_status :: NodeStatus

definition Node_default :: Node where
  "Node_default = \<lparr>node_hostname = [], total_vcpus = 0, total_memory = 0, node_status = NodeStatus (Fin 0)\<rparr>"

text \<open>A float that is not finite is written as null.\<close>

definition enc_float :: "ieee \<Rightarrow> json" where
  "enc_float x = (if is_finite x then JFloat x else JNull)"

definition NodeStatus_serialize :: "NodeStatus \<Rightarrow> json" where
  "NodeStatus_serialize s = (case s of NodeStatus u \<Rightarrow> JObj [(''cpu_usage'', enc_float u)])"

definition Node_serialize :: "Node \<Rightarrow> json" where
  "Node_serialize n = JObj
     [(''hostname'', JStr (node_hostname n)), (''total_vcpus'', enc_uint (total_vcpus n)),
      (''total_memory'', bytesize_serialize (total_memory n)), (''status'', NodeStatus_serialize (node_status n))]"

section \<open>Requests and replies for VMs\<close>

text \<open>\<open>CreateVMRequest\<close> has the one field \<open>vm\<close>; its error is the one of the manifest.\<close>

definition CreateVMRequest_serialize :: "(ulid \<Rightarrow> string) \<Rightarrow> VmManifest \<Rightarrow> json" where
  "CreateVMRequest_serialize to_str vm = JObj [(''vm'', VmManifest_serialize to_str vm)]"

definition CreateVMRequest_deserialize :: "(string \<Rightarrow> ulid option) \<Rightarrow> json \<Rightarrow> VmManifest option" where
  "CreateVMRequest_deserialize parse j = do {
     fs \<leftarrow> struct_fields False [''vm''] j;
     field_req ''vm'' (\<lambda>v. case VmManifest_from_json parse v of Inl _ \<Rightarrow> None | Inr m \<Rightarrow> Some m) fs }"

definition VMListResponse_serialize :: "(ulid \<Rightarrow> string) \<Rightarrow> VmId list \<Rightarrow> json" where
  "VMListResponse_serialize to_str vms = JObj [(''vms'', enc_list (VmId_serialize to_str) vms)]"

definition VMListResponse_deserialize :: "(string \<Rightarrow> ulid option) \<Rightarrow> json \<Rightarrow> VmId list option" where
  "VMListResponse_deserialize parse j = do {
     fs \<leftarrow> struct_fields False [''vms''] j;
     field_req ''vms'' (dec_list (VmId_deserialize parse)) fs }"

section \<open>Virtual machines\<close>

record VMData =
  data_id :: ulid
  data_name :: string
  data_vcpus :: u32
  data_max_vcpus :: "u32 option"
  data_memory :: u64
  data_image :: string
  data_volumes :: "Volume list"
  data_networks :: "string list"

definition VMData_serialize :: "(ulid \<Rightarrow> string) \<Rightarrow> VMData \<Rightarrow> json" where
  "VMData_serialize to_str d = JObj
     [(''id'', enc_ulid to_str (data_id d)), (''name'', JStr (data_name d)), (''vcpus'', enc_uint (data_vcpus d)),
      (''max_vcpus'', enc_option enc_uint (data_max_vcpus d)), (''memory'', bytesize_serialize (data_memory d)),
      (''image'', JStr (data_image d)), (''volumes'', enc_list (Volume_serialize to_str) (data_volumes d)),
      (''networks'', enc_list JStr (data_networks d))]"

definition VMData_deserialize :: "(string \<Rightarrow> ulid option) \<Rightarrow> (string \<Rightarrow> string option) \<Rightarrow> json \<Rightarrow> VMData option" where
  "VMData_deserialize parse url_norm j = do {
     fs \<leftarrow> struct_fields False [''id'', ''name'', ''vcpus'', ''max_vcpus'', ''memory'', ''image'', ''volumes'',
                               ''networks''] j;
     i \<leftarrow> field_req ''id'' (dec_ulid parse) fs;
     n \<leftarrow> field_req ''name'' dec_string fs;
     c \<leftarrow> field_req ''vcpus'' dec_uint fs;
     mx \<leftarrow> field_option ''max_vcpus'' dec_uint fs;
     mem \<leftarrow> field_req ''memory'' bytesize_deserialize fs;
     img \<leftarrow> field_req ''image'' dec_string fs;
     vs \<leftarrow> field_default ''volumes'' [] (dec_list (Volume_deserialize parse url_norm)) fs;
     ns \<leftarrow> field_default ''networks'' [] (dec_list dec_string) fs;
     Some \<lparr>data_id = i, data_name = n, data_vcpus = c, data_max_vcpus = mx, data_memory = mem, data_image = img,
           data_volumes = vs, data_networks = ns\<rparr> }"

record UpdateVMRequest =
  update_name :: "string option"
  update_vcpus :: "u32 option"
  update_max_vcpus :: "u32 option"
  update_memory :: "u64 option"
  update_volumes :: "Volume list"

definition UpdateVMRequest_serialize :: "(ulid \<Rightarrow> string) \<Rightarrow> UpdateVMRequest \<Rightarrow> json" where
  "UpdateVMRequest_serialize to_str r = JObj
     [(''name'', enc_option JStr (update_name r)), (''vcpus'', enc_option enc_uint (update_vcpus r)),
      (''max_vcpus'', enc_option enc_uint (update_max_vcpus r)),
      (''memory'', opt_bytesize_serialize (update_memory r)),
      (''volumes'', enc_list (Volume_serialize to_str) (update_volumes r))]"

text \<open>A field with a reader of its own has no implicit default: \<open>memory\<close> must be present.\<close>

definition UpdateVMRequest_deserialize ::
  "(string \<Rightarrow> ulid option) \<Rightarrow> (string \<Rightarrow> string option) \<Rightarrow> json \<Rightarrow> UpdateVMRequest option" where
  "UpdateVMRequest_deserialize parse url_norm j = do {
     fs \<leftarrow> struct_fields False [''name'', ''vcpus'', ''max_vcpus'', ''memory'', ''volumes''] j;
     n \<leftarrow> field_option ''name'' dec_string fs;
     c \<leftarrow> field_option ''vcpus'' dec_uint fs;
     mx \<leftarrow> field_option ''max_vcpus'' dec_uint fs;
     mem \<leftarrow> field_req ''memory'' opt_bytesize_deserialize fs;
     vs \<leftarrow> field_default ''volumes'' [] (dec_list (Volume_deserialize parse url_norm)) fs;
     Some \<lparr>update_name = n, update_vcpus = c, update_max_vcpus = mx, update_memory = mem, update_volumes = vs\<rparr> }"

datatype VMStatus = VmRunning | VmStopped | VmProvisioning | VmError string

fun VMStatus_serialize :: "VMStatus \<Rightarrow> json" where
  "VMStatus_serialize VmRunning = JStr ''Running''"
| "VMStatus_serialize VmStopped = JStr ''Stopped''"
| "VMStatus_serialize VmProvisioning = JStr ''Provisioning''"
| "VMStatus_serialize (VmError e) = JObj [(''Error'', JStr e)]"

definition VMStatus_deserialize :: "json \<Rightarrow> VMStatus option" where
  "VMStatus_deserialize j =
     (case j of
        JObj [(s, v)] \<Rightarrow>
          if s = ''Error'' then map_option VmError (dec_string v)
          else dec_unit_enum [(''Running'', VmRunning), (''Stopped'', VmStopped), (''Provisioning'', VmProvisioning)] j
      | _ \<Rightarrow> dec_unit_enum [(''Running'', VmRunning), (''Stopped'', VmStopped), (''Provisioning'', VmProvisioning)] j)"

definition ObjectMetadata_serialize :: "ObjectMetadata \<Rightarrow> json" where
  "ObjectMetadata_serialize m = JObj
     [(''labels'', enc_btree (obj_labels m)), (''annotations'', enc_btree (obj_annotations m))]"

definition ObjectMetadata_deserialize :: "json \<Rightarrow> ObjectMetadata option" where
  "ObjectMetadata_deserialize j = do {
     fs \<leftarrow> struct_fields False [''labels'', ''annotations''] j;
     ls \<leftarrow> field_req ''labels'' dec_btree fs;
     as \<leftarrow> field_req ''annotations'' dec_btree fs;
     Some \<lparr>obj_labels = ls, obj_annotations = as\<rparr> }"

text \<open>The API has affinity rules of its own, with the fields of the manifest's but without renaming: the
  variants are written as they are spelled in the source.\<close>

fun api_AffinityStrictness_serialize :: "AffinityStrictness \<Rightarrow> json" where
  "api_AffinityStrictness_serialize Required = JStr ''Required''"
| "api_AffinityStrictness_serialize (Preferred w) = JObj [(''Preferred'', JObj [(''weight'', JInt w)])]"

definition api_AffinityStrictness_deserialize :: "json \<Rightarrow> AffinityStrictness option" where
  "api_AffinityStrictness_deserialize j =
     (case j of
        JStr s \<Rightarrow> if s = ''Required'' then Some Required else None
      | JObj [(s, v)] \<Rightarrow>
          if s = ''Required'' then (if v = JNull then Some Required else None)
          else if s = ''Preferred'' then do {
            fs \<leftarrow> struct_fields False [''weight''] v;
            w \<leftarrow> field_req ''weight'' dec_i64 fs;
            Some (Preferred w) }
          else None
      | _ \<Rightarrow> None)"

fun api_AffinityType_serialize :: "AffinityType \<Rightarrow> json" where
  "api_AffinityType_serialize AffinityVirtualMachine = JStr ''VirtualMachine''"
| "api_AffinityType_serialize AffinityAgent = JStr ''Agent''"

definition api_AffinityType_deserialize :: "json \<Rightarrow> AffinityType option" where
  "api_AffinityType_deserialize = dec_unit_enum
     [(''VirtualMachine'', AffinityVirtualMachine), (''Agent'', AffinityAgent)]"

fun api_MetadataTable_serialize :: "MetadataTable \<Rightarrow> json" where
  "api_MetadataTable_serialize Label = JStr ''Label''"
| "api_MetadataTable_serialize Annotation = JStr ''Annotation''"

definition api_MetadataTable_deserialize :: "json \<Rightarrow> MetadataTable option" where
  "api_MetadataTable_deserialize = dec_unit_enum [(''Label'', Label), (''Annotation'', Annotation)]"

fun api_Operator_serialize :: "Operator \<Rightarrow> json" where
  "api_Operator_serialize In = JStr ''In''"
| "api_Operator_serialize NotIn = JStr ''NotIn''"
| "api_Operator_serialize Lt = JStr ''Lt''"
| "api_Operator_serialize Gt = JStr ''Gt''"

definition api_Operator_deserialize :: "json \<Rightarrow> Operator option" where
  "api_Operator_deserialize = dec_unit_enum [(''In'', In), (''NotIn'', NotIn), (''Lt'', Lt), (''Gt'', Gt)]"

definition api_AffinityRequirement_serialize :: "AffinityRequirement \<Rightarrow> json" where
  "api_AffinityRequirement_serialize r = JObj
     [(''key'', JStr (key r)), (''table'', api_MetadataTable_serialize (table r)),
      (''operator'', api_Operator_serialize (operator r)), (''values'', enc_list JStr (values r))]"

definition api_AffinityRequirement_deserialize :: "json \<Rightarrow> AffinityRequirement option" where
  "api_AffinityRequirement_deserialize j = do {
     fs \<leftarrow> struct_fields False [''key'', ''table'', ''operator'', ''values''] j;
     k \<leftarrow> field_req ''key'' dec_string fs;
     t \<leftarrow> field_req ''table'' api_MetadataTable_deserialize fs;
     p \<leftarrow> field_req ''operator'' api_Operator_deserialize fs;
     vs \<leftarrow> field_req ''values'' (dec_list dec_string) fs;
     Some \<lparr>key = k, table = t, operator = p, values = vs\<rparr> }"

definition api_AffinityRule_serialize :: "AffinityRule \<Rightarrow> json" where
  "api_AffinityRule_serialize r = JObj
     [(''strictness'', api_AffinityStrictness_serialize (strictness r)),
      (''affinity_type'', api_AffinityType_serialize (affinity_type r)), (''inverse'', JBool (inverse r)),
      (''requirements'', enc_list api_AffinityRequirement_serialize (requirements r))]"

definition api_AffinityRule_deserialize :: "json \<Rightarrow> AffinityRule option" where
  "api_AffinityRule_deserialize j = do {
     fs \<leftarrow> struct_fields False [''strictness'', ''affinity_type'', ''inverse'', ''requirements''] j;
     s \<leftarrow> field_req ''strictness'' api_AffinityStrictness_deserialize fs;
     t \<leftarrow> field_req ''affinity_type'' api_AffinityType_deserialize fs;
     i \<leftarrow> field_default ''inverse'' False dec_bool fs;
     rs \<leftarrow> field_req ''requirements'' (dec_list api_AffinityRequirement_deserialize) fs;
     Some \<lparr>strictness = s, affinity_type = t, inverse = i, requirements = rs\<rparr> }"

record VirtualMachine =
  machine_data :: VMData
  machine_node :: "string option"
  machine_status :: VMStatus
  machine_metadata :: "ObjectMetadata option"
  machine_affinity :: "AffinityRule list option"

definition VirtualMachine_serialize :: "(ulid \<Rightarrow> string) \<Rightarrow> VirtualMachine \<Rightarrow> json" where
  "VirtualMachine_serialize to_str m = JObj
     [(''data'', VMData_serialize to_str (machine_data m)), (''node'', enc_option JStr (machine_node m)),
      (''status'', VMStatus_serialize (machine_status m)),
      (''metadata'', enc_option ObjectMetadata_serialize (machine_metadata m)),
      (''affinity'', enc_option (enc_list api_AffinityRule_serialize) (machine_affinity m))]"

definition VirtualMachine_deserialize ::
  "(string \<Rightarrow> ulid option) \<Rightarrow> (string \<Rightarrow> string option) \<Rightarrow> json \<Rightarrow> VirtualMachine option" where
  "VirtualMachine_deserialize parse url_norm j = do {
     fs \<leftarrow> struct_fields False [''data'', ''node'', ''status'', ''metadata'', ''affinity''] j;
     d \<leftarrow> field_req ''data'' (VMData_deserialize parse url_norm) fs;
     n \<leftarrow> field_option ''node'' dec_string fs;
     s \<leftarrow> field_req ''status'' VMStatus_deserialize fs;
     m \<leftarrow> field_option ''metadata'' ObjectMetadata_deserialize fs;
     rules \<leftarrow> field_option ''affinity'' (dec_list api_AffinityRule_deserialize) fs;
     Some \<lparr>machine_data = d, machine_node = n, machine_status = s, machine_metadata = m,
           machine_affinity = rules\<rparr> }"

section \<open>Every type is read back from what was written\<close>

lemma CreateVMRequest_read_back:
  assumes "\<And>u. parse (to_str u) = Some u" and "manifest_wf m" and "manifest_contract m"
  shows "CreateVMRequest_deserialize parse (CreateVMRequest_serialize to_str m) = Some m"
  using VmManifest_read_back [of parse to_str m, OF assms(1)] assms(2,3)
  by (simp add: CreateVMRequest_deserialize_def CreateVMRequest_serialize_def struct_fields_def field_req_def)

lemma CreateVMRequest_valid:
  assumes "CreateVMRequest_deserialize parse j = Some m"
  shows "manifest_contract m"
proof -
  have accepted: "(case r of Inl _ \<Rightarrow> None | Inr x \<Rightarrow> Some x) = Some m \<longleftrightarrow> r = Inr m" for r :: "'e + VmManifest"
    by (cases r) simp_all
  from assms obtain v where "VmManifest_from_json parse v = Inr m"
    by (auto simp: CreateVMRequest_deserialize_def field_req_def bind_eq_Some_conv accepted)
  then show ?thesis
    by (simp add: VmManifest_from_json_ok)
qed

lemma VmId_codec:
  assumes "\<And>u. parse (to_str u) = Some u"
  shows "json_codec (VmId_serialize to_str) (VmId_deserialize parse) (\<lambda>_. True)"
  using json_codec.dec_enc [OF ulid_codec [of parse to_str, OF assms], OF TrueI]
  by unfold_locales (auto simp: VmId_serialize_def VmId_deserialize_def enc_ulid_def split: VmId.splits)

text \<open>A URL that a reader accepted denotes itself: \<open>url_norm\<close> is idempotent on its results.\<close>

definition uri_ok :: "(string \<Rightarrow> string option) \<Rightarrow> StorageUri \<Rightarrow> bool" where
  "uri_ok url_norm u \<longleftrightarrow> (case u of StorageUri s \<Rightarrow> url_norm s = Some s)"

definition Volume_ok :: "(string \<Rightarrow> string option) \<Rightarrow> Volume \<Rightarrow> bool" where
  "Volume_ok url_norm v \<longleftrightarrow> uri_ok url_norm (vol_uri v)"

lemma StorageUri_codec:
  assumes "\<And>s u. url_norm s = Some u \<Longrightarrow> url_norm u = Some u"
  shows "json_codec StorageUri_serialize (StorageUri_deserialize url_norm) (uri_ok url_norm)"
  using assms
  by unfold_locales (auto simp: StorageUri_serialize_def StorageUri_deserialize_def uri_ok_def dec_string_def
      bind_eq_Some_conv split: StorageUri.splits)

lemma Volume_codec:
  assumes "\<And>u. parse (to_str u) = Some u" and "\<And>s u. url_norm s = Some u \<Longrightarrow> url_norm u = Some u"
  shows "json_codec (Volume_serialize to_str) (Volume_deserialize parse url_norm) (Volume_ok url_norm)"
proof
  note uri = StorageUri_codec [of url_norm, OF assms(2)]
  note ulid = json_codec.dec_enc [OF ulid_codec [of parse to_str, OF assms(1)], OF TrueI]
  show "Volume_deserialize parse url_norm (Volume_serialize to_str v) = Some v" if "Volume_ok url_norm v" for v
    using that by (simp add: Volume_serialize_def Volume_deserialize_def Volume_ok_def struct_simps value_reads ulid
        bytesize_serialize_def bytesize_deserialize_def json_codec.dec_enc [OF uri])
  show "Volume_ok url_norm v" if "Volume_deserialize parse url_norm j = Some v" for j v
    using that by (auto simp: Volume_deserialize_def Volume_ok_def field_req_def bind_eq_Some_conv
        json_codec.dec_ok [OF uri])
qed (simp add: Volume_serialize_def)

interpretation VMStatus_json: json_codec VMStatus_serialize VMStatus_deserialize "\<lambda>_. True"
proof
  show "VMStatus_deserialize (VMStatus_serialize s) = Some s" for s
    by (cases s) (simp_all add: VMStatus_deserialize_def dec_unit_enum_def dec_string_def)
  show "VMStatus_serialize s \<noteq> JNull" for s
    by (cases s) simp_all
qed simp

definition ObjectMetadata_ok :: "ObjectMetadata \<Rightarrow> bool" where
  "ObjectMetadata_ok m \<longleftrightarrow> btree_wf (obj_labels m) \<and> btree_wf (obj_annotations m)"

interpretation ObjectMetadata_json: json_codec ObjectMetadata_serialize ObjectMetadata_deserialize ObjectMetadata_ok
proof
  show "ObjectMetadata_deserialize (ObjectMetadata_serialize m) = Some m" if "ObjectMetadata_ok m" for m
    using that by (simp add: ObjectMetadata_serialize_def ObjectMetadata_deserialize_def ObjectMetadata_ok_def
        struct_simps value_reads)
  show "ObjectMetadata_ok m" if "ObjectMetadata_deserialize j = Some m" for j m
    using that by (auto simp: ObjectMetadata_deserialize_def ObjectMetadata_ok_def field_req_def bind_eq_Some_conv
        btree_json.dec_ok)
qed (simp add: ObjectMetadata_serialize_def)

definition VMData_ok :: "(string \<Rightarrow> string option) \<Rightarrow> VMData \<Rightarrow> bool" where
  "VMData_ok url_norm d \<longleftrightarrow> list_all (Volume_ok url_norm) (data_volumes d)"

lemma VMData_codec:
  assumes "\<And>u. parse (to_str u) = Some u" and "\<And>s u. url_norm s = Some u \<Longrightarrow> url_norm u = Some u"
  shows "json_codec (VMData_serialize to_str) (VMData_deserialize parse url_norm) (VMData_ok url_norm)"
proof
  note volume = Volume_codec [of parse to_str url_norm, OF assms]
  note ulid = json_codec.dec_enc [OF ulid_codec [of parse to_str, OF assms(1)], OF TrueI]
  have opt: "dec_option dec_uint (enc_option enc_uint x) = Some x" for x :: "u32 option"
    by (rule u32_json.dec_option_enc) (simp add: option.pred_True)
  show "VMData_deserialize parse url_norm (VMData_serialize to_str d) = Some d" if "VMData_ok url_norm d" for d
    using that by (simp add: VMData_serialize_def VMData_deserialize_def VMData_ok_def struct_simps value_reads ulid opt
        bytesize_serialize_def bytesize_deserialize_def json_codec.dec_list_enc [OF volume])
  show "VMData_ok url_norm d" if "VMData_deserialize parse url_norm j = Some d" for j d
    using that by (auto simp: VMData_deserialize_def VMData_ok_def field_default_def bind_eq_Some_conv
        json_codec.dec_list_ok [OF volume] split: option.splits)
qed (simp add: VMData_serialize_def)

definition UpdateVMRequest_ok :: "(string \<Rightarrow> string option) \<Rightarrow> UpdateVMRequest \<Rightarrow> bool" where
  "UpdateVMRequest_ok url_norm r \<longleftrightarrow> list_all (Volume_ok url_norm) (update_volumes r)"

lemma UpdateVMRequest_codec:
  assumes "\<And>u. parse (to_str u) = Some u" and "\<And>s u. url_norm s = Some u \<Longrightarrow> url_norm u = Some u"
  shows "json_codec (UpdateVMRequest_serialize to_str) (UpdateVMRequest_deserialize parse url_norm)
    (UpdateVMRequest_ok url_norm)"
proof
  note volume = Volume_codec [of parse to_str url_norm, OF assms]
  have opt: "dec_option dec_uint (enc_option enc_uint x) = Some x" "dec_option dec_string (enc_option JStr s) = Some s"
    "dec_option dec_uint (enc_option enc_uint y) = Some y" for x :: "u32 option" and y :: "u64 option" and s
    by (simp_all add: option.pred_True u32_json.dec_option_enc string_json.dec_option_enc u64_json.dec_option_enc)
  show "UpdateVMRequest_deserialize parse url_norm (UpdateVMRequest_serialize to_str r) = Some r"
    if "UpdateVMRequest_ok url_norm r" for r
    using that by (simp add: UpdateVMRequest_serialize_def UpdateVMRequest_deserialize_def UpdateVMRequest_ok_def
        struct_simps opt opt_bytesize_serialize_def opt_bytesize_deserialize_def json_codec.dec_list_enc [OF volume])
  show "UpdateVMRequest_ok url_norm r" if "UpdateVMRequest_deserialize parse url_norm j = Some r" for j r
    using that by (auto simp: UpdateVMRequest_deserialize_def UpdateVMRequest_ok_def field_default_def bind_eq_Some_conv
        json_codec.dec_list_ok [OF volume] split: option.splits)
qed (simp add: UpdateVMRequest_serialize_def)

text \<open>An update that leaves the memory out is refused, although its type is optional.\<close>

lemma update_without_memory_refused:
  "map_of es ''memory'' = None \<Longrightarrow> UpdateVMRequest_deserialize parse url_norm (JObj es) = None"
  by (auto simp: UpdateVMRequest_deserialize_def struct_fields_def field_req_def bind_eq_None_conv)

subsection \<open>Affinity rules of the API\<close>

interpretation api_AffinityStrictness_json:
  json_codec api_AffinityStrictness_serialize api_AffinityStrictness_deserialize AffinityStrictness_wf
proof
  show "api_AffinityStrictness_deserialize (api_AffinityStrictness_serialize s) = Some s"
    if "AffinityStrictness_wf s" for s
    using that by (cases s) (simp_all add: api_AffinityStrictness_deserialize_def struct_simps value_reads)
  show "AffinityStrictness_wf s" if "api_AffinityStrictness_deserialize j = Some s" for j s
    using that by (auto simp: api_AffinityStrictness_deserialize_def field_req_def bind_eq_Some_conv i64_json.dec_ok
        split: json.splits list.splits prod.splits if_splits)
  show "api_AffinityStrictness_serialize s \<noteq> JNull" for s
    by (cases s) simp_all
qed

lemma api_enum_reads:
  "api_AffinityType_deserialize (api_AffinityType_serialize t) = Some t"
  "api_MetadataTable_deserialize (api_MetadataTable_serialize b) = Some b"
  "api_Operator_deserialize (api_Operator_serialize p) = Some p"
proof -
  show "api_AffinityType_deserialize (api_AffinityType_serialize t) = Some t"
    by (cases t) (simp_all add: api_AffinityType_deserialize_def dec_unit_enum_def)
  show "api_MetadataTable_deserialize (api_MetadataTable_serialize b) = Some b"
    by (cases b) (simp_all add: api_MetadataTable_deserialize_def dec_unit_enum_def)
  show "api_Operator_deserialize (api_Operator_serialize p) = Some p"
    by (cases p) (simp_all add: api_Operator_deserialize_def dec_unit_enum_def)
qed

interpretation api_AffinityRequirement_json:
  json_codec api_AffinityRequirement_serialize api_AffinityRequirement_deserialize "\<lambda>_. True"
proof
  show "api_AffinityRequirement_deserialize (api_AffinityRequirement_serialize r) = Some r" for r
    by (simp add: api_AffinityRequirement_serialize_def api_AffinityRequirement_deserialize_def struct_simps value_reads
        api_enum_reads)
qed (simp_all add: api_AffinityRequirement_serialize_def)

interpretation api_AffinityRule_json:
  json_codec api_AffinityRule_serialize api_AffinityRule_deserialize AffinityRule_wf
proof
  show "api_AffinityRule_deserialize (api_AffinityRule_serialize r) = Some r" if "AffinityRule_wf r" for r
    using that by (simp add: api_AffinityRule_serialize_def api_AffinityRule_deserialize_def AffinityRule_wf_def
        struct_simps value_reads api_enum_reads api_AffinityStrictness_json.dec_enc
        api_AffinityRequirement_json.dec_list_enc)
  show "AffinityRule_wf r" if "api_AffinityRule_deserialize j = Some r" for j r
    using that by (auto simp: api_AffinityRule_deserialize_def AffinityRule_wf_def field_req_def bind_eq_Some_conv
        api_AffinityStrictness_json.dec_ok)
qed (simp add: api_AffinityRule_serialize_def)

text \<open>The two spellings exclude each other: no rule written for the API is read by a manifest.\<close>

lemma api_rule_refused_by_manifest: "AffinityRule_deserialize (api_AffinityRule_serialize r) = None"
proof -
  have "AffinityStrictness_deserialize (api_AffinityStrictness_serialize s) = None" for s
    by (cases s) (simp_all add: AffinityStrictness_deserialize_def)
  then show ?thesis
    by (simp add: AffinityRule_deserialize_def api_AffinityRule_serialize_def struct_fields_def field_req_def)
qed

definition VirtualMachine_ok :: "(string \<Rightarrow> string option) \<Rightarrow> VirtualMachine \<Rightarrow> bool" where
  "VirtualMachine_ok url_norm m \<longleftrightarrow>
     VMData_ok url_norm (machine_data m) \<and> pred_option ObjectMetadata_ok (machine_metadata m) \<and>
     pred_option (list_all AffinityRule_wf) (machine_affinity m)"

lemma VirtualMachine_codec:
  assumes "\<And>u. parse (to_str u) = Some u" and "\<And>s u. url_norm s = Some u \<Longrightarrow> url_norm u = Some u"
  shows "json_codec (VirtualMachine_serialize to_str) (VirtualMachine_deserialize parse url_norm)
    (VirtualMachine_ok url_norm)"
proof
  note data = VMData_codec [of parse to_str url_norm, OF assms]
  note rules = json_codec.dec_option_enc [OF api_AffinityRule_json.list_codec]
    json_codec.dec_option_ok [OF api_AffinityRule_json.list_codec]
  have node: "dec_option dec_string (enc_option JStr s) = Some s" for s
    by (simp add: option.pred_True string_json.dec_option_enc)
  show "VirtualMachine_deserialize parse url_norm (VirtualMachine_serialize to_str m) = Some m"
    if "VirtualMachine_ok url_norm m" for m
    using that by (simp add: VirtualMachine_serialize_def VirtualMachine_deserialize_def VirtualMachine_ok_def
        struct_simps node json_codec.dec_enc [OF data] VMStatus_json.dec_enc ObjectMetadata_json.dec_option_enc rules)
  show "VirtualMachine_ok url_norm m" if "VirtualMachine_deserialize parse url_norm j = Some m" for j m
    using that by (auto simp: VirtualMachine_deserialize_def VirtualMachine_ok_def field_defs bind_eq_Some_conv
        json_codec.dec_ok [OF data] ObjectMetadata_json.dec_option_ok rules split: option.splits if_splits)
qed (simp add: VirtualMachine_serialize_def)

end
