(* ===== verification/Storage_Text.thy ===== *)
theory Storage_Text
  imports Storage
begin

text \<open>
  The texts through which storage drivers meet the host: iSCSI device paths are read back to the target
  they were written for, and \<open>rbd device list\<close> tables to the mappings they show.
\<close>

section \<open>Paths\<close>

lemma split_slash_nonempty [simp]: "split_slash s \<noteq> []"
  by (cases s) (auto split: list.splits)

lemma split_slash_word: "CHR ''/'' \<notin> set w \<Longrightarrow> split_slash w = [w]"
  by (induction w) auto

lemma split_slash_append: "split_slash (a @ CHR ''/'' # b) = split_slash a @ split_slash b"
proof (induction a)
  case (Cons c a)
  then show ?case by (cases "split_slash a") auto
qed simp

lemma split_slash_no_slash: "w \<in> set (split_slash s) \<Longrightarrow> CHR ''/'' \<notin> set w"
proof (induction s arbitrary: w)
  case (Cons c s)
  then show ?case by (cases "split_slash s") (auto split: if_splits)
qed simp

lemma file_name_append:
  assumes "CHR ''/'' \<notin> set w" and "w \<noteq> []" and "w \<noteq> ''.''" and "w \<noteq> ''..''"
  shows "file_name (d @ ''/'' @ w) = w"
  using assms by (simp add: file_name_def split_slash_append split_slash_word Let_def)

section \<open>iSCSI device paths\<close>

text \<open>An occurrence of the separator that starts inside the host would need its first six characters
  there, unless the host ends within it.\<close>

lemma str_contains_iff: "str_contains p s \<longleftrightarrow> (\<exists>i \<le> length s. starts_with p (drop i s))"
  unfolding str_contains_def list_ex_iff set_upt by (auto simp: less_Suc_eq_le simp del: drop_all)

lemma iscsi_overlap:
  assumes "starts_with ''-iscsi-'' (t @ ''-iscsi-'' @ rest)" and "t \<noteq> []"
  shows "starts_with ''-iscsi'' t"
proof (cases "6 \<le> length t")
  case True
  from assms(1) obtain r where "t @ ''-iscsi-'' @ rest = ''-iscsi-'' @ r" unfolding starts_with_iff by blast
  then have "take 6 (t @ ''-iscsi-'' @ rest) = ''-iscsi''" by (simp only:) simp
  with True show ?thesis by (simp add: starts_with_def numeral_eq_Suc)
next
  case False
  moreover have "0 < length t" using assms(2) by blast
  ultimately have "length t = 1 \<or> length t = 2 \<or> length t = 3 \<or> length t = 4 \<or> length t = 5" by linarith
  with assms(1) show ?thesis by (auto simp: starts_with_Cons length_Suc_conv numeral_eq_Suc)
qed

lemma iscsi_separator_first:
  assumes "\<not> str_contains ''-iscsi'' host" and "i < length host"
  shows "\<not> starts_with ''-iscsi-'' (drop i (host @ ''-iscsi-'' @ rest))"
proof
  assume "starts_with ''-iscsi-'' (drop i (host @ ''-iscsi-'' @ rest))"
  with assms(2) have "starts_with ''-iscsi'' (drop i host)" by (intro iscsi_overlap) simp_all
  with assms show False by (auto simp: str_contains_iff)
qed

lemma digits_no_separator:
  assumes "list_all is_ascii_digit ds" and "0 < i" and "i < length (''-lun-'' @ ds)"
  shows "\<not> starts_with ''-lun-'' (drop i (''-lun-'' @ ds))"
proof (cases "i < 5")
  case True
  with assms(2) have "i \<in> {1, 2, 3, 4}" by auto
  with assms(1) show ?thesis
    by (cases ds) (auto simp: starts_with_Cons is_ascii_digit_def starts_with_def)
next
  case False
  then have "i = (i - 5) + length ''-lun-''" by simp
  then have "drop i (''-lun-'' @ ds) = drop (i - 5) ds"
    by (metis append_eq_conv_conj drop_drop)
  moreover have "list_all is_ascii_digit (drop (i - 5) ds)"
    using assms(1) by (auto simp: list_all_iff dest: in_set_dropD)
  ultimately show ?thesis
    by (cases "drop (i - 5) ds") (auto simp: starts_with_Cons is_ascii_digit_def starts_with_def)
qed

lemma digit_not_slash: "list_all is_ascii_digit ds \<Longrightarrow> CHR ''/'' \<notin> set ds"
  by (auto simp: list_all_iff is_ascii_digit_def)

lemma iscsi_path_roundtrip:
  assumes "CHR ''/'' \<notin> set (iscsi_host t)" and "CHR ''/'' \<notin> set (iqn t)" and "\<not> str_contains ''-iscsi'' (iscsi_host t)"
  shows "ISCSITarget_try_from (to_device_path t) = Inr t"
proof -
  let ?ds = "show_nat (unat (lun t))"
  let ?w = "''ip-'' @ iscsi_host t @ ''-iscsi-'' @ iqn t @ ''-lun-'' @ ?ds"
  have "CHR ''/'' \<notin> set ?w"
    using assms(1,2) digit_not_slash [OF show_nat_digits] by auto
  then have "file_name (''/dev/disk/by-path'' @ ''/'' @ ?w) = ?w" by (rule file_name_append) simp_all
  then have name: "file_name (to_device_path t) = ?w" by (simp add: to_device_path_def)
  have "split_once ''-iscsi-'' (iscsi_host t @ ''-iscsi-'' @ iqn t @ ''-lun-'' @ ?ds) =
      Some (iscsi_host t, iqn t @ ''-lun-'' @ ?ds)"
    by (rule split_once_first) (rule iscsi_separator_first [OF assms(3)])
  moreover have "rsplit_once ''-lun-'' (iqn t @ ''-lun-'' @ ?ds) = Some (iqn t, ?ds)"
    by (rule rsplit_once_last) (use digits_no_separator [OF show_nat_digits] in auto)
  moreover have "parse_u32_or_0 ?ds = lun t" by (simp add: parse_u32_or_0_def parse_u32_show)
  moreover have "strip_prefix ''ip-'' ?w = Some (iscsi_host t @ ''-iscsi-'' @ iqn t @ ''-lun-'' @ ?ds)"
    by (rule strip_prefix_append)
  ultimately show ?thesis
    unfolding ISCSITarget_try_from_def name by simp
qed

lemma str_contains_infix: "str_contains p s \<longleftrightarrow> (\<exists>x y. s = x @ p @ y)"
proof
  assume "str_contains p s"
  then obtain i where "starts_with p (drop i s)" by (auto simp: str_contains_iff)
  then obtain y where "drop i s = p @ y" by (auto simp: starts_with_iff)
  then have "s = take i s @ p @ y" by (metis append_take_drop_id)
  then show "\<exists>x y. s = x @ p @ y" by blast
next
  assume "\<exists>x y. s = x @ p @ y"
  then obtain x y where s: "s = x @ p @ y" by blast
  then have "length x \<le> length s" "starts_with p (drop (length x) s)" by simp_all
  then show "str_contains p s" by (auto simp: str_contains_iff)
qed

lemma str_contains_separated:
  assumes "str_contains p (a @ c # b)" and "c \<notin> set p"
  shows "str_contains p a \<or> str_contains p b"
proof -
  from assms(1) obtain x y where "a @ c # b = x @ p @ y" by (auto simp: str_contains_infix)
  then consider z where "x = a @ z" "c # b = z @ p @ y" | z where "a = x @ z" "p @ y = z @ c # b"
    unfolding append_eq_append_conv2 [of a] by metis
  then show ?thesis
  proof cases
    case 1
    show ?thesis
    proof (cases z)
      case Nil
      with 1(2) assms(2) show ?thesis by (cases p) (auto simp: str_contains_def)
    next
      case (Cons d z')
      with 1(2) show ?thesis by (auto simp: str_contains_infix)
    qed
  next
    case 2
    then obtain w where "p = z @ w \<and> w @ y = c # b \<or> z = p @ w \<and> y = w @ c # b"
      unfolding append_eq_append_conv2 [of p] by metis
    with assms(2) have "\<exists>v. z = p @ v" by (cases w) auto
    with 2(1) show ?thesis by (auto simp: str_contains_infix)
  qed
qed

text \<open>C29. The device path of an attached iSCSI volume names its target: for a URL whose host contains
  neither a slash nor the text -iscsi, reading back the path that resolving returned gives exactly the
  portal, the IQN and the LUN of the URL, whatever dashes the IQN contains.\<close>

theorem iscsi_resolved_path_names_target:
  assumes "ISCSIStorage_resolve login u = Inr p"
    and "CHR ''/'' \<notin> set (case host_str u of Some h \<Rightarrow> h | None \<Rightarrow> [])"
    and "\<not> str_contains ''-iscsi'' (case host_str u of Some h \<Rightarrow> h | None \<Rightarrow> [])"
  shows "ISCSITarget_try_from p = Inr (ISCSITarget_from u)"
proof -
  let ?t = "ISCSITarget_from u"
  let ?h = "case host_str u of Some h \<Rightarrow> h | None \<Rightarrow> []"
  let ?ds = "show_nat (case url_port u of Some p \<Rightarrow> p | None \<Rightarrow> 3260)"
  have p: "p = to_device_path ?t"
    using assms(1) by (auto simp: ISCSIStorage_resolve_def attach_def split: sum.splits)
  have host: "iscsi_host ?t = ?h @ CHR '':'' # ?ds" by (simp add: ISCSITarget_from_def Let_def)
  have "\<not> str_contains ''-iscsi'' ?ds"
    using show_nat_digits [of "case url_port u of Some p \<Rightarrow> p | None \<Rightarrow> 3260"]
    by (auto simp: str_contains_infix is_ascii_digit_def)
  then have "\<not> str_contains ''-iscsi'' (iscsi_host ?t)"
    unfolding host using assms(3) str_contains_separated [of "''-iscsi''" ?h "CHR '':''" ?ds] by auto
  moreover have "CHR ''/'' \<notin> set (iscsi_host ?t)"
    unfolding host using assms(2) digit_not_slash [OF show_nat_digits] by simp
  moreover have "CHR ''/'' \<notin> set (iqn ?t)"
    using split_slash_no_slash [OF nth_mem [where n = 0]]
    by (auto simp: ISCSITarget_from_def Let_def nth_or_empty_def path_segments_def split: option.splits)
  ultimately show ?thesis unfolding p by (intro iscsi_path_roundtrip)
qed

theorem iscsi_resolved_path_names_target_witness:
  "ISCSITarget_try_from (to_device_path (ISCSITarget_from
       \<lparr>url_scheme = ''iscsi'', host_str = Some ''10.0.0.1'', url_port = None, url_path = ''/iqn.2026-03.com:a-lun-b/lun3''\<rparr>)) =
     Inr \<lparr>iscsi_host = ''10.0.0.1:3260'', iqn = ''iqn.2026-03.com:a-lun-b'', lun = 3\<rparr>"
proof -
  let ?u = "\<lparr>url_scheme = ''iscsi'', host_str = Some ''10.0.0.1'', url_port = None, url_path = ''/iqn.2026-03.com:a-lun-b/lun3''\<rparr>"
  have "show_nat 3260 = ''3260''" "show_nat 3 = ''3''" by code_simp+
  then have t: "ISCSITarget_from ?u = \<lparr>iscsi_host = ''10.0.0.1:3260'', iqn = ''iqn.2026-03.com:a-lun-b'', lun = 3\<rparr>"
    using parse_u32_show [of 3]
    by (simp add: ISCSITarget_from_def path_segments_def strip_prefix_def starts_with_def nth_or_empty_def parse_u32_or_0_def)
  have "\<not> str_contains ''-iscsi'' ''10.0.0.1''" by (simp add: str_contains_def starts_with_def upt_rec)
  then show ?thesis
    using iscsi_resolved_path_names_target [of "Exited True [] []" ?u "to_device_path (ISCSITarget_from ?u)"]
    by (simp add: ISCSIStorage_resolve_def attach_def check_command_def t)
qed

section \<open>RBD device tables\<close>

text \<open>Printable ASCII other than the blank: what the columns of the table consist of.\<close>

definition plain_char :: "char \<Rightarrow> bool" where
  "plain_char c \<longleftrightarrow> 33 \<le> (of_char c :: nat) \<and> (of_char c :: nat) \<le> 126"

definition plain_word :: "string \<Rightarrow> bool" where
  "plain_word w \<longleftrightarrow> w \<noteq> [] \<and> list_all plain_char w"

lemma strip_any_head:
  assumes "\<forall>w \<in> set ws. w \<noteq> [] \<longrightarrow> hd w \<noteq> c"
  shows "strip_any ws (c # s) = None"
  unfolding strip_any_None
proof (intro ballI impI)
  fix w assume "w \<in> set ws" and "w \<noteq> []"
  with assms show "\<not> starts_with w (c # s)" by (cases w) (auto simp: starts_with_Cons)
qed

lemma white_space_not_plain: "list_all (\<lambda>w. \<not> plain_char (hd w)) white_space"
  by (simp add: white_space_def plain_char_def)

lemma strip_any_plain: "plain_char c \<Longrightarrow> strip_any white_space (c # s) = None"
  using white_space_not_plain by (intro strip_any_head) (auto simp: list_all_iff)

lemma strip_any_blank: "strip_any white_space (CHR '' '' # s) = Some s"
  by (simp add: white_space_def starts_with_Cons)

lemma take_word_plain: "list_all plain_char w \<Longrightarrow> take_word (w @ CHR '' '' # s) = (w, CHR '' '' # s)"
  by (induction w) (simp_all add: strip_any_plain strip_any_blank)

lemma trim_start_blank: "trim_start (CHR '' '' # s) = trim_start s"
  unfolding trim_start_def by (subst trim_front.simps) (simp add: strip_any_blank)

lemma trim_start_blanks: "trim_start (replicate n (CHR '' '') @ s) = trim_start s"
  by (induction n) (simp_all add: trim_start_blank)

lemma trim_start_plain: "plain_word w \<Longrightarrow> trim_start (w @ s) = w @ s"
  unfolding trim_start_def by (subst trim_front.simps) (cases w; simp add: plain_word_def strip_any_plain)

lemma split_whitespace_blanks: "split_whitespace (replicate n (CHR '' '') @ s) = split_whitespace s"
  by (subst (1 2) split_whitespace.simps) (simp add: trim_start_blanks Let_def)

lemma plain_tail:
  assumes "plain_word w"
  shows "split_whitespace w = [w]"
proof -
  have "take_word u = (u, [])" if "list_all plain_char u" for u
    using that by (induction u) (simp_all add: strip_any_plain)
  moreover have "split_whitespace [] = []"
    by (simp add: split_whitespace.simps [of "[]"] trim_start_def trim_front.simps white_space_def starts_with_def)
  ultimately show ?thesis
    using assms trim_start_plain [of w "[]"]
    by (subst split_whitespace.simps) (auto simp: plain_word_def Let_def)
qed

lemma split_whitespace_step:
  "plain_word w \<Longrightarrow> split_whitespace (w @ replicate (Suc n) (CHR '' '') @ s) = w # split_whitespace s"
  using split_whitespace_blanks [of "Suc n" s]
  by (subst split_whitespace.simps) (simp add: trim_start_plain take_word_plain plain_word_def)

text \<open>Columns, each followed by its padding: some blanks, after the last column possibly none.\<close>

definition row_text :: "string list \<Rightarrow> nat list \<Rightarrow> string" where
  "row_text cols pads = concat (map2 (\<lambda>w n. w @ replicate n (CHR '' '')) cols pads)"

definition separating :: "nat list \<Rightarrow> bool" where
  "separating pads \<longleftrightarrow> list_all (\<lambda>n. 0 < n) (butlast pads)"

lemma split_whitespace_row:
  "length cols = length pads \<Longrightarrow> list_all plain_word cols \<Longrightarrow> separating pads \<Longrightarrow> split_whitespace (row_text cols pads) = cols"
proof (induction cols pads rule: list_induct2)
  case Nil
  show ?case by (simp add: row_text_def split_whitespace.simps [of "[]"] trim_start_def trim_front.simps white_space_def starts_with_def)
next
  case (Cons w ws n ns)
  have line: "row_text (w # ws) (n # ns) = w @ replicate n (CHR '' '') @ row_text ws ns"
    by (simp add: row_text_def)
  show ?case
  proof (cases n)
    case 0
    with Cons have "ns = []" by (auto simp: separating_def split: if_splits)
    with Cons 0 show ?thesis by (simp add: row_text_def plain_tail)
  next
    case (Suc k)
    with Cons.prems have "separating ns" by (auto simp: separating_def split: if_splits)
    with Cons split_whitespace_step [of w k "row_text ws ns"] show ?thesis
      by (simp add: line [unfolded Suc] Suc del: replicate_Suc)
  qed
qed

text \<open>Lines, each introduced by a line feed; the last may be ended by one.\<close>

lemma lines_acc_line:
  assumes "CHR 0x0A \<notin> set l"
  shows "lines_acc [] (l @ CHR 0x0A # s) = strip_cr l # lines_acc [] s"
proof -
  have "lines_acc acc (l @ CHR 0x0A # s) = strip_cr (rev acc @ l) # lines_acc [] s" for acc
    using assms by (induction l arbitrary: acc) auto
  from this [of "[]"] show ?thesis by simp
qed

lemma lines_acc_last: "CHR 0x0A \<notin> set l \<Longrightarrow> lines_acc [] l = (if l = [] then [] else [l])"
proof -
  assume "CHR 0x0A \<notin> set l"
  then have "lines_acc acc l = (if rev acc @ l = [] then [] else [rev acc @ l])" for acc
    by (induction l arbitrary: acc) auto
  from this [of "[]"] show ?thesis by simp
qed

definition line_clean :: "string \<Rightarrow> bool" where
  "line_clean l \<longleftrightarrow> l \<noteq> [] \<and> CHR 0x0A \<notin> set l \<and> CHR 0x0D \<notin> set l"

lemma strip_cr_clean: "line_clean l \<Longrightarrow> strip_cr l = l"
  unfolding strip_cr_def line_clean_def by (metis last_in_set)

lemma str_lines_joined:
  assumes "line_clean header" and "list_all line_clean ls"
  shows "str_lines (header @ concat (map (\<lambda>l. CHR 0x0A # l) ls) @ (if final then [CHR 0x0A] else [])) = header # ls"
  using assms
proof (induction ls arbitrary: header)
  case Nil
  then show ?case
    using lines_acc_line [of header "[]"] lines_acc_last [of header] strip_cr_clean [of header]
    by (simp add: str_lines_def line_clean_def)
next
  case (Cons l ls)
  let ?rest = "concat (map (\<lambda>l. CHR 0x0A # l) ls) @ (if final then [CHR 0x0A] else [])"
  have "lines_acc [] (l @ ?rest) = l # ls"
    using Cons.IH [of l] Cons.prems by (simp add: str_lines_def)
  then show ?case
    using lines_acc_line [of header "l @ ?rest"] strip_cr_clean [of header] Cons.prems(1)
    by (simp add: str_lines_def line_clean_def)
qed

text \<open>A table as \<open>rbd device list\<close> prints it: a header line, then one line per mapping, its columns padded to
  whatever widths the table has. The namespace column is empty for images outside every namespace, so that
  its width adds to the padding of the pool.\<close>

record rbd_row =
  row_id :: string
  row_pool :: string
  row_namespace :: "string option"
  row_image :: string
  row_snap :: string
  row_device :: string

definition row_columns :: "rbd_row \<Rightarrow> string list" where
  "row_columns r = [row_id r, row_pool r] @ (case row_namespace r of Some n \<Rightarrow> [n] | None \<Rightarrow> []) @
     [row_image r, row_snap r, row_device r]"

definition row_line :: "rbd_row \<times> nat list \<Rightarrow> string" where
  "row_line rp = (case rp of (r, pads) \<Rightarrow> row_text (row_columns r) pads)"

definition rbd_table :: "string \<Rightarrow> (rbd_row \<times> nat list) list \<Rightarrow> bool \<Rightarrow> string" where
  "rbd_table header rows final =
     header @ concat (map (\<lambda>rp. CHR 0x0A # row_line rp) rows) @ (if final then [CHR 0x0A] else [])"

definition well_formed_row :: "rbd_row \<times> nat list \<Rightarrow> bool" where
  "well_formed_row rp \<longleftrightarrow>
     (case rp of (r, pads) \<Rightarrow>
        list_all plain_word (row_columns r) \<and> starts_with ''/dev/'' (row_device r) \<and>
        length pads = length (row_columns r) \<and> separating pads)"

lemma row_line_clean:
  assumes "well_formed_row rp"
  shows "line_clean (row_line rp)"
proof -
  obtain r pads where rp: "rp = (r, pads)" by (cases rp)
  have chars: "c = CHR '' '' \<or> plain_char c" if "c \<in> set (row_line rp)" for c
    using that assms
    by (fastforce simp: rp row_line_def row_text_def well_formed_row_def plain_word_def list_all_iff dest: set_zip_leftD)
  moreover have "row_line rp \<noteq> []"
    using assms by (cases pads) (auto simp: rp row_line_def row_text_def well_formed_row_def row_columns_def plain_word_def)
  ultimately show ?thesis
    using chars [of "CHR 0x0A"] chars [of "CHR 0x0D"] by (auto simp: line_clean_def plain_char_def)
qed

lemma rbd_row_parsed:
  assumes "well_formed_row rp"
  shows "rbd_line (row_line rp) = Some (row_pool (fst rp) @ ''/'' @ row_image (fst rp), row_device (fst rp))"
proof -
  obtain r pads where rp: "rp = (r, pads)" by (cases rp)
  have "split_whitespace (row_line rp) = row_columns r"
    using assms by (auto simp: rp row_line_def well_formed_row_def intro!: split_whitespace_row)
  then show ?thesis
    using assms by (simp add: rbd_line_def rp row_columns_def well_formed_row_def split: option.splits)
qed

text \<open>The mappings that a table shows.\<close>

definition row_mapping :: "rbd_row \<times> nat list \<Rightarrow> string \<times> string" where
  "row_mapping rp = (row_pool (fst rp) @ ''/'' @ row_image (fst rp), row_device (fst rp))"

text \<open>C30. The table printed by rbd device list is read back to its mappings: for rows of printable columns, each with
  its own padding, with or without a namespace, with or without a line feed at the end, parsing gives for every
  row, in order, the pool and image joined by a slash and the device; the namespace is dropped. An image that the
  table shows is not mapped again, and any other image leads to exactly one map command for it.\<close>

theorem rbd_table_parsed:
  assumes "line_clean header" and "list_all well_formed_row rows"
  shows "rbd_lines_list (rbd_table header rows final) = map row_mapping rows \<and>
    rbd_map env (Exited True (rbd_table header rows final) []) mapped i =
      (if rbd_path i \<in> fst ` set (map row_mapping rows)
       then (Inr (), [rbd_list_command env])
       else (case mapped of
               NotStarted e \<Rightarrow> Inl (''Failed to execute rbd command: '' @ e)
             | Exited ok out err \<Rightarrow> if ok then Inr () else Inl (''rbd map failed: '' @ err),
             [rbd_list_command env,
              ''rbd'' # rbd_extra_args env @ [''device'', ''map'', ''--options'', ''noudev'', rbd_path i]]))"
proof -
  have "list_all line_clean (map row_line rows)"
    using assms(2) row_line_clean by (auto simp: list_all_iff)
  then have "rbd_lines_list (rbd_table header rows final) = List.map_filter rbd_line (map row_line rows)"
    using str_lines_joined [OF assms(1), of "map row_line rows" final] by (simp add: rbd_lines_list_def rbd_table_def comp_def)
  also have "\<dots> = map row_mapping rows"
    using assms(2) by (induction rows) (simp_all add: List.map_filter_def rbd_row_parsed row_mapping_def)
  finally have parsed: "rbd_lines_list (rbd_table header rows final) = map row_mapping rows" .
  have "list_ex (\<lambda>(p, _). p = x) ms \<longleftrightarrow> x \<in> fst ` set ms" for x and ms :: "(string \<times> string) list"
    by (induction ms) auto
  with parsed show ?thesis
    by (simp add: rbd_map_def rbd_map_list_def check_command_def del: set_map split: command_result.splits)
qed

text \<open>The table of the unit test, with a second, shorter mapping and aligned columns.\<close>

definition sample_rows :: "(rbd_row \<times> nat list) list" where
  "sample_rows =
     [(\<lparr>row_id = ''0'', row_pool = ''kessoku-blockpool'', row_namespace = None, row_image = ''testimg'', row_snap = ''-'',
        row_device = ''/dev/rbd0''\<rparr>, [3, 13, 2, 5, 0]),
      (\<lparr>row_id = ''12'', row_pool = ''vms'', row_namespace = Some ''foo'', row_image = ''root'', row_snap = ''-'',
        row_device = ''/dev/rbd12''\<rparr>, [2, 16, 8, 5, 5, 0])]"

theorem rbd_table_parsed_witness:
  "rbd_lines_list
     (''id  pool               namespace  image    snap  device'' @ [CHR 0x0A] @
      ''0   kessoku-blockpool             testimg  -     /dev/rbd0'' @ [CHR 0x0A] @
      ''12  vms                foo        root     -     /dev/rbd12'') =
   [(''kessoku-blockpool/testimg'', ''/dev/rbd0''), (''vms/root'', ''/dev/rbd12'')]"
proof -
  let ?header = "''id  pool               namespace  image    snap  device''"
  have "list_all well_formed_row sample_rows"
    by (simp add: sample_rows_def well_formed_row_def row_columns_def plain_word_def plain_char_def starts_with_def
        separating_def)
  moreover have "line_clean ?header"
    by (simp add: line_clean_def)
  ultimately have "rbd_lines_list (rbd_table ?header sample_rows False) = map row_mapping sample_rows"
    using rbd_table_parsed [of ?header sample_rows False] by blast
  then show ?thesis
    by (simp add: rbd_table_def sample_rows_def row_line_def row_columns_def row_text_def row_mapping_def numeral_eq_Suc)
qed

end
