(* ===== verification/Api_Wire.thy ===== *)
theory Api_Wire
  imports Frontend Api_Types Storage_Text
begin

text \<open>
  The HTTP API as its clients see it: the route tables (\<open>odorobo/src/http_api/\<close>), the handlers with the documents they
  read and write, the error documents (\<open>utils/mod.rs\<close>), and what the command-line client (\<open>odoroboctl/src/cli.rs\<close>)
  sends and reads. Which route a path selects and the statuses of refused requests are the web library's.
\<close>

section \<open>Routes\<close>

datatype http_method = GET | POST | PUT | PATCH | DELETE

datatype path_seg = Lit string | Param

datatype endpoint =
    Health | SwaggerPage | OpenApiDocument
  | Drain | NodeInfo
  | ListVMs | CreateVMRoute | VmInfo | UpdateVm | DeleteVMRoute | ShutdownVMRoute | ConsoleHistory
  | CreateVolume | VolumeInfoRoute | DeleteVolume | ResizeVolume

type_synonym routes = "(path_seg list \<times> http_method \<times> endpoint) list"

definition nodes_router :: routes where
  "nodes_router = [([Lit ''drain''], PUT, Drain), ([Param], GET, NodeInfo)]"

definition vms_router :: routes where
  "vms_router =
     [([], GET, ListVMs), ([], POST, CreateVMRoute), ([Param], GET, VmInfo), ([Param], PATCH, UpdateVm),
      ([Param], DELETE, DeleteVMRoute), ([Param, Lit ''shutdown''], PUT, ShutdownVMRoute),
      ([Param, Lit ''console'', Lit ''history''], GET, ConsoleHistory)]"

definition volumes_router :: routes where
  "volumes_router =
     [([], PUT, CreateVolume), ([Param], GET, VolumeInfoRoute), ([Param], DELETE, DeleteVolume),
      ([Param], PATCH, ResizeVolume)]"

definition nest :: "string \<Rightarrow> routes \<Rightarrow> routes" where
  "nest p rs = map (\<lambda>(pat, m, ep). (Lit p # pat, m, ep)) rs"

definition api_router :: routes where
  "api_router =
     [([Lit ''health''], GET, Health), ([Lit ''swagger''], GET, SwaggerPage),
      ([Lit ''openapi.json''], GET, OpenApiDocument)] @
     nest ''nodes'' nodes_router @ nest ''vms'' vms_router @ nest ''volumes'' volumes_router"

text \<open>A parameter matches one segment that is not empty; of the patterns that match a path the one with the
  earliest literal is taken, whatever methods it has.\<close>

fun matches :: "path_seg list \<Rightarrow> string list \<Rightarrow> bool" where
  "matches [] [] \<longleftrightarrow> True"
| "matches (Lit s # ps) (x # xs) \<longleftrightarrow> s = x \<and> matches ps xs"
| "matches (Param # ps) (x # xs) \<longleftrightarrow> x \<noteq> [] \<and> matches ps xs"
| "matches _ _ \<longleftrightarrow> False"

definition seg_rank :: "path_seg \<Rightarrow> nat" where
  "seg_rank s = (case s of Lit _ \<Rightarrow> 0 | Param \<Rightarrow> 1)"

definition dispatch :: "http_method \<Rightarrow> string list \<Rightarrow> nat + endpoint" where
  "dispatch m path =
     (let cands = filter (\<lambda>pat. matches pat path) (map fst api_router) in
      case find (\<lambda>pat. \<forall>q \<in> set cands. map seg_rank pat \<le> map seg_rank q) cands of
        None \<Rightarrow> Inl 404
      | Some pat \<Rightarrow> (case map_of (map snd (filter (\<lambda>r. fst r = pat) api_router)) m of
          None \<Rightarrow> Inl 405
        | Some ep \<Rightarrow> Inr ep))"

section \<open>Handlers\<close>

datatype response = Answer nat json | TextAnswer nat string | BytesAnswer nat bytes | Refused nat

text \<open>The scheduler as the HTTP actor asks it, and the documents the web library generates.\<close>

record backend =
  be_create :: "CreateVM \<Rightarrow> string + CreateVMReply"
  be_delete :: "DeleteVM \<Rightarrow> string + DeleteVMReply"
  be_shutdown :: "ShutdownVM \<Rightarrow> string + ShutdownVMReply"
  be_info :: "GetVMInfo \<Rightarrow> string + GetVMInfoReply"
  be_list :: "string + ulid list"
  be_history :: "ulid \<Rightarrow> string + bytes"
  be_openapi :: json
  be_swagger :: string

text \<open>The error document of a request handler: its status and its message.\<close>

fun error_message :: "OdoroboError \<Rightarrow> string" where
  "error_message (NotFound m) = m"
| "error_message (ReportError m) = m"

definition error_body :: "OdoroboError \<Rightarrow> json" where
  "error_body e = JObj [(''message'', JStr (error_message e))]"

definition respond :: "('a \<Rightarrow> json) \<Rightarrow> OdoroboError + 'a \<Rightarrow> response" where
  "respond enc r = (case r of Inl e \<Rightarrow> Answer (status_code e) (error_body e) | Inr x \<Rightarrow> Answer 200 (enc x))"

definition CreateVMReply_serialize :: "(ulid \<Rightarrow> string) \<Rightarrow> CreateVMReply \<Rightarrow> json" where
  "CreateVMReply_serialize to_str r = JObj
     [(''config'', enc_option (VmManifest_serialize to_str) (reply_config r)),
      (''actor_id'', enc_option (enc_list enc_uint) (reply_actor_id r))]"

definition GetVMInfoReply_serialize :: "(ulid \<Rightarrow> string) \<Rightarrow> GetVMInfoReply \<Rightarrow> json" where
  "GetVMInfoReply_serialize to_str r = JObj
     [(''vmid'', enc_ulid to_str (info_vmid r)),
      (''config'', enc_option (VmManifest_serialize to_str) (info_config r))]"

definition health :: response where
  "health = TextAnswer 200 ''OK''"

definition drain :: response where
  "drain = Answer 200 (JStr ''Draining...'')"

definition node_info :: "string \<Rightarrow> response" where
  "node_info node_id = Answer 200 (Node_serialize Node_default)"

definition volume_info :: "(ulid \<Rightarrow> string) \<Rightarrow> VolumeId \<Rightarrow> response" where
  "volume_info to_str volid = Answer 200 (VolumeInfo_serialize to_str VolumeInfo_default)"

definition create_volume :: "(ulid \<Rightarrow> string) \<Rightarrow> Volume \<Rightarrow> response" where
  "create_volume to_str request = Answer 200 (VolumeInfo_serialize to_str VolumeInfo_default)"

definition delete_volume :: "VolumeId \<Rightarrow> response" where
  "delete_volume volid = Answer 200 JNull"

definition resize_volume :: "(ulid \<Rightarrow> string) \<Rightarrow> VolumeId \<Rightarrow> Volume \<Rightarrow> response" where
  "resize_volume to_str volid request = Answer 200 (VolumeInfo_serialize to_str VolumeInfo_default)"

text \<open>The extractors: the identifier in the path, then the document of the body (\<open>None\<close> when it is not JSON).\<close>

definition with_id :: "(string \<Rightarrow> ulid option) \<Rightarrow> string list \<Rightarrow> (ulid \<Rightarrow> response) \<Rightarrow> response" where
  "with_id parse path h =
     (case path of
        _ # t # _ \<Rightarrow> (case parse t of None \<Rightarrow> Refused 400 | Some u \<Rightarrow> h u)
      | _ \<Rightarrow> Refused 400)"

definition with_body :: "(json \<Rightarrow> 'a option) \<Rightarrow> json option \<Rightarrow> ('a \<Rightarrow> response) \<Rightarrow> response" where
  "with_body dec body h =
     (case body of
        None \<Rightarrow> Refused 400
      | Some j \<Rightarrow> (case dec j of None \<Rightarrow> Refused 422 | Some x \<Rightarrow> h x))"

fun serve_endpoint ::
  "(ulid \<Rightarrow> string) \<Rightarrow> (string \<Rightarrow> ulid option) \<Rightarrow> (string \<Rightarrow> string option) \<Rightarrow> backend \<Rightarrow> endpoint
    \<Rightarrow> string list \<Rightarrow> json option \<Rightarrow> response" where
  "serve_endpoint to_str parse url_norm b Health path body = health"
| "serve_endpoint to_str parse url_norm b SwaggerPage path body = TextAnswer 200 (be_swagger b)"
| "serve_endpoint to_str parse url_norm b OpenApiDocument path body = Answer 200 (be_openapi b)"
| "serve_endpoint to_str parse url_norm b Drain path body = drain"
| "serve_endpoint to_str parse url_norm b NodeInfo path body = node_info (path ! 1)"
| "serve_endpoint to_str parse url_norm b ListVMs path body =
     respond (\<lambda>ids. VMListResponse_serialize to_str (map VmId ids)) (list_vms (be_list b))"
| "serve_endpoint to_str parse url_norm b CreateVMRoute path body =
     with_body (CreateVMRequest_deserialize parse) body
       (\<lambda>vm. respond (CreateVMReply_serialize to_str) (create_vm (be_create b) vm))"
| "serve_endpoint to_str parse url_norm b VmInfo path body =
     with_id parse path (\<lambda>u. respond (GetVMInfoReply_serialize to_str) (vm_info to_str (be_info b) u))"
| "serve_endpoint to_str parse url_norm b UpdateVm path body =
     with_id parse path (\<lambda>u. case update_vm u of (code, msg) \<Rightarrow> Answer code (JObj [(''message'', JStr msg)]))"
| "serve_endpoint to_str parse url_norm b DeleteVMRoute path body =
     with_id parse path (\<lambda>u. respond (\<lambda>_. JNull) (delete_vm (be_delete b) u))"
| "serve_endpoint to_str parse url_norm b ShutdownVMRoute path body =
     with_id parse path (\<lambda>u. respond (\<lambda>_. JNull) (shutdown_vm (be_shutdown b) u))"
| "serve_endpoint to_str parse url_norm b ConsoleHistory path body =
     with_id parse path (\<lambda>u. case console_history (be_history b) u of
        Inl e \<Rightarrow> Answer (status_code e) (error_body e)
      | Inr bs \<Rightarrow> BytesAnswer 200 bs)"
| "serve_endpoint to_str parse url_norm b CreateVolume path body =
     with_body (Volume_deserialize parse url_norm) body (create_volume to_str)"
| "serve_endpoint to_str parse url_norm b VolumeInfoRoute path body =
     with_id parse path (\<lambda>u. volume_info to_str (VolumeId u))"
| "serve_endpoint to_str parse url_norm b DeleteVolume path body =
     with_id parse path (\<lambda>u. delete_volume (VolumeId u))"
| "serve_endpoint to_str parse url_norm b ResizeVolume path body =
     with_id parse path (\<lambda>u. with_body (Volume_deserialize parse url_norm) body (resize_volume to_str (VolumeId u)))"

definition serve ::
  "(ulid \<Rightarrow> string) \<Rightarrow> (string \<Rightarrow> ulid option) \<Rightarrow> (string \<Rightarrow> string option) \<Rightarrow> backend
    \<Rightarrow> http_method \<times> string list \<times> json option \<Rightarrow> response" where
  "serve to_str parse url_norm b req =
     (case req of (m, path, body) \<Rightarrow>
        (case dispatch m path of
           Inl code \<Rightarrow> Refused code
         | Inr ep \<Rightarrow> serve_endpoint to_str parse url_norm b ep path body))"

section \<open>The command-line client\<close>

text \<open>What is sent for a request. \<open>segs\<close> is how the client's HTTP library reads a URL: the segments of the path it
  requests, \<open>None\<close> when the text is no URL and nothing is sent.\<close>

fun send :: "(ulid \<Rightarrow> string) \<Rightarrow> (string \<Rightarrow> string list option) \<Rightarrow> cli_request
    \<Rightarrow> (http_method \<times> string list \<times> json option) option" where
  "send to_str segs (Post url vm) = map_option (\<lambda>p. (POST, p, Some (CreateVMRequest_serialize to_str vm))) (segs url)"
| "send to_str segs (Get url) = map_option (\<lambda>p. (GET, p, None)) (segs url)"
| "send to_str segs (Delete url) = map_option (\<lambda>p. (DELETE, p, None)) (segs url)"
| "send to_str segs (Put url) = map_option (\<lambda>p. (PUT, p, None)) (segs url)"

text \<open>An address of a server, with scheme, host and port but no path, as in \<open>http://localhost:3000\<close>: below it the
  requested path is what follows, split at the slashes.\<close>

definition server_address :: "(string \<Rightarrow> string list option) \<Rightarrow> string \<Rightarrow> bool" where
  "server_address segs base \<longleftrightarrow>
     (\<forall>path. list_all (\<lambda>c. is_ascii_alphanumeric c \<or> c = CHR ''/'') path \<longrightarrow>
        segs (base @ ''/'' @ path) = Some (split_slash path))"

text \<open>What the client reads: the list of identifiers as texts, and its error type, whose time stamp the
  \<open>chrono\<close> library reads.\<close>

definition cli_VMListResponse_deserialize :: "json \<Rightarrow> string list option" where
  "cli_VMListResponse_deserialize j = do {
     fs \<leftarrow> struct_fields False [''vms''] j;
     field_req ''vms'' (dec_list dec_string) fs }"

record 't APIError =
  err_code :: u16
  err_message :: string
  err_errors :: "string list option"
  err_success :: bool
  err_timestamp :: 't

definition APIError_deserialize :: "(string \<Rightarrow> 't option) \<Rightarrow> json \<Rightarrow> 't APIError option" where
  "APIError_deserialize parse_time j = do {
     fs \<leftarrow> struct_fields False [''code'', ''message'', ''errors'', ''success'', ''timestamp''] j;
     c \<leftarrow> field_req ''code'' dec_uint fs;
     m \<leftarrow> field_req ''message'' dec_string fs;
     es \<leftarrow> field_option ''errors'' (dec_list dec_string) fs;
     s \<leftarrow> field_req ''success'' dec_bool fs;
     t \<leftarrow> field_req ''timestamp'' (\<lambda>v. Option.bind (dec_string v) parse_time) fs;
     Some \<lparr>err_code = c, err_message = m, err_errors = es, err_success = s, err_timestamp = t\<rparr> }"

text \<open>\<open>parse_json\<close> reads a response text, \<open>decode_error\<close> is the error of a text that is no list, \<open>debug\<close> prints
  an error.\<close>

definition cli_parse_list :: "(string \<Rightarrow> json option) \<Rightarrow> (string \<Rightarrow> string) \<Rightarrow> string \<Rightarrow> string + string list" where
  "cli_parse_list parse_json decode_error body =
     (case Option.bind (parse_json body) cli_VMListResponse_deserialize of
        None \<Rightarrow> Inl (decode_error body)
      | Some ids \<Rightarrow> Inr ids)"

definition cli_show_error ::
  "(string \<Rightarrow> json option) \<Rightarrow> (string \<Rightarrow> 't option) \<Rightarrow> ('t APIError \<Rightarrow> string) \<Rightarrow> string \<Rightarrow> string option" where
  "cli_show_error parse_json parse_time debug body =
     map_option debug (Option.bind (parse_json body) (APIError_deserialize parse_time))"

section \<open>Routing\<close>

lemmas router_defs = api_router_def nodes_router_def vms_router_def volumes_router_def nest_def

lemma dispatch_vms:
  "dispatch GET [''vms''] = Inr ListVMs"
  "dispatch POST [''vms''] = Inr CreateVMRoute"
  "x \<noteq> [] \<Longrightarrow> dispatch GET [''vms'', x] = Inr VmInfo"
  "x \<noteq> [] \<Longrightarrow> dispatch PATCH [''vms'', x] = Inr UpdateVm"
  "x \<noteq> [] \<Longrightarrow> dispatch DELETE [''vms'', x] = Inr DeleteVMRoute"
  "x \<noteq> [] \<Longrightarrow> dispatch PUT [''vms'', x, ''shutdown''] = Inr ShutdownVMRoute"
  "x \<noteq> [] \<Longrightarrow> dispatch GET [''vms'', x, ''console'', ''history''] = Inr ConsoleHistory"
  by (simp_all add: dispatch_def router_defs seg_rank_def)

text \<open>The literal route hides the parameter: a node named \<open>drain\<close> cannot be queried.\<close>

lemma dispatch_drain:
  "dispatch PUT [''nodes'', ''drain''] = Inr Drain"
  "dispatch GET [''nodes'', ''drain''] = Inl 405"
  "x \<noteq> [] \<Longrightarrow> x \<noteq> ''drain'' \<Longrightarrow> dispatch GET [''nodes'', x] = Inr NodeInfo"
  by (simp_all add: dispatch_def router_defs seg_rank_def)

lemma alnum_no_slash: "list_all is_ascii_alphanumeric s \<Longrightarrow> CHR ''/'' \<notin> set s"
  by (auto simp: list_all_iff is_ascii_alphanumeric_def is_ascii_digit_def is_ascii_uppercase_def
      is_ascii_lowercase_def)

lemma path_letters:
  "list_all is_ascii_alphanumeric ''vms''" "list_all is_ascii_alphanumeric ''shutdown''"
  by (simp_all add: is_ascii_alphanumeric_def is_ascii_digit_def is_ascii_uppercase_def is_ascii_lowercase_def)

lemma server_address_segs:
  assumes "server_address segs base" and "list_all is_ascii_alphanumeric x"
  shows "segs (base @ ''/vms'') = Some [''vms'']"
    and "segs (base @ ''/vms/'' @ x) = Some [''vms'', x]"
    and "segs (base @ ''/vms/'' @ x @ ''/shutdown'') = Some [''vms'', x, ''shutdown'']"
proof -
  have mono: "list_all (\<lambda>c. is_ascii_alphanumeric c \<or> c = CHR ''/'') s" if "list_all is_ascii_alphanumeric s" for s
    using that by (auto simp: list_all_iff)
  note below = assms(1) [unfolded server_address_def, rule_format]
  note slash = alnum_no_slash [OF assms(2)]
  show "segs (base @ ''/vms'') = Some [''vms'']"
    using below [of "''vms''"] mono [OF path_letters(1)] by (simp add: split_slash_word)
  show "segs (base @ ''/vms/'' @ x) = Some [''vms'', x]"
    using below [of "''vms/'' @ x"] mono [OF path_letters(1)] mono [OF assms(2)] slash
      split_slash_append [of "''vms''" x] by (simp add: split_slash_word)
  show "segs (base @ ''/vms/'' @ x @ ''/shutdown'') = Some [''vms'', x, ''shutdown'']"
    using below [of "''vms/'' @ x @ ''/shutdown''"] mono [OF path_letters(1)] mono [OF path_letters(2)] mono [OF assms(2)] slash
      split_slash_append [of "''vms''" "x @ ''/shutdown''"] split_slash_append [of x "''shutdown''"]
    by (simp add: split_slash_word)
qed

lemma cli_manifest_wf: "manifest_wf (cli_manifest i img name n mem)"
  by (simp add: manifest_wf_def DesiredState_wf_def Metadata_wf_def Placement_wf_def cli_manifest_def btree_wf_def)

lemma run_create:
  "run_command i base (Create img name n mem) = Inr req \<longleftrightarrow>
     req = Post (base @ ''/vms'') (cli_manifest i img name n mem) \<and> manifest_contract (cli_manifest i img name n mem)"
  using VmManifest_validate_ok [of "cli_manifest i img name n mem"]
  by (cases "VmManifest_validate (cli_manifest i img name n mem)") (auto simp: Let_def)

lemma create_served:
  assumes "\<And>u. parse (to_str u) = Some u" and "server_address segs base"
    and "run_command i base (Create img name n mem) = Inr req"
  shows "map_option (serve to_str parse url_norm b) (send to_str segs req) =
    Some (respond (CreateVMReply_serialize to_str)
      (create_vm (be_create b) (cli_manifest i img name n mem)))"
proof -
  from assms(3) have req: "req = Post (base @ ''/vms'') (cli_manifest i img name n mem)"
    and "manifest_contract (cli_manifest i img name n mem)"
    unfolding run_create by blast+
  then have "CreateVMRequest_deserialize parse (CreateVMRequest_serialize to_str (cli_manifest i img name n mem)) =
      Some (cli_manifest i img name n mem)"
    by (intro CreateVMRequest_read_back assms(1) cli_manifest_wf)
  then show ?thesis
    using server_address_segs(1) [OF assms(2), of "[]"] by (simp add: req serve_def dispatch_vms with_body_def)
qed

lemma by_id_served:
  assumes "parse x = Some u" and "x \<noteq> []" and "server_address segs base" and "list_all is_ascii_alphanumeric x"
  shows "map_option (serve to_str parse url_norm b) (send to_str segs (Delete (base @ ''/vms/'' @ x))) =
      Some (respond (\<lambda>_. JNull) (delete_vm (be_delete b) u))"
    and "map_option (serve to_str parse url_norm b) (send to_str segs (Put (base @ ''/vms/'' @ x @ ''/shutdown''))) =
      Some (respond (\<lambda>_. JNull) (shutdown_vm (be_shutdown b) u))"
  using assms(1,2) server_address_segs(2,3) [OF assms(3,4)] by (simp_all add: serve_def dispatch_vms with_id_def)

text \<open>The client does not normalise the address it is given: below an address that ends in a slash every request has
  an empty first segment, which no route has.\<close>

lemma trailing_slash_not_served:
  assumes "server_address segs base"
  shows "map_option (serve to_str parse url_norm b) (send to_str segs (Get ((base @ ''/'') @ ''/vms''))) = Some (Refused 404)"
proof -
  have "list_all (\<lambda>c. is_ascii_alphanumeric c \<or> c = CHR ''/'') (''/vms'')"
    using path_letters(1) by (simp add: list_all_iff)
  then have "segs (base @ ''/'' @ ''/vms'') = Some [[], ''vms'']"
    using assms by (simp add: server_address_def split_slash_word)
  then show ?thesis
    by (simp add: serve_def dispatch_def router_defs)
qed

lemma list_read:
  "cli_VMListResponse_deserialize (VMListResponse_serialize to_str (map VmId ids)) = Some (map to_str ids)"
proof -
  have "those (map (\<lambda>u. dec_string (VmId_serialize to_str (VmId u))) ids) = Some (map to_str ids)"
    by (induction ids) (simp_all add: VmId_serialize_def enc_ulid_def dec_string_def)
  then show ?thesis
    by (simp add: cli_VMListResponse_deserialize_def VMListResponse_serialize_def struct_fields_def field_req_def
        enc_list_def dec_list_def comp_def)
qed

lemma error_body_not_APIError: "APIError_deserialize parse_time (error_body e) = None"
  by (simp add: APIError_deserialize_def error_body_def struct_fields_def field_req_def)

section \<open>Client and server agree\<close>

text \<open>A scheduler that knows VM 7, accepts every create request and refuses to delete.\<close>

definition sample_backend :: backend where
  "sample_backend =
     \<lparr>be_create = (\<lambda>m. Inr \<lparr>reply_config = Some (create_config m), reply_actor_id = Some [7]\<rparr>),
      be_delete = (\<lambda>_. Inl ''no such VM''), be_shutdown = (\<lambda>_. Inr ShutdownVMReply),
      be_info = (\<lambda>_. Inl ''no such VM''), be_list = Inr [7], be_history = (\<lambda>_. Inr []),
      be_openapi = JNull, be_swagger = []\<rparr>"

text \<open>How an HTTP URL without a query is read: the path is what follows the host.\<close>

definition sample_segs :: "string \<Rightarrow> string list option" where
  "sample_segs url =
     (case strip_prefix ''http://'' url of
        None \<Rightarrow> None
      | Some rest \<Rightarrow>
          (if takeWhile (\<lambda>c. c \<noteq> CHR ''/'') rest = [] then None
           else Some (split_slash (tl (dropWhile (\<lambda>c. c \<noteq> CHR ''/'') rest)))))"

lemma sample_segs_address:
  assumes "host \<noteq> []" and "CHR ''/'' \<notin> set host"
  shows "server_address sample_segs (''http://'' @ host)"
proof -
  have "takeWhile (\<lambda>c. c \<noteq> CHR ''/'') (host @ CHR ''/'' # path) = host" for path
    using assms(2) by (induction host) auto
  moreover have "dropWhile (\<lambda>c. c \<noteq> CHR ''/'') (host @ CHR ''/'' # path) = CHR ''/'' # path" for path
    using assms(2) by (induction host) auto
  moreover have "strip_prefix ''http://'' (''http://'' @ rest) = Some rest" for rest
    by (rule strip_prefix_append)
  ultimately have "sample_segs (''http://'' @ host @ CHR ''/'' # path) = Some (split_slash path)" for path
    using assms(1) unfolding sample_segs_def by (simp del: append_Cons)
  then show ?thesis by (simp add: server_address_def)
qed

text \<open>C26. What odoroboctl sends is what the scheduler is asked: given the address of a manager, scheme, host and port
  without a path, a create command that passes the client's checks is routed to the create handler, its body is read
  back to the very manifest the client built, and the scheduler is asked to create that manifest under its own
  identifier; list, delete and shutdown reach their handlers with the identifier that was named on the command line.
  No such request of the client is refused by routing or decoding. An address that ends in a slash does not satisfy
  the hypothesis.\<close>

theorem cli_requests_served:
  assumes "\<And>u. parse (to_str u) = Some u" and "\<And>u. to_str u \<noteq> [] \<and> list_all is_ascii_alphanumeric (to_str u)"
    and "server_address segs base"
  shows "(run_command i base (Create img name n mem) = Inr req \<longrightarrow>
      map_option (serve to_str parse url_norm b) (send to_str segs req) =
        Some (respond (CreateVMReply_serialize to_str)
          (from_send (HTTPActor_CreateVM
             (be_create b \<lparr>create_vmid = i, create_config = cli_manifest i img name n mem\<rparr>))))) \<and>
    (run_command i base ListVms = Inr req \<longrightarrow>
      map_option (serve to_str parse url_norm b) (send to_str segs req) =
        Some (respond (\<lambda>ids. VMListResponse_serialize to_str (map VmId ids))
          (from_send (HTTPActor_AgentListVMs (be_list b))))) \<and>
    (run_command i base (DeleteCmd (to_str u)) = Inr req \<longrightarrow>
      map_option (serve to_str parse url_norm b) (send to_str segs req) =
        Some (respond (\<lambda>_. JNull) (from_send (HTTPActor_DeleteVM (be_delete b (DeleteVM u)))))) \<and>
    (run_command i base (ShutdownCmd (to_str u)) = Inr req \<longrightarrow>
      map_option (serve to_str parse url_norm b) (send to_str segs req) =
        Some (respond (\<lambda>_. JNull) (from_send (HTTPActor_ShutdownVM (be_shutdown b (ShutdownVM u))))))"
proof (intro conjI impI)
  have id: "manifest_id (cli_manifest i img name n mem) = i"
    by (simp add: cli_manifest_def)
  have void: "respond (\<lambda>_. JNull) (map_sum id (\<lambda>_. ()) r) = respond (\<lambda>_. JNull) r" for r :: "OdoroboError + 'r"
    by (cases r) (simp_all add: respond_def)
  note by_id = by_id_served [of parse "to_str u" u, OF assms(1) conjunct1 [OF assms(2)] assms(3) conjunct2 [OF assms(2)]]
  show "map_option (serve to_str parse url_norm b) (send to_str segs req) =
      Some (respond (CreateVMReply_serialize to_str)
        (from_send (HTTPActor_CreateVM (be_create b \<lparr>create_vmid = i, create_config = cli_manifest i img name n mem\<rparr>))))"
    if "run_command i base (Create img name n mem) = Inr req"
    using create_served [OF assms(1,3) that] by (simp add: create_vm_def id)
  show "map_option (serve to_str parse url_norm b) (send to_str segs req) =
      Some (respond (\<lambda>ids. VMListResponse_serialize to_str (map VmId ids)) (from_send (HTTPActor_AgentListVMs (be_list b))))"
    if "run_command i base ListVms = Inr req"
    using that server_address_segs(1) [OF assms(3), of "[]"] by (auto simp: serve_def dispatch_vms list_vms_def)
  show "map_option (serve to_str parse url_norm b) (send to_str segs req) =
      Some (respond (\<lambda>_. JNull) (from_send (HTTPActor_DeleteVM (be_delete b (DeleteVM u)))))"
    if "run_command i base (DeleteCmd (to_str u)) = Inr req"
    using that by_id(1) by (auto simp: delete_vm_def void)
  show "map_option (serve to_str parse url_norm b) (send to_str segs req) =
      Some (respond (\<lambda>_. JNull) (from_send (HTTPActor_ShutdownVM (be_shutdown b (ShutdownVM u)))))"
    if "run_command i base (ShutdownCmd (to_str u)) = Inr req"
    using that by_id(2) by (auto simp: shutdown_vm_def void)
qed

theorem cli_requests_served_witness:
  "map_option (serve sample_ulid_str sample_ulid_parse Some sample_backend)
     (send sample_ulid_str sample_segs (Get ''http://m/vms'')) =
     Some (Answer 200 (VMListResponse_serialize sample_ulid_str [VmId 7])) \<and>
   map_option (serve sample_ulid_str sample_ulid_parse Some sample_backend)
     (send sample_ulid_str sample_segs (Post ''http://m/vms'' (cli_manifest 7 ''root'' ''vm'' 2 512))) =
     Some (Answer 200 (CreateVMReply_serialize sample_ulid_str
       \<lparr>reply_config = Some (cli_manifest 7 ''root'' ''vm'' 2 512), reply_actor_id = Some [7]\<rparr>)) \<and>
   map_option (serve sample_ulid_str sample_ulid_parse Some sample_backend)
     (send sample_ulid_str sample_segs (Delete (''http://m/vms/'' @ sample_ulid_str 9))) =
     Some (Answer 500 (JObj [(''message'', JStr ''failed to delete VM via scheduler'')]))"
proof -
  have alnum: "sample_ulid_str u \<noteq> [] \<and> list_all is_ascii_alphanumeric (sample_ulid_str u)" for u
    using show_nat_digits [of "unat u"] by (auto simp: sample_ulid_str_def list_all_iff is_ascii_alphanumeric_def)
  have addr: "server_address sample_segs ''http://m''"
    using sample_segs_address [of "''m''"] by simp
  note served = cli_requests_served [of sample_ulid_parse sample_ulid_str, OF sample_ulid_read alnum addr]
  have "run_command 7 ''http://m'' (Create ''root'' ''vm'' 2 512) =
      Inr (Post ''http://m/vms'' (cli_manifest 7 ''root'' ''vm'' 2 512))"
    using cli_sent [of 7 "''http://m''" "''root''" "''vm''" 2 512] cli_contract sample_texts_not_blank by simp
  then show ?thesis
    using served [of 7 "''root''" "''vm''" 2 512 "Post ''http://m/vms'' (cli_manifest 7 ''root'' ''vm'' 2 512)"
        Some sample_backend 9]
      served [of 7 "''root''" "''vm''" 2 512 "Get ''http://m/vms''" Some sample_backend 9]
      served [of 7 "''root''" "''vm''" 2 512 "Delete (''http://m/vms/'' @ sample_ulid_str 9)" Some sample_backend 9]
    by (simp add: sample_backend_def respond_def from_send_def HTTPActor_CreateVM_def HTTPActor_AgentListVMs_def
        HTTPActor_DeleteVM_def scheduler_ask_def error_body_def del: send.simps)
qed

text \<open>C27. What odoroboctl prints of an answer: for a list, exactly the identifiers the server put into it, one per line
  and in order. An error document of the server has a message and nothing else, so it is never read as the error type
  of the client, which demands a code, a success flag and a time stamp: every error is printed as the raw text of
  its body.\<close>

theorem cli_reads_answers:
  assumes "parse_json list_body = Some (VMListResponse_serialize to_str (map VmId ids))"
    and "parse_json err_body = Some (error_body e)"
  shows "finish_command show_error show_text show_url (cli_parse_list parse_json decode_error) (Get url) 200 list_body =
      (map (\<lambda>u. Stdout (to_str u)) ids, Inr ()) \<and>
    cli_show_error parse_json parse_time debug err_body = None \<and>
    print_api_error (cli_show_error parse_json parse_time debug) show_text (status_code e) err_body =
      [Stderr (''Error (HTTP '' @ show_nat (status_code e) @ ''): '' @ show_text err_body)]"
  using assms
  by (simp add: cli_parse_list_def cli_show_error_def list_read error_body_not_APIError print_api_error_def)

theorem cli_reads_answers_witness:
  "finish_command (\<lambda>_. None) id id
     (cli_parse_list (\<lambda>s. if s = ''e'' then Some (error_body (NotFound ''VM 7 not found''))
        else Some (VMListResponse_serialize sample_ulid_str [VmId 7, VmId 9])) id) (Get ''http://m/vms'') 200 ''l'' =
     ([Stdout (sample_ulid_str 7), Stdout (sample_ulid_str 9)], Inr ()) \<and>
   print_api_error (cli_show_error
     (\<lambda>s. if s = ''e'' then Some (error_body (NotFound ''VM 7 not found''))
        else Some (VMListResponse_serialize sample_ulid_str [VmId 7, VmId 9])) Some err_message) id 404 ''e'' =
     [Stderr (''Error (HTTP '' @ show_nat 404 @ ''): e'')]"
  using cli_reads_answers [of "\<lambda>s. if s = ''e'' then Some (error_body (NotFound ''VM 7 not found''))
        else Some (VMListResponse_serialize sample_ulid_str [VmId 7, VmId 9])" "''l''" sample_ulid_str "[7, 9]" "''e''"
      "NotFound ''VM 7 not found''" "\<lambda>_. None" id id id "''http://m/vms''" Some err_message]
  by simp

end
