(* ===== verification/Process.thy ===== *)
theory Process
  imports Samples Journal
begin

text \<open>
  The \<open>odorobo\<close> process (\<open>odorobo/src/main.rs\<close>, \<open>utils/lockfile.rs\<close>): reading the configuration, the lock
  file that keeps a second process from starting, the actors that are started, and the main loop. What the
  operating system and the runtime answer is an argument.
\<close>

section \<open>Configuration\<close>

text \<open>\<open>Config::init\<close>: the parsed command line, overridden by the configuration file when it can be opened
  and parsed. Parsing and merging are the libraries'.\<close>

definition Config_init ::
  "('json \<Rightarrow> Config \<Rightarrow> Config) \<Rightarrow> ('text \<Rightarrow> 'json option) \<Rightarrow> 'text option \<Rightarrow> Config \<Rightarrow> Config" where
  "Config_init merge parse_json config_file cli =
     (case config_file of
        None \<Rightarrow> cli
      | Some txt \<Rightarrow> (case parse_json txt of None \<Rightarrow> cli | Some json \<Rightarrow> merge json cli))"

section \<open>Lock file\<close>

definition LOCKFILE :: string where
  "LOCKFILE = ''/var/lock/odorobo.lock''"

text \<open>The outcome of the system calls on the lock file: the error of creating a file that exists, another
  error of creating it, and the errors of writing and flushing it.\<close>

record lock_os =
  exists_err :: string
  create_err :: "string option"
  write_err :: "string option"
  flush_err :: "string option"

text \<open>\<open>init_lockfile\<close> on the presence of the file: the result says whether a lock is held. When writing
  fails, the file has been created and stays.\<close>

definition init_lockfile :: "lock_os \<Rightarrow> Config \<Rightarrow> bool \<Rightarrow> (string + bool) \<times> bool" where
  "init_lockfile os cfg present =
     (if (case no_lockfile cfg of Some b \<Rightarrow> b | None \<Rightarrow> False) then (Inr False, present)
      else if present then (Inl (''Cannot create lockfile at '' @ LOCKFILE @ '': '' @ exists_err os), present)
      else case create_err os of
        Some e \<Rightarrow> (Inl (''Cannot create lockfile at '' @ LOCKFILE @ '': '' @ e), present)
      | None \<Rightarrow> (case write_err os of
          Some e \<Rightarrow> (Inl (''cannot write to '' @ LOCKFILE @ '': '' @ e), True)
        | None \<Rightarrow> (case flush_err os of
            Some e \<Rightarrow> (Inl (''cannot flush '' @ LOCKFILE @ '': '' @ e), True)
          | None \<Rightarrow> (Inr True, True))))"

text \<open>Dropping the lock: only a held lock is removed, and a failed removal is ignored.\<close>

definition Lockfile_drop :: "bool \<Rightarrow> bool \<Rightarrow> bool \<Rightarrow> bool" where
  "Lockfile_drop remove_ok held present = (if held \<and> remove_ok then False else present)"

section \<open>Starting the actors\<close>

datatype boot_effect =
    ConnectSwarm
  | SpawnAgent
  | SpawnScheduler
  | SpawnHttp
  | RegisterActor string
  | WaitForShutdown string

definition AGENT :: string where "AGENT = ''agent''"

definition SCHEDULER :: string where "SCHEDULER = ''scheduler''"

definition HTTP_API_SERVER :: string where "HTTP_API_SERVER = ''http_api_server''"

text \<open>How the task of \<open>inner_main\<close> ends: \<open>unwrap\<close> on a failed swarm connection panics, other errors are
  returned.\<close>

datatype task_end = Panicked string | Returned "string + unit"

type_synonym boot_failures = "boot_effect list \<Rightarrow> boot_effect \<Rightarrow> string option"

definition wait_for :: "string \<Rightarrow> (boot_effect, unit) act" where
  "wait_for who j = (Inr (), j @ [WaitForShutdown who])"

definition spawn_actor :: "boot_effect \<Rightarrow> (boot_effect, unit) act" where
  "spawn_actor e j = (Inr (), j @ [e])"

definition start_manager :: "boot_failures \<Rightarrow> (boot_effect, unit) act" where
  "start_manager fails =
     io_then (spawn_actor SpawnScheduler)
     (io_then (spawn_actor SpawnHttp)
     (io_then (emit fails (RegisterActor SCHEDULER))
     (io_then (emit fails (RegisterActor HTTP_API_SERVER))
     (io_then (wait_for SCHEDULER) (wait_for HTTP_API_SERVER)))))"

definition start_actors :: "boot_failures \<Rightarrow> Config \<Rightarrow> (boot_effect, unit) act" where
  "start_actors fails cfg =
     io_then (spawn_actor SpawnAgent)
     (io_then (emit fails (RegisterActor AGENT))
     (io_then (if get_manager_enabled cfg then start_manager fails else io_return ())
        (wait_for AGENT)))"

definition inner_main :: "boot_failures \<Rightarrow> Config \<Rightarrow> boot_effect list \<Rightarrow> task_end \<times> boot_effect list" where
  "inner_main fails cfg j =
     (case emit fails ConnectSwarm j of
        (Inl e, j') \<Rightarrow> (Panicked e, j')
      | (Inr _, j') \<Rightarrow> (case start_actors fails cfg j' of (r, j'') \<Rightarrow> (Returned r, j'')))"

section \<open>Main loop\<close>

text \<open>Each round looks whether the task has finished, then whether a termination signal has arrived. The
  list holds what the rounds see; \<open>None\<close> means that the loop still runs.\<close>

fun mainloop_rounds :: "(task_end option \<times> bool) list \<Rightarrow> (string + unit) option" where
  "mainloop_rounds [] = None"
| "mainloop_rounds ((Some (Panicked e), _) # _) = Some (Inl (''cannot join main thread: '' @ e))"
| "mainloop_rounds ((Some (Returned r), _) # _) = Some r"
| "mainloop_rounds ((None, True) # _) = Some (Inl ''Exit due to termination signal'')"
| "mainloop_rounds ((None, False) # rest) = mainloop_rounds rest"

definition mainloop :: "string option \<Rightarrow> (task_end option \<times> bool) list \<Rightarrow> (string + unit) option" where
  "mainloop build_err rounds =
     (case build_err of
        Some e \<Rightarrow> Some (Inl (''can'' @ [CHR 0x27] @ ''t build tokio: '' @ e))
      | None \<Rightarrow> mainloop_rounds rounds)"

text \<open>The process: the lock is taken before the runtime starts and dropped when the loop has ended,
  whatever its result. \<open>setup\<close> is the outcome of setting up logging and signals.\<close>

definition process_main ::
  "string + unit \<Rightarrow> lock_os \<Rightarrow> bool \<Rightarrow> Config \<Rightarrow> string option \<Rightarrow> (task_end option \<times> bool) list \<Rightarrow> bool
    \<Rightarrow> (string + unit) option \<times> bool" where
  "process_main setup os remove_ok cfg build_err rounds present =
     (case setup of
        Inl e \<Rightarrow> (Some (Inl e), present)
      | Inr _ \<Rightarrow>
          (case init_lockfile os cfg present of
             (Inl e, present') \<Rightarrow> (Some (Inl e), present')
           | (Inr held, present') \<Rightarrow>
               (case mainloop build_err rounds of
                  None \<Rightarrow> (None, present')
                | Some r \<Rightarrow> (Some r, Lockfile_drop remove_ok held present'))))"

section \<open>Processes on one node\<close>

text \<open>\<open>register_termsigs\<close>: the first termination signal sets the flag the main loop reads, a second one ends
  the process at once, without dropping the lock.\<close>

datatype process = Idle | Up bool bool | Down   \<comment> \<open>a running process: lock held, flag set\<close>

fun on_signal :: "process \<Rightarrow> process" where
  "on_signal (Up held False) = Up held True"
| "on_signal (Up held True) = Down"
| "on_signal p = p"

record node =
  lock_present :: bool
  processes :: "nat \<Rightarrow> process"

inductive node_step :: "node \<Rightarrow> node \<Rightarrow> bool" where
  node_start:
    "processes s p = Idle \<Longrightarrow> init_lockfile os cfg (lock_present s) = (Inr held, l) \<Longrightarrow>
     node_step s \<lparr>lock_present = l, processes = (processes s)(p := Up held False)\<rparr>"
| node_refused:
    "processes s p = Idle \<Longrightarrow> init_lockfile os cfg (lock_present s) = (Inl e, l) \<Longrightarrow>
     node_step s \<lparr>lock_present = l, processes = (processes s)(p := Down)\<rparr>"
| node_signal:
    "node_step s (s\<lparr>processes := (processes s)(p := on_signal (processes s p))\<rparr>)"
| node_exit:
    "processes s p = Up held flag \<Longrightarrow>
     node_step s \<lparr>lock_present = Lockfile_drop ok held (lock_present s), processes = (processes s)(p := Down)\<rparr>"
| node_crash:
    "processes s p = Up held flag \<Longrightarrow> node_step s (s\<lparr>processes := (processes s)(p := Down)\<rparr>)"

definition node_initial :: "node \<Rightarrow> bool" where
  "node_initial s \<longleftrightarrow> (\<forall>p. processes s p = Idle)"

fun holds_lock :: "process \<Rightarrow> bool" where
  "holds_lock (Up held _) = held"
| "holds_lock _ = False"

definition single_holder :: "node \<Rightarrow> bool" where
  "single_holder s \<longleftrightarrow>
     (\<forall>p. holds_lock (processes s p) \<longrightarrow> lock_present s) \<and>
     (\<forall>p q. holds_lock (processes s p) \<longrightarrow> holds_lock (processes s q) \<longrightarrow> p = q)"

section \<open>Properties\<close>

lemma init_lockfile_cases:
  assumes "init_lockfile os cfg present = (r, l)"
  shows "(present \<longrightarrow> l) \<and> (r = Inr True \<longrightarrow> \<not> present \<and> l)"
  using assms by (auto simp: init_lockfile_def split: if_splits option.splits)

lemma holds_on_signal: "holds_lock (on_signal p) \<Longrightarrow> holds_lock p"
  by (cases p rule: on_signal.cases) auto

lemma single_holder_keep:
  assumes "single_holder s" and "\<And>q. holds_lock (processes t q) \<Longrightarrow> holds_lock (processes s q)"
    and "\<And>q. holds_lock (processes t q) \<Longrightarrow> lock_present s \<Longrightarrow> lock_present t"
  shows "single_holder t"
  using assms unfolding single_holder_def by metis

interpretation node_runs: invariant_system node_initial node_step single_holder
proof
  fix s assume "node_initial s"
  then show "single_holder s" by (auto simp: node_initial_def single_holder_def)
next
  fix s t assume inv: "single_holder s" and "node_step s t"
  from this(2) show "single_holder t"
  proof (cases rule: node_step.cases)
    case (node_start p os cfg held l)
    note lock = init_lockfile_cases [OF node_start(3)]
    show ?thesis
    proof (cases held)
      case True
      with lock inv have "\<not> holds_lock (processes s q)" for q by (auto simp: single_holder_def)
      with node_start True lock show ?thesis by (auto simp: single_holder_def)
    next
      case False
      with inv node_start lock show ?thesis by (intro single_holder_keep [OF inv]) (auto split: if_splits)
    qed
  next
    case (node_refused p os cfg e l)
    with init_lockfile_cases [OF node_refused(3)] show ?thesis
      by (intro single_holder_keep [OF inv]) (auto split: if_splits)
  next
    case (node_signal p)
    then show ?thesis by (intro single_holder_keep [OF inv]) (auto split: if_splits dest: holds_on_signal)
  next
    case (node_exit p held flag ok)
    have "q \<noteq> p \<Longrightarrow> holds_lock (processes s q) \<Longrightarrow> \<not> held" for q
      using inv node_exit(2) unfolding single_holder_def by (metis holds_lock.simps(1))
    with node_exit show ?thesis
      by (intro single_holder_keep [OF inv]) (auto simp: Lockfile_drop_def split: if_splits)
  next
    case (node_crash p held flag)
    then show ?thesis by (intro single_holder_keep [OF inv]) (auto split: if_splits)
  qed
qed

lemma locked_out:
  assumes "no_lockfile cfg \<noteq> Some True"
  shows "\<exists>e. init_lockfile os cfg True = (Inl e, True)"
  using assms by (auto simp: init_lockfile_def split: option.splits)

text \<open>C32. One process per node: whatever processes are started, signalled, stopped or killed, at most one of
  them holds the lock, the lock file then exists, no other process removes it, and a further start that
  does not opt out of locking is refused and leaves the file in place.\<close>

theorem single_instance:
  assumes "reachable node_initial node_step s" and "holds_lock (processes s p)"
  shows "lock_present s \<and> (\<forall>q. holds_lock (processes s q) \<longrightarrow> q = p) \<and>
    (no_lockfile cfg \<noteq> Some True \<longrightarrow> (\<exists>e. init_lockfile os cfg (lock_present s) = (Inl e, True)))"
proof -
  have "single_holder s" using assms(1) by (rule node_runs.reachable_inv)
  with assms(2) have "lock_present s" and "\<forall>q. holds_lock (processes s q) \<longrightarrow> q = p"
    by (auto simp: single_holder_def)
  with locked_out [of cfg os] show ?thesis by auto
qed

theorem single_instance_witness:
  "\<exists>e. init_lockfile \<lparr>exists_err = ''exists'', create_err = None, write_err = None, flush_err = None\<rparr> sample_config True
     = (Inl e, True)"
proof -
  let ?os = "\<lparr>exists_err = ''exists'', create_err = None, write_err = None, flush_err = None\<rparr>"
  let ?s = "\<lparr>lock_present = False, processes = \<lambda>_. Idle\<rparr>"
  let ?t = "\<lparr>lock_present = True, processes = (\<lambda>_. Idle)(0 := Up True False)\<rparr>"
  have "reachable node_initial node_step ?s" by (rule reach_init) (simp add: node_initial_def)
  moreover have "init_lockfile ?os sample_config False = (Inr True, True)"
    by (simp add: init_lockfile_def sample_config_def)
  then have "node_step ?s ?t" using node_start [of ?s 0 ?os sample_config True True] by simp
  ultimately have "reachable node_initial node_step ?t" by (rule reach_step)
  from single_instance [OF this, of 0 sample_config ?os] show ?thesis by (simp add: sample_config_def)
qed

text \<open>A process that ends by itself removes the lock it has taken, whatever the result of its main loop;
  a lock file it could not write stays behind and blocks every later start.\<close>

lemma lock_released:
  assumes "process_main setup os True cfg build_err rounds False = (Some r, l)"
    and "write_err os = None" and "flush_err os = None"
  shows "\<not> l"
  using assms
  by (auto simp: process_main_def init_lockfile_def Lockfile_drop_def split: sum.splits if_splits option.splits)

lemma unwritable_lock_stays:
  assumes "no_lockfile cfg \<noteq> Some True" and "create_err os = None" and "write_err os = Some e"
  shows "process_main (Inr ()) os remove_ok cfg build_err rounds False =
    (Some (Inl (''cannot write to '' @ LOCKFILE @ '': '' @ e)), True)"
  using assms by (auto simp: process_main_def init_lockfile_def split: option.splits)

text \<open>A node always runs an agent; the scheduler and the HTTP server are started, and registered in this
  order, exactly when the manager is enabled.\<close>

lemma startup_sequence:
  assumes "\<And>j e. fails j e = None"
  shows "inner_main fails cfg [] = (Returned (Inr ()),
    [ConnectSwarm, SpawnAgent, RegisterActor AGENT] @
    (if get_manager_enabled cfg
     then [SpawnScheduler, SpawnHttp, RegisterActor SCHEDULER, RegisterActor HTTP_API_SERVER,
           WaitForShutdown SCHEDULER, WaitForShutdown HTTP_API_SERVER] else []) @
    [WaitForShutdown AGENT])"
  using assms
  by (simp add: inner_main_def start_actors_def start_manager_def spawn_actor_def wait_for_def io_then_def
      io_bind_def io_return_def emit_def)

text \<open>The main loop ends in the first round that sees the task finished or a signal, with the result of the
  task if it has one.\<close>

lemma mainloop_ends:
  "mainloop_rounds (replicate n (None, False) @ (Some (Returned r), flag) # rest) = Some r"
  "mainloop_rounds (replicate n (None, False) @ (None, True) # rest) = Some (Inl ''Exit due to termination signal'')"
  by (induction n) auto

end
