(* ===== verification/Support.thy ===== *)
theory Support
  imports Api_Wire Process
begin

text \<open>
  The small parts around the core: joining the peer-to-peer network (\<open>utils/mod.rs\<close>), the start of the HTTP server
  (\<open>actors/http_actor.rs\<close>), the services that are not implemented (\<open>actors/storage_actor.rs\<close>,
  \<open>actors/serial_terminal_websocket_actor.rs\<close>, \<open>networking/actor_unsupported.rs\<close>), liveness and panic messages of
  the actors, device hot-plug (\<open>ch_driver/devices.rs\<close>) and the errors of the hypervisor client (\<open>ch_driver/instance.rs\<close>).
\<close>

section \<open>Peer-to-peer network\<close>

datatype ('peer, 'addr) swarm_event =
    MdnsDiscovered "('peer \<times> 'addr) list"
  | MdnsExpired "('peer \<times> 'addr) list"
  | RegistryEvent
  | MessagingEvent
  | NewListenAddr 'addr
  | ConnectionEstablished 'peer
  | ConnectionClosed 'peer
  | OtherSwarmEvent

datatype ('peer, 'addr) swarm_call = AddPeerAddress 'peer 'addr | DisconnectPeer 'peer

text \<open>One turn of the event loop: discovered peers become known, expired ones are disconnected, everything else is
  only logged.\<close>

fun handle_swarm_event :: "('peer, 'addr) swarm_event \<Rightarrow> ('peer, 'addr) swarm_call list" where
  "handle_swarm_event (MdnsDiscovered ps) = map (\<lambda>(p, a). AddPeerAddress p a) ps"
| "handle_swarm_event (MdnsExpired ps) = map (\<lambda>(p, _). DisconnectPeer p) ps"
| "handle_swarm_event RegistryEvent = []"
| "handle_swarm_event MessagingEvent = []"
| "handle_swarm_event (NewListenAddr _) = []"
| "handle_swarm_event (ConnectionEstablished _) = []"
| "handle_swarm_event (ConnectionClosed _) = []"
| "handle_swarm_event OtherSwarmEvent = []"

text \<open>The calls of the library in the order in which they can fail; the event loop is spawned only when the node
  listens.\<close>

datatype swarm_setup = BuildTcp | BuildBehaviour | InitRegistry | ListenOn string | SpawnSwarmTask

definition connect_to_swarm :: "(swarm_setup list \<Rightarrow> swarm_setup \<Rightarrow> string option) \<Rightarrow> 'peer \<Rightarrow> (swarm_setup, 'peer) act" where
  "connect_to_swarm fails local_peer =
     io_then (emit fails BuildTcp)
     (io_then (emit fails BuildBehaviour)
     (io_then (\<lambda>j. (Inr (), j @ [InitRegistry]))
     (io_then (emit fails (ListenOn ''/ip4/0.0.0.0/tcp/0''))
     (io_then (\<lambda>j. (Inr (), j @ [SpawnSwarmTask])) (io_return local_peer)))))"

lemma swarm_calls_discovered:
  "AddPeerAddress p a \<in> set (concat (map handle_swarm_event evs)) \<longleftrightarrow>
     (\<exists>ps. MdnsDiscovered ps \<in> set evs \<and> (p, a) \<in> set ps)"
proof -
  have "AddPeerAddress p a \<in> set (handle_swarm_event ev) \<longleftrightarrow> (\<exists>ps. ev = MdnsDiscovered ps \<and> (p, a) \<in> set ps)" for ev
    by (cases ev) force+
  then show ?thesis by auto
qed

lemma swarm_calls_disconnected:
  "DisconnectPeer p \<in> set (concat (map handle_swarm_event evs)) \<longleftrightarrow>
     (\<exists>ps. MdnsExpired ps \<in> set evs \<and> p \<in> fst ` set ps)"
proof -
  have "DisconnectPeer p \<in> set (handle_swarm_event ev) \<longleftrightarrow> (\<exists>ps. ev = MdnsExpired ps \<and> p \<in> fst ` set ps)" for ev
    by (cases ev) force+
  moreover have "DisconnectPeer p \<in> set (concat (map handle_swarm_event evs)) \<longleftrightarrow>
      (\<exists>ev \<in> set evs. DisconnectPeer p \<in> set (handle_swarm_event ev))"
    by (induction evs) auto
  ultimately show ?thesis by (metis (no_types, lifting))
qed

section \<open>HTTP server\<close>

definition EXTERNAL_HTTP_ADDRESS :: string where
  "EXTERNAL_HTTP_ADDRESS = ''0.0.0.0:3000''"

datatype server_end = Serving | ServerPanicked string

text \<open>\<open>on_start\<close> spawns the server and succeeds at once; a failure to bind or to serve panics the spawned task only.\<close>

definition http_server_task :: "(string \<Rightarrow> string option) \<Rightarrow> string option \<Rightarrow> server_end" where
  "http_server_task bind_err serve_err =
     (case bind_err EXTERNAL_HTTP_ADDRESS of
        Some e \<Rightarrow> ServerPanicked e
      | None \<Rightarrow> (case serve_err of Some e \<Rightarrow> ServerPanicked e | None \<Rightarrow> Serving))"

definition HTTPActor_on_start ::
  "(string \<Rightarrow> string option) \<Rightarrow> string option \<Rightarrow> actor_id \<Rightarrow> (string + actor_id) \<times> server_end" where
  "HTTPActor_on_start bind_err serve_err scheduler = (Inr scheduler, http_server_task bind_err serve_err)"

lemma http_actor_survives_bind_failure:
  "bind_err EXTERNAL_HTTP_ADDRESS = Some e \<Longrightarrow>
     HTTPActor_on_start bind_err serve_err s = (Inr s, ServerPanicked e)"
  by (simp add: HTTPActor_on_start_def http_server_task_def)

section \<open>Services that are not implemented\<close>

definition StorageActor_on_start :: "string + unit" where
  "StorageActor_on_start = Inl ''storage service is not implemented''"

definition SerialTerminalWebsocketActor_on_start :: "string + unit" where
  "SerialTerminalWebsocketActor_on_start = Inl ''serial-terminal WebSocket service is not implemented''"

definition IPManagementActor_on_start :: "string + unit" where
  "IPManagementActor_on_start = Inr ()"

text \<open>Host networking on other systems: the actor starts and refuses every device.\<close>

definition unsupported_on_start :: "NetworkConfig \<Rightarrow> string + NetworkConfig" where
  "unsupported_on_start cfg = Inr cfg"

definition unsupported_AttachTap :: "(ulid \<Rightarrow> string) \<Rightarrow> ulid \<Rightarrow> string \<Rightarrow> string + unit" where
  "unsupported_AttachTap to_str vmid tap_name =
     Inl (''cannot attach TAP '' @ tap_name @ '' for VM '' @ to_str vmid @
          '': host networking management is only supported on Linux'')"

definition unsupported_DetachTap :: "(ulid \<Rightarrow> string) \<Rightarrow> ulid \<Rightarrow> string \<Rightarrow> string + unit" where
  "unsupported_DetachTap to_str vmid tap_name =
     Inl (''cannot detach TAP '' @ tap_name @ '' for VM '' @ to_str vmid @
          '': host networking management is only supported on Linux'')"

section \<open>Liveness and panics\<close>

datatype pong = Pong

datatype actor_control = ContinueActor | BreakActor string   \<comment> \<open>the reason for stopping\<close>

definition AgentActor_Ping :: "'s \<Rightarrow> pong \<times> 's" where
  "AgentActor_Ping st = (Pong, st)"

definition SchedulerActor_Ping :: "'s \<Rightarrow> pong \<times> 's" where
  "SchedulerActor_Ping st = (Pong, st)"

text \<open>The handler panics with the given message; \<open>on_panic\<close> then stops the agent.\<close>

definition AgentActor_on_panic :: "string \<Rightarrow> actor_control" where
  "AgentActor_on_panic err = BreakActor err"

definition AgentActor_PanicAgent :: "actor_control" where
  "AgentActor_PanicAgent = AgentActor_on_panic ''explicit panic''"

section \<open>Device hot-plug\<close>

definition forward_call :: "string \<Rightarrow> string + 'r \<Rightarrow> string + 'r" where
  "forward_call context r = (case r of Inl _ \<Rightarrow> Inl context | Inr x \<Rightarrow> Inr x)"

definition add_device :: "('cfg \<Rightarrow> string + 'info) \<Rightarrow> string \<Rightarrow> 'cfg \<Rightarrow> string + 'info" where
  "add_device vm_add_device_put vmid cfg = forward_call (''Failed to add device to VM '' @ vmid) (vm_add_device_put cfg)"

definition remove_device :: "('dev \<Rightarrow> string + unit) \<Rightarrow> string \<Rightarrow> 'dev \<Rightarrow> string + unit" where
  "remove_device vm_remove_device_put vmid dev =
     forward_call (''Failed to remove device from VM '' @ vmid) (vm_remove_device_put dev)"

definition add_net :: "('cfg \<Rightarrow> string + 'info) \<Rightarrow> string \<Rightarrow> 'cfg \<Rightarrow> string + 'info" where
  "add_net vm_add_net_put vmid cfg =
     forward_call (''Failed to add network device to VM '' @ vmid) (vm_add_net_put cfg)"

section \<open>Errors of the hypervisor client\<close>

text \<open>An answer of the hypervisor has a status and a body; any other client error is kept.\<close>

datatype 'e ChClientError = ClientApi nat string | ClientOther 'e

datatype 'e ChApiError = ApiError nat "string list" | ApiClient 'e

definition ChApiError_from :: "(string \<Rightarrow> json option) \<Rightarrow> 'e ChClientError \<Rightarrow> 'e ChApiError" where
  "ChApiError_from parse_json err =
     (case err of
        ClientApi code body \<Rightarrow>
          ApiError code (case Option.bind (parse_json body) (dec_list dec_string) of Some es \<Rightarrow> es | None \<Rightarrow> [body])
      | ClientOther e \<Rightarrow> ApiClient e)"

text \<open>A list of messages is passed on as it is, any other body as the one message.\<close>

lemma ChApiError_messages:
  "parse_json body = Some (enc_list JStr es) \<Longrightarrow> ChApiError_from parse_json (ClientApi code body) = ApiError code es"
  "parse_json body = None \<Longrightarrow> ChApiError_from parse_json (ClientApi code body) = ApiError code [body]"
  by (simp_all add: ChApiError_from_def string_json.dec_list_enc)

end
