(* ===== verification/Command_Line.thy ===== *)
theory Command_Line
  imports Api_Wire
begin

text \<open>
  The command line of \<open>odoroboctl\<close> as its attributes declare it (\<open>odoroboctl/src/cli.rs\<close>, \<open>main.rs\<close>): which options a
  command has, which environment variables stand in for them and which defaults apply. Splitting the arguments
  into a command and its options, and reading a number or a size, are the argument library's and parameters;
  an option wins over its variable, a variable over the default, and a required option without either is an error.
\<close>

section \<open>Definitions\<close>

text \<open>The long options of a command line with their values, in order.\<close>

type_synonym options = "(string \<times> string) list"

text \<open>An option that may be given once: given twice is an error (\<open>None\<close>), not given is \<open>Some None\<close>.\<close>

definition single_option :: "string \<Rightarrow> options \<Rightarrow> string option option" where
  "single_option k opts =
     (case filter (\<lambda>(o', _). o' = k) opts of
        [] \<Rightarrow> Some None
      | [(_, v)] \<Rightarrow> Some (Some v)
      | _ \<Rightarrow> None)"

definition or_else :: "'a option \<Rightarrow> 'a option \<Rightarrow> 'a option" where
  "or_else a b = (case a of Some x \<Rightarrow> Some x | None \<Rightarrow> b)"

record Cli =
  manager_addr :: string
  command :: Command

definition default_manager_addr :: string where
  "default_manager_addr = ''http://localhost:3000''"

text \<open>The subcommands, with the environment variable \<open>ODOROBO_VM_IMAGE\<close>. \<open>parse_vcpus\<close> and \<open>parse_size\<close> read a
  \<open>u32\<close> and a \<open>ByteSize\<close>.\<close>

definition create_command ::
  "(string \<Rightarrow> u32 option) \<Rightarrow> (string \<Rightarrow> u64 option) \<Rightarrow> string option \<Rightarrow> options \<Rightarrow> Command option" where
  "create_command parse_vcpus parse_size image_var opts = do {
     img \<leftarrow> single_option ''image'' opts;
     name \<leftarrow> single_option ''name'' opts;
     n \<leftarrow> single_option ''vcpus'' opts;
     mem \<leftarrow> single_option ''memory'' opts;
     i \<leftarrow> or_else img image_var;
     cpus \<leftarrow> (case n of Some t \<Rightarrow> parse_vcpus t | None \<Rightarrow> Some 4);
     size \<leftarrow> parse_size (case mem of Some t \<Rightarrow> t | None \<Rightarrow> ''4GiB'');
     Some (Create i (case name of Some t \<Rightarrow> t | None \<Rightarrow> ''test_vm'') cpus size) }"

definition subcommand ::
  "(string \<Rightarrow> u32 option) \<Rightarrow> (string \<Rightarrow> u64 option) \<Rightarrow> string option \<Rightarrow> string \<Rightarrow> options \<Rightarrow> string list \<Rightarrow> Command option" where
  "subcommand parse_vcpus parse_size image_var name opts positional =
     (if name = ''create'' then
        (if positional = [] \<and> list_all (\<lambda>(k, _). k \<in> set [''image'', ''name'', ''vcpus'', ''memory'']) opts
         then create_command parse_vcpus parse_size image_var opts else None)
      else if opts \<noteq> [] then None
      else if name = ''list'' then (if positional = [] then Some ListVms else None)
      else (case positional of
              [vmid] \<Rightarrow> if name = ''delete'' then Some (DeleteCmd vmid)
                else if name = ''shutdown'' then Some (ShutdownCmd vmid) else None
            | _ \<Rightarrow> None))"

text \<open>\<open>Cli::parse\<close>: \<open>addr_var\<close> is \<open>ODOROBO_MANAGER_ADDR\<close>, \<open>global\<close> the options before the subcommand.\<close>

definition Cli_parse ::
  "(string \<Rightarrow> u32 option) \<Rightarrow> (string \<Rightarrow> u64 option) \<Rightarrow> string option \<Rightarrow> string option \<Rightarrow> options \<Rightarrow> string \<Rightarrow> options \<Rightarrow> string list
    \<Rightarrow> Cli option" where
  "Cli_parse parse_vcpus parse_size addr_var image_var global name opts positional =
     (if \<not> list_all (\<lambda>(k, _). k = ''manager-addr'') global then None
      else do {
        addr \<leftarrow> single_option ''manager-addr'' global;
        c \<leftarrow> subcommand parse_vcpus parse_size image_var name opts positional;
        Some \<lparr>manager_addr = (case or_else addr addr_var of Some a \<Rightarrow> a | None \<Rightarrow> default_manager_addr), command = c\<rparr> })"

text \<open>\<open>main\<close> of the client: what it sends, when the arguments are accepted.\<close>

definition cli_main ::
  "(string \<Rightarrow> u32 option) \<Rightarrow> (string \<Rightarrow> u64 option) \<Rightarrow> string option \<Rightarrow> string option \<Rightarrow> ulid \<Rightarrow> options \<Rightarrow> string \<Rightarrow> options
    \<Rightarrow> string list \<Rightarrow> (ManifestError + cli_request) option" where
  "cli_main parse_vcpus parse_size addr_var image_var i global name opts positional =
     map_option (\<lambda>cli. run_command i (manager_addr cli) (command cli))
       (Cli_parse parse_vcpus parse_size addr_var image_var global name opts positional)"

section \<open>Which commands a command line can give\<close>

lemma single_option_once: "distinct (map fst opts) \<Longrightarrow> single_option k opts = Some (map_of opts k)"
proof -
  assume "distinct (map fst opts)"
  then have "filter (\<lambda>(o', _). o' = k) opts = (case map_of opts k of Some v \<Rightarrow> [(k, v)] | None \<Rightarrow> [])"
    by (induction opts) (force simp: filter_empty_conv dest: map_of_SomeD split: option.splits)+
  then show ?thesis by (auto simp: single_option_def split: option.splits)
qed

text \<open>A create command line whose options are given once each, with an image and readable numbers, is the
  command with the given values and the declared defaults.\<close>

lemma create_line_accepted:
  assumes "distinct (map fst opts)" and "set (map fst opts) \<subseteq> {''image'', ''name'', ''vcpus'', ''memory''}"
    and "or_else (map_of opts ''image'') image_var = Some img"
    and "(case map_of opts ''vcpus'' of Some t \<Rightarrow> parse_vcpus t | None \<Rightarrow> Some 4) = Some n"
    and "parse_size (case map_of opts ''memory'' of Some t \<Rightarrow> t | None \<Rightarrow> ''4GiB'') = Some mem"
  shows "subcommand parse_vcpus parse_size image_var ''create'' opts [] =
    Some (Create img (case map_of opts ''name'' of Some t \<Rightarrow> t | None \<Rightarrow> ''test_vm'') n mem)"
  using assms by (auto simp: subcommand_def create_command_def single_option_once list_all_iff)

text \<open>A request that reaches the manager comes from an accepted command line, and a create request never
  carries a manifest that violates the contract.\<close>

lemma cli_main_sends_valid:
  assumes "cli_main parse_vcpus parse_size addr_var image_var i global name opts positional = Some (Inr (Post url vm))"
  shows "manifest_contract vm \<and> manifest_id vm = i \<and> name = ''create'' \<and> positional = [] \<and>
    (\<exists>base. url = base @ ''/vms'')"
proof -
  obtain cli where cli: "Cli_parse parse_vcpus parse_size addr_var image_var global name opts positional = Some cli"
      "run_command i (manager_addr cli) (command cli) = Inr (Post url vm)"
    using assms by (auto simp: cli_main_def)
  obtain img nm n mem where c: "command cli = Create img nm n mem"
    using cli(2) by (cases "command cli") auto
  have "subcommand parse_vcpus parse_size image_var name opts positional = Some (command cli)"
    using cli(1) by (auto simp: Cli_parse_def bind_eq_Some_conv split: if_splits)
  then have "name = ''create'' \<and> positional = []"
    unfolding c by (auto simp: subcommand_def split: if_splits list.splits)
  moreover have "manifest_contract vm \<and> manifest_id vm = i \<and> url = manager_addr cli @ ''/vms''"
    using cli(2) unfolding c
    by (auto simp: Let_def cli_manifest_def VmManifest_validate_ok split: sum.splits dest: sym)
  ultimately show ?thesis by blast
qed

end
