(* ===== verification/Config_Json.thy ===== *)
theory Config_Json
  imports Config Manifest_Json
begin

text \<open>
  The serialised configuration (\<open>odorobo/src/config.rs\<close>): the reader and the writer that the derive attributes give
  every type, with the functions that supply the defaults of left-out fields. IPv4 addresses are in the standard
  library's text form; the text form of a subnet belongs to the \<open>ipnet\<close> library and is a parameter. The output of
  \<open>ip route\<close>, from which the default upstream interface is inferred, is an argument.
\<close>

section \<open>IPv4 addresses as texts\<close>

fun split_on :: "char \<Rightarrow> string \<Rightarrow> string list" where
  "split_on x [] = [[]]"
| "split_on x (c # s) =
     (if c = x then [] # split_on x s
      else (case split_on x s of w # ws \<Rightarrow> (c # w) # ws | [] \<Rightarrow> [[c]]))"

text \<open>An octet: one to three digits, no leading zero, at most 255.\<close>

definition parse_octet :: "string \<Rightarrow> nat option" where
  "parse_octet s =
     (if s \<noteq> [] \<and> length s \<le> 3 \<and> list_all is_ascii_digit s \<and> (length s = 1 \<or> hd s \<noteq> CHR ''0'') \<and> digits_val s \<le> 255
      then Some (digits_val s) else None)"

definition ipv4_to_str :: "ipv4 \<Rightarrow> string" where
  "ipv4_to_str a =
     (let n = unat a in
      show_nat (n div 2 ^ 24) @ ''.'' @ show_nat (n div 2 ^ 16 mod 256) @ ''.'' @ show_nat (n div 2 ^ 8 mod 256) @ ''.'' @
      show_nat (n mod 256))"

definition ipv4_parse :: "string \<Rightarrow> ipv4 option" where
  "ipv4_parse s =
     (case split_on (CHR ''.'') s of
        [a, b, c, d] \<Rightarrow> do {
          x \<leftarrow> parse_octet a; y \<leftarrow> parse_octet b; z \<leftarrow> parse_octet c; w \<leftarrow> parse_octet d;
          Some (of_nat (((x * 256 + y) * 256 + z) * 256 + w)) }
      | _ \<Rightarrow> None)"

definition enc_ipv4 :: "ipv4 \<Rightarrow> json" where
  "enc_ipv4 a = JStr (ipv4_to_str a)"

definition dec_ipv4 :: "json \<Rightarrow> ipv4 option" where
  "dec_ipv4 j = Option.bind (dec_string j) ipv4_parse"

section \<open>Readers and writers\<close>

definition enc_net :: "(Ipv4Net \<Rightarrow> string) \<Rightarrow> Ipv4Net \<Rightarrow> json" where
  "enc_net net_str n = JStr (net_str n)"

definition dec_net :: "(string \<Rightarrow> Ipv4Net option) \<Rightarrow> json \<Rightarrow> Ipv4Net option" where
  "dec_net net_parse j = Option.bind (dec_string j) net_parse"

text \<open>A pair is an array of two.\<close>

definition enc_range :: "ipv4 \<times> ipv4 \<Rightarrow> json" where
  "enc_range r = JArr [enc_ipv4 (fst r), enc_ipv4 (snd r)]"

definition dec_range :: "json \<Rightarrow> (ipv4 \<times> ipv4) option" where
  "dec_range j =
     (case j of
        JArr [a, b] \<Rightarrow> do { x \<leftarrow> dec_ipv4 a; y \<leftarrow> dec_ipv4 b; Some (x, y) }
      | _ \<Rightarrow> None)"

definition DhcpConfig_serialize :: "(Ipv4Net \<Rightarrow> string) \<Rightarrow> DhcpConfig \<Rightarrow> json" where
  "DhcpConfig_serialize net_str d = JObj
     [(''range'', enc_range (dhcp_range d)), (''subnet'', enc_net net_str (dhcp_subnet d)),
      (''lease_time'', JStr (lease_time d))]"

definition DhcpConfig_deserialize :: "(string \<Rightarrow> Ipv4Net option) \<Rightarrow> json \<Rightarrow> DhcpConfig option" where
  "DhcpConfig_deserialize net_parse j = do {
     fs \<leftarrow> struct_fields False [''range'', ''subnet'', ''lease_time''] j;
     r \<leftarrow> field_req ''range'' dec_range fs;
     s \<leftarrow> field_req ''subnet'' (dec_net net_parse) fs;
     l \<leftarrow> field_req ''lease_time'' dec_string fs;
     Some \<lparr>dhcp_range = r, dhcp_subnet = s, lease_time = l\<rparr> }"

text \<open>A variant with fields is an object with the one member of its name.\<close>

fun NetworkMode_serialize :: "(Ipv4Net \<Rightarrow> string) \<Rightarrow> NetworkMode \<Rightarrow> json" where
  "NetworkMode_serialize net_str (HostonlyNat bridge subnet gateway iface) =
     JObj [(''HostonlyNat'', JObj
       [(''bridge'', JStr bridge), (''subnet'', enc_net net_str subnet), (''gateway'', enc_ipv4 gateway),
        (''upstream_iface'', JStr iface)])]"
| "NetworkMode_serialize net_str (Bridged bridge subnet gateway) =
     JObj [(''Bridged'', JObj
       [(''bridge'', JStr bridge), (''subnet'', enc_net net_str subnet), (''gateway'', enc_ipv4 gateway)])]"

definition NetworkMode_deserialize ::
  "(string \<Rightarrow> Ipv4Net option) \<Rightarrow> string option \<Rightarrow> json \<Rightarrow> NetworkMode option" where
  "NetworkMode_deserialize net_parse route j =
     (case j of
        JObj [(tag, v)] \<Rightarrow>
          if tag = ''HostonlyNat'' then do {
            fs \<leftarrow> struct_fields False [''bridge'', ''subnet'', ''gateway'', ''upstream_iface''] v;
            b \<leftarrow> field_default ''bridge'' default_bridge_name dec_string fs;
            s \<leftarrow> field_default ''subnet'' default_subnet (dec_net net_parse) fs;
            g \<leftarrow> field_default ''gateway'' default_gateway dec_ipv4 fs;
            u \<leftarrow> field_default ''upstream_iface'' (default_upstream_iface route) dec_string fs;
            Some (HostonlyNat b s g u) }
          else if tag = ''Bridged'' then do {
            fs \<leftarrow> struct_fields False [''bridge'', ''subnet'', ''gateway''] v;
            b \<leftarrow> field_req ''bridge'' dec_string fs;
            s \<leftarrow> field_req ''subnet'' (dec_net net_parse) fs;
            g \<leftarrow> field_req ''gateway'' dec_ipv4 fs;
            Some (Bridged b s g) }
          else None
      | _ \<Rightarrow> None)"

definition NetworkConfig_serialize :: "(Ipv4Net \<Rightarrow> string) \<Rightarrow> NetworkConfig \<Rightarrow> json" where
  "NetworkConfig_serialize net_str c = JObj
     [(''dhcp_config'', enc_option (DhcpConfig_serialize net_str) (dhcp_config c)),
      (''network_mode'', NetworkMode_serialize net_str (network_mode c))]"

definition NetworkConfig_deserialize ::
  "(string \<Rightarrow> Ipv4Net option) \<Rightarrow> string option \<Rightarrow> json \<Rightarrow> NetworkConfig option" where
  "NetworkConfig_deserialize net_parse route j = do {
     fs \<leftarrow> struct_fields False [''dhcp_config'', ''network_mode''] j;
     d \<leftarrow> field_option ''dhcp_config'' (DhcpConfig_deserialize net_parse) fs;
     m \<leftarrow> field_req ''network_mode'' (NetworkMode_deserialize net_parse route) fs;
     Some \<lparr>dhcp_config = d, network_mode = m\<rparr> }"

definition NetworkConfig_default :: "string option \<Rightarrow> NetworkConfig" where
  "NetworkConfig_default route = \<lparr>dhcp_config = None, network_mode = default_network_mode route\<rparr>"

text \<open>A hash map is written in its iteration order; members are inserted in document order.\<close>

definition enc_hash_map :: "(string, string) hmap \<Rightarrow> json" where
  "enc_hash_map m = JObj (map (\<lambda>(k, v). (k, JStr v)) m)"

fun hash_map_collect :: "(string, string) hmap \<Rightarrow> (string \<times> json) list \<Rightarrow> (string, string) hmap option" where
  "hash_map_collect m [] = Some m"
| "hash_map_collect m ((k, j) # es) =
     (case dec_string j of None \<Rightarrow> None | Some v \<Rightarrow> hash_map_collect (hm_insert k v m) es)"

definition dec_hash_map :: "json \<Rightarrow> (string, string) hmap option" where
  "dec_hash_map j = (case j of JObj es \<Rightarrow> hash_map_collect [] es | _ \<Rightarrow> None)"

definition config_fields :: "string list" where
  "config_fields =
     [''manager_enabled'', ''hostname'', ''datacenter'', ''region'', ''sentry_dsn'', ''reserved_vcpus'', ''labels'',
      ''annotations'', ''network'', ''no_lockfile'']"

definition Config_serialize :: "(Ipv4Net \<Rightarrow> string) \<Rightarrow> Config \<Rightarrow> json" where
  "Config_serialize net_str c = JObj
     [(''manager_enabled'', enc_option JBool (manager_enabled c)), (''hostname'', enc_option JStr (cfg_hostname c)),
      (''datacenter'', enc_option JStr (datacenter c)), (''region'', enc_option JStr (region c)),
      (''sentry_dsn'', enc_option JStr (sentry_dsn c)), (''reserved_vcpus'', enc_option enc_uint (reserved_vcpus c)),
      (''labels'', enc_hash_map (cfg_labels c)), (''annotations'', enc_hash_map (cfg_annotations c)),
      (''network'', NetworkConfig_serialize net_str (network c)), (''no_lockfile'', enc_option JBool (no_lockfile c))]"

definition Config_deserialize :: "(string \<Rightarrow> Ipv4Net option) \<Rightarrow> string option \<Rightarrow> json \<Rightarrow> Config option" where
  "Config_deserialize net_parse route j = do {
     fs \<leftarrow> struct_fields False config_fields j;
     me \<leftarrow> field_option ''manager_enabled'' dec_bool fs;
     h \<leftarrow> field_option ''hostname'' dec_string fs;
     dc \<leftarrow> field_option ''datacenter'' dec_string fs;
     rg \<leftarrow> field_option ''region'' dec_string fs;
     dsn \<leftarrow> field_default ''sentry_dsn'' None (dec_option dec_string) fs;
     rv \<leftarrow> field_option ''reserved_vcpus'' dec_uint fs;
     ls \<leftarrow> field_default ''labels'' [] dec_hash_map fs;
     as \<leftarrow> field_default ''annotations'' [] dec_hash_map fs;
     nw \<leftarrow> field_default ''network'' (NetworkConfig_default route) (NetworkConfig_deserialize net_parse route) fs;
     nl \<leftarrow> field_option ''no_lockfile'' dec_bool fs;
     Some \<lparr>manager_enabled = me, cfg_hostname = h, datacenter = dc, region = rg, sentry_dsn = dsn, reserved_vcpus = rv,
           cfg_labels = ls, cfg_annotations = as, network = nw, no_lockfile = nl\<rparr> }"

section \<open>Addresses are read back\<close>

lemma split_on_word: "x \<notin> set w \<Longrightarrow> split_on x w = [w]"
  by (induction w) auto

lemma split_on_append: "x \<notin> set w \<Longrightarrow> split_on x (w @ x # s) = w # split_on x s"
  by (induction w) auto

lemma show_nat_length: "n < 10 ^ k \<Longrightarrow> 0 < k \<Longrightarrow> length (show_nat n) \<le> k"
proof (induction k arbitrary: n)
  case (Suc k)
  show ?case
  proof (cases "n < 10")
    case False
    with Suc.prems have "n div 10 < 10 ^ k" "0 < k" by (auto intro: gr0I)
    with Suc.IH [of "n div 10"] show ?thesis by (subst show_nat.simps) (simp add: False)
  qed (simp add: show_nat.simps)
qed simp

lemma show_nat_head: "0 < n \<Longrightarrow> hd (show_nat n) \<noteq> CHR ''0''"
proof (induction n rule: show_nat.induct)
  case (1 n)
  show ?case
  proof (cases "n < 10")
    case True
    with 1 show ?thesis
      using digit_char_digit [of n] by (auto simp: show_nat.simps [of n] digit_val_def)
  next
    case False
    with 1 show ?thesis by (subst show_nat.simps) (simp add: hd_append)
  qed
qed

lemma parse_octet_show: "n \<le> 255 \<Longrightarrow> parse_octet (show_nat n) = Some n"
proof -
  assume n: "n \<le> 255"
  have "length (show_nat n) \<le> 3" using n by (intro show_nat_length) simp_all
  moreover have "length (show_nat n) = 1 \<or> hd (show_nat n) \<noteq> CHR ''0''"
    using show_nat_head [of n] by (cases "n = 0") (simp_all add: show_nat.simps)
  ultimately show ?thesis
    using n by (simp add: parse_octet_def show_nat_digits)
qed

lemma no_dot_in_digits: "CHR ''.'' \<notin> set (show_nat n)"
  using show_nat_digits [of n] by (auto simp: list_all_iff is_ascii_digit_def)

lemma ipv4_read_back: "ipv4_parse (ipv4_to_str a) = Some a"
proof -
  define n where "n = unat a"
  have n: "n < 2 ^ 32" using unsigned_less [of a] by (simp add: n_def)
  let ?a = "n div 2 ^ 24" and ?b = "n div 2 ^ 16 mod 256" and ?c = "n div 2 ^ 8 mod 256" and ?d = "n mod 256"
  have le: "?a \<le> 255" "?b \<le> 255" "?c \<le> 255" "?d \<le> 255"
    using n by (simp_all add: less_mult_imp_div_less flip: less_Suc_eq_le)
  have "split_on (CHR ''.'') (ipv4_to_str a) = [show_nat ?a, show_nat ?b, show_nat ?c, show_nat ?d]"
    by (simp add: ipv4_to_str_def Let_def n_def split_on_append split_on_word no_dot_in_digits)
  then have "ipv4_parse (ipv4_to_str a) = Some (of_nat (((?a * 256 + ?b) * 256 + ?c) * 256 + ?d))"
    by (simp add: ipv4_parse_def parse_octet_show [OF le(1), simplified] parse_octet_show)
  also have "((?a * 256 + ?b) * 256 + ?c) * 256 + ?d = n"
  proof -
    have "n div 2 ^ 8 = n div 256" "n div 2 ^ 16 = n div 256 div 256" "n div 2 ^ 24 = n div 256 div 256 div 256"
      by (simp_all add: div_mult2_eq [symmetric])
    then show ?thesis by simp
  qed
  finally show ?thesis by (simp add: n_def)
qed

interpretation ipv4_json: json_codec enc_ipv4 dec_ipv4 "\<lambda>_. True"
  by unfold_locales (simp_all add: enc_ipv4_def dec_ipv4_def dec_string_def ipv4_read_back)

section \<open>Configurations are read back\<close>

lemma hash_map_collect_enc:
  "hm_wf (m @ es) \<Longrightarrow> hash_map_collect m (map (\<lambda>(k, v). (k, JStr v)) es) = Some (m @ es)"
proof (induction es arbitrary: m)
  case (Cons e es)
  obtain k v where e: "e = (k, v)" by fastforce
  have "k \<notin> set (map fst m)" using Cons.prems by (auto simp: e hm_wf_def)
  then have "hm_insert k v m = m @ [(k, v)]"
    by (induction m) (auto simp: hm_insert_def)
  then show ?case
    using Cons.IH [of "m @ [(k, v)]"] Cons.prems by (simp add: e dec_string_def)
qed simp

lemma hash_map_collect_wf: "hm_wf m \<Longrightarrow> hash_map_collect m es = Some m' \<Longrightarrow> hm_wf m'"
  by (induction m es rule: hash_map_collect.induct) (auto split: option.splits)

interpretation hash_map_json: json_codec enc_hash_map dec_hash_map hm_wf
  by unfold_locales
    (auto simp: enc_hash_map_def dec_hash_map_def hash_map_collect_enc [of "[]", simplified] hm_wf_def [of "[]"]
      dest: hash_map_collect_wf [rotated] split: json.splits)

lemma net_codec:
  "(\<And>n. net_parse (net_str n) = Some n) \<Longrightarrow> json_codec (enc_net net_str) (dec_net net_parse) (\<lambda>_. True)"
  by unfold_locales (simp_all add: enc_net_def dec_net_def dec_string_def)

text \<open>A document is read back when the texts of the subnets in it are.\<close>

lemma DhcpConfig_read_back:
  assumes "net_parse (net_str (dhcp_subnet d)) = Some (dhcp_subnet d)"
  shows "DhcpConfig_deserialize net_parse (DhcpConfig_serialize net_str d) = Some d"
  using assms
  by (simp add: DhcpConfig_serialize_def DhcpConfig_deserialize_def struct_simps value_reads enc_range_def dec_range_def
      ipv4_json.dec_enc enc_net_def dec_net_def)

fun mode_subnet :: "NetworkMode \<Rightarrow> Ipv4Net" where
  "mode_subnet (HostonlyNat _ s _ _) = s"
| "mode_subnet (Bridged _ s _) = s"

lemma NetworkMode_read_back:
  assumes "net_parse (net_str (mode_subnet m)) = Some (mode_subnet m)"
  shows "NetworkMode_deserialize net_parse route (NetworkMode_serialize net_str m) = Some m"
  using assms
  by (cases m) (simp_all add: NetworkMode_deserialize_def struct_simps value_reads ipv4_json.dec_enc enc_net_def dec_net_def)

definition config_subnets :: "Config \<Rightarrow> Ipv4Net list" where
  "config_subnets c = mode_subnet (network_mode (network c)) #
     (case dhcp_config (network c) of Some d \<Rightarrow> [dhcp_subnet d] | None \<Rightarrow> [])"

lemma NetworkConfig_read_back:
  assumes "list_all (\<lambda>n. net_parse (net_str n) = Some n) (mode_subnet (network_mode c) #
      (case dhcp_config c of Some d \<Rightarrow> [dhcp_subnet d] | None \<Rightarrow> []))"
  shows "NetworkConfig_deserialize net_parse route (NetworkConfig_serialize net_str c) = Some c"
proof (cases "dhcp_config c")
  case (Some d)
  moreover have "DhcpConfig_serialize net_str d \<noteq> JNull" by (simp add: DhcpConfig_serialize_def)
  ultimately show ?thesis
    using assms by (simp add: NetworkConfig_serialize_def NetworkConfig_deserialize_def struct_simps NetworkMode_read_back
        DhcpConfig_read_back enc_option_def dec_option_def)
qed (use assms in \<open>simp add: NetworkConfig_serialize_def NetworkConfig_deserialize_def struct_simps
        NetworkMode_read_back enc_option_def dec_option_def\<close>)

lemma dec_option_strs:
  "dec_option dec_string (enc_option JStr x) = Some x" "dec_option dec_bool (enc_option JBool b) = Some b"
  "dec_option dec_uint (enc_option enc_uint w) = Some (w :: u32 option)"
  using string_json.dec_option_enc [of x] bool_json.dec_option_enc [of b] u32_json.dec_option_enc [of w]
  by (simp_all add: option.pred_True)

text \<open>A configuration is read back from the document written for it: every address, subnet, label and default.\<close>

lemma Config_read_back:
  assumes "hm_wf (cfg_labels c)" and "hm_wf (cfg_annotations c)"
    and "list_all (\<lambda>n. net_parse (net_str n) = Some n) (config_subnets c)"
  shows "Config_deserialize net_parse route (Config_serialize net_str c) = Some c"
  using assms NetworkConfig_read_back [of net_parse net_str "network c" route]
  by (simp add: Config_serialize_def Config_deserialize_def struct_simps config_fields_def dec_option_strs
      hash_map_json.dec_enc config_subnets_def)

text \<open>A missing section falls back to host-only NAT on the default bridge, with the interface of the default
  route; so does a mode that names no fields.\<close>

lemma config_network_defaults:
  "Config_deserialize net_parse route (JObj []) =
     Some \<lparr>manager_enabled = None, cfg_hostname = None, datacenter = None, region = None, sentry_dsn = None,
       reserved_vcpus = None, cfg_labels = [], cfg_annotations = [], network = NetworkConfig_default route, no_lockfile = None\<rparr>"
  "NetworkMode_deserialize net_parse route (JObj [(''HostonlyNat'', JObj [])]) = Some (default_network_mode route)"
  "NetworkMode_deserialize net_parse route (JObj [(''Bridged'', JObj [])]) = None"
  by (simp_all add: Config_deserialize_def NetworkMode_deserialize_def struct_simps config_fields_def default_network_mode_def)

text \<open>The configuration that the test of \<open>config.rs\<close> serialises, and what is read back from its document.\<close>

definition test_config :: Config where
  "test_config =
     \<lparr>manager_enabled = None, cfg_hostname = None, datacenter = None, region = None, sentry_dsn = None,
      reserved_vcpus = None, cfg_labels = [], cfg_annotations = [],
      network =
        \<lparr>dhcp_config = Some \<lparr>dhcp_range = (0x0A0A0164, 0x0A0A01C8), dhcp_subnet = \<lparr>net_addr = 0x0A0A0100, prefix_len = 24\<rparr>,
           lease_time = ''12h''\<rparr>,
         network_mode = HostonlyNat ''vmbr0'' \<lparr>net_addr = 0x0A0A6400, prefix_len = 24\<rparr> 0x0A0A6401 ''test0''\<rparr>,
      no_lockfile = None\<rparr>"

lemma test_config_read_back:
  assumes "\<And>n. n \<in> set (config_subnets test_config) \<Longrightarrow> net_parse (net_str n) = Some n"
  shows "Config_deserialize net_parse route (Config_serialize net_str test_config) = Some test_config"
  using assms by (intro Config_read_back) (simp_all add: test_config_def hm_wf_def list_all_iff)

end
