(* ===== verification/Storage_Correctness.thy ===== *)
theory Storage_Correctness
  imports Storage
begin

text \<open>
  Properties of storage resolution: the default transform chain localises every disk, console and
  network of a machine and changes nothing else; what a stop releases is what the start resolved.
\<close>

section \<open>The storage transform as a configuration transform\<close>

lemma transform_disk_readonly: "transform_disk lib bs d = Inr d' \<Longrightarrow> readonly d' = readonly d"
  by (auto simp: transform_disk_def split: option.splits sum.splits)

lemma collect_list_all2:
  "collect_results f xs = Inr ys \<longleftrightarrow> list_all2 (\<lambda>x y. f x = Inr y) xs ys"
proof (induction xs arbitrary: ys)
  case (Cons x xs)
  then show ?case unfolding collect_results_Cons by (auto simp: list_all2_Cons1)
qed auto

lemma collect_map_eq:
  assumes "collect_results f xs = Inr ys" and "\<And>x y. x \<in> set xs \<Longrightarrow> f x = Inr y \<Longrightarrow> h y = g x"
  shows "map h ys = map g xs"
proof -
  from assms(1) have "list_all2 (\<lambda>x y. f x = Inr y) xs ys" by (simp add: collect_list_all2)
  then show ?thesis using assms(2) by (induction rule: list_all2_induct) auto
qed

interpretation storage_transform: config_transform "StorageTransform lib bs" for lib bs
proof
  fix vmid c c' assume "StorageTransform lib bs vmid c = Inr c'"
  then show "same_machine c c'"
    using collect_map_eq [where h = readonly and g = readonly] transform_disk_readonly
    by (fastforce simp: StorageTransform_def same_machine_def split: option.splits sum.splits)
qed

interpretation default_chain: config_transform "TransformChain (default_chain env lib h)" for env lib h
  by (rule chain_config_transform)
    (simp add: default_chain_def storage_transform.config_transform_axioms
      console_transform.config_transform_axioms network_transform.config_transform_axioms
      path_verify.config_transform_axioms)

section \<open>What the default chain establishes\<close>

lemma verify_disks_None: "verify_disks ds = None \<longleftrightarrow> (\<forall>d \<in> set ds. \<not> not_absolute (disk_path d))"
  by (induction ds) auto

text \<open>The parts of a successful run of the chain.\<close>

lemma default_chain_run:
  assumes "TransformChain (default_chain env lib h) vmid c = Inr c'"
  obtains c1 where "StorageTransform lib (default_backends h) vmid c = Inr c1"
    and "NetworkTransform vmid (c1\<lparr>console := Some \<lparr>console_mode = ConsoleOff, console_socket = None, console_file = None\<rparr>,
           serial := Some \<lparr>console_mode = ConsoleSocket,
             console_socket = Some (runtime_dir_for env vmid @ ''/console.sock''), console_file = None\<rparr>\<rparr>) = Inr c'"
    and "PathVerify vmid c' = Inr c'"
proof -
  obtain c1 where 1: "StorageTransform lib (default_backends h) vmid c = Inr c1"
    using assms by (auto simp: default_chain_def split: sum.splits)
  with assms obtain c3 where 3: "NetworkTransform vmid (c1\<lparr>console := Some \<lparr>console_mode = ConsoleOff, console_socket = None, console_file = None\<rparr>,
           serial := Some \<lparr>console_mode = ConsoleSocket,
             console_socket = Some (runtime_dir_for env vmid @ ''/console.sock''), console_file = None\<rparr>\<rparr>) = Inr c3" and 4: "PathVerify vmid c3 = Inr c'"
    by (auto simp: default_chain_def ConsoleTransform_def split: sum.splits)
  from 4 have "c3 = c'" by (auto simp: PathVerify_def split: if_splits option.splits)
  with 1 3 4 show ?thesis by (auto intro: that)
qed

lemma network_transform_frame:
  "NetworkTransform vmid c = Inr c' \<Longrightarrow> disks c' = disks c \<and> console c' = console c \<and> serial c' = serial c"
  by (auto simp: NetworkTransform_def split: option.splits sum.splits)

lemma chain_serial:
  assumes "TransformChain (default_chain env lib h) vmid c = Inr c'"
  shows "serial c' = Some \<lparr>console_mode = ConsoleSocket,
    console_socket = Some (runtime_dir_for env vmid @ ''/console.sock''), console_file = None\<rparr>"
  using assms by (rule default_chain_run) (auto dest: network_transform_frame)

definition absolute_opt :: "string option \<Rightarrow> bool" where
  "absolute_opt p = (case p of Some q \<Rightarrow> is_absolute q | None \<Rightarrow> True)"

lemma absolute_opt_iff: "absolute_opt p \<longleftrightarrow> \<not> not_absolute p"
  by (simp add: absolute_opt_def not_absolute_def split: option.splits)

lemma path_verify_ok:
  "PathVerify vmid c = Inr c' \<Longrightarrow>
     absolute_opt (pl_kernel (payload c)) \<and> absolute_opt (pl_initramfs (payload c)) \<and>
     absolute_opt (pl_firmware (payload c)) \<and>
     list_all (\<lambda>d. absolute_opt (disk_path d)) (case disks c of Some ds \<Rightarrow> ds | None \<Rightarrow> [])"
  by (auto simp: PathVerify_def absolute_opt_iff verify_disks_None list_all_iff split: if_splits option.splits)

text \<open>The tap of a network interface whose identifier is a network URI.\<close>

definition tap_assigned :: "string \<Rightarrow> NetConfig \<Rightarrow> bool" where
  "tap_assigned vmid n =
     (case Option.bind (net_id n) (strip_prefix NETWORK_URI_PREFIX) of
        None \<Rightarrow> True
      | Some nid \<Rightarrow> nid \<noteq> [] \<and> list_all ifname_char nid \<and> tap n = Some (deterministic_tap_name vmid nid))"

lemma rewrite_net_assigns: "rewrite_net_config vmid n = Inr n' \<Longrightarrow> tap_assigned vmid n'"
  by (auto simp: rewrite_net_config_def tap_assigned_def validate_network_id_def split: option.splits sum.splits if_splits)

lemma network_transform_assigns:
  assumes "NetworkTransform vmid c = Inr c'"
  shows "list_all (tap_assigned vmid) (case net c' of Some ns \<Rightarrow> ns | None \<Rightarrow> [])"
proof (cases "net c")
  case None
  with assms show ?thesis by (simp add: NetworkTransform_def)
next
  case (Some ns)
  then obtain ns' where ns': "collect_results (rewrite_net_config vmid) ns = Inr ns'" "net c' = Some ns'"
    using assms by (auto simp: NetworkTransform_def split: sum.splits)
  then have "list_all2 (\<lambda>n n'. rewrite_net_config vmid n = Inr n') ns ns'" by (simp add: collect_list_all2)
  then have "list_all (tap_assigned vmid) ns'"
    by (induction rule: list_all2_induct) (auto dest: rewrite_net_assigns)
  with ns'(2) show ?thesis by simp
qed

section \<open>A concrete host\<close>

text \<open>A reader for RBD URLs without port, up to the query.\<close>

definition sample_parse :: "string \<Rightarrow> Url option" where
  "sample_parse s = map_option (\<lambda>rest.
     (let body = takeWhile (\<lambda>c. c \<noteq> CHR ''?'') rest;
          h = takeWhile (\<lambda>c. c \<noteq> CHR ''/'') body
      in \<lparr>url_scheme = ''rbd'', host_str = (if h = [] then None else Some h), url_port = None,
          url_path = drop (length h) body\<rparr>)) (strip_prefix ''rbd://'' s)"

definition sample_library :: url_library where
  "sample_library = \<lparr>url_parse = sample_parse, with_disk_id = (\<lambda>s i. s @ ''?id='' @ i)\<rparr>"

definition sample_host :: storage_host where
  "sample_host =
     \<lparr>file_paths = (\<lambda>u. Inr (url_path u)),
      ceph = \<lparr>ceph_config = None, ceph_id = Some ''odorobo'', ceph_keyfile = None, ceph_cluster = None\<rparr>,
      cmd_list = (\<lambda>u. Exited True [] []), cmd_map = (\<lambda>u. Exited True [] []), udev_appears = (\<lambda>u. True),
      cmd_relist = (\<lambda>u. Exited True [] []), cmd_unmap = (\<lambda>u. Exited True [] []),
      cmd_login = (\<lambda>u. Exited True [] []), cmd_logout = (\<lambda>u. Exited True [] [])\<rparr>"

definition sample_vm_config :: VmConfig where
  "sample_vm_config =
     \<lparr>cpus = None, mem_size = None,
      payload = \<lparr>pl_firmware = Some ''/var/lib/odorobo/CLOUDHV.fd'', pl_kernel = None, pl_cmdline = None, pl_initramfs = None\<rparr>,
      disks = Some [\<lparr>disk_id = Some ''root'', disk_path = Some ''rbd://vms/root'', readonly = Some False, image_type = Some Raw\<rparr>],
      net = Some [\<lparr>net_id = Some ''net://devnet'', mac = None, tap = None\<rparr>],
      vc_vsock = None, serial_number = None, console = None, serial = None\<rparr>"

lemmas sample_chain_defs =
  default_chain_def StorageTransform_def sample_vm_config_def transform_disk_def backend_for_def sample_library_def
  sample_parse_def Let_def find_backend_def default_backends_def sample_host_def RbdStorage_resolve_def
  RbdImage_try_from_def rbd_map_def rbd_map_list_def check_command_def rbd_lines_list_def str_lines_def
  trim_start_char_def rbd_device_path_def ConsoleTransform_def NetworkTransform_def rewrite_net_config_def
  strip_prefix_def starts_with_def NETWORK_URI_PREFIX_def validate_network_id_def ifname_char_def
  is_ascii_alphanumeric_def is_ascii_uppercase_def is_ascii_lowercase_def is_ascii_digit_def PathVerify_def
  not_absolute_def is_absolute_def List.map_filter_def

text \<open>C22. When the default transform chain succeeds it has described the same machine, and every path the
  hypervisor will open (kernel, initramfs, firmware, all disks) is absolute, the virtio console is off,
  the serial console is the VM's own socket, and every interface named by a network URI has a valid
  network identifier and the TAP device of that VM and network.\<close>

theorem default_chain_localises:
  assumes "TransformChain (default_chain env lib h) vmid c = Inr c'"
  shows "same_machine c c' \<and>
     absolute_opt (pl_kernel (payload c')) \<and> absolute_opt (pl_initramfs (payload c')) \<and>
     absolute_opt (pl_firmware (payload c')) \<and>
     list_all (\<lambda>d. absolute_opt (disk_path d)) (case disks c' of Some ds \<Rightarrow> ds | None \<Rightarrow> []) \<and>
     map_option console_mode (console c') = Some ConsoleOff \<and>
     serial c' = Some \<lparr>console_mode = ConsoleSocket,
                       console_socket = Some (runtime_dir_for env vmid @ ''/console.sock''), console_file = None\<rparr> \<and>
     list_all (tap_assigned vmid) (case net c' of Some ns \<Rightarrow> ns | None \<Rightarrow> [])"
proof -
  have same: "same_machine c c'" by (rule default_chain.frame [OF assms])
  obtain c1 where net: "NetworkTransform vmid (c1\<lparr>console := Some \<lparr>console_mode = ConsoleOff, console_socket = None, console_file = None\<rparr>,
           serial := Some \<lparr>console_mode = ConsoleSocket,
             console_socket = Some (runtime_dir_for env vmid @ ''/console.sock''), console_file = None\<rparr>\<rparr>) = Inr c'"
    and paths: "PathVerify vmid c' = Inr c'"
    using default_chain_run [OF assms] by blast
  show ?thesis
    using same path_verify_ok [OF paths] network_transform_assigns [OF net] network_transform_frame [OF net]
    by simp
qed

theorem default_chain_localises_witness:
  "\<exists>c'. TransformChain (default_chain None sample_library sample_host) ''01hzx'' sample_vm_config = Inr c' \<and>
     same_machine sample_vm_config c'"
proof -
  have "\<not> isl (TransformChain (default_chain None sample_library sample_host) ''01hzx'' sample_vm_config)"
    by (simp add: sample_chain_defs)
  then obtain c' where "TransformChain (default_chain None sample_library sample_host) ''01hzx'' sample_vm_config = Inr c'"
    by (cases "TransformChain (default_chain None sample_library sample_host) ''01hzx'' sample_vm_config") auto
  with default_chain_localises [OF this] show ?thesis by blast
qed

section \<open>What a stop releases\<close>

text \<open>What the driver relies on of the URL library: appending a query pair changes none of scheme, host,
  port and path, and an absolute path is no URL.\<close>

definition url_laws :: "url_library \<Rightarrow> bool" where
  "url_laws lib \<longleftrightarrow>
     (\<forall>s u i. url_parse lib s = Some u \<longrightarrow> url_parse lib (with_disk_id lib s i) = Some u) \<and>
     (\<forall>p. is_absolute p \<longrightarrow> url_parse lib p = None)"

text \<open>A disk that had a relative path and has an absolute one afterwards was resolved by the backend of
  its URL; its identifier then leads a release back to the same URL and backend.\<close>

lemma resolved_disk_released:
  assumes laws: "url_laws lib" and t: "transform_disk lib bs d = Inr d'"
    and path: "disk_path d = Some p" "\<not> is_absolute p" and abs: "absolute_opt (disk_path d')"
  shows "\<exists>x. backend_for lib bs p = Some x \<and> release_candidate lib bs d' = Some x"
proof (cases "backend_for lib bs p")
  case None
  with t path abs show ?thesis by (simp add: transform_disk_def absolute_opt_def)
next
  case (Some x)
  obtain u b where x: "x = (u, b)" by (cases x)
  with Some t path obtain r where d': "disk_path d' = Some r"
      "disk_id d' = Some (with_disk_id lib p (case disk_id d of Some i \<Rightarrow> i | None \<Rightarrow> ''<unknown>''))"
    by (auto simp: transform_disk_def split: sum.splits)
  have u: "url_parse lib p = Some u" and b: "find_backend bs u = Some b"
    using Some x by (auto simp: backend_for_def split: option.splits)
  have "backend_for lib bs r = None"
    using laws abs d'(1) by (simp add: url_laws_def absolute_opt_def backend_for_def)
  moreover have "backend_for lib bs (with_disk_id lib p i) = Some x" for i
    using laws u b x by (simp add: url_laws_def backend_for_def)
  ultimately show ?thesis
    using Some d' by (simp add: release_candidate_def)
qed

lemma resolved_disks_released:
  assumes "url_laws lib" and "list_all2 (\<lambda>d d'. transform_disk lib bs d = Inr d') ds ds'"
    and "\<forall>d \<in> set ds. \<exists>p. disk_path d = Some p \<and> \<not> is_absolute p"
    and "list_all (\<lambda>d. absolute_opt (disk_path d)) ds'"
  shows "map Some (List.map_filter (release_candidate lib bs) ds') =
    map (\<lambda>d. backend_for lib bs (the (disk_path d))) ds"
  using assms(2,3,4)
proof (induction rule: list_all2_induct)
  case Nil
  then show ?case by (simp add: List.map_filter_def)
next
  case (Cons d ds d' ds')
  then obtain p where p: "disk_path d = Some p" "\<not> is_absolute p" by auto
  with Cons resolved_disk_released [OF assms(1), of bs d d' p] obtain x
    where "backend_for lib bs p = Some x" "release_candidate lib bs d' = Some x" by auto
  with Cons p show ?case by (simp add: List.map_filter_def)
qed

lemma supported_uri_relative: "supported_uri u \<Longrightarrow> \<not> is_absolute u"
  by (auto simp: supported_uri_def starts_with_iff is_absolute_Cons)

lemma to_vm_config_disks:
  assumes "to_vm_config m = Inr c"
  shows "(case disks c of Some ds \<Rightarrow> ds | None \<Rightarrow> []) = map logical_disk (storage (desired m)) \<and>
    (\<forall>s \<in> set (storage (desired m)). \<exists>u. uri s = Some u \<and> supported_uri u)"
proof -
  obtain ds where "collect_results storage_to_disk (storage (desired m)) = Inr ds"
      and "disks c = non_empty ds"
    using assms by (auto simp: to_vm_config_def Let_def split: sum.splits if_splits option.splits)
  then show ?thesis by (auto simp: collect_disks non_empty_def)
qed

text \<open>C21. A VM that is stopped releases exactly the storage that its start resolved: for a manifest the
  driver can convert, if the default transform chain succeeds, the teardown of the chain on the resulting
  configuration releases, in manifest order and once each, the parsed URL of every storage attachment
  with the backend that resolved it.\<close>

theorem teardown_releases_what_was_resolved:
  assumes laws: "url_laws lib" and m: "to_vm_config m = Inr c"
    and chain: "TransformChain (default_chain env lib h) vmid c = Inr c'"
  shows "map Some (fst (default_teardown lib h vmid c')) =
    map (\<lambda>s. map_option (\<lambda>(u, b). (u, drv_release b u)) (backend_for lib (default_backends h) (the (uri s))))
      (storage (desired m))"
proof -
  let ?bs = "default_backends h" and ?ss = "storage (desired m)"
  obtain c1 where st: "StorageTransform lib ?bs vmid c = Inr c1"
    and net: "disks c' = disks c1" and paths: "PathVerify vmid c' = Inr c'"
    using default_chain_run [OF chain] network_transform_frame
    by (metis (no_types, lifting) VmConfig.select_convs(4) VmConfig.surjective VmConfig.update_convs(8,9))
  have ds: "(case disks c of Some ds \<Rightarrow> ds | None \<Rightarrow> []) = map logical_disk ?ss"
    and uris: "\<forall>s \<in> set ?ss. \<exists>u. uri s = Some u \<and> supported_uri u"
    using to_vm_config_disks [OF m] by auto
  have rel: "\<forall>d \<in> set (map logical_disk ?ss). \<exists>p. disk_path d = Some p \<and> \<not> is_absolute p"
    using uris supported_uri_relative by (fastforce simp: logical_disk_def)
  have l2: "list_all2 (\<lambda>d d'. transform_disk lib ?bs d = Inr d') (map logical_disk ?ss)
      (case disks c1 of Some ds \<Rightarrow> ds | None \<Rightarrow> [])"
    using st ds by (auto simp: StorageTransform_def collect_list_all2 split: option.splits sum.splits)
  have "map Some (List.map_filter (release_candidate lib ?bs) (case disks c' of Some ds \<Rightarrow> ds | None \<Rightarrow> [])) =
      map (\<lambda>d. backend_for lib ?bs (the (disk_path d))) (map logical_disk ?ss)"
    using resolved_disks_released [OF laws l2 rel] path_verify_ok [OF paths] net by simp
  then have "map (map_option (\<lambda>(u, b). (u, drv_release b u))) (map Some (List.map_filter (release_candidate lib ?bs)
        (case disks c' of Some ds \<Rightarrow> ds | None \<Rightarrow> []))) =
      map (\<lambda>s. map_option (\<lambda>(u, b). (u, drv_release b u)) (backend_for lib ?bs (the (uri s)))) ?ss"
    by (simp add: logical_disk_def comp_def)
  moreover have "fst (default_teardown lib h vmid c') =
      map (\<lambda>(u, b). (u, drv_release b u)) (List.map_filter (release_candidate lib ?bs)
        (case disks c' of Some ds \<Rightarrow> ds | None \<Rightarrow> []))"
    by (simp add: default_teardown_def TransformChain_teardown_def no_teardown_def StorageTransform_teardown_def
        release_config_def List.map_filter_def split: option.splits)
  ultimately show ?thesis by (simp add: comp_def)
qed

text \<open>The sample reader obeys the laws.\<close>

lemma sample_library_laws: "url_laws sample_library"
proof -
  have "sample_parse (s @ ''?id='' @ i) = Some u" if parsed: "sample_parse s = Some u" for s u i
  proof -
    obtain r where r: "s = ''rbd://'' @ r"
      using parsed by (auto simp: sample_parse_def strip_prefix_Some_iff)
    have "takeWhile (\<lambda>c. c \<noteq> CHR ''?'') (r @ ''?id='' @ i) = takeWhile (\<lambda>c. c \<noteq> CHR ''?'') r"
      by (induction r) simp_all
    with parsed show ?thesis unfolding r sample_parse_def append_assoc strip_prefix_append by simp
  qed
  moreover have "sample_parse p = None" if "is_absolute p" for p
    using that by (auto simp: sample_parse_def strip_prefix_def starts_with_Cons is_absolute_Cons)
  ultimately show ?thesis by (simp add: url_laws_def sample_library_def)
qed

definition sample_disk_manifest :: VmManifest where
  "sample_disk_manifest = sample_manifest\<lparr>desired := sample_desired\<lparr>storage :=
     [\<lparr>storage_id = ''root'', uri = Some ''rbd://vms/root'', volume_id = None, read_only = False\<rparr>]\<rparr>\<rparr>"

lemma sample_not_blank: "\<not> is_blank ''root''" "\<not> is_blank ''vm''" "\<not> is_blank ''rbd://vms/root''"
  by (simp_all add: is_blank_def trim_def trim_start_def trim_end_def trim_front.simps white_space_def starts_with_def)

lemma sample_convert:
  "\<exists>c. to_vm_config sample_disk_manifest = Inr c \<and> payload c = boot_payload (boot sample_desired) \<and> net c = None \<and>
     disks c = Some [logical_disk (hd (storage (desired sample_disk_manifest)))]"
proof -
  have "manifest_contract sample_disk_manifest"
    by (simp add: manifest_contract_def sample_disk_manifest_def sample_defs sample_not_blank MANIFEST_VERSION_def
        storage_contract_def comparison_contract_def cloud_init_contract_def vsock_contract_def)
  then have "VmManifest_validate sample_disk_manifest = Inr ()" by (simp add: VmManifest_validate_ok)
  then show ?thesis
    by (auto simp: to_vm_config_def sample_disk_manifest_def sample_defs storage_to_disk_def starts_with_def
        i32_try_from_def i64_try_from_def non_empty_def Let_def logical_disk_def)
qed

lemma sample_chain:
  assumes "payload c = boot_payload (boot sample_desired)" "net c = None"
    "disks c = Some [logical_disk (hd (storage (desired sample_disk_manifest)))]"
  shows "\<exists>c'. TransformChain (default_chain None sample_library sample_host) ''01hzx'' c = Inr c'"
proof -
  have "\<not> isl (TransformChain (default_chain None sample_library sample_host) ''01hzx'' c)"
    using assms by (simp add: sample_chain_defs sample_disk_manifest_def sample_defs logical_disk_def boot_payload_def)
  then show ?thesis by (cases "TransformChain (default_chain None sample_library sample_host) ''01hzx'' c") auto
qed

theorem teardown_releases_what_was_resolved_witness:
  "\<exists>c c'. to_vm_config sample_disk_manifest = Inr c \<and>
     TransformChain (default_chain None sample_library sample_host) ''01hzx'' c = Inr c' \<and>
     fst (default_teardown sample_library sample_host ''01hzx'' c') =
       [(\<lparr>url_scheme = ''rbd'', host_str = Some ''vms'', url_port = None, url_path = ''/root''\<rparr>, Inr ())]"
proof -
  obtain c where c: "to_vm_config sample_disk_manifest = Inr c" "payload c = boot_payload (boot sample_desired)" "net c = None"
      "disks c = Some [logical_disk (hd (storage (desired sample_disk_manifest)))]"
    using sample_convert by blast
  obtain c' where c': "TransformChain (default_chain None sample_library sample_host) ''01hzx'' c = Inr c'"
    using sample_chain [OF c(2-4)] by blast
  have "map Some (fst (default_teardown sample_library sample_host ''01hzx'' c')) =
      [Some (\<lparr>url_scheme = ''rbd'', host_str = Some ''vms'', url_port = None, url_path = ''/root''\<rparr>, Inr ())]"
    unfolding teardown_releases_what_was_resolved [OF sample_library_laws c(1) c']
    by (simp add: sample_disk_manifest_def sample_defs backend_for_def sample_library_def sample_parse_def
        find_backend_def default_backends_def sample_host_def RbdStorage_release_def RbdImage_try_from_def rbd_unmap_def
        check_command_def strip_prefix_def starts_with_def Let_def)
  with c(1) c' show ?thesis by (auto simp: map_eq_Cons_conv)
qed

end
