(* ===== verification/Vm_Lifecycle.thy ===== *)
theory Vm_Lifecycle
  imports Vm_Actor Storage_Correctness
begin

text \<open>
  Properties of the life cycle of a VM, for every behaviour of the hypervisor and the host: what a start
  does and in which order, that a failed start stops the hypervisor process, what a stop has shut down and
  released, and that a migration in progress is accounted for until it ends.
\<close>

section \<open>Journals of instance actions\<close>

lemma confined_perform [confined_intros]: "P e \<Longrightarrow> confined P (perform E e)"
  unfolding perform_def by (rule confined_emit)

lemma perform_Inr: "perform E e j = (Inr x, j') \<longleftrightarrow> failure E j e = None \<and> j' = j @ [e]"
  by (simp add: perform_def emit_Inr)

lemmas io_ok_simps = io_result_simps perform_Inr

section \<open>Hooks\<close>

text \<open>The contract of a provisioning hook: it may query and change the attachment of network devices, and
  before a boot and after a stop it has no effect at all.\<close>

fun attach_effect :: "effect \<Rightarrow> bool" where
  "attach_effect LookupNetworkActor = True"
| "attach_effect (AttachTap _ _) = True"
| "attach_effect _ = False"

locale tap_hooks =
  fixes hooks :: "ProvisioningHook list"
  assumes boots_silently: "hk \<in> set hooks \<Longrightarrow> before_boot hk vmid c = io_return ()"
    and stops_silently: "hk \<in> set hooks \<Longrightarrow> after_stop hk vmid c = io_return ()"
    and attaches: "hk \<in> set hooks \<Longrightarrow> confined attach_effect (after_boot hk vmid i)"
begin

lemma run_all_silent:
  "(\<And>x. x \<in> set xs \<Longrightarrow> f x = io_return ()) \<Longrightarrow> run_all f xs = io_return ()"
  by (induction xs) (auto simp: io_then_def io_bind_def io_return_def fun_eq_iff)

lemma before_boot_silent: "HookManager_before_boot hooks vmid c = io_return ()"
  unfolding HookManager_before_boot_def by (rule run_all_silent) (rule boots_silently)

lemma after_stop_silent: "HookManager_after_stop hooks vmid c = io_return ()"
  unfolding HookManager_after_stop_def by (rule run_all_silent) (rule stops_silently)

lemma run_all_confined:
  "(\<And>x. x \<in> set xs \<Longrightarrow> confined P (f x)) \<Longrightarrow> confined P (run_all f xs)"
  by (induction xs) (auto intro: confined_intros)

lemma after_boot_confined: "confined attach_effect (HookManager_after_boot hooks vmid i)"
  unfolding HookManager_after_boot_def by (rule run_all_confined) (rule attaches)

end

lemma parse_vmid_confined [confined_intros]: "confined P (parse_vmid E vmid)"
  by (auto simp: parse_vmid_def intro: confined_intros split: sum.splits)

interpretation default_hooks: tap_hooks "HookManager_default E" for E
proof
  fix hk vmid c i
  assume "hk \<in> set (HookManager_default E)"
  then have hk: "hk = NetworkProvisioningHook E" by (simp add: HookManager_default_def)
  show "before_boot hk vmid c = io_return ()" and "after_stop hk vmid c = io_return ()"
    by (simp_all add: hk NetworkProvisioningHook_def no_hook_def)
  show "confined attach_effect (after_boot hk vmid i)"
    by (auto simp: hk NetworkProvisioningHook_def no_hook_def NetworkProvisioningHook_after_boot_def Let_def
        network_agent_def attach_tap_def intro!: confined_intros)
qed

lemma after_boot_ok:
  assumes "HookManager_after_boot (HookManager_default E) vmid i j = (Inr (), j')"
  shows "\<exists>v. ulid_from_string E vmid = Inr v \<and>
    j' = j @ (if tap_names i = [] then [] else LookupNetworkActor # map (AttachTap v) (tap_names i))"
proof -
  from assms obtain v where v: "ulid_from_string E vmid = Inr v"
    and rest: "(if tap_names i = [] then io_return ()
       else io_then (wrap_err ''failed to look up network actor'' (network_agent E))
              (run_all (attach_tap E v) (tap_names i))) j = (Inr (), j')"
    by (auto simp: HookManager_after_boot_def HookManager_default_def NetworkProvisioningHook_def
        NetworkProvisioningHook_after_boot_def parse_vmid_def io_ok_simps io_return_def io_fail_def Let_def
        split: sum.splits)
  show ?thesis
  proof (cases "tap_names i = []")
    case True
    with v rest show ?thesis by (simp add: io_return_def)
  next
    case False
    with rest have "run_all (attach_tap E v) (tap_names i) (j @ [LookupNetworkActor]) = (Inr (), j')"
      by (auto simp: io_ok_simps network_agent_def)
    then have "j' = (j @ [LookupNetworkActor]) @ map (AttachTap v) (tap_names i)"
      by (intro run_all_Inr [where f = "attach_tap E v"]) (auto simp: attach_tap_def io_ok_simps)
    with v False show ?thesis by simp
  qed
qed

section \<open>Stopping\<close>

text \<open>What stopping a guest does before the hypervisor is shut down: its TAP devices are detached, then it is shut down
  if it runs or is paused.\<close>

definition guest_stop :: "ulid \<Rightarrow> VmInfo \<Rightarrow> journal" where
  "guest_stop v vi =
     (if tap_names vi = [] then [] else LookupNetworkActor # map (DetachTap v) (tap_names vi)) @
     (if vi_state vi \<in> {VmRunning, VmPaused} then [ShutdownVm] else [])"

lemma info_journal: "snd (VMInstance_info E i j) = j @ [GetInfo]"
  by (simp add: VMInstance_info_def)

lemma performs_perform: "performs (failure E) [e] (perform E e)"
  unfolding perform_def by (rule performs_emit)

lemma before_stop_performs:
  assumes "ulid_from_string E vmid = Inr v"
  shows "performs (failure E) (if tap_names vi = [] then [] else LookupNetworkActor # map (DetachTap v) (tap_names vi))
    (HookManager_before_stop (HookManager_default E) vmid vi)"
proof -
  have "performs (failure E) (map (DetachTap v) ts) (run_all (detach_tap E v) ts)" for ts
    unfolding detach_tap_def by (intro performs_run_all performs_wrap performs_perform)
  then have "performs (failure E) ([LookupNetworkActor] @ map (DetachTap v) ts)
      (io_then (wrap_err ''failed to look up network actor'' (network_agent E)) (run_all (detach_tap E v) ts))" for ts
    unfolding network_agent_def by (intro performs_then performs_wrap performs_perform)
  then have "performs (failure E) (if tap_names vi = [] then [] else LookupNetworkActor # map (DetachTap v) (tap_names vi))
      (NetworkProvisioningHook_before_stop E vmid vi)"
    using assms
    by (simp add: NetworkProvisioningHook_before_stop_def parse_vmid_def io_bind_return performs_return Let_def)
  from performs_then [OF this performs_return [of _ "()"]] show ?thesis
    by (simp add: HookManager_before_stop_def HookManager_default_def NetworkProvisioningHook_def)
qed

lemma stop_guest_result:
  "map_prod (Not \<circ> isl) id (stop_guest E i j) =
     (case vm_info_of E j of
        Inl _ \<Rightarrow> (True, j @ [GetInfo])
      | Inr vi \<Rightarrow> (case ulid_from_string E (inst_id i) of
          Inl _ \<Rightarrow> (False, j @ [GetInfo])
        | Inr v \<Rightarrow> performed (failure E) (j @ [GetInfo]) (guest_stop v vi)))"
proof (cases "vm_info_of E j")
  case (Inl e)
  then show ?thesis by (simp add: stop_guest_def VMInstance_info_def wrap_err_def)
next
  case (Inr vi)
  then have stop: "stop_guest E i j =
      io_then (HookManager_before_stop (HookManager_default E) (inst_id i) vi)
        (if vi_state vi \<in> {VmRunning, VmPaused} then VMInstance_shutdown E i else io_return ()) (j @ [GetInfo])"
    by (simp add: stop_guest_def VMInstance_info_def wrap_err_def)
  show ?thesis
  proof (cases "ulid_from_string E (inst_id i)")
    case (Inl e)
    then have "HookManager_before_stop (HookManager_default E) (inst_id i) vi = io_fail ''failed to parse vmid for networking hook''"
      by (simp add: HookManager_before_stop_def HookManager_default_def NetworkProvisioningHook_def io_then_def
          NetworkProvisioningHook_before_stop_def parse_vmid_def io_bind_def io_fail_def fun_eq_iff)
    with Inl Inr stop show ?thesis by (simp add: io_then_def io_bind_def io_fail_def)
  next
    case v: (Inr v)
    have "performs (failure E) (if vi_state vi \<in> {VmRunning, VmPaused} then [ShutdownVm] else [])
        (if vi_state vi \<in> {VmRunning, VmPaused} then VMInstance_shutdown E i else io_return ())"
      by (simp add: VMInstance_shutdown_def performs_wrap performs_perform performs_return)
    from performs_then [OF before_stop_performs [OF v] this] Inr v stop show ?thesis
      by (simp add: performs_def guest_stop_def)
  qed
qed

lemma default_teardown_ok: "snd (default_teardown lib h vmid c) = Inr ()"
  by (simp add: default_teardown_def TransformChain_teardown_def no_teardown_def StorageTransform_teardown_def)

definition kill_child :: "VMInstance \<Rightarrow> journal" where
  "kill_child i = (if child_process i then [KillChild, WaitChild] else [])"

lemma ignored_journal: "snd (ignore_err (perform E e) j) = j @ [e]"
  by (simp add: ignore_err_def perform_def emit_def)

lemma kill_journal: "snd (io_then (ignore_err (perform E KillChild)) (ignore_err (perform E WaitChild)) j) = j @ [KillChild, WaitChild]"
  by (simp add: io_then_def io_bind_def ignore_err_def perform_def emit_def)

lemma purge_journal:
  "snd (fst (purge_instance_data E i j)) =
     (let j' = j @ [ReleaseStorage (config_or_default i)] in
      j' @ (if path_exists E j' (runtime_dir E i) then [RemoveDirAll (runtime_dir E i)] else [])) \<and>
   inst_config (snd (purge_instance_data E i j)) = None"
  by (simp add: purge_instance_data_def io_then_def io_bind_def undo_transforms_def default_teardown_ok perform_def emit_def Let_def)

lemma purge_keeps_child: "child_process (snd (purge_instance_data E i j)) = child_process i"
  by (simp add: purge_instance_data_def)

lemma destroy_stopped:
  assumes "stop_guest E i j = (Inr u, j1)"
  shows "\<exists>i'. VMInstance_destroy E i j =
      ((Inr (), let j2 = j1 @ [ShutdownVmm] @ kill_child i @ [ReleaseStorage (config_or_default i)] in
          j2 @ (if path_exists E j2 (runtime_dir E i) then [RemoveDirAll (runtime_dir E i)] else [])), i') \<and>
    inst_config i' = None \<and> child_process i' = False"
proof -
  let ?i = "i\<lparr>child_process := False\<rparr>"
  let ?j = "(j1 @ [ShutdownVmm]) @ kill_child i"
  have same: "config_or_default ?i = config_or_default i" "runtime_dir E ?i = runtime_dir E i"
    by (simp_all add: config_or_default_def runtime_dir_def)
  obtain rp jp ip where purge: "purge_instance_data E ?i ?j = ((rp, jp), ip)" by (metis prod.collapse)
  have "VMInstance_destroy E i j = ((Inr (), jp), ip)"
    using assms purge
    by (cases "child_process i") (simp_all add: VMInstance_destroy_def take_child_process_def default_hooks.after_stop_silent io_return_def
        kill_journal kill_child_def ignored_journal Let_def)
  with purge_journal [of E ?i ?j] purge_keeps_child [of E ?i ?j] purge show ?thesis
    by (simp add: same Let_def)
qed

text \<open>C36. Stopping a VM is complete or leaves it running. If it succeeds then the hypervisor was asked about the guest;
  if it answered, all TAP devices of the guest were detached, in order, and a running or paused guest was shut down;
  then, in any case, the hypervisor was told to exit and its process killed, the storage of the stored configuration
  was released, the runtime directory was removed if there was one, and nothing is kept. If it fails then because the
  identifier of the VM could not be read or one of the steps that detach and shut down the guest failed: no
  step after that one was taken, neither the hypervisor nor the storage has been touched, and the instance is unchanged.\<close>

theorem destroy_is_complete:
  "case VMInstance_destroy E i j of
     ((Inr _, j'), i') \<Rightarrow>
       inst_config i' = None \<and> child_process i' = False \<and>
       (\<exists>stopped. (case vm_info_of E j of
            Inl _ \<Rightarrow> stopped = []
          | Inr vi \<Rightarrow> \<exists>v. ulid_from_string E (inst_id i) = Inr v \<and> stopped = guest_stop v vi) \<and>
          j' = (let j2 = j @ [GetInfo] @ stopped @ [ShutdownVmm] @ kill_child i @ [ReleaseStorage (config_or_default i)] in
            j2 @ (if path_exists E j2 (runtime_dir E i) then [RemoveDirAll (runtime_dir E i)] else [])))
   | ((Inl _, j'), i') \<Rightarrow> i' = i \<and>
       (\<exists>vi. vm_info_of E j = Inr vi \<and>
          (case ulid_from_string E (inst_id i) of
             Inl _ \<Rightarrow> j' = j @ [GetInfo]
           | Inr v \<Rightarrow> \<exists>k < length (guest_stop v vi). j' = j @ [GetInfo] @ take (Suc k) (guest_stop v vi) \<and>
               failure E (j @ [GetInfo] @ take k (guest_stop v vi)) (guest_stop v vi ! k) \<noteq> None))"
proof -
  obtain r j1 where g: "stop_guest E i j = (r, j1)" by fastforce
  note result = stop_guest_result [of E i j, unfolded g]
  show ?thesis
  proof (cases r)
    case (Inl e)
    then obtain vi where vi: "vm_info_of E j = Inr vi" using result by (auto split: sum.splits)
    show ?thesis
    proof (cases "ulid_from_string E (inst_id i)")
      case bad: (Inl e')
      with g Inl result vi show ?thesis by (simp add: VMInstance_destroy_def)
    next
      case v: (Inr v)
      with Inl result vi have "performed (failure E) (j @ [GetInfo]) (guest_stop v vi) = (False, j1)" by simp
      from performed_stuck [OF this] g Inl vi v show ?thesis by (simp add: VMInstance_destroy_def)
    qed
  next
    case (Inr u)
    with result obtain stopped where stopped: "case vm_info_of E j of
          Inl _ \<Rightarrow> stopped = []
        | Inr vi \<Rightarrow> \<exists>v. ulid_from_string E (inst_id i) = Inr v \<and> stopped = guest_stop v vi" and j1: "j1 = j @ [GetInfo] @ stopped"
      using performed_ok [of "failure E" "j @ [GetInfo]" _ j1] by (fastforce split: sum.splits)
    from destroy_stopped [OF g [unfolded Inr j1]] obtain i' where d: "VMInstance_destroy E i j =
        ((Inr (), let j2 = (j @ [GetInfo] @ stopped) @ [ShutdownVmm] @ kill_child i @ [ReleaseStorage (config_or_default i)] in
          j2 @ (if path_exists E j2 (runtime_dir E i) then [RemoveDirAll (runtime_dir E i)] else [])), i')"
      and kept: "inst_config i' = None" "child_process i' = False" by blast
    show ?thesis
      unfolding d prod.case sum.case using kept stopped by (intro conjI exI [of _ stopped]) (simp_all only: append_assoc)
  qed
qed

section \<open>Starting\<close>

fun boot_effect :: "effect \<Rightarrow> bool" where
  "boot_effect GetInfo = True"
| "boot_effect BootVm = True"
| "boot_effect LookupNetworkActor = True"
| "boot_effect (AttachTap _ _) = True"
| "boot_effect (CreateVm _) = True"
| "boot_effect (ResolveStorage _) = True"
| "boot_effect _ = False"

lemma attach_is_boot: "attach_effect e \<Longrightarrow> boot_effect e"
  by (cases e) auto

lemma info_confined [confined_intros]: "P GetInfo \<Longrightarrow> confined P (VMInstance_info E i)"
  by (simp add: confined_def info_journal)

lemma boot_confined: "confined boot_effect (VMInstance_boot E i)"
proof -
  have "confined boot_effect (HookManager_after_boot (HookManager_default E) vmid vi)" for vmid vi
    by (rule confined_mono [OF default_hooks.after_boot_confined attach_is_boot])
  then show ?thesis
    by (auto simp: VMInstance_boot_def default_hooks.before_boot_silent intro!: confined_intros)
qed

lemma create_config_journal:
  "\<exists>es. snd (fst (VMInstance_create_config E i c b j)) = j @ es \<and> list_all boot_effect es"
proof -
  obtain r where t: "wrap_err (''Failed to apply config transforms for VM '' @ inst_id i) (apply_transforms E i c) j =
      (r, j @ [ResolveStorage c])"
    by (metis apply_transforms_def prod.collapse snd_conv snd_wrap_err)
  show ?thesis
  proof (cases r)
    case (Inl e)
    with t show ?thesis by (simp add: VMInstance_create_config_def)
  next
    case (Inr c')
    have "confined boot_effect (io_then (wrap_err (''Failed to create VM '' @ inst_id i) (perform E (CreateVm c')))
        (if b then wrap_err (''Failed to boot VM '' @ inst_id i) (VMInstance_boot E (i\<lparr>inst_config := Some c'\<rparr>)) else io_return ()))"
      using boot_confined by (auto intro!: confined_intros)
    then obtain es where "snd (io_then (wrap_err (''Failed to create VM '' @ inst_id i) (perform E (CreateVm c')))
        (if b then wrap_err (''Failed to boot VM '' @ inst_id i) (VMInstance_boot E (i\<lparr>inst_config := Some c'\<rparr>)) else io_return ())
        (j @ [ResolveStorage c])) = (j @ [ResolveStorage c]) @ es" "list_all boot_effect es"
      unfolding confined_def by blast
    with t Inr show ?thesis by (simp add: VMInstance_create_config_def Let_def)
  qed
qed

text \<open>The polling loop: whatever it did, its journal is pings and sleeps, then the creation of the VM and,
  when that or the last ping failed, the end of the process.\<close>

lemma stop_child_journal: "stop_child_after_failed_start E i j = j @ kill_child i"
  unfolding stop_child_after_failed_start_def kill_journal kill_child_def by simp

fun poll_effect :: "effect \<Rightarrow> bool" where
  "poll_effect Ping = True"
| "poll_effect (Sleep _) = True"
| "poll_effect _ = False"

definition poll_outcome :: "VMInstance \<Rightarrow> nat \<Rightarrow> journal \<Rightarrow> string + VMInstance \<Rightarrow> journal \<Rightarrow> bool" where
  "poll_outcome i n j r j' \<longleftrightarrow>
     (\<exists>ps es. list_all poll_effect ps \<and> length (filter (\<lambda>e. e = Ping) ps) \<le> n \<and> list_all boot_effect es \<and>
        (case r of
           Inr i' \<Rightarrow> j' = j @ ps @ es \<and> child_process i' = child_process i
         | Inl _ \<Rightarrow> j' = j @ ps @ es @ kill_child i))"

lemma create_config_child: "child_process (snd (VMInstance_create_config E i c b j)) = child_process i"
  by (simp add: VMInstance_create_config_def Let_def split: prod.splits sum.splits)

lemma spawn_poll_outcome:
  "spawn_poll E i config b n j = (r, j') \<Longrightarrow> poll_outcome i n j r j'"
proof (induction n arbitrary: j)
  case 0
  then show ?case
    by (auto simp: poll_outcome_def stop_child_journal intro!: exI [of _ "[]"])
next
  case (Suc n)
  show ?case
  proof (cases "failure E j Ping")
    case (Some err)
    let ?p = "if 0 < n then [Ping, Sleep 1] else [Ping]"
    have "spawn_poll E i config b n (j @ ?p) = (r, j')"
      using Suc.prems Some by (auto simp: perform_def emit_def split: if_splits)
    then obtain ps es where out: "list_all poll_effect ps" "length (filter (\<lambda>e. e = Ping) ps) \<le> n" "list_all boot_effect es"
        "case r of Inr i' \<Rightarrow> j' = (j @ ?p) @ ps @ es \<and> child_process i' = child_process i | Inl _ \<Rightarrow> j' = (j @ ?p) @ ps @ es @ kill_child i"
      using Suc.IH unfolding poll_outcome_def by blast
    show ?thesis
      unfolding poll_outcome_def
      by (rule exI [of _ "?p @ ps"], rule exI [of _ es]) (use out in \<open>auto split: sum.splits\<close>)
  next
    case None
    show ?thesis
    proof (cases config)
      case c: None
      with None Suc.prems have "r = Inr i" "j' = j @ [Ping]" by (auto simp: perform_def emit_def)
      then show ?thesis
        unfolding poll_outcome_def by (intro exI [of _ "[Ping]"] exI [of _ "[]"]) simp
    next
      case (Some c)
      obtain rc jc ic where cc: "VMInstance_create_config E i c b (j @ [Ping]) = ((rc, jc), ic)" by (metis prod.collapse)
      then obtain es where es: "jc = (j @ [Ping]) @ es" "list_all boot_effect es"
        using create_config_journal [of E i c b "j @ [Ping]"] by auto
      have child: "child_process ic = child_process i"
        using create_config_child [of E i c b "j @ [Ping]"] cc by simp
      show ?thesis
        unfolding poll_outcome_def
        by (rule exI [of _ "[Ping]"], rule exI [of _ es])
          (use None Some Suc.prems cc es child in \<open>auto simp: perform_def emit_def stop_child_journal kill_child_def split: sum.splits\<close>)
    qed
  qed
qed

text \<open>C37. A failed start leaves no hypervisor behind: spawning an instance pings its socket at most 31
  times; if it fails, either the runtime directory or the process could not be created, or the last thing
  it did was to kill the process and wait for it; if it succeeds, the process was not killed and belongs to
  the instance. This holds for every outcome of creating, booting and attaching the VM.\<close>

theorem failed_start_stops_hypervisor:
  "case VMInstance_spawn E vmid config b [] of
     (r, j) \<Rightarrow> length (filter (\<lambda>e. e = Ping) j) \<le> 31 \<and>
       (case r of
          Inr i \<Rightarrow> child_process i \<and> KillChild \<notin> set j
        | Inl _ \<Rightarrow> (\<exists>dir. j = [CreateDirAll dir]) \<or> (\<exists>js sock. j = js @ [SpawnVmm sock] \<and> failure E js (SpawnVmm sock) \<noteq> None) \<or>
            (\<exists>js. j = js @ [KillChild, WaitChild]))"
proof -
  let ?dir = "runtime_dir_for (runtime_var E) vmid"
  let ?sock = "path_join ?dir SOCKET_FILE_NAME"
  let ?i = "VMInstance_new vmid ?sock True"
  let ?mk = "if path_exists E [] ?dir then [] else [CreateDirAll ?dir]"
  obtain r j where sp: "VMInstance_spawn E vmid config b [] = (r, j)" by fastforce
  consider (dir) "j = [CreateDirAll ?dir]" "isl r"
    | (spawn) "j = ?mk @ [SpawnVmm ?sock]" "isl r" "failure E ?mk (SpawnVmm ?sock) \<noteq> None"
    | (poll) "spawn_poll E ?i config b MAX_ATTEMPTS (?mk @ [SpawnVmm ?sock]) = (r, j)"
    using sp
    by (auto simp: VMInstance_spawn_def Let_def io_then_def io_bind_def perform_def emit_def split: if_splits option.splits)
  then show ?thesis
  proof cases
    case poll
    then obtain ps es where out: "list_all poll_effect ps" "length (filter (\<lambda>e. e = Ping) ps) \<le> 31" "list_all boot_effect es"
        "case r of Inr i' \<Rightarrow> j = (?mk @ [SpawnVmm ?sock]) @ ps @ es \<and> child_process i' = child_process ?i
           | Inl _ \<Rightarrow> j = (?mk @ [SpawnVmm ?sock]) @ ps @ es @ kill_child ?i"
      using spawn_poll_outcome [OF poll] unfolding poll_outcome_def MAX_ATTEMPTS_def by blast
    have "filter (\<lambda>e. e = Ping) es = []" "KillChild \<notin> set es" "KillChild \<notin> set ps"
      using out(1,3) by (auto simp: filter_empty_conv list_all_iff)
    then show ?thesis
      using out(2,4) unfolding sp by (auto simp: VMInstance_new_def kill_child_def split: sum.splits)
  qed (use sp in \<open>auto split: sum.splits\<close>)
qed

section \<open>The sequence of a start\<close>

text \<open>The effects that change what runs on the host.\<close>

fun host_change :: "effect \<Rightarrow> bool" where
  "host_change (ResolveStorage _) = True"
| "host_change (CreateVm _) = True"
| "host_change BootVm = True"
| "host_change ShutdownVm = True"
| "host_change ShutdownVmm = True"
| "host_change KillChild = True"
| "host_change (AttachTap _ _) = True"
| "host_change (DetachTap _ _) = True"
| "host_change (ReleaseStorage _) = True"
| "host_change (RemoveDirAll _) = True"
| "host_change _ = False"

lemma info_Inr: "VMInstance_info E i j = (Inr vi, j') \<longleftrightarrow> vm_info_of E j = Inr vi \<and> j' = j @ [GetInfo]"
  by (auto simp: VMInstance_info_def wrap_err_Inr)

text \<open>What the hypervisor reported right after booting.\<close>

definition info_after_boot :: "environment \<Rightarrow> journal \<Rightarrow> VmInfo \<Rightarrow> bool" where
  "info_after_boot E j vi \<longleftrightarrow> (\<exists>js ks. j = js @ [BootVm, GetInfo] @ ks \<and> vm_info_of E (js @ [BootVm]) = Inr vi)"

lemma info_after_boot_append: "info_after_boot E j vi \<Longrightarrow> info_after_boot E (j @ k) vi"
  unfolding info_after_boot_def by (metis append.assoc)

lemma boot_ok:
  assumes "VMInstance_boot E i j = (Inr (), j')"
  shows "\<exists>vi v. ulid_from_string E (inst_id i) = Inr v \<and> info_after_boot E j' vi \<and>
    filter host_change j' = filter host_change j @ BootVm # map (AttachTap v) (tap_names vi)"
proof -
  from assms obtain vi where vi: "vm_info_of E (j @ [GetInfo, BootVm]) = Inr vi"
    and hook: "HookManager_after_boot (HookManager_default E) (inst_id i) vi (j @ [GetInfo, BootVm, GetInfo]) = (Inr (), j')"
    by (auto simp: VMInstance_boot_def io_ok_simps info_Inr default_hooks.before_boot_silent io_return_def)
  have "filter host_change (map (AttachTap v) ts) = map (AttachTap v) ts" for v ts
    by (induction ts) simp_all
  moreover obtain es where "j' = j @ [GetInfo, BootVm, GetInfo] @ es"
    using confinedD [OF default_hooks.after_boot_confined hook] by (metis append.assoc)
  with vi have "info_after_boot E j' vi"
    unfolding info_after_boot_def by (intro exI [of _ "j @ [GetInfo]"] exI [of _ es]) simp
  ultimately show ?thesis using after_boot_ok [OF hook] by (intro exI [of _ vi]) auto
qed

lemma create_config_ok:
  assumes "VMInstance_create_config E i c b j = ((Inr (), j'), i')"
  shows "\<exists>c' h. TransformChain (default_chain (runtime_var E) (env_urls E) h) (inst_id i) c = Inr c' \<and>
    inst_config i' = Some c' \<and>
    (if b then \<exists>vi v. ulid_from_string E (inst_id i) = Inr v \<and> info_after_boot E j' vi \<and>
         filter host_change j' = filter host_change j @ [ResolveStorage c, CreateVm c', BootVm] @ map (AttachTap v) (tap_names vi)
     else filter host_change j' = filter host_change j @ [ResolveStorage c, CreateVm c'])"
proof -
  from assms obtain c' where c': "TransformChain (default_chain (runtime_var E) (env_urls E) (host_of E j)) (inst_id i) c = Inr c'"
    and i': "i' = i\<lparr>inst_config := Some c'\<rparr>"
    and rest: "(if b then wrap_err (''Failed to boot VM '' @ inst_id i) (VMInstance_boot E i') else io_return ())
      (j @ [ResolveStorage c, CreateVm c']) = (Inr (), j')"
    by (auto simp: VMInstance_create_config_def apply_transforms_def wrap_err_def [of _ "apply_transforms E i c"] Let_def
        io_then_Inr wrap_err_Inr perform_Inr split: prod.splits sum.splits)
  show ?thesis
  proof (cases b)
    case True
    with rest have "VMInstance_boot E i' (j @ [ResolveStorage c, CreateVm c']) = (Inr (), j')" by (simp add: wrap_err_Inr)
    from boot_ok [OF this] True c' i' show ?thesis by auto
  next
    case False
    with rest c' i' show ?thesis by (auto simp: io_return_def)
  qed
qed

lemma poll_not_lifecycle: "list_all poll_effect ps \<Longrightarrow> filter host_change ps = []"
proof (induction ps)
  case (Cons e ps)
  then show ?case by (cases e) auto
qed simp

lemma spawn_poll_ok:
  assumes "spawn_poll E i (Some c) b n j = (Inr i', j')"
  shows "\<exists>ps. list_all poll_effect ps \<and> VMInstance_create_config E i c b (j @ ps) = ((Inr (), j'), i')"
  using assms
proof (induction n arbitrary: j)
  case (Suc n)
  show ?case
  proof (cases "failure E j Ping")
    case (Some err)
    let ?p = "if 0 < n then [Ping, Sleep 1] else [Ping]"
    have "spawn_poll E i (Some c) b n (j @ ?p) = (Inr i', j')"
      using Suc.prems Some by (auto simp: perform_def emit_def split: if_splits)
    then obtain ps where ps: "list_all poll_effect ps" "VMInstance_create_config E i c b ((j @ ?p) @ ps) = ((Inr (), j'), i')"
      using Suc.IH by blast
    then show ?thesis by (intro exI [of _ "?p @ ps"]) auto
  next
    case None
    with Suc.prems have "VMInstance_create_config E i c b (j @ [Ping]) = ((Inr (), j'), i')"
      by (auto simp: perform_def emit_def split: prod.splits sum.splits)
    then show ?thesis by (intro exI [of _ "[Ping]"]) simp
  qed
qed simp

lemma spawn_ok:
  assumes "VMInstance_spawn E vmid (Some c) b [] = (Inr i, j)"
  shows "\<exists>js sock. filter host_change js = [] \<and>
    VMInstance_create_config E (VMInstance_new vmid sock True) c b js = ((Inr (), j), i)"
proof -
  let ?dir = "runtime_dir_for (runtime_var E) vmid"
  let ?sock = "path_join ?dir SOCKET_FILE_NAME"
  let ?mk = "if path_exists E [] ?dir then [] else [CreateDirAll ?dir]"
  have "spawn_poll E (VMInstance_new vmid ?sock True) (Some c) b MAX_ATTEMPTS (?mk @ [SpawnVmm ?sock]) = (Inr i, j)"
    using assms by (auto simp: VMInstance_spawn_def Let_def io_then_def io_bind_def perform_def emit_def split: if_splits option.splits)
  from spawn_poll_ok [OF this] obtain ps where "list_all poll_effect ps"
      "VMInstance_create_config E (VMInstance_new vmid ?sock True) c b ((?mk @ [SpawnVmm ?sock]) @ ps) = ((Inr (), j), i)"
    by blast
  then show ?thesis
    by (intro exI [of _ "(?mk @ [SpawnVmm ?sock]) @ ps"] exI [of _ ?sock]) (auto simp: poll_not_lifecycle)
qed

lemma new_inst_id: "inst_id (VMInstance_new vmid sock child) = vmid"
  by (simp add: VMInstance_new_def)

lemma attach_console_journal:
  "attach_console E i c j = (r, j') \<Longrightarrow> j' = j @ [ConnectConsole (console_connect E i)]"
  by (simp add: attach_console_def perform_def emit_def Let_def split: prod.splits sum.splits)

lemma on_start_ok:
  assumes "VMActor_on_start E vmid (Some m) j0 = (Inr (a, watched), j)"
  shows "\<exists>c i j1. to_vm_config m = Inr c \<and>
    VMInstance_spawn E (ulid_text E vmid) (Some c) (start (boot (desired m))) j0 = (Inr i, j1) \<and>
    va_manifest a = Some m \<and> inst_config (va_instance a) = inst_config i \<and> va_migration a = None \<and>
    j = j1 @ [ConnectConsole (console_connect E i)]"
proof (cases "to_vm_config m")
  case (Inr c)
  with assms obtain i j1 con where sp: "VMInstance_spawn E (ulid_text E vmid) (Some c) (start (boot (desired m))) j0 = (Inr i, j1)"
    and con: "attach_console E i Console_default j1 = (Inr con, j)"
    and a: "a = \<lparr>va_vmid = vmid, va_instance = i\<lparr>child_process := False\<rparr>, va_migration = None, va_console = con, va_manifest = Some m\<rparr>"
    by (auto simp: VMActor_on_start_def Let_def io_bind_Inr io_return_def take_child_process_def)
  with Inr attach_console_journal [OF con] show ?thesis by simp
qed (use assms in \<open>simp add: VMActor_on_start_def io_bind_def io_fail_def\<close>)

text \<open>C35. When a VM actor starts from a manifest, the hypervisor was given exactly one machine: the
  converted manifest, localised by the transforms before it was created (every path absolute, the serial
  console on the VM's socket), booted exactly when the manifest asks for it, and then every TAP device
  of a managed network that the hypervisor reported after the boot was attached, once and in order. The actor keeps the manifest and the localised
  configuration, and nothing has been shut down, killed or released.\<close>

theorem vm_start_sequence:
  assumes "VMActor_on_start E vmid (Some m) [] = (Inr (a, watched), j)"
  shows "\<exists>c c' v vi. to_vm_config m = Inr c \<and> same_machine c c' \<and>
    list_all (\<lambda>d. absolute_opt (disk_path d)) (case disks c' of Some ds \<Rightarrow> ds | None \<Rightarrow> []) \<and>
    Option.bind (serial c') console_socket = Some (runtime_dir_for (runtime_var E) (ulid_text E vmid) @ ''/console.sock'') \<and>
    va_manifest a = Some m \<and> inst_config (va_instance a) = Some c' \<and>
    (if start (boot (desired m))
     then ulid_from_string E (ulid_text E vmid) = Inr v \<and> info_after_boot E j vi \<and>
       filter host_change j = [ResolveStorage c, CreateVm c', BootVm] @ map (AttachTap v) (tap_names vi)
     else filter host_change j = [ResolveStorage c, CreateVm c'])"
proof -
  from on_start_ok [OF assms] obtain c i j1 where c: "to_vm_config m = Inr c"
    and sp: "VMInstance_spawn E (ulid_text E vmid) (Some c) (start (boot (desired m))) [] = (Inr i, j1)"
    and a: "va_manifest a = Some m" "inst_config (va_instance a) = inst_config i"
    and j: "j = j1 @ [ConnectConsole (console_connect E i)]"
    by blast
  from spawn_ok [OF sp] obtain js sock where js: "filter host_change js = []"
    and cc: "VMInstance_create_config E (VMInstance_new (ulid_text E vmid) sock True) c (start (boot (desired m))) js = ((Inr (), j1), i)"
    by blast
  from create_config_ok [OF cc] obtain c' h where
    t: "TransformChain (default_chain (runtime_var E) (env_urls E) h) (ulid_text E vmid) c = Inr c'"
    and i: "inst_config i = Some c'"
    and seq: "if start (boot (desired m)) then \<exists>vi v. ulid_from_string E (ulid_text E vmid) = Inr v \<and> info_after_boot E j1 vi \<and>
         filter host_change j1 = filter host_change js @ [ResolveStorage c, CreateVm c', BootVm] @ map (AttachTap v) (tap_names vi)
     else filter host_change j1 = filter host_change js @ [ResolveStorage c, CreateVm c']"
    unfolding new_inst_id by blast
  have "same_machine c c'" by (rule default_chain.frame [OF t])
  moreover have "list_all (\<lambda>d. absolute_opt (disk_path d)) (case disks c' of Some ds \<Rightarrow> ds | None \<Rightarrow> [])"
    using default_chain_run [OF t] path_verify_ok by blast
  moreover have "info_after_boot E j1 vi \<Longrightarrow> info_after_boot E j vi" for vi
    using j info_after_boot_append by simp
  ultimately show ?thesis
    using c a i seq js j chain_serial [OF t] by (auto split: if_splits)
qed

text \<open>An environment in which every effect succeeds and the guest has one managed interface, except that
  connecting to a console socket has the given error, if any.\<close>

fun console_failure :: "string option \<Rightarrow> effect \<Rightarrow> string option" where
  "console_failure err (ConnectConsole _) = err"
| "console_failure err _ = None"

definition sample_env :: "string option \<Rightarrow> environment" where
  "sample_env err =
     \<lparr>failure = (\<lambda>_. console_failure err),
      vm_info_of = (\<lambda>_. Inr \<lparr>vi_config = sample_vm_config\<lparr>net := Some [\<lparr>net_id = Some ''net://devnet'', mac = None, tap = Some ''tap0''\<rparr>]\<rparr>,
                             vi_state = VmRunning\<rparr>),
      port_of = (\<lambda>_. Inr 50000), path_exists = (\<lambda>_ _. False), host_of = (\<lambda>_. sample_host),
      config_in_file = (\<lambda>_ _. None), dir_entries = (\<lambda>_ _. []), env_urls = sample_library,
      ulid_text = (\<lambda>_. ''01hzx''), ulid_from_string = (\<lambda>_. Inr 7), runtime_var = None\<rparr>"

lemma sample_spawn:
  "\<exists>c i j. to_vm_config sample_disk_manifest = Inr c \<and>
     VMInstance_spawn (sample_env err) ''01hzx'' (Some c) True [] = (Inr i, j) \<and> AttachTap 7 ''tap0'' \<in> set j"
proof -
  let ?E = "sample_env err"
  obtain c where c: "to_vm_config sample_disk_manifest = Inr c" "payload c = boot_payload (boot sample_desired)" "net c = None"
      "disks c = Some [logical_disk (hd (storage (desired sample_disk_manifest)))]"
    using sample_convert by blast
  obtain c' where c': "TransformChain (default_chain None sample_library sample_host) ''01hzx'' c = Inr c'"
    using sample_chain [OF c(2-4)] by blast
  have taps: "tap_names \<lparr>vi_config = sample_vm_config\<lparr>net := Some [\<lparr>net_id = Some ''net://devnet'', mac = None, tap = Some ''tap0''\<rparr>]\<rparr>,
      vi_state = VmRunning\<rparr> = [''tap0'']"
    by (simp add: tap_names_def managed_net_def starts_with_def List.map_filter_def)
  have m: "MAX_ATTEMPTS = Suc 30" by (simp add: MAX_ATTEMPTS_def)
  have poll: "spawn_poll ?E i (Some c) True MAX_ATTEMPTS j =
      (case VMInstance_create_config ?E i c True (j @ [Ping]) of
         ((Inl e, j2), i') \<Rightarrow> (Inl e, stop_child_after_failed_start ?E i' j2) | ((Inr _, j2), i') \<Rightarrow> (Inr i', j2))" for i j
    unfolding m spawn_poll.simps by (simp add: perform_def emit_def sample_env_def)
  show ?thesis
    using c(1) c' taps poll
    by (simp add: VMInstance_spawn_def VMInstance_create_config_def VMInstance_boot_def VMInstance_info_def apply_transforms_def
        sample_env_def io_then_def io_bind_def io_return_def wrap_err_def perform_def emit_def VMInstance_new_def
        HookManager_before_boot_def HookManager_after_boot_def HookManager_default_def NetworkProvisioningHook_def no_hook_def
        NetworkProvisioningHook_after_boot_def parse_vmid_def network_agent_def attach_tap_def Let_def)
qed

lemma sample_start:
  "\<exists>a watched j. VMActor_on_start (sample_env None) 7 (Some sample_disk_manifest) [] = (Inr (a, watched), j)"
proof -
  obtain c i j where c: "to_vm_config sample_disk_manifest = Inr c"
    and sp: "VMInstance_spawn (sample_env None) ''01hzx'' (Some c) True [] = (Inr i, j)"
    using sample_spawn by blast
  have "start (boot (desired sample_disk_manifest))" "ulid_text (sample_env None) 7 = ''01hzx''"
    by (simp_all add: sample_disk_manifest_def sample_defs sample_env_def)
  with c sp show ?thesis
    by (simp add: VMActor_on_start_def io_bind_def io_return_def attach_console_def perform_def emit_def attach_socket_def
        Console_default_def take_child_process_def sample_env_def [of None] Let_def)
qed

theorem vm_start_sequence_witness:
  "\<exists>a watched j. VMActor_on_start (sample_env None) 7 (Some sample_disk_manifest) [] = (Inr (a, watched), j) \<and>
     va_manifest a = Some sample_disk_manifest \<and> BootVm \<in> set j"
proof -
  have b: "start (boot (desired sample_disk_manifest))" by (simp add: sample_disk_manifest_def sample_defs)
  obtain a watched j' where st: "VMActor_on_start (sample_env None) 7 (Some sample_disk_manifest) [] = (Inr (a, watched), j')"
    using sample_start by blast
  from vm_start_sequence [OF st] b obtain c c' v vi where m: "va_manifest a = Some sample_disk_manifest"
    and "filter host_change j' = [ResolveStorage c, CreateVm c', BootVm] @ map (AttachTap v) (tap_names vi)" by auto
  then have "BootVm \<in> set (filter host_change j')" by simp
  with st m show ?thesis by auto
qed

text \<open>When the serial console of a freshly started VM cannot be connected, starting the actor fails but
  the hypervisor keeps running: the journal ends with the failed connection, and the process was neither
  killed nor told to exit, its storage not released.\<close>

lemma console_failure_leaves_hypervisor:
  assumes "to_vm_config m = Inr c"
    and "VMInstance_spawn E (ulid_text E vmid) (Some c) (start (boot (desired m))) [] = (Inr i, j)"
    and "failure E j (ConnectConsole (console_connect E i)) = Some err"
  shows "isl (fst (VMActor_on_start E vmid (Some m) [])) \<and>
    snd (VMActor_on_start E vmid (Some m) []) = j @ [ConnectConsole (console_connect E i)] \<and>
    KillChild \<notin> set j \<and> ShutdownVmm \<notin> set j \<and> (\<forall>c'. ReleaseStorage c' \<notin> set j)"
proof -
  from spawn_ok [OF assms(2)] obtain js sock where js: "filter host_change js = []"
    and cc: "VMInstance_create_config E (VMInstance_new (ulid_text E vmid) sock True) c (start (boot (desired m))) js = ((Inr (), j), i)"
    by blast
  obtain es where es: "j = js @ es" "list_all boot_effect es"
    using create_config_journal [of E "VMInstance_new (ulid_text E vmid) sock True" c "start (boot (desired m))" js] cc by auto
  have "KillChild \<notin> set js" "ShutdownVmm \<notin> set js" "ReleaseStorage c' \<notin> set js" for c'
    using js by (auto simp: filter_empty_conv)
  moreover have "KillChild \<notin> set es" "ShutdownVmm \<notin> set es" "ReleaseStorage c' \<notin> set es" for c'
    using es(2) by (auto simp: list_all_iff)
  ultimately have clean: "KillChild \<notin> set j \<and> ShutdownVmm \<notin> set j \<and> (\<forall>c'. ReleaseStorage c' \<notin> set j)"
    using es(1) by simp
  have "attach_console E i Console_default j = (Inl (''failed to attach console spool to '' @ console_connect E i @ '': '' @ err),
      j @ [ConnectConsole (console_connect E i)])"
    using assms(3) by (simp add: attach_console_def perform_def emit_def attach_socket_def Let_def)
  then show ?thesis
    using assms(1,2) clean by (simp add: VMActor_on_start_def io_bind_def io_return_def Let_def)
qed

lemma console_failure_leaves_hypervisor_instance:
  "isl (fst (VMActor_on_start (sample_env (Some ''refused'')) 7 (Some sample_disk_manifest) [])) \<and>
   KillChild \<notin> set (snd (VMActor_on_start (sample_env (Some ''refused'')) 7 (Some sample_disk_manifest) []))"
proof -
  let ?E = "sample_env (Some ''refused'')"
  obtain c i j where c: "to_vm_config sample_disk_manifest = Inr c"
    and sp: "VMInstance_spawn ?E ''01hzx'' (Some c) True [] = (Inr i, j)"
    using sample_spawn by blast
  have "start (boot (desired sample_disk_manifest))" "ulid_text ?E 7 = ''01hzx''"
      "failure ?E j (ConnectConsole (console_connect ?E i)) = Some ''refused''"
    by (simp_all add: sample_disk_manifest_def sample_defs sample_env_def)
  with console_failure_leaves_hypervisor [of sample_disk_manifest c ?E 7 i j] c sp show ?thesis by simp
qed

section \<open>Migration\<close>

fun migration_pending :: "vm_task \<Rightarrow> bool" where
  "migration_pending (ReceiveTask _) = True"
| "migration_pending FinishedMsg = True"
| "migration_pending _ = False"

text \<open>Initially an actor that has just started, with no task running.\<close>

definition vm_started :: "environment \<Rightarrow> vm_system \<Rightarrow> bool" where
  "vm_started E s \<longleftrightarrow> (\<exists>vmid manifest watched. VMActor_on_start E vmid manifest [] = (Inr (sys_actor s, watched), sys_journal s)) \<and>
     sys_tasks s = []"

definition receiving :: "vm_system \<Rightarrow> bool" where
  "receiving s \<longleftrightarrow>
     length (filter migration_pending (sys_tasks s)) = (if va_migration (sys_actor s) = None then 0 else 1) \<and>
     (\<forall>url. ReceiveTask url \<in> set (sys_tasks s) \<longrightarrow> map_option ms_listening_address (va_migration (sys_actor s)) = Some url)"

lemma on_start_not_migrating: "VMActor_on_start E vmid manifest j = (Inr (a, watched), j') \<Longrightarrow> va_migration a = None"
  by (auto simp: VMActor_on_start_def Let_def io_bind_Inr io_return_def take_child_process_def)

lemma prep_keeps_migration: "va_migration (fst (VMActor_PrepMigration E m a j)) = va_migration a"
  by (simp add: VMActor_PrepMigration_def split: sum.splits prod.splits)

lemma receive_keeps_receiving:
  assumes "receiving s" and "VMActor_MigrateVMReceive E msg (sys_actor s) (sys_journal s) = (reply, a, j, ts)"
  shows "receiving \<lparr>sys_actor = a, sys_journal = j, sys_tasks = sys_tasks s @ ts\<rparr>"
proof (cases "va_migration (sys_actor s)")
  case (Some ms)
  with assms show ?thesis by (auto simp: VMActor_MigrateVMReceive_def receiving_def)
next
  case None
  with assms(1) have "filter migration_pending (sys_tasks s) = []" by (simp add: receiving_def)
  then have "ReceiveTask url \<notin> set (sys_tasks s)" for url by (auto simp: filter_empty_conv)
  with None assms show ?thesis
    by (auto simp: VMActor_MigrateVMReceive_def receiving_def split: sum.splits prod.splits)
qed

interpretation vm_runs: invariant_system "vm_started E" "vm_step E" receiving for E
proof
  fix s assume "vm_started E s"
  then show "receiving s" by (auto simp: vm_started_def receiving_def dest: on_start_not_migrating)
next
  fix s t assume inv: "receiving s" and "vm_step E s t"
  from this(2) show "receiving t"
  proof (cases rule: vm_step.cases)
    case (step_receive msg reply a j ts)
    with receive_keeps_receiving [OF inv] show ?thesis by blast
  next
    case (step_finished xs ys)
    with inv have "filter migration_pending xs = []" "filter migration_pending ys = []"
      by (auto simp: receiving_def split: if_splits)
    with step_finished show ?thesis
      by (auto simp: receiving_def VMActor_MigrationFinished_def filter_empty_conv)
  next
    case (step_prep xs m ys a j)
    with inv prep_keeps_migration [of E m "sys_actor s" "sys_journal s"] show ?thesis by (auto simp: receiving_def)
  qed (use inv in \<open>auto simp: receiving_def\<close>)
qed

text \<open>C38. At most one migration is received at a time and none is forgotten: in every state a VM actor can
  reach, it remembers a migration exactly when one receiver, or the message that it has finished, is
  outstanding, and a running receiver listens at the remembered address. A further request then gets that
  address and starts nothing; a manifest that cannot be converted opens no listener.\<close>

theorem one_migration_at_a_time:
  assumes "reachable (vm_started E) (vm_step E) s"
  shows "(va_migration (sys_actor s) = None) = (filter migration_pending (sys_tasks s) = []) \<and>
    length (filter migration_pending (sys_tasks s)) \<le> 1 \<and>
    (\<forall>url. ReceiveTask url \<in> set (sys_tasks s) \<longrightarrow>
       VMActor_MigrateVMReceive E msg (sys_actor s) (sys_journal s) =
         (\<lparr>listening_address = url, migrate_error = None\<rparr>, sys_actor s, sys_journal s, [])) \<and>
    (\<forall>e. to_vm_config (migrate_config msg) = Inl e \<longrightarrow>
       snd (VMActor_MigrateVMReceive E msg (sys_actor s) (sys_journal s)) = (sys_actor s, sys_journal s, []))"
proof -
  have inv: "receiving s" using assms by (rule vm_runs.reachable_inv)
  then have n: "length (filter migration_pending (sys_tasks s)) = (if va_migration (sys_actor s) = None then 0 else 1)"
    by (simp add: receiving_def)
  moreover have "VMActor_MigrateVMReceive E msg (sys_actor s) (sys_journal s) =
      (\<lparr>listening_address = url, migrate_error = None\<rparr>, sys_actor s, sys_journal s, [])"
    if "ReceiveTask url \<in> set (sys_tasks s)" for url
    using inv that by (auto simp: receiving_def VMActor_MigrateVMReceive_def)
  moreover have "snd (VMActor_MigrateVMReceive E msg (sys_actor s) (sys_journal s)) = (sys_actor s, sys_journal s, [])"
    if "to_vm_config (migrate_config msg) = Inl e" for e
    using that by (simp add: VMActor_MigrateVMReceive_def split: option.splits)
  ultimately show ?thesis by (auto split: if_splits)
qed

theorem one_migration_at_a_time_witness:
  "\<exists>s. reachable (vm_started (sample_env None)) (vm_step (sample_env None)) s \<and>
     va_migration (sys_actor s) \<noteq> None \<and> length (filter migration_pending (sys_tasks s)) \<le> 1"
proof -
  let ?E = "sample_env None" and ?msg = "\<lparr>migrate_vmid = 7, migrate_config = sample_disk_manifest\<rparr>"
  obtain a watched j where st: "VMActor_on_start ?E 7 (Some sample_disk_manifest) [] = (Inr (a, watched), j)"
    using sample_start by blast
  let ?s = "\<lparr>sys_actor = a, sys_journal = j, sys_tasks = []\<rparr>"
  obtain reply a' j' ts where rc: "VMActor_MigrateVMReceive ?E ?msg a j = (reply, a', j', ts)" by (metis prod.collapse)
  let ?t = "\<lparr>sys_actor = a', sys_journal = j', sys_tasks = sys_tasks ?s @ ts\<rparr>"
  have "vm_started ?E ?s" using st by (auto simp: vm_started_def)
  moreover have "vm_step ?E ?s ?t" by (rule vm_step.step_receive [of _ ?msg ?s reply]) (simp add: rc)
  ultimately have r: "reachable (vm_started ?E) (vm_step ?E) ?t" by (rule reach_step [OF reach_init])
  obtain c where "to_vm_config sample_disk_manifest = Inr c" using sample_convert by blast
  with rc on_start_not_migrating [OF st] have "va_migration a' \<noteq> None"
    by (auto simp: VMActor_MigrateVMReceive_def VMInstance_receive_migration_def sample_env_def)
  with r one_migration_at_a_time [OF r] show ?thesis by auto
qed

section \<open>Instances found on disk\<close>

text \<open>An instance found again by its identifier is reached through the socket its start has used, and is not
  the owner of a process.\<close>

lemma spawn_poll_keeps_socket:
  "spawn_poll E i config boot_vm n j = (Inr i', j') \<Longrightarrow> ch_socket_path i' = ch_socket_path i \<and> inst_id i' = inst_id i"
proof (induction E i config boot_vm n j rule: spawn_poll.induct)
  case (2 E i config boot_vm n j)
  then show ?case
    by (auto simp: VMInstance_create_config_def Let_def split: prod.splits sum.splits option.splits if_splits)
qed simp

lemma found_instance_socket:
  assumes "VMInstance_get E vmid j = (Some i, j')" and "VMInstance_spawn E vmid config boot_vm k = (Inr i', k')"
  shows "inst_id i = inst_id i' \<and> ch_socket_path i = ch_socket_path i' \<and> \<not> child_process i"
proof -
  from assms(1) obtain instances where "VMInstance_list E j = (Inr instances, j')" and found: "find (\<lambda>i. inst_id i = vmid) instances = Some i"
    by (auto simp: VMInstance_get_def split: prod.splits sum.splits)
  then have "set instances \<subseteq> {i. \<exists>e. listed_instance E e = Some i}"
    by (fastforce simp: VMInstance_list_def Let_def io_result_simps List.map_filter_def)
  moreover from found have id: "inst_id i = vmid" and "i \<in> set instances"
    by (auto simp: find_Some_iff)
  ultimately obtain e where "listed_instance E e = Some i" by auto
  with id have "i = VMInstance_new vmid (path_join (runtime_dir_for (runtime_var E) vmid) SOCKET_FILE_NAME) False"
    by (auto simp: listed_instance_def VMInstance_new_def split: option.splits prod.splits bool.splits)
  moreover from assms(2) have "ch_socket_path i' = path_join (runtime_dir_for (runtime_var E) vmid) SOCKET_FILE_NAME \<and> inst_id i' = vmid"
    by (auto simp: VMInstance_spawn_def Let_def io_result_simps VMInstance_new_def dest!: spawn_poll_keeps_socket)
  ultimately show ?thesis by (simp add: VMInstance_new_def)
qed

text \<open>The console transform configures a socket and no file, so the path of a console device cannot be found
  for a machine the driver has started.\<close>

lemma console_device_never_found:
  assumes "TransformChain (default_chain env lib h) vmid c = Inr c'"
    and "vm_info_of E j = Inr vi" and "vi_config vi = c'"
  shows "fst (open_console E i j) = Inl (''Serial console is not configured as a file for '' @ inst_id i)"
proof -
  have "serial c' = Some \<lparr>console_mode = ConsoleSocket,
      console_socket = Some (runtime_dir_for env vmid @ ''/console.sock''), console_file = None\<rparr>"
    using assms(1) by (rule chain_serial)
  with assms show ?thesis
    by (simp add: open_console_def console_path_def VMInstance_info_def wrap_err_def io_bind_def io_fail_def)
qed

end
