(* ===== verification/Wiring.thy ===== *)
theory Wiring
  imports Support Command_Line Config_Json Vm_Lifecycle Agent_Actor
begin

text \<open>
  How the parts are put together: the names under which actors find each other (\<open>utils/actor_names.rs\<close>,
  \<open>actors/agent_actor.rs\<close>), the builders of the transform chain, the storage drivers and the provisioning hooks
  (\<open>ch_driver/transform/\<close>, \<open>ch_driver/provisioning/\<close>), and the filter of the log (\<open>utils/mod.rs\<close>).
\<close>

section \<open>Names of actors\<close>

definition VM :: string where "VM = ''vm''"

definition NETWORK :: string where "NETWORK = ''network_actor''"

definition vm_actor_id :: "(ulid \<Rightarrow> string) \<Rightarrow> ulid \<Rightarrow> string" where
  "vm_actor_id to_str vmid = ''vm:'' @ to_str vmid"

text \<open>\<open>lookup_vm_actor\<close>: an error of the registry counts as not found. \<open>lookup\<close> is the registry's answer for a name.\<close>

definition lookup_vm_actor :: "(ulid \<Rightarrow> string) \<Rightarrow> (string \<Rightarrow> string + actor_id option) \<Rightarrow> ulid \<Rightarrow> actor_id option" where
  "lookup_vm_actor to_str lookup vmid =
     (case lookup (vm_actor_id to_str vmid) of Inr (Some a) \<Rightarrow> Some a | _ \<Rightarrow> None)"

text \<open>The registrations an agent makes for a VM actor it spawns; failures to register are ignored.\<close>

definition registrations :: "(ulid \<Rightarrow> string) \<Rightarrow> agent_effect \<Rightarrow> (string \<times> actor_id) list" where
  "registrations to_str e =
     (case e of SpawnVM a v _ \<Rightarrow> [(vm_actor_id to_str v, a), (VM, a)] | _ \<Rightarrow> [])"

lemma static_names_distinct: "distinct [AGENT, VM, SCHEDULER, HTTP_API_SERVER, NETWORK]"
  by (simp add: AGENT_def VM_def SCHEDULER_def HTTP_API_SERVER_def NETWORK_def)

lemma vm_actor_id_static: "vm_actor_id to_str v \<notin> {AGENT, VM, SCHEDULER, HTTP_API_SERVER, NETWORK}"
  by (simp add: vm_actor_id_def AGENT_def VM_def SCHEDULER_def HTTP_API_SERVER_def NETWORK_def)

text \<open>Under the name of a VM are exactly the actors that were spawned for it, and under the common name all VM
  actors: a request for one VM never reaches the actor of another.\<close>

lemma registered_under_vm:
  assumes "inj to_str"
  shows "(vm_actor_id to_str v, a) \<in> set (concat (map (registrations to_str) es)) \<longleftrightarrow> (\<exists>m. SpawnVM a v m \<in> set es)"
    and "(VM, a) \<in> set (concat (map (registrations to_str) es)) \<longleftrightarrow> (\<exists>w m. SpawnVM a w m \<in> set es)"
proof -
  have vm: "vm_actor_id to_str w \<noteq> VM" for w using vm_actor_id_static by simp
  have one: "(vm_actor_id to_str v, a) \<in> set (registrations to_str e) \<longleftrightarrow> (\<exists>m. e = SpawnVM a v m)" for e
    using assms vm [of v] by (cases e) (auto simp: registrations_def vm_actor_id_def dest: injD)
  have two: "(VM, a) \<in> set (registrations to_str e) \<longleftrightarrow> (\<exists>w m. e = SpawnVM a w m)" for e
    using vm by (cases e) (auto simp: registrations_def dest: sym)
  show "(vm_actor_id to_str v, a) \<in> set (concat (map (registrations to_str) es)) \<longleftrightarrow> (\<exists>m. SpawnVM a v m \<in> set es)"
    using one by auto
  show "(VM, a) \<in> set (concat (map (registrations to_str) es)) \<longleftrightarrow> (\<exists>w m. SpawnVM a w m \<in> set es)"
    using two by auto
qed

section \<open>Builders\<close>

type_synonym transform = "string \<Rightarrow> VmConfig \<Rightarrow> string + VmConfig"

definition TransformChain_new :: "transform list" where
  "TransformChain_new = []"

definition TransformChain_add :: "transform list \<Rightarrow> transform \<Rightarrow> transform list" where
  "TransformChain_add chain t = chain @ [t]"

text \<open>\<open>then\<close>: a chain is itself a transform.\<close>

definition TransformChain_then :: "transform list \<Rightarrow> transform" where
  "TransformChain_then chain = TransformChain chain"

definition StorageDriverTransformer_new :: "StorageDriver list" where
  "StorageDriverTransformer_new = []"

definition with_backend :: "StorageDriver list \<Rightarrow> StorageDriver \<Rightarrow> StorageDriver list" where
  "with_backend bs b = bs @ [b]"

definition add_hook :: "ProvisioningHook list \<Rightarrow> ProvisioningHook \<Rightarrow> ProvisioningHook list" where
  "add_hook hooks hk = hooks @ [hk]"

lemma default_chain_built:
  "default_chain env lib h =
     TransformChain_add (TransformChain_add (TransformChain_add (TransformChain_add TransformChain_new
       (StorageTransform lib (default_backends h))) (ConsoleTransform env)) NetworkTransform) PathVerify"
  by (simp add: default_chain_def TransformChain_add_def TransformChain_new_def)

text \<open>Adding a transform runs it on the result of the chain, and a chain added to a chain runs in its place.\<close>

lemma TransformChain_append:
  "TransformChain (c1 @ c2) vmid c = (case TransformChain c1 vmid c of Inl e \<Rightarrow> Inl e | Inr c' \<Rightarrow> TransformChain c2 vmid c')"
  by (induction c1 arbitrary: c) (simp_all split: sum.split)

lemma chain_add_runs_last:
  "TransformChain (TransformChain_add chain t) vmid c =
     (case TransformChain chain vmid c of Inl e \<Rightarrow> Inl e | Inr c' \<Rightarrow> t vmid c')"
  by (simp add: TransformChain_add_def TransformChain_append split: sum.split)

lemma chain_in_chain:
  "TransformChain (TransformChain_add c1 (TransformChain_then c2)) vmid c = TransformChain (c1 @ c2) vmid c"
  by (simp add: chain_add_runs_last TransformChain_then_def TransformChain_append)

text \<open>The first driver registered for a scheme is the one that is used.\<close>

lemma find_backend_with_backend:
  "find_backend (with_backend bs b) u =
     (case find_backend bs u of
        Some x \<Rightarrow> Some x
      | None \<Rightarrow> if drv_scheme b = url_scheme u then Some b else None)"
  by (induction bs) (simp_all add: find_backend_def with_backend_def)

section \<open>The log filter\<close>

record EnvFilter =
  default_level :: string
  env_directives :: string
  added_directives :: "string list"

text \<open>\<open>env_filter\<close>: \<open>env\<close> is the variable \<open>ODOROBO_LOG\<close>, \<open>debug_build\<close> whether the debug assertions are compiled in, \<open>pkg\<close>
  the name of the package. What the directives mean is the logging library's.\<close>

definition env_filter :: "bool \<Rightarrow> string \<Rightarrow> string option \<Rightarrow> string option \<Rightarrow> EnvFilter" where
  "env_filter debug_build pkg env debug_target =
     \<lparr>default_level = ''info'', env_directives = (case env of Some t \<Rightarrow> t | None \<Rightarrow> []),
      added_directives =
        (if debug_build then
           (case debug_target of Some t \<Rightarrow> [t @ ''=trace''] | None \<Rightarrow> []) @
           [map (\<lambda>c. if c = CHR ''-'' then CHR ''_'' else c) pkg @ ''=debug'']
         else [])\<rparr>"

text \<open>\<open>init\<close>: the error reporter can be installed once; then the log goes to the console, readable by people in a debug
  build, and to the error service. \<open>init_sentry\<close> enables the error service when it is configured.\<close>

datatype setup_effect =
    InstallEyre
  | InitSubscriber bool EnvFilter   \<comment> \<open>pretty output, filter\<close>
  | InitSentry string bool          \<comment> \<open>address, whether personal data are sent\<close>

definition init_logging ::
  "(setup_effect list \<Rightarrow> setup_effect \<Rightarrow> string option) \<Rightarrow> bool \<Rightarrow> string \<Rightarrow> string option \<Rightarrow> string option \<Rightarrow> (setup_effect, unit) act" where
  "init_logging fails debug_build pkg env debug_target =
     io_then (emit fails InstallEyre)
       (\<lambda>j. (Inr (), j @ [InitSubscriber debug_build (env_filter debug_build pkg env debug_target)]))"

definition init_default ::
  "(setup_effect list \<Rightarrow> setup_effect \<Rightarrow> string option) \<Rightarrow> bool \<Rightarrow> string \<Rightarrow> string option \<Rightarrow> (setup_effect, unit) act" where
  "init_default fails debug_build pkg env = init_logging fails debug_build pkg env None"

definition init_sentry :: "string option \<Rightarrow> setup_effect list" where
  "init_sentry dsn = (case dsn of Some d \<Rightarrow> [InitSentry d False] | None \<Rightarrow> [])"

text \<open>A release build adds nothing to the operator's filter; the error service runs only when configured and is
  never sent personal data.\<close>

lemma release_filter: "added_directives (env_filter False pkg env t) = []"
  by (simp add: env_filter_def)

lemma sentry_only_configured: "InitSentry d pii \<in> set (init_sentry dsn) \<longleftrightarrow> dsn = Some d \<and> \<not> pii"
  by (auto simp: init_sentry_def split: option.splits)

end
