(* ===== verification/Conformance_Manifest.thy ===== *)
theory Conformance_Manifest
  imports Manifest_Json
begin

text \<open>
  The unit tests of \<open>odorobo/src/manifest.rs\<close>, with the fixtures of \<open>docs/fixtures/manifest/\<close>, run on the
  model: every test is a definition that collects its assertions, and a lemma shows that they hold. The
  identifiers of the fixtures are texts of the \<open>ulid\<close> library, whose reader is a parameter; a test that only
  needs a manifest is stated for any identifier.
\<close>

section \<open>Fixtures\<close>

definition fixture_metadata :: "string \<Rightarrow> json" where
  "fixture_metadata name = JObj [(''name'', JStr name), (''labels'', JObj []), (''annotations'', JObj [])]"

text \<open>The minimal fixture, with the places where the tests edit its text: the version, the number of vCPUs, and
  members added to the manifest, its metadata and its boot options.\<close>

definition minimal_json_with ::
  "int \<Rightarrow> int \<Rightarrow> (string \<times> json) list \<Rightarrow> (string \<times> json) list \<Rightarrow> (string \<times> json) list \<Rightarrow> json" where
  "minimal_json_with version cpus in_manifest in_metadata in_boot = JObj
     ((''api_version'', JInt version) # in_manifest @
      [(''id'', JStr ''01J00000000000000000000000''),
       (''desired'', JObj
         [(''metadata'', JObj ((''name'', JStr ''minimal'') # in_metadata @ [(''labels'', JObj []), (''annotations'', JObj [])])),
          (''compute'', JObj [(''vcpus'', JInt cpus), (''memory_bytes'', JInt 536870912)]),
          (''storage'', JArr []), (''networks'', JArr []), (''placement'', JObj []),
          (''boot'', JObj ((''start'', JBool False) # in_boot))])])"

definition minimal_json :: json where
  "minimal_json = minimal_json_with 1 1 [] [] []"

definition storage_backed_json :: json where
  "storage_backed_json = JObj
     [(''api_version'', JInt 1), (''id'', JStr ''01J00000000000000000000001''),
      (''desired'', JObj
         [(''metadata'', fixture_metadata ''storage-backed''),
          (''compute'', JObj [(''vcpus'', JInt 2), (''max_vcpus'', JInt 4), (''memory_bytes'', JInt 4294967296)]),
          (''storage'', JArr
             [JObj [(''id'', JStr ''root''), (''uri'', JStr ''rbd://vms/root'')],
              JObj [(''id'', JStr ''data''), (''volume_id'', JStr ''01J00000000000000000000002'')]]),
          (''networks'', JArr []), (''placement'', JObj []), (''boot'', JObj [(''start'', JBool True)])])]"

definition networked_json :: json where
  "networked_json = JObj
     [(''api_version'', JInt 1), (''id'', JStr ''01J00000000000000000000003''),
      (''desired'', JObj
         [(''metadata'', fixture_metadata ''networked''),
          (''compute'', JObj [(''vcpus'', JInt 2), (''memory_bytes'', JInt 2147483648)]),
          (''storage'', JArr []),
          (''networks'', JArr [JObj [(''id'', JStr ''net://private''), (''mac_address'', JStr ''02:00:00:00:00:01'')]]),
          (''placement'', JObj [(''node'', JStr ''compute-a'')]), (''boot'', JObj [(''start'', JBool False)])])]"

definition cloud_init_json :: json where
  "cloud_init_json = JObj
     [(''api_version'', JInt 1), (''id'', JStr ''01J00000000000000000000004''),
      (''desired'', JObj
         [(''metadata'', fixture_metadata ''cloud-init''),
          (''compute'', JObj [(''vcpus'', JInt 2), (''memory_bytes'', JInt 2147483648)]),
          (''storage'', JArr []), (''networks'', JArr []), (''placement'', JObj []),
          (''boot'', JObj [(''start'', JBool True)]),
          (''cloud_init'', JObj
             [(''user_data'', JStr ''#cloud-config\<newline>users:\<newline>  - name: odorobo\<newline>''),
              (''meta_data'', JStr ''instance-id: vm-04\<newline>local-hostname: cloud-init\<newline>'')])])]"

definition vsock_json :: json where
  "vsock_json = JObj
     [(''api_version'', JInt 1), (''id'', JStr ''01J00000000000000000000005''),
      (''desired'', JObj
         [(''metadata'', fixture_metadata ''vsock''),
          (''compute'', JObj [(''vcpus'', JInt 4), (''memory_bytes'', JInt 4294967296)]),
          (''storage'', JArr []), (''networks'', JArr []), (''placement'', JObj []),
          (''boot'', JObj [(''start'', JBool True)]),
          (''vsock'', JObj [(''guest_cid'', JInt 42), (''socket'', JStr ''/run/odorobo/vms/vsock/vsock.sock'')])])]"

text \<open>What the reader makes of the minimal fixture (\<open>minimal_manifest\<close> of the tests).\<close>

definition minimal_manifest :: "ulid \<Rightarrow> VmManifest" where
  "minimal_manifest u =
     \<lparr>api_version = 1, manifest_id = u,
      desired =
        \<lparr>metadata = \<lparr>meta_name = ''minimal'', labels = [], annotations = []\<rparr>,
         compute = \<lparr>vcpus = 1, max_vcpus = None, memory_bytes = 536870912\<rparr>,
         storage = [], networks = [], placement = Placement_default,
         boot = \<lparr>start = False, firmware = None, kernel = None, cmdline = None\<rparr>,
         cloud_init = None, vsock = None\<rparr>,
      observed = None\<rparr>"

section \<open>Evaluation\<close>

lemmas read_simps = DeserializableVmManifest_deserialize_def DesiredState_deserialize_def Metadata_deserialize_def
  Compute_deserialize_def Storage_deserialize_def Network_deserialize_def Placement_deserialize_def
  Boot_deserialize_def CloudInit_deserialize_def Vsock_deserialize_def struct_fields_def field_defs dec_uint_def
  dec_string_def dec_option_def dec_ulid_def dec_list_def dec_bool_def dec_btree_def

lemma not_blank [simp]: "c \<notin> set (concat white_space) \<Longrightarrow> \<not> is_blank (c # s)"
  by (simp add: is_blank_def trim_not_empty)

lemma blank_spaces [simp]: "is_blank ''  ''"
  by (simp add: is_blank_def trim_def trim_start_def trim_end_def trim_front.simps white_space_def starts_with_def)

lemma minimal_json_read:
  assumes "parse ''01J00000000000000000000000'' = Some u"
  shows "DeserializableVmManifest_deserialize parse minimal_json = Some (minimal_manifest u)"
  using assms
  by (simp add: minimal_json_def minimal_json_with_def minimal_manifest_def read_simps Placement_default_def)

lemma minimal_manifest_valid [simp]: "VmManifest_validate (minimal_manifest u) = Inr ()"
  by (simp add: VmManifest_validate_def DesiredState_validate_def minimal_manifest_def MANIFEST_VERSION_def
      Placement_default_def white_space_def)

section \<open>Tests\<close>

text \<open>\<open>expect_err\<close> and \<open>unwrap_err\<close>.\<close>

definition rejected :: "'e + 'a \<Rightarrow> bool" where
  "rejected r = isl r"

definition fixture_round_trips :: "(string \<Rightarrow> ulid option) \<Rightarrow> (ulid \<Rightarrow> string) \<Rightarrow> bool" where
  "fixture_round_trips parse to_str = list_all
     (\<lambda>j. case VmManifest_from_json parse j of
        Inl _ \<Rightarrow> False
      | Inr m \<Rightarrow> VmManifest_validate m = Inr () \<and> VmManifest_from_json parse (VmManifest_serialize to_str m) = Inr m)
     [minimal_json, storage_backed_json, networked_json, cloud_init_json, vsock_json]"

definition rejects_unknown_fields :: "(string \<Rightarrow> ulid option) \<Rightarrow> bool" where
  "rejects_unknown_fields parse = rejected (VmManifest_from_json parse (JObj
     [(''api_version'', JInt 1), (''id'', JStr ''01J00000000000000000000000''),
      (''desired'', JObj
         [(''metadata'', JObj [(''name'', JStr ''vm'')]),
          (''compute'', JObj [(''vcpus'', JInt 1), (''memory_bytes'', JInt 1)]),
          (''boot'', JObj [(''start'', JBool False)]), (''unexpected'', JBool True)])]))"

definition rejects_unsupported_version :: "(string \<Rightarrow> ulid option) \<Rightarrow> ulid \<Rightarrow> bool" where
  "rejects_unsupported_version parse u \<longleftrightarrow>
     VmManifest_validate ((minimal_manifest u)\<lparr>api_version := MANIFEST_VERSION + 1\<rparr>) =
       Inl (UnsupportedVersion (MANIFEST_VERSION + 1)) \<and>
     rejected (VmManifest_from_json parse (minimal_json_with 2 1 [] [] []))"

text \<open>The assignments to fields of \<open>manifest.desired\<close> that the tests make.\<close>

definition with_desired :: "(DesiredState \<Rightarrow> DesiredState) \<Rightarrow> VmManifest \<Rightarrow> VmManifest" where
  "with_desired f m = m\<lparr>desired := f (desired m)\<rparr>"

definition with_compute :: "(Compute \<Rightarrow> Compute) \<Rightarrow> VmManifest \<Rightarrow> VmManifest" where
  "with_compute f = with_desired (\<lambda>d. d\<lparr>compute := f (compute d)\<rparr>)"

definition validates_compute_boundaries :: "(string \<Rightarrow> ulid option) \<Rightarrow> ulid \<Rightarrow> bool" where
  "validates_compute_boundaries parse u =
     (let m1 = with_compute (\<lambda>c. c\<lparr>max_vcpus := Some (vcpus c)\<rparr>) (minimal_manifest u);
          m2 = with_compute (\<lambda>c. c\<lparr>vcpus := 0\<rparr>) m1;
          m3 = with_compute (\<lambda>c. c\<lparr>vcpus := 1, max_vcpus := Some 0\<rparr>) m2;
          m4 = with_compute (\<lambda>c. c\<lparr>max_vcpus := None, memory_bytes := 0\<rparr>) m3
      in VmManifest_validate m1 = Inr () \<and> VmManifest_validate m2 = Inl NoVcpus \<and>
         (case VmManifest_validate m3 of Inl (MaxVcpusLessThanBoot _ _) \<Rightarrow> True | _ \<Rightarrow> False) \<and>
         VmManifest_validate m4 = Inl NoMemory \<and>
         rejected (VmManifest_from_json parse (minimal_json_with 1 0 [] [] [])))"

definition Storage_default :: Storage where
  "Storage_default = \<lparr>storage_id = [], uri = None, volume_id = None, read_only = False\<rparr>"

definition with_storage :: "Storage list \<Rightarrow> VmManifest \<Rightarrow> VmManifest" where
  "with_storage ss = with_desired (\<lambda>d. d\<lparr>storage := ss\<rparr>)"

definition accepts_valid_storage_variants :: "ulid \<Rightarrow> ulid \<Rightarrow> bool" where
  "accepts_valid_storage_variants u v \<longleftrightarrow>
     VmManifest_validate (with_storage
       [Storage_default\<lparr>storage_id := ''volume'', volume_id := Some v, read_only := True\<rparr>] (minimal_manifest u)) = Inr ()"

definition rejects_invalid_storage :: "ulid \<Rightarrow> ulid \<Rightarrow> bool" where
  "rejects_invalid_storage u v =
     (let file = Some ''file:///disk.img'';
          validate = (\<lambda>ss. VmManifest_validate (with_storage ss (minimal_manifest u)));
          root = Storage_default\<lparr>storage_id := ''root'', uri := file\<rparr>
      in validate [Storage_default\<lparr>storage_id := ''missing-source''\<rparr>] = Inl (InvalidStorageSource ''missing-source'') \<and>
         validate [Storage_default\<lparr>storage_id := ''invalid'', uri := file, volume_id := Some v\<rparr>] =
           Inl (InvalidStorageSource ''invalid'') \<and>
         validate [Storage_default\<lparr>storage_id := ''root'', uri := Some ''  ''\<rparr>] = Inl (InvalidStorageSource ''root'') \<and>
         validate [root, root\<lparr>uri := Some ''file:///other.img''\<rparr>] = Inl (DuplicateStorageId ''root'') \<and>
         validate [Storage_default\<lparr>storage_id := ''  '', uri := file\<rparr>] = Inl EmptyStorageId)"

definition with_vsock :: "Vsock option \<Rightarrow> VmManifest \<Rightarrow> VmManifest" where
  "with_vsock v = with_desired (\<lambda>d. d\<lparr>vsock := v\<rparr>)"

definition rejects_invalid_vsock_and_metadata :: "ulid \<Rightarrow> bool" where
  "rejects_invalid_vsock_and_metadata u =
     (let v = \<lparr>guest_cid = 42, socket = ''/run/odorobo/vsock.sock''\<rparr>;
          validate = (\<lambda>v. VmManifest_validate (with_vsock (Some v) (minimal_manifest u)))
      in validate v = Inr () \<and> validate (v\<lparr>guest_cid := 0\<rparr>) = Inl InvalidVsockCid \<and>
         validate (v\<lparr>socket := ''  ''\<rparr>) = Inl InvalidVsockSocket \<and>
         validate (v\<lparr>socket := ''relative.sock''\<rparr>) = Inl InvalidVsockSocket \<and>
         VmManifest_validate (with_desired (\<lambda>d. d\<lparr>metadata := (metadata d)\<lparr>meta_name := ''  ''\<rparr>\<rparr>) (minimal_manifest u)) =
           Inl EmptyMetadataName)"

definition rejects_invalid_network_and_cloud_init :: "ulid \<Rightarrow> bool" where
  "rejects_invalid_network_and_cloud_init u =
     (let validate = (\<lambda>c. VmManifest_validate (with_desired (\<lambda>d. d\<lparr>cloud_init := Some c\<rparr>) (minimal_manifest u)));
          user = Some ''#cloud-config''; instance_id = Some ''instance-id: vm''
      in VmManifest_validate (with_desired (\<lambda>d. d\<lparr>networks := [\<lparr>network_id = ''  '', mac_address = None\<rparr>]\<rparr>)
           (minimal_manifest u)) = Inl (NetworkWithoutId 0) \<and>
         list_all (\<lambda>c. validate c = Inl IncompleteCloudInit)
           [\<lparr>user_data = None, meta_data = None\<rparr>, \<lparr>user_data = user, meta_data = None\<rparr>,
            \<lparr>user_data = None, meta_data = instance_id\<rparr>] \<and>
         list_all (\<lambda>c. validate c = Inl EmptyCloudInitData)
           [\<lparr>user_data = Some ''  '', meta_data = instance_id\<rparr>, \<lparr>user_data = user, meta_data = Some ''  ''\<rparr>])"

definition rejects_unknown_fields_at_multiple_levels :: "(string \<Rightarrow> ulid option) \<Rightarrow> bool" where
  "rejects_unknown_fields_at_multiple_levels parse =
     (let extra = [(''extra'', JBool True)]
      in list_all (\<lambda>j. rejected (VmManifest_from_json parse j))
           [minimal_json_with 1 1 extra [] [], minimal_json_with 1 1 [] extra [], minimal_json_with 1 1 [] [] extra])"

definition with_affinity :: "AffinityRule list \<Rightarrow> VmManifest \<Rightarrow> VmManifest" where
  "with_affinity rules = with_desired (\<lambda>d. d\<lparr>placement := (placement d)\<lparr>affinity := rules\<rparr>\<rparr>)"

definition rejects_invalid_affinity_comparisons :: "ulid \<Rightarrow> bool" where
  "rejects_invalid_affinity_comparisons u = list_all
     (\<lambda>vs. VmManifest_validate (with_affinity
        [\<lparr>strictness = Required, affinity_type = AffinityAgent, inverse = False,
          requirements = [\<lparr>key = ''capacity'', table = Annotation, operator = Gt, values = vs\<rparr>]\<rparr>] (minimal_manifest u)) =
        Inl (InvalidAffinityComparison ''capacity''))
     [[], [''1'', ''2''], [''not-a-number''], [''NaN'']]"

text \<open>The encoded text contains a member or a string: somewhere in the document.\<close>

fun contains_string :: "string \<Rightarrow> json \<Rightarrow> bool" where
  "contains_string t (JStr s) \<longleftrightarrow> s = t"
| "contains_string t (JArr js) \<longleftrightarrow> list_ex (contains_string t) js"
| "contains_string t (JObj ms) \<longleftrightarrow> list_ex (\<lambda>(k, j). k = t \<or> contains_string t j) ms"
| "contains_string t _ \<longleftrightarrow> False"

fun contains_member :: "string \<Rightarrow> json \<Rightarrow> json \<Rightarrow> bool" where
  "contains_member k v (JArr js) \<longleftrightarrow> list_ex (contains_member k v) js"
| "contains_member k v (JObj ms) \<longleftrightarrow> list_ex (\<lambda>(k', j). k' = k \<and> j = v \<or> contains_member k v j) ms"
| "contains_member k v _ \<longleftrightarrow> False"

definition serializes_affinity :: "(ulid \<Rightarrow> string) \<Rightarrow> ulid \<Rightarrow> bool" where
  "serializes_affinity to_str u =
     (let rule = \<lparr>strictness = Preferred 10, affinity_type = AffinityVirtualMachine, inverse = True,
            requirements = [\<lparr>key = ''tier'', table = Label, operator = In, values = [''batch'']\<rparr>]\<rparr>;
          encoded = VmManifest_serialize to_str (with_affinity [rule] (minimal_manifest u))
      in contains_string ''preferred'' encoded \<and> contains_string ''virtual_machine'' encoded \<and>
         contains_member ''inverse'' (JBool True) encoded)"

section \<open>The tests pass\<close>

lemmas validate_simps = VmManifest_validate_def DesiredState_validate_def MANIFEST_VERSION_def Placement_default_def
  minimal_manifest_def with_desired_def with_compute_def with_storage_def with_vsock_def with_affinity_def
  Storage_default_def storage_source_invalid_def opt_blank_def validate_cloud_init_def validate_vsock_def
  white_space_def

lemma edited_minimal_read:
  "DeserializableVmManifest_deserialize parse (minimal_json_with 1 0 [] [] []) =
     map_option (\<lambda>u. with_compute (\<lambda>c. c\<lparr>vcpus := 0\<rparr>) (minimal_manifest u)) (parse ''01J00000000000000000000000'')"
  "DeserializableVmManifest_deserialize parse (minimal_json_with 2 1 [] [] []) =
     map_option (\<lambda>u. (minimal_manifest u)\<lparr>api_version := 2\<rparr>) (parse ''01J00000000000000000000000'')"
  by (cases "parse ''01J00000000000000000000000''";
      simp add: minimal_json_with_def minimal_manifest_def with_compute_def with_desired_def read_simps
        Placement_default_def)+

lemma read_invalid_rejected:
  assumes "DeserializableVmManifest_deserialize parse j = map_option f r" and "\<And>u. VmManifest_validate (f u) = Inl e"
  shows "rejected (VmManifest_from_json parse j)"
  using assms
  by (auto simp: rejected_def VmManifest_from_json_def VmManifest_deserialize_def split: option.splits)

lemma passes_compute_boundaries: "validates_compute_boundaries parse u"
proof -
  have "rejected (VmManifest_from_json parse (minimal_json_with 1 0 [] [] []))"
    by (rule read_invalid_rejected [OF edited_minimal_read(1)]) (simp add: validate_simps)
  then show ?thesis
    by (simp add: validates_compute_boundaries_def Let_def validate_simps)
qed

lemma passes_unsupported_version: "rejects_unsupported_version parse u"
proof -
  have "rejected (VmManifest_from_json parse (minimal_json_with 2 1 [] [] []))"
    by (rule read_invalid_rejected [OF edited_minimal_read(2)]) (simp add: VmManifest_validate_def MANIFEST_VERSION_def)
  then show ?thesis
    by (simp add: rejects_unsupported_version_def VmManifest_validate_def MANIFEST_VERSION_def)
qed

lemma passes_valid_storage: "accepts_valid_storage_variants u v"
  by (simp add: accepts_valid_storage_variants_def validate_simps)

lemma passes_invalid_storage: "rejects_invalid_storage u v"
  by (simp add: rejects_invalid_storage_def Let_def validate_simps)

lemma passes_vsock_and_metadata: "rejects_invalid_vsock_and_metadata u"
  by (simp add: rejects_invalid_vsock_and_metadata_def Let_def validate_simps is_absolute_def starts_with_def)

lemma passes_network_and_cloud_init: "rejects_invalid_network_and_cloud_init u"
  by (simp add: rejects_invalid_network_and_cloud_init_def Let_def validate_simps)

lemma passes_unknown_fields: "rejects_unknown_fields parse"
  by (simp add: rejects_unknown_fields_def rejected_def VmManifest_from_json_def VmManifest_deserialize_def read_simps)

lemma passes_unknown_fields_at_multiple_levels: "rejects_unknown_fields_at_multiple_levels parse"
  by (simp add: rejects_unknown_fields_at_multiple_levels_def rejected_def VmManifest_from_json_def
      VmManifest_deserialize_def minimal_json_with_def read_simps)

lemma passes_affinity_comparisons: "rejects_invalid_affinity_comparisons u"
proof -
  have "parse_f64 ''NaN'' = Some NaN" "parse_f64 ''not-a-number'' = None"
    by (simp_all add: parse_f64_def split_sign_def parse_number_def split_digits_def to_ascii_lowercase_def
        is_ascii_uppercase_def is_ascii_digit_def char_of_eq_iff)
  then show ?thesis
    by (simp add: rejects_invalid_affinity_comparisons_def validate_simps requirement_invalid_def valid_comparison_def)
qed

lemma passes_serializes_affinity: "serializes_affinity to_str u"
  by (simp add: serializes_affinity_def Let_def VmManifest_serialize_def DesiredState_serialize_def
      Placement_serialize_def AffinityRule_serialize_def with_affinity_def with_desired_def enc_list_def
      minimal_manifest_def Placement_default_def)

text \<open>The fixtures are accepted whatever identifiers their texts stand for, and an accepted manifest survives
  the wire.\<close>

definition fixture_ids :: "string list" where
  "fixture_ids =
     [''01J00000000000000000000000'', ''01J00000000000000000000001'', ''01J00000000000000000000002'',
      ''01J00000000000000000000003'', ''01J00000000000000000000004'', ''01J00000000000000000000005'']"

lemma fixtures_accepted:
  assumes "\<forall>t \<in> set fixture_ids. parse t \<noteq> None"
  shows "\<not> rejected (VmManifest_from_json parse minimal_json)"
    and "\<not> rejected (VmManifest_from_json parse storage_backed_json)"
    and "\<not> rejected (VmManifest_from_json parse networked_json)"
    and "\<not> rejected (VmManifest_from_json parse cloud_init_json)"
    and "\<not> rejected (VmManifest_from_json parse vsock_json)"
  using assms
  by (auto simp: rejected_def VmManifest_from_json_def VmManifest_deserialize_def fixture_ids_def
      minimal_json_def minimal_json_with_def storage_backed_json_def networked_json_def cloud_init_json_def
      vsock_json_def fixture_metadata_def read_simps validate_simps is_absolute_def starts_with_def)

lemma passes_fixture_round_trips:
  assumes "\<And>u. parse (to_str u) = Some u" and "\<forall>t \<in> set fixture_ids. parse t \<noteq> None"
  shows "fixture_round_trips parse to_str"
proof -
  have "case VmManifest_from_json parse j of
        Inl _ \<Rightarrow> False
      | Inr m \<Rightarrow> VmManifest_validate m = Inr () \<and> VmManifest_from_json parse (VmManifest_serialize to_str m) = Inr m"
    if "\<not> rejected (VmManifest_from_json parse j)" for j
  proof -
    from that obtain m where m: "VmManifest_from_json parse j = Inr m" by (cases "VmManifest_from_json parse j") (auto simp: rejected_def)
    then have "DeserializableVmManifest_deserialize parse j = Some m" "manifest_contract m"
      by (simp_all add: VmManifest_from_json_ok)
    with m show ?thesis
      using VmManifest_read_back [of parse to_str m, OF assms(1)]
        json_codec.dec_ok [OF VmManifest_codec [of parse to_str, OF assms(1)], of j m]
      by (simp add: VmManifest_validate_ok)
  qed
  then show ?thesis
    using fixtures_accepted [OF assms(2)] by (simp add: fixture_round_trips_def)
qed

end
