(* ===== verification/Conformance_Scheduler.thy ===== *)
theory Conformance_Scheduler
  imports Scheduler_Actor Conformance_Manifest
begin

text \<open>
  The unit tests of the scheduler (\<open>actors/scheduler_actor/tests.rs\<close>) run on the model: every test is a
  definition that collects its assertions, and a lemma shows that they hold. Where a test reads the clock,
  \<open>t\<close> is the time at which it builds its input and \<open>now\<close> the time at which the tested operation runs; the
  identifier of the VM is arbitrary.
\<close>

section \<open>Inputs\<close>

definition test_manifest :: "u32 \<Rightarrow> u64 \<Rightarrow> ulid \<Rightarrow> VmManifest" where
  "test_manifest cpus mem v =
     \<lparr>api_version = MANIFEST_VERSION, manifest_id = v,
      desired =
        \<lparr>metadata = \<lparr>meta_name = ''test'', labels = [], annotations = []\<rparr>,
         compute = \<lparr>vcpus = cpus, max_vcpus = None, memory_bytes = mem\<rparr>,
         storage = [], networks = [], placement = Placement_default,
         boot = \<lparr>start = False, firmware = None, kernel = None, cmdline = None\<rparr>,
         cloud_init = None, vsock = None\<rparr>,
      observed = None\<rparr>"

definition requirement :: "Operator \<Rightarrow> string list \<Rightarrow> AffinityRequirement" where
  "requirement oper vs = \<lparr>key = ''tier'', table = Label, operator = oper, values = vs\<rparr>"

definition test_status :: "string \<Rightarrow> ulid list \<Rightarrow> AgentStatus" where
  "test_status host vs =
     \<lparr>hostname = host, st_vcpus = 1, st_ram = 1, st_used_vcpus = 0, st_used_ram = 0, st_vms = vs,
      st_metadata = \<lparr>obj_labels = [], obj_annotations = []\<rparr>\<rparr>"

definition test_scheduler :: "(actor_id, ulid) hmap \<Rightarrow> ulid \<Rightarrow> placements \<Rightarrow> vm_index \<Rightarrow> (actor_id, CachedActorKind) hmap
    \<Rightarrow> SchedulerActor" where
  "test_scheduler actors v ps index kinds =
     \<lparr>agent_data_cache = [], agent_keepalive_tasks = [], vm_actorid_ulid_map = actors,
      vm_manifests = [(v, test_manifest 1 1 v)], vm_placements = ps,
      vm_data_cache = [(v, [unresolved_vm])], vm_keepalive_tasks = [], pending_resources_cache = None,
      agent_vm_index = index, actor_kinds = kinds, cache_actor_finder = None\<rparr>"

text \<open>\<open>contains_key\<close>, and indexing followed by \<open>is_empty\<close> or \<open>len\<close>.\<close>

definition contains_key :: "'k \<Rightarrow> ('k, 'v) hmap \<Rightarrow> bool" where
  "contains_key k m \<longleftrightarrow> map_of m k \<noteq> None"

section \<open>Tests of the cache\<close>

definition expires_unresolved_vm_placeholder_but_retains_vm_intent :: "instant \<Rightarrow> instant \<Rightarrow> ulid \<Rightarrow> bool" where
  "expires_unresolved_vm_placeholder_but_retains_vm_intent t now v =
     (let ms = [(v, test_manifest 1 1 v)];
          (ps, cache) = cleanup_unresolved_vm_cache now [(v, [pending_placement 1 (t - 121 * 10 ^ 9)])] []
      in contains_key v ms \<and> map_of ps v = Some [] \<and> \<not> contains_key v cache)"

definition reserves_pending_vm_resources_until_agent_status_confirms_them :: "instant \<Rightarrow> ulid \<Rightarrow> bool" where
  "reserves_pending_vm_resources_until_agent_status_confirms_them t v \<longleftrightarrow>
     pending_resources_for_agent [(v, test_manifest 4 (8 * 2 ^ 30) v)] [(v, [pending_placement 1 t])] 1 = (4, 8 * 2 ^ 30)"

definition reconciling_source_agent_preserves_destination_migration_placement ::
  "instant \<Rightarrow> instant \<Rightarrow> ulid \<Rightarrow> bool" where
  "reconciling_source_agent_preserves_destination_migration_placement t now v =
     (let ms = [(v, test_manifest 1 1 v)];
          p1 = reconcile_agent_placements now 2 (test_status ''destination'' [v]) ms [(v, [running_placement 1 t])];
          p2 = reconcile_agent_placements now 1 (test_status ''source'' []) ms p1
      in length ms = 1 \<and>
         (case map_of p2 v of
            Some remaining \<Rightarrow> length remaining = 2 \<and> list_ex (\<lambda>e. pl_agent e = 1) remaining \<and>
              list_ex (\<lambda>e. pl_agent e = 2) remaining
          | None \<Rightarrow> False))"

definition agent_delta_removal_unplaces_running_placement :: "instant \<Rightarrow> instant \<Rightarrow> ulid \<Rightarrow> bool" where
  "agent_delta_removal_unplaces_running_placement t now v \<longleftrightarrow>
     map_of (reconcile_agent_delta now 1 [] [v] [(v, test_manifest 1 1 v)] [(v, [running_placement 1 t])]) v = Some []"

definition agent_delta_removal_retains_pending_placement :: "instant \<Rightarrow> instant \<Rightarrow> ulid \<Rightarrow> bool" where
  "agent_delta_removal_retains_pending_placement t now v =
     (case map_of (reconcile_agent_delta now 1 [] [v] [(v, test_manifest 1 1 v)] [(v, [pending_placement 1 t])]) v of
        Some [e] \<Rightarrow> lifecycle e = Pending
      | _ \<Rightarrow> False)"

definition departed_agent_leaves_empty_placement_for_reconciliation :: "instant \<Rightarrow> ulid \<Rightarrow> bool" where
  "departed_agent_leaves_empty_placement_for_reconciliation t v \<longleftrightarrow>
     map_of (remove_agent_placements 1 [] [(v, [running_placement 1 t])]) v = Some []"

definition departed_agent_preserves_placement_while_vm_actor_is_reachable :: "instant \<Rightarrow> ulid \<Rightarrow> bool" where
  "departed_agent_preserves_placement_while_vm_actor_is_reachable t v \<longleftrightarrow>
     map_option length (map_of (remove_agent_placements 1 [v] [(v, [running_placement 1 t])]) v) = Some 1"

definition discovered_vm_reconciles_agent_snapshot_received_first :: "instant \<Rightarrow> ulid \<Rightarrow> bool" where
  "discovered_vm_reconciles_agent_snapshot_received_first now v =
     (case map_of (reconcile_discovered_vm now v [(1, [v])] [(v, test_manifest 1 1 v)] []) v of
        Some (e # _) \<Rightarrow> pl_agent e = 1 \<and> lifecycle e = Running
      | _ \<Rightarrow> False)"

definition pending_placement_survives_full_snapshot_until_pending_timeout :: "instant \<Rightarrow> instant \<Rightarrow> ulid \<Rightarrow> bool" where
  "pending_placement_survives_full_snapshot_until_pending_timeout t now v =
     (case map_of (reconcile_agent_placements now 1 (test_status ''agent'' []) [(v, test_manifest 1 1 v)]
             [(v, [pending_placement 1 t])]) v of
        Some (e # _) \<Rightarrow> lifecycle e = Pending
      | _ \<Rightarrow> False)"

definition stale_running_placement_is_expired_by_full_snapshot :: "instant \<Rightarrow> instant \<Rightarrow> ulid \<Rightarrow> bool" where
  "stale_running_placement_is_expired_by_full_snapshot t now v \<longleftrightarrow>
     \<not> contains_key v (reconcile_agent_placements now 1 (test_status ''agent'' []) [(v, test_manifest 1 1 v)]
       [(v, [(running_placement 1 t)\<lparr>last_confirmed_at := Some (t - 31 * 10 ^ 9)\<rparr>])])"

definition vm_cleanup_unplaces_vm_without_another_discovered_actor :: "instant \<Rightarrow> ulid \<Rightarrow> bool" where
  "vm_cleanup_unplaces_vm_without_another_discovered_actor t v =
     (let s = cleanup_vm_actor 2 (test_scheduler [(2, v)] v [(v, [running_placement 1 t])] [] [])
      in contains_key v (vm_manifests s) \<and> map_of (vm_placements s) v = Some [])"

definition failed_create_rolls_back_state_without_an_actor :: "instant \<Rightarrow> ulid \<Rightarrow> bool" where
  "failed_create_rolls_back_state_without_an_actor t v =
     (let (_, ms, ps, cache) = rollback_failed_create v False None [] [(v, test_manifest 1 1 v)]
            [(v, [pending_placement 1 t])] [(v, [unresolved_vm])]
      in \<not> contains_key v ms \<and> \<not> contains_key v ps \<and> \<not> contains_key v cache)"

definition failed_create_keeps_state_if_actor_exists :: "ulid \<Rightarrow> bool" where
  "failed_create_keeps_state_if_actor_exists v =
     (let (_, ms, _, _) = rollback_failed_create v True None [] [(v, test_manifest 1 1 v)] [] [] in contains_key v ms)"

definition explicit_stop_removes_vm_intent_and_actor_mapping :: "ulid \<Rightarrow> bool" where
  "explicit_stop_removes_vm_intent_and_actor_mapping v =
     (let s = remove_vm_intent v (test_scheduler [(2, v)] v [(v, [])] [(1, [v])] [])
      in \<not> contains_key v (vm_manifests s) \<and> \<not> contains_key v (vm_placements s) \<and>
         \<not> contains_key v (vm_data_cache s) \<and> \<not> contains_key 2 (vm_actorid_ulid_map s) \<and>
         (case map_of (agent_vm_index s) 1 of Some vs \<Rightarrow> v \<notin> set vs | None \<Rightarrow> False))"

definition agent_cleanup_does_not_remove_unrelated_vm_state :: "instant \<Rightarrow> ulid \<Rightarrow> bool" where
  "agent_cleanup_does_not_remove_unrelated_vm_state t v =
     (let s = cleanup_agent_actor 1 (test_scheduler [(2, v)] v [(v, [running_placement 3 t])] [] [(1, KindAgent)])
      in contains_key v (vm_placements s) \<and> contains_key v (vm_manifests s) \<and>
         contains_key 2 (vm_actorid_ulid_map s) \<and> contains_key v (vm_data_cache s))"

definition vm_cleanup_does_not_remove_unrelated_agent_state :: "ulid \<Rightarrow> bool" where
  "vm_cleanup_does_not_remove_unrelated_agent_state v =
     (let s = cleanup_vm_actor 2 (test_scheduler [(2, v)] v [] [] [(1, KindAgent)])
      in contains_key 1 (actor_kinds s) \<and> contains_key v (vm_manifests s) \<and> contains_key v (vm_data_cache s))"

section \<open>Tests of the policy\<close>

definition evaluates_membership_and_missing_keys :: bool where
  "evaluates_membership_and_missing_keys \<longleftrightarrow>
     (let metadata = [(''tier'', ''frontend'')]
      in evaluate_table_value (map_of metadata ''tier'') (requirement In [''frontend'', ''api'']) \<and>
         \<not> evaluate_table_value (map_of metadata ''tier'') (requirement In [''backend'']) \<and>
         \<not> evaluate_table_value None (requirement In [''frontend'']) \<and>
         evaluate_table_value None (requirement NotIn [''frontend'']))"

definition evaluates_not_in_and_numeric_comparisons :: bool where
  "evaluates_not_in_and_numeric_comparisons \<longleftrightarrow>
     (let v = map_of [(''tier'', ''4'')] ''tier''
      in evaluate_table_value v (requirement NotIn [''5'']) \<and> evaluate_table_value v (requirement Lt [''5'']) \<and>
         evaluate_table_value v (requirement Gt [''3'']) \<and> \<not> evaluate_table_value v (requirement Lt [''4'', ''5'']) \<and>
         \<not> evaluate_table_value v (requirement Gt [''not-a-number'']))"

definition evaluates_inverse_and_empty_requirements :: bool where
  "evaluates_inverse_and_empty_requirements \<longleftrightarrow>
     (let tables = [([(''tier'', ''frontend'')], [])];
          rule = (\<lambda>inv rs. \<lparr>strictness = Required, affinity_type = AffinityAgent, inverse = inv, requirements = rs\<rparr>)
      in \<not> evaluate_affinity_rule tables (rule True [requirement In [''frontend'']]) \<and>
         evaluate_affinity_rule tables (rule True [requirement In [''backend'']]) \<and>
         \<not> evaluate_affinity_rule [] (rule False []))"

definition evaluates_required_preferred_and_capacity_rules :: bool where
  "evaluates_required_preferred_and_capacity_rules \<longleftrightarrow>
     affinity_delta Required True = Some 0 \<and> affinity_delta Required False = None \<and>
     affinity_delta (Preferred 7) True = Some 7 \<and> affinity_delta (Preferred 7) False = Some 0 \<and>
     has_capacity 8 2 2 16 4 4 \<and> has_capacity 8 6 2 16 4 4 \<and> has_capacity 8 2 2 16 12 4 \<and>
     \<not> has_capacity 8 7 2 16 4 4 \<and> \<not> has_capacity 8 2 2 16 13 4"

section \<open>The tests pass\<close>

lemmas cache_simps = test_manifest_def test_status_def test_scheduler_def contains_key_def unresolved_vm_def
  pending_placement_def running_placement_def hm_insert_def hm_remove_def hm_upsert_def hm_modify_def hm_map_def
  hm_retain_def shrink_non_migrating_entries_def empty_vmids_def has_actor_def discovered_def duration_since_def
  invalidate_pending_resources_def Let_def

lemma passes_expiry:
  assumes "t \<le> now" and "121 * 10 ^ 9 \<le> t"
  shows "expires_unresolved_vm_placeholder_but_retains_vm_intent t now v"
  using assms
  by (simp add: expires_unresolved_vm_placeholder_but_retains_vm_intent_def cleanup_unresolved_vm_cache_def
      UNRESOLVED_VM_CACHE_TIMEOUT_def cache_simps)

lemma passes_pending_resources: "reserves_pending_vm_resources_until_agent_status_confirms_them t v"
  by (simp add: reserves_pending_vm_resources_until_agent_status_confirms_them_def pending_resources_for_agent_def
      pending_resources_by_agent_def reserve_entries_def reserve_def reserved_def sat_add_def cache_simps)

lemma passes_migration_snapshot:
  assumes "t \<le> now" and "now - t < 30 * 10 ^ 9"
  shows "reconciling_source_agent_preserves_destination_migration_placement t now v"
  using assms
  by (simp add: reconciling_source_agent_preserves_destination_migration_placement_def reconcile_agent_placements_def
      snapshot_entry_def List.map_filter_def confirm_def UNCONFIRMED_RUNNING_PLACEMENT_TIMEOUT_def cache_simps)

lemma passes_deltas:
  "agent_delta_removal_unplaces_running_placement t now v" "agent_delta_removal_retains_pending_placement t now v"
  "discovered_vm_reconciles_agent_snapshot_received_first now v"
  by (simp_all add: agent_delta_removal_unplaces_running_placement_def agent_delta_removal_retains_pending_placement_def
      discovered_vm_reconciles_agent_snapshot_received_first_def reconcile_discovered_vm_def reconcile_agent_delta_def
      cache_simps)

lemma passes_departures:
  "departed_agent_leaves_empty_placement_for_reconciliation t v"
  "departed_agent_preserves_placement_while_vm_actor_is_reachable t v"
  "vm_cleanup_unplaces_vm_without_another_discovered_actor t v"
  "agent_cleanup_does_not_remove_unrelated_vm_state t v"
  "vm_cleanup_does_not_remove_unrelated_agent_state v"
  by (simp_all add: departed_agent_leaves_empty_placement_for_reconciliation_def
      departed_agent_preserves_placement_while_vm_actor_is_reachable_def
      vm_cleanup_unplaces_vm_without_another_discovered_actor_def agent_cleanup_does_not_remove_unrelated_vm_state_def
      vm_cleanup_does_not_remove_unrelated_agent_state_def remove_agent_placements_def cleanup_vm_actor_def
      cleanup_agent_actor_def remove_vm_actor_def keep_without_actor_def cache_simps)

lemma passes_snapshots:
  assumes "t \<le> now" and "now - t < 120 * 10 ^ 9"
  shows "pending_placement_survives_full_snapshot_until_pending_timeout t now v"
    and "31 * 10 ^ 9 \<le> t \<Longrightarrow> stale_running_placement_is_expired_by_full_snapshot t now v"
  using assms
  by (simp_all add: pending_placement_survives_full_snapshot_until_pending_timeout_def
      stale_running_placement_is_expired_by_full_snapshot_def reconcile_agent_placements_def snapshot_entry_def
      List.map_filter_def UNRESOLVED_VM_CACHE_TIMEOUT_def UNCONFIRMED_RUNNING_PLACEMENT_TIMEOUT_def cache_simps)

lemma passes_rollback:
  "failed_create_rolls_back_state_without_an_actor t v" "failed_create_keeps_state_if_actor_exists v"
  "explicit_stop_removes_vm_intent_and_actor_mapping v"
  by (simp_all add: failed_create_rolls_back_state_without_an_actor_def failed_create_keeps_state_if_actor_exists_def
      explicit_stop_removes_vm_intent_and_actor_mapping_def rollback_failed_create_def remove_vm_state_def
      remove_vm_intent_def cache_simps)

lemma passes_affinity:
  "evaluates_membership_and_missing_keys" "evaluates_inverse_and_empty_requirements"
  by (simp_all add: evaluates_membership_and_missing_keys_def evaluates_inverse_and_empty_requirements_def
      evaluate_table_value_def evaluate_affinity_rule_def requirement_def requirement_table_def Let_def)

lemma passes_capacity: "evaluates_required_preferred_and_capacity_rules"
  by (simp add: evaluates_required_preferred_and_capacity_rules_def affinity_delta_def has_capacity_def sat_add_def
      i64_clamp_def i64_min_def i64_max_def)

text \<open>Small integers are exact in \<open>f64\<close>.\<close>

lemma f64_small_integer:
  assumes "0 < n" and "n < 2 ^ 53"
  shows "ieee_round binary64 (of_nat n) = Fin (of_nat n)"
proof -
  define e where "e = floorlog 2 n - 1"
  have fl: "0 < floorlog 2 n" "floorlog 2 n \<le> 53"
    using assms floorlog_leI [of n 2 53] by (simp_all add: floorlog_eq_zero_iff flip: neq0_conv)
  have exponent: "rat_exponent \<bar>of_nat n :: rat\<bar> = int e"
  proof -
    have "1 \<le> (of_nat n :: rat)" using assms(1) by (metis Suc_leI of_nat_1 of_nat_le_iff One_nat_def)
    then have "rat_exponent (of_nat n) = int (floorlog 2 n) - 1" by (simp add: rat_exponent_def)
    also have "\<dots> = int e" using fl(1) by (simp add: e_def int_ops(6))
    finally show ?thesis by simp
  qed
  have "e \<le> 52" using fl by (simp add: e_def)
  then have "int e - int 53 + 1 = - int (52 - e)" by linarith
  then have ulp: "(2::rat) powi (int e - int 53 + 1) = 1 / 2 ^ (52 - e)"
    by (simp only: power_int_minus power_int_of_nat inverse_eq_divide)
  have "(of_nat n :: rat) / (1 / 2 ^ (52 - e)) = of_int (int n * 2 ^ (52 - e))" by simp
  then have "round_half_even (of_nat n / (1 / 2 ^ (52 - e)) :: rat) = int n * 2 ^ (52 - e)"
    by (simp only: round_half_even_def floor_of_int Let_def) simp
  moreover have "\<not> 2 powi 1024 \<le> \<bar>of_nat n :: rat\<bar>"
  proof -
    have "(of_nat n :: rat) < of_nat (2 ^ 53)" using assms(2) by (simp only: of_nat_less_iff)
    also have "\<dots> \<le> 2 powi 1024" by simp
    finally show ?thesis by simp
  qed
  ultimately show ?thesis
    using assms(1) exponent ulp by (simp add: ieee_round_def binary64_def Let_def)
qed

lemma f64_digits: "parse_f64 ''3'' = Some (Fin 3)" "parse_f64 ''4'' = Some (Fin 4)" "parse_f64 ''5'' = Some (Fin 5)"
proof -
  have "parse_number ''3'' = Some (of_nat 3)" "parse_number ''4'' = Some (of_nat 4)" "parse_number ''5'' = Some (of_nat 5)"
    by (simp_all add: parse_number_def split_digits_def parse_exponent_def is_ascii_digit_def digits_val_def digit_val_def)
  with f64_small_integer [of 3] f64_small_integer [of 4] f64_small_integer [of 5]
  show "parse_f64 ''3'' = Some (Fin 3)" "parse_f64 ''4'' = Some (Fin 4)" "parse_f64 ''5'' = Some (Fin 5)"
    by (simp_all add: parse_f64_def split_sign_def)
qed

lemma passes_numeric_comparisons: "evaluates_not_in_and_numeric_comparisons"
proof -
  have "parse_f64 ''not-a-number'' = None"
    by (simp add: parse_f64_def split_sign_def parse_number_def split_digits_def to_ascii_lowercase_def
        is_ascii_uppercase_def is_ascii_digit_def)
  then show ?thesis
    by (simp add: evaluates_not_in_and_numeric_comparisons_def evaluate_table_value_def requirement_def f64_digits Let_def)
qed

end
