(* ===== verification/Conformance_Driver.thy ===== *)
theory Conformance_Driver
  imports Conformance_Manifest Storage_Text Console
begin

text \<open>
  The unit tests of the driver run on the model: \<open>ch_driver/manifest.rs\<close>, \<open>ch_driver/transform/networking.rs\<close>,
  \<open>ch_driver/transform/storage/iscsi.rs\<close>, \<open>ch_driver/transform/storage/rbd.rs\<close> and \<open>ch_driver/actor.rs\<close>. A test is a
  definition that collects its assertions; a lemma shows that they hold. A URL is given by the parts that the
  URL library's accessors return for the text of the test.
\<close>

section \<open>Conversion\<close>

definition Boot_default :: Boot where
  "Boot_default = \<lparr>start = False, firmware = None, kernel = None, cmdline = None\<rparr>"

definition conversion_minimal :: "ulid \<Rightarrow> VmManifest" where
  "conversion_minimal u =
     \<lparr>api_version = MANIFEST_VERSION, manifest_id = u,
      desired =
        \<lparr>metadata = \<lparr>meta_name = ''test'', labels = [], annotations = []\<rparr>,
         compute = \<lparr>vcpus = 2, max_vcpus = None, memory_bytes = 1024\<rparr>,
         storage = [], networks = [], placement = Placement_default, boot = Boot_default,
         cloud_init = None, vsock = None\<rparr>,
      observed = None\<rparr>"

text \<open>\<open>expect\<close>, then assertions on the value.\<close>

definition converts :: "VmManifest \<Rightarrow> (VmConfig \<Rightarrow> bool) \<Rightarrow> bool" where
  "converts m P = (case to_vm_config m of Inr config \<Rightarrow> P config | Inl _ \<Rightarrow> False)"

definition converts_compute_and_defaults :: "ulid \<Rightarrow> bool" where
  "converts_compute_and_defaults u = converts (conversion_minimal u) (\<lambda>config.
     map_option boot_vcpus (cpus config) = Some 2 \<and> mem_size config = Some 1024 \<and>
     serial_number config = Some ''ds=nocloud'')"

definition firmware_default_only_for_firmware_boot :: "ulid \<Rightarrow> bool" where
  "firmware_default_only_for_firmware_boot u =
     (let direct = with_desired (\<lambda>d. d\<lparr>boot := (boot d)\<lparr>kernel := Some ''/tmp/vmlinuz''\<rparr>\<rparr>) (conversion_minimal u);
          explicit = with_desired (\<lambda>d. d\<lparr>boot := (boot d)\<lparr>firmware := Some ''/custom/fw.fd''\<rparr>\<rparr>) direct
      in converts (conversion_minimal u) (\<lambda>c. pl_firmware (payload c) = Some ''/var/lib/odorobo/CLOUDHV.fd'') \<and>
         converts direct (\<lambda>c. pl_firmware (payload c) = None \<and> pl_kernel (payload c) = Some ''/tmp/vmlinuz'') \<and>
         converts explicit (\<lambda>c. pl_firmware (payload c) = Some ''/custom/fw.fd''))"

definition converts_networks_for_the_transform_pipeline :: "ulid \<Rightarrow> bool" where
  "converts_networks_for_the_transform_pipeline u = converts
     (with_desired (\<lambda>d. d\<lparr>networks := [\<lparr>network_id = ''private'', mac_address = Some ''02:00:00:00:00:01''\<rparr>]\<rparr>)
       (conversion_minimal u))
     (\<lambda>config. case net config of
        Some (n # _) \<Rightarrow> net_id n = Some ''net://private'' \<and> mac n = Some ''02:00:00:00:00:01''
      | _ \<Rightarrow> False)"

text \<open>The test also looks at the serialised configuration, which is the client library's.\<close>

definition preserves_manifest_storage_order :: "ulid \<Rightarrow> bool" where
  "preserves_manifest_storage_order u = converts
     (with_storage
       [Storage_default\<lparr>storage_id := ''data'', uri := Some ''file:///var/lib/data.img''\<rparr>,
        Storage_default\<lparr>storage_id := ''root'', uri := Some ''file:///var/lib/root.img''\<rparr>] (conversion_minimal u))
     (\<lambda>config. case disks config of
        Some ds \<Rightarrow> List.map_filter disk_id ds = [''data'', ''root'']
      | None \<Rightarrow> False)"

definition converts_multiple_storage_attachments :: "ulid \<Rightarrow> bool" where
  "converts_multiple_storage_attachments u = converts
     (with_storage
       [Storage_default\<lparr>storage_id := ''root'', uri := Some ''rbd://pool/root''\<rparr>,
        Storage_default\<lparr>storage_id := ''data'', uri := Some ''file:///var/lib/data.img'', read_only := True\<rparr>]
       (conversion_minimal u))
     (\<lambda>config. case disks config of
        Some [d0, d1] \<Rightarrow> disk_id d0 = Some ''root'' \<and> disk_path d0 = Some ''rbd://pool/root'' \<and>
          disk_id d1 = Some ''data'' \<and> readonly d1 = Some True
      | _ \<Rightarrow> False)"

definition converts_vsock_configuration :: "ulid \<Rightarrow> bool" where
  "converts_vsock_configuration u = converts
     (with_vsock (Some \<lparr>guest_cid = 42, socket = ''/run/odorobo/vsock.sock''\<rparr>) (conversion_minimal u))
     (\<lambda>config. vc_vsock config =
        Some \<lparr>vs_cid = 42, vs_socket = ''/run/odorobo/vsock.sock'', vs_id = Some ''odorobo-vsock''\<rparr>)"

definition rejects_cloud_init_without_a_transport_contract :: "ulid \<Rightarrow> bool" where
  "rejects_cloud_init_without_a_transport_contract u \<longleftrightarrow>
     to_vm_config (with_desired (\<lambda>d. d\<lparr>cloud_init := Some
       \<lparr>user_data = Some ''#cloud-config\<newline>'', meta_data = Some ''instance-id: test\<newline>''\<rparr>\<rparr>) (conversion_minimal u)) =
     Inl CloudInitUnsupported"

lemmas conversion_simps = converts_def to_vm_config_def conversion_minimal_def Boot_default_def validate_simps
  i32_try_from_def i64_try_from_def boot_payload_def non_empty_def network_to_net_def storage_to_disk_def
  starts_with_def Let_def

lemma passes_conversion:
  "converts_compute_and_defaults u" "firmware_default_only_for_firmware_boot u"
  "converts_networks_for_the_transform_pipeline u" "converts_vsock_configuration u"
  "rejects_cloud_init_without_a_transport_contract u"
  by (simp_all add: converts_compute_and_defaults_def firmware_default_only_for_firmware_boot_def
      converts_networks_for_the_transform_pipeline_def converts_vsock_configuration_def
      rejects_cloud_init_without_a_transport_contract_def conversion_simps is_absolute_def)

lemma passes_storage_conversion:
  "preserves_manifest_storage_order u" "converts_multiple_storage_attachments u"
  by (simp_all add: preserves_manifest_storage_order_def converts_multiple_storage_attachments_def conversion_simps
      List.map_filter_def)

section \<open>Network names\<close>

definition VmConfig_with_net :: "string \<Rightarrow> VmConfig" where
  "VmConfig_with_net i =
     \<lparr>cpus = None, mem_size = None,
      payload = \<lparr>pl_firmware = None, pl_kernel = None, pl_cmdline = None, pl_initramfs = None\<rparr>, disks = None,
      net = Some [\<lparr>net_id = Some i, mac = None, tap = None\<rparr>], vc_vsock = None, serial_number = None,
      console = None, serial = None\<rparr>"

definition first_net :: "string + VmConfig \<Rightarrow> NetConfig option" where
  "first_net r = (case r of Inr c \<Rightarrow> (case net c of Some (n # _) \<Rightarrow> Some n | _ \<Rightarrow> None) | Inl _ \<Rightarrow> None)"

definition rewrites_net_uri_into_tap_and_plain_id :: bool where
  "rewrites_net_uri_into_tap_and_plain_id =
     (case first_net (NetworkTransform ''01KPB9AMVWXC2D1PF4W6E7MHWT'' (VmConfig_with_net ''net://devnet'')) of
        Some n \<Rightarrow> net_id n = Some ''net://devnet'' \<and> tap n = Some ''vmtap-mhwt-vnet''
      | None \<Rightarrow> False)"

definition ignores_non_network_uri_ids :: bool where
  "ignores_non_network_uri_ids =
     (case first_net (NetworkTransform ''vmid'' (VmConfig_with_net ''net1'')) of
        Some n \<Rightarrow> net_id n = Some ''net1'' \<and> tap n = None
      | None \<Rightarrow> False)"

definition rejects_invalid_network_id :: bool where
  "rejects_invalid_network_id =
     (case NetworkTransform ''vmid'' (VmConfig_with_net ''net://bad/id'') of
        Inl err \<Rightarrow> str_contains ''invalid network URI id'' err
      | Inr _ \<Rightarrow> False)"

lemma dev_vm_suffix: "keep_suffix 4 (sanitize_component ''01KPB9AMVWXC2D1PF4W6E7MHWT'') = ''mhwt''"
  by (simp add: keep_suffix_def sanitize_component_def is_utf8_continuation_def ifname_char_def to_ascii_lowercase_def
      is_ascii_alphanumeric_def is_ascii_digit_def is_ascii_uppercase_def is_ascii_lowercase_def char_of_eq_iff)

lemma dev_net_suffix: "keep_suffix 4 (sanitize_component ''devnet'') = ''vnet''"
  by (simp add: keep_suffix_def sanitize_component_def is_utf8_continuation_def ifname_char_def to_ascii_lowercase_def
      is_ascii_alphanumeric_def is_ascii_digit_def is_ascii_uppercase_def is_ascii_lowercase_def)

lemmas net_simps = NetworkTransform_def VmConfig_with_net_def rewrite_net_config_def NETWORK_URI_PREFIX_def
  strip_prefix_def starts_with_def validate_network_id_def

lemma passes_network_tests:
  "rewrites_net_uri_into_tap_and_plain_id" "ignores_non_network_uri_ids" "rejects_invalid_network_id"
  by (simp_all add: rewrites_net_uri_into_tap_and_plain_id_def ignores_non_network_uri_ids_def
      rejects_invalid_network_id_def first_net_def net_simps tap_name_eq dev_vm_suffix dev_net_suffix
      ifname_char_def is_ascii_alphanumeric_def is_ascii_digit_def is_ascii_uppercase_def is_ascii_lowercase_def
      str_contains_def)

section \<open>iSCSI targets\<close>

definition url_of :: "string \<Rightarrow> string \<Rightarrow> nat option \<Rightarrow> string \<Rightarrow> Url" where
  "url_of scheme h p path = \<lparr>url_scheme = scheme, host_str = Some h, url_port = p, url_path = path\<rparr>"

definition test_iscsi_target_parsing_from_path :: bool where
  "test_iscsi_target_parsing_from_path \<longleftrightarrow>
     ISCSITarget_try_from ''/dev/disk/by-path/ip-127.0.0.1:3260-iscsi-iqn.2026-03.com.fyrastack:test-lun-0'' =
     Inr \<lparr>iscsi_host = ''127.0.0.1:3260'', iqn = ''iqn.2026-03.com.fyrastack:test'', lun = 0\<rparr>"

definition test_iscsi_target_parsing :: bool where
  "test_iscsi_target_parsing \<longleftrightarrow>
     (let target = \<lparr>iscsi_host = ''target.example.com:3260'', iqn = ''iqn.2024-01.com.example:target1'', lun = 0\<rparr>
      in ISCSITarget_from (url_of ''iscsi'' ''target.example.com'' (Some 3260) ''/iqn.2024-01.com.example:target1/lun0'') = target \<and>
         ISCSITarget_from (url_of ''iscsi'' ''target.example.com'' None ''/iqn.2024-01.com.example:target1/0'') = target)"

definition test_iscsi_lossless_conversion :: bool where
  "test_iscsi_lossless_conversion \<longleftrightarrow>
     (let target = ISCSITarget_from (url_of ''iscsi'' ''target.example.com'' (Some 3260) ''/iqn.2024-01.com.example:target1/0'')
      in ''iscsi://'' @ iscsi_host target @ ''/'' @ iqn target @ ''/'' @ show_nat (unat (lun target)) =
         ''iscsi://target.example.com:3260/iqn.2024-01.com.example:target1/0'')"

definition test_iscsi_uri_to_device_path :: bool where
  "test_iscsi_uri_to_device_path \<longleftrightarrow>
     to_device_path (ISCSITarget_from
       (url_of ''iscsi'' ''target.example.com'' (Some 3260) ''/iqn.2026-03.com.fyrastack:test/0'')) =
     ''/dev/disk/by-path/ip-target.example.com:3260-iscsi-iqn.2026-03.com.fyrastack:test-lun-0''"

definition test_iscsi_iqn_with_dashes_from_path :: bool where
  "test_iscsi_iqn_with_dashes_from_path \<longleftrightarrow>
     ISCSITarget_try_from ''/dev/disk/by-path/ip-127.0.0.1:3260-iscsi-iqn.2026-03.com.fyrastack:test-disk-lun-0'' =
     Inr \<lparr>iscsi_host = ''127.0.0.1:3260'', iqn = ''iqn.2026-03.com.fyrastack:test-disk'', lun = 0\<rparr>"

definition test_iscsi_nonzero_lun_from_path :: bool where
  "test_iscsi_nonzero_lun_from_path \<longleftrightarrow>
     ISCSITarget_try_from ''/dev/disk/by-path/ip-192.168.1.1:3260-iscsi-iqn.2026-03.com.fyrastack:boot-lun-2'' =
     Inr \<lparr>iscsi_host = ''192.168.1.1:3260'', iqn = ''iqn.2026-03.com.fyrastack:boot'', lun = 2\<rparr>"

definition test_iscsi_nonzero_lun_from_uri :: bool where
  "test_iscsi_nonzero_lun_from_uri \<longleftrightarrow>
     lun (ISCSITarget_from (url_of ''iscsi'' ''target.example.com'' (Some 3260) ''/iqn.2026-03.com.fyrastack:boot/1'')) = 1 \<and>
     lun (ISCSITarget_from (url_of ''iscsi'' ''target.example.com'' (Some 3260) ''/iqn.2026-03.com.fyrastack:boot/lun1'')) = 1"

definition test_iscsi_device_path_roundtrip :: bool where
  "test_iscsi_device_path_roundtrip \<longleftrightarrow>
     (let original = \<lparr>iscsi_host = ''10.0.0.1:3260'', iqn = ''iqn.2026-03.com.fyrastack:test-disk'', lun = 3\<rparr>
      in ISCSITarget_try_from (to_device_path original) = Inr original)"

text \<open>The paths of the tests are device paths of targets, so reading them back is the round trip.\<close>

lemma device_path_texts:
  "show_nat 0 = ''0''" "show_nat 2 = ''2''" "show_nat 3260 = ''3260''"
  by (simp_all add: show_nat.simps digit_char_def char_of_eq_iff)

lemma read_device_path:
  assumes "p = to_device_path t" and "CHR ''/'' \<notin> set (iscsi_host t)" and "CHR ''/'' \<notin> set (iqn t)"
    and "\<not> str_contains ''-iscsi'' (iscsi_host t)"
  shows "ISCSITarget_try_from p = Inr t"
  using assms iscsi_path_roundtrip by blast

lemma passes_iscsi_paths:
  "test_iscsi_target_parsing_from_path" "test_iscsi_iqn_with_dashes_from_path" "test_iscsi_nonzero_lun_from_path"
  "test_iscsi_device_path_roundtrip"
  unfolding test_iscsi_target_parsing_from_path_def test_iscsi_iqn_with_dashes_from_path_def
    test_iscsi_nonzero_lun_from_path_def test_iscsi_device_path_roundtrip_def Let_def
  by (rule read_device_path; simp add: to_device_path_def device_path_texts str_contains_def starts_with_def)+

lemmas iscsi_url_simps = ISCSITarget_from_def url_of_def path_segments_def strip_prefix_def starts_with_def
  nth_or_empty_def parse_u32_or_0_def parse_u32_def parse_unsigned_def is_ascii_digit_def digits_val_def digit_val_def
  device_path_texts Let_def

lemma passes_iscsi_urls:
  "test_iscsi_target_parsing" "test_iscsi_lossless_conversion" "test_iscsi_uri_to_device_path"
  "test_iscsi_nonzero_lun_from_uri"
  by (simp_all add: test_iscsi_target_parsing_def test_iscsi_lossless_conversion_def test_iscsi_uri_to_device_path_def
      test_iscsi_nonzero_lun_from_uri_def to_device_path_def iscsi_url_simps)

section \<open>RBD images\<close>

definition test_rbd_image_from_uri :: bool where
  "test_rbd_image_from_uri =
     (case RbdImage_try_from (url_of ''rbd'' ''my-pool'' None ''/my-image'') of
        Inr i \<Rightarrow> rbd_pool i = ''my-pool'' \<and> rbd_image i = ''my-image'' \<and> rbd_path i = ''my-pool/my-image'' \<and>
          rbd_device_path i = ''/dev/rbd/my-pool/my-image''
      | Inl _ \<Rightarrow> False)"

definition test_rbd_lines_list :: bool where
  "test_rbd_lines_list \<longleftrightarrow>
     rbd_lines_list
       (''id  pool               namespace  image    snap  device'' @ [CHR 0x0A] @
        ''0   kessoku-blockpool             testimg  -     /dev/rbd0'') =
     [(''kessoku-blockpool/testimg'', ''/dev/rbd0'')]"

lemma passes_rbd_image: "test_rbd_image_from_uri"
  by (simp add: test_rbd_image_from_uri_def RbdImage_try_from_def url_of_def trim_start_char_def rbd_path_def
      rbd_device_path_def)

lemma passes_rbd_lines: "test_rbd_lines_list"
proof -
  let ?line = "''0   kessoku-blockpool             testimg  -     /dev/rbd0''"
  have "split_whitespace ?line = [''0'', ''kessoku-blockpool'', ''testimg'', ''-'', ''/dev/rbd0'']"
    using split_whitespace_step [of "''0''" 2 "''kessoku-blockpool             testimg  -     /dev/rbd0''"]
      split_whitespace_step [of "''kessoku-blockpool''" 12 "''testimg  -     /dev/rbd0''"]
      split_whitespace_step [of "''testimg''" 1 "''-     /dev/rbd0''"]
      split_whitespace_step [of "''-''" 4 "''/dev/rbd0''"] plain_tail [of "''/dev/rbd0''"]
    by (simp add: plain_word_def plain_char_def numeral_eq_Suc)
  moreover have "str_lines (''id  pool               namespace  image    snap  device'' @ [CHR 0x0A] @ ?line) =
      [''id  pool               namespace  image    snap  device'', ?line]"
    by (simp add: str_lines_def strip_cr_def)
  ultimately show ?thesis
    by (simp add: test_rbd_lines_list_def rbd_lines_list_def rbd_line_def List.map_filter_def starts_with_def)
qed

section \<open>The console buffer\<close>

definition console_history_is_bounded_to_one_megabyte :: "u8 \<Rightarrow> u8 list \<Rightarrow> bool" where
  "console_history_is_bounded_to_one_megabyte a tail =
     (let b = push tail (push (replicate CONSOLE_SPOOL_SIZE a) (con_inner Console_default));
          h = history (Console_default\<lparr>con_inner := b\<rparr>)
      in length h = CONSOLE_SPOOL_SIZE \<and> take 4 h = [a, a, a, a] \<and> drop (CONSOLE_SPOOL_SIZE - 4) h = tail)"

lemma passes_console_history:
  assumes "length tail = 4"
  shows "console_history_is_bounded_to_one_megabyte a tail"
proof -
  let ?b0 = "con_inner Console_default" and ?xs = "replicate CONSOLE_SPOOL_SIZE a"
  have b0: "buffer_ok ?b0" "concat (ring ?b0) = []" by (simp_all add: buffer_ok_def Console_default_def)
  have b1: "buffer_ok (push ?xs ?b0)" "concat (ring (push ?xs ?b0)) = ?xs"
    using push_spec [OF b0(1), of ?xs] by (simp_all add: b0(2) last_bytes_def)
  have "4 - CONSOLE_SPOOL_SIZE = 0" by (simp add: CONSOLE_SPOOL_SIZE_def)
  then have h: "concat (ring (push tail (push ?xs ?b0))) = replicate (CONSOLE_SPOOL_SIZE - 4) a @ tail"
    using push_spec [OF b1(1), of tail] assms by (simp add: b1(2) last_bytes_def)
  moreover obtain n where "CONSOLE_SPOOL_SIZE = n + 8"
    by (rule that [of "CONSOLE_SPOOL_SIZE - 8"]) (simp add: CONSOLE_SPOOL_SIZE_def)
  moreover have "take 4 (replicate (n + 4) a @ tail) = [a, a, a, a]" for n
    by (simp add: numeral_eq_Suc)
  ultimately show ?thesis
    using assms by (simp add: console_history_is_bounded_to_one_megabyte_def history_def)
qed

end
