(* ===== verification/Conformance_Api.thy ===== *)
theory Conformance_Api
  imports Command_Line Conformance_Driver
begin

text \<open>
  The unit tests of the client (\<open>odoroboctl/src/cli.rs\<close>), of the error responses (\<open>utils/mod.rs\<close>) and of the MAC
  addresses (\<open>actors/ip_management_actor.rs\<close>) run on the model. The readers of numbers and sizes are the argument
  library's; a test that needs them assumes what they make of its texts.
\<close>

section \<open>The client\<close>

definition gib :: "u64 \<Rightarrow> u64" where
  "gib n = n * 2 ^ 30"

definition create_options_default_to_current_vm_settings ::
  "(string \<Rightarrow> u32 option) \<Rightarrow> (string \<Rightarrow> u64 option) \<Rightarrow> string option \<Rightarrow> string option \<Rightarrow> bool" where
  "create_options_default_to_current_vm_settings parse_vcpus parse_size addr_var image_var =
     (case Cli_parse parse_vcpus parse_size addr_var image_var [] ''create'' [(''image'', ''disk.img'')] [] of
        Some cli \<Rightarrow>
          (case command cli of Create _ name n mem \<Rightarrow> name = ''test_vm'' \<and> n = 4 \<and> mem = gib 4 | _ \<Rightarrow> False)
      | None \<Rightarrow> False)"

definition create_options_accept_vm_settings ::
  "(string \<Rightarrow> u32 option) \<Rightarrow> (string \<Rightarrow> u64 option) \<Rightarrow> string option \<Rightarrow> string option \<Rightarrow> bool" where
  "create_options_accept_vm_settings parse_vcpus parse_size addr_var image_var =
     (case Cli_parse parse_vcpus parse_size addr_var image_var [] ''create''
             [(''image'', ''disk.img''), (''name'', ''web''), (''vcpus'', ''8''), (''memory'', ''16GiB'')] [] of
        Some cli \<Rightarrow>
          (case command cli of Create _ name n mem \<Rightarrow> name = ''web'' \<and> n = 8 \<and> mem = gib 16 | _ \<Rightarrow> False)
      | None \<Rightarrow> False)"

text \<open>The errors are the ones whose messages the test looks for.\<close>

definition create_rejects_invalid_settings_before_sending_request :: "ulid \<Rightarrow> bool" where
  "create_rejects_invalid_settings_before_sending_request i = list_all
     (\<lambda>(name, n, mem, expected).
        run_command i ''http://127.0.0.1:1'' (Create ''file:///var/lib/odorobo/disk.img'' name n mem) = Inl expected)
     [('' '', 4, gib 4, EmptyMetadataName), (''test_vm'', 0, gib 4, NoVcpus), (''test_vm'', 4, 0, NoMemory)]"

text \<open>\<open>request["vm"]["desired"]...\<close>\<close>

fun json_path :: "string list \<Rightarrow> json \<Rightarrow> json option" where
  "json_path [] j = Some j"
| "json_path (k # ks) (JObj ms) = Option.bind (map_of ms k) (json_path ks)"
| "json_path (k # ks) _ = None"

definition create_sends_valid_settings_to_manager :: "(ulid \<Rightarrow> string) \<Rightarrow> ulid \<Rightarrow> string \<Rightarrow> bool" where
  "create_sends_valid_settings_to_manager to_str i base =
     (case run_command i base (Create ''file:///var/lib/odorobo/disk.img'' ''web'' 2 (gib 8)) of
        Inr (Post url vm) \<Rightarrow>
          (let request = CreateVMRequest_serialize to_str vm
           in url = base @ ''/vms'' \<and>
              json_path [''vm'', ''desired'', ''metadata'', ''name''] request = Some (JStr ''web'') \<and>
              json_path [''vm'', ''desired'', ''compute'', ''vcpus''] request = Some (JInt 2) \<and>
              json_path [''vm'', ''desired'', ''compute'', ''memory_bytes''] request = Some (JInt (int (unat (gib 8)))))
      | _ \<Rightarrow> False)"

lemma passes_create_options:
  assumes "parse_size ''4GiB'' = Some (gib 4)" and "parse_size ''16GiB'' = Some (gib 16)" and "parse_vcpus ''8'' = Some 8"
  shows "create_options_default_to_current_vm_settings parse_vcpus parse_size addr_var image_var"
    and "create_options_accept_vm_settings parse_vcpus parse_size addr_var image_var"
  using assms
  by (simp_all add: create_options_default_to_current_vm_settings_def create_options_accept_vm_settings_def Cli_parse_def
      subcommand_def create_command_def single_option_def or_else_def)

lemma blank_space: "is_blank '' ''"
  by (simp add: is_blank_def trim_def trim_start_def trim_end_def trim_front.simps white_space_def starts_with_def)

lemma passes_invalid_settings: "create_rejects_invalid_settings_before_sending_request i"
  by (simp add: create_rejects_invalid_settings_before_sending_request_def cli_manifest_def blank_space validate_simps
      gib_def Let_def)

lemma passes_valid_settings: "create_sends_valid_settings_to_manager to_str i base"
  by (simp add: create_sends_valid_settings_to_manager_def cli_manifest_def validate_simps gib_def Let_def
      CreateVMRequest_serialize_def VmManifest_serialize_def DesiredState_serialize_def Metadata_serialize_def
      Compute_serialize_def enc_uint_def opt_member_def)

section \<open>Error responses\<close>

definition test_error :: bool where
  "test_error \<longleftrightarrow> respond (\<lambda>_ :: unit. JNull) (Inl (ReportError ''error!'')) =
     Answer 500 (JObj [(''message'', JStr ''error!'')])"

definition test_not_found_error :: bool where
  "test_not_found_error =
     (case respond (\<lambda>_ :: unit. JNull) (Inl (NotFound ''missing'')) of Answer code _ \<Rightarrow> code = 404 | _ \<Rightarrow> False)"

lemma passes_error_responses: "test_error" "test_not_found_error"
  by (simp_all add: test_error_def test_not_found_error_def respond_def error_body_def)

section \<open>MAC addresses\<close>

definition test_calculate_mac_address :: bool where
  "test_calculate_mac_address \<longleftrightarrow> calculate_mac_address (192, 168, 1, 1) = [0x46, 0x59, 0x52, 168, 0x01, 0x01]"

lemma passes_mac_address: "test_calculate_mac_address"
  by (simp add: test_calculate_mac_address_def calculate_mac_address_def FYRA_OUI_def)

end
