(* ===== verification/Spec2Isabelle.thy ===== *)
theory Spec2Isabelle
  imports Polling Scheduler_Intent Network_Correctness Ch_Api Wiring Conformance_Scheduler Conformance_Api
begin

text \<open>
  Verification of \<^emph>\<open>odorobo\<close>, a distributed manager of virtual machines (\<open>odorobo/\<close>) with its
  command-line client (\<open>odoroboctl/\<close>). All file names are relative to \<open>odorobo/src/\<close> unless they begin with
  a crate name.

  \<^bold>\<open>The program.\<close> Every node runs one process with an \<^emph>\<open>agent\<close> actor that owns the VMs of the node; a process
  with the manager enabled also runs the \<^emph>\<open>scheduler\<close> and the \<^emph>\<open>HTTP\<close> actor. A create request travels from
  the client through the HTTP actor to the scheduler, which records the manifest, reserves a placement on the
  best agent and forwards the request. The agent starts a \<^emph>\<open>VM actor\<close>, which converts the manifest into a
  hypervisor configuration, localises it (storage, console, networks), runs a Cloud Hypervisor process and
  spools its serial console. The scheduler discovers agents and VM actors, polls the agents for revisioned
  status updates (snapshots or deltas), keeps its placements in step with them, and recreates VMs that are
  wanted but placed nowhere. A \<^emph>\<open>networking\<close> actor prepares bridge, address and NAT of the node and attaches
  TAP devices.

  \<^bold>\<open>Theories and sources.\<close>
  \<^item> \<open>Prelude\<close>, \<open>Rust_Text\<close>, \<open>Rust_Float\<close>: the parts of Rust's standard library the sources use. Machine integers
    are words with their saturating operations; hash maps are association lists with unique keys, in an
    arbitrary iteration order (contract \<open>hash_map\<close>); strings are their UTF-8 bytes; \<open>f32\<close> and \<open>f64\<close> are IEEE
    numbers with explicit rounding. \<open>Prelude\<close> also has reachability, the contract \<open>invariant_system\<close> of an actor that
    keeps an invariant and the contract \<open>event_refinement\<close> of one that implements an abstract object.
  \<^item> \<open>Manifest\<close>: \<open>manifest.rs\<close>, the manifest and its validation. \<open>Json\<close>: JSON documents and what the attributes of a
    type make its derived reader and writer do, with the contract \<open>json_codec\<close> that every type of the wire format
    satisfies. \<open>Manifest_Json\<close>: the reader and writer of every type of \<open>manifest.rs\<close>. \<open>Config\<close>, \<open>Config_Json\<close>: \<open>config.rs\<close>
    with its readers and writers.
    \<open>Vm_Messages\<close>: \<open>messages/vm.rs\<close>. \<open>Samples\<close>: the concrete inputs of the witnesses.
  \<^item> \<open>Agent_Status\<close>: \<open>messages/agent.rs\<close>, snapshots and deltas. \<open>Agent_Actor\<close>: \<open>actors/agent_actor.rs\<close>, one definition
    per handler. \<open>Agent_Invariants\<close>: accounting, the membership log, and that a delta computed from the log
    brings an older status up to date.
  \<^item> \<open>Scheduling\<close>: \<open>actors/scheduler_actor/scheduling.rs\<close>, pending totals, capacity, affinity, scores; the contract
    \<open>ranking\<close> makes one pass over the agents sound. \<open>Scheduler_Cache\<close>: \<open>cache.rs\<close>. \<open>Scheduler_Actor\<close>: \<open>handlers.rs\<close>
    and \<open>discovery.rs\<close>. \<open>Scheduler_Invariants\<close>, \<open>Scheduler_Correctness\<close>, \<open>Scheduler_Observation\<close>: their properties.
    \<open>Scheduler_Intent\<close>: what the scheduler is asked to run, as an abstract map that its handlers refine.
    \<open>Polling\<close>: agent, updater task and scheduler side by side, with the mailbox between them.
  \<^item> \<open>Ch_Manifest\<close>: \<open>ch_driver/manifest.rs\<close>. \<open>Transform\<close>, \<open>Storage\<close>: \<open>ch_driver/transform/\<close>, with the contract
    \<open>config_transform\<close> of a configuration transform, which the chain inherits. \<open>Storage_Correctness\<close>,
    \<open>Storage_Text\<close>: what the chain establishes and what teardown releases; the texts read back from the host.
  \<^item> \<open>Journal\<close>: fallible actions that append effects to a journal. \<open>Console\<close>, \<open>Vm_Instance\<close>, \<open>Vm_Actor\<close>:
    \<open>ch_driver/instance.rs\<close>, \<open>ch_driver/actor.rs\<close> and \<open>ch_driver/provisioning/\<close>. \<open>Vm_Lifecycle\<close>: starts, stops and
    migrations, with the contract \<open>tap_hooks\<close> of the provisioning hooks. \<open>Ch_Api\<close>: \<open>ch_driver/api.rs\<close>.
  \<^item> \<open>Network_Actor\<close>, \<open>Network_Correctness\<close>: \<open>networking/actor_linux.rs\<close>.
  \<^item> \<open>Frontend\<close>: \<open>http_api/vms.rs\<close>, \<open>actors/http_actor.rs\<close>, \<open>odoroboctl/src/cli.rs\<close>. \<open>Api_Types\<close>: \<open>types.rs\<close> with its
    readers and writers. \<open>Api_Wire\<close>: routes, requests and responses of \<open>http_api/\<close> as documents, and what the client
    reads of them. \<open>Process\<close>: \<open>main.rs\<close>, \<open>utils/lockfile.rs\<close>. \<open>Support\<close>: \<open>utils/mod.rs\<close>, \<open>ch_driver/devices.rs\<close>, the
    actors without a service, and the start of the HTTP server. \<open>Command_Line\<close>: the options of \<open>odoroboctl\<close>.
    \<open>Wiring\<close>: \<open>utils/actor_names.rs\<close>, the builders of chains and hooks, the setup of logging.
  \<^item> \<open>Conformance_Manifest\<close>, \<open>Conformance_Driver\<close>, \<open>Conformance_Scheduler\<close>, \<open>Conformance_Api\<close>: the unit tests of the sources
    and the example manifests of \<open>docs/fixtures/\<close>, each test a definition of its inputs and assertions with a lemma
    that the model passes it. They tie the model to behaviour that the program is tested for.
  \<^item> This theory: properties that span components.

  \<^bold>\<open>How state and effects are modelled.\<close> An actor handles one message at a time, so a handler is a function from
  its state, the message and the answers of everything it calls to the new state, the reply and the messages it
  sends. The scheduler's and the VM actor's runs are transition systems over these handlers, with every order
  of messages and every answer. The driver's operations are actions over a journal: an environment decides
  the outcome of each effect from the whole journal before it, so a theorem about all environments covers every
  behaviour of hypervisor and host. Actor references are their identifiers; errors are the messages that
  \<open>Display\<close> shows; the clock is an argument.

  \<^bold>\<open>What is shown.\<close>
  \<^item> Scheduling: a decision is feasible and optimal (C1), uses totals that are never stale (C2) and never
    overcommits an agent (C3, C4); affinity rules mean what is documented (C19).
  \<^item> Intent: placements are consistent (C5), creates are recorded once or undone (C12, C13), wanted VMs are
    recreated and deleted ones are not (C8, C10, C11). A create request takes effect across HTTP actor,
    scheduler, agent and polling (C9), and so does a delete request (C34). After any run what is wanted is
    exactly what was asked for and not removed (C16).
  \<^item> Observation: the reactions to deltas, snapshots and dying links (C14, C15, C17), the end of polling tasks
    (C18), and that in every interleaving what the scheduler caches is one state of the agent, with the membership
    and revision of the poll handled last (C20).
  \<^item> Agents: exact accounting (C6) and a consecutive, bounded membership log (C7).
  \<^item> The wire: which documents are manifests (C24), that manifests survive it (C25), that requests of the client
    arrive as they were meant (C26) and what it makes of the answers (C27).
  \<^item> The driver: conversion (C23), the transform chain (C22, C31), storage (C21, C29, C30), the console buffer
    (C28), starts, stops and migrations (C35 to C38).
  \<^item> The node: the lock file (C32) and the host network (C39). What the client sends and what
    an agent accepts is shown in \<open>Frontend\<close>, the paths of proxied requests in \<open>Ch_Api\<close>.
  \<^item> Behaviour that surprises: C27, C33 and C40, that agents report no labels (\<open>agent_labels_never_match\<close>), and that
    the client is not served at an address with a trailing slash (\<open>trailing_slash_not_served\<close>).

  \<^bold>\<open>Parameters and hypotheses.\<close> Code outside the repository is a parameter: URL and ULID parsing, actor identifiers
  as bytes, the registry, netlink, nftables, the HTTP client, the characters of JSON texts. The hypotheses on them are documented
  behaviour and each is shown to be satisfiable by a witness: \<open>url_laws\<close> (appending a query pair to a URL keeps its
  other parts; an absolute path is no URL), \<open>server_address\<close> (below the address of a server the path of a URL is
  what follows), \<open>host_laws\<close> (what netlink and nftables report after successful requests), that the text of an
  identifier is alphanumeric and is read back, and that the URL library reads its own output. Where a sum of resources is exact, the hypothesis that no counter overflows is in the statement.

  \<^bold>\<open>Bounds.\<close> Loops over collections are structural recursion. Polling for the hypervisor socket makes
  \<open>MAX_ATTEMPTS\<close> = 31 attempts, as in the source, by recursion on the attempts left. Trimming loops end because
  the buffer or log shrinks. Background tasks that run forever (discovery, polling, the main loop) are one
  definition per round and a run over any finite sequence of rounds; no fuel is used.

  \<^bold>\<open>Not modelled.\<close> The meaning of log directives, the splitting of command lines into options, the merging of the
  configuration file and the generated OpenAPI description and JSON schema are the libraries'. The characters of
  a JSON text and the positions in error messages are the JSON library's; a refused document is \<open>None\<close>. Messages
  between nodes are delivered as values: their encoding belongs to the actor library. Node information is only
  written, never read, so its reader is left out. Scheduling of tasks by the runtime within one handler is not
  modelled: a handler that awaits answers is one transition, as the actor library guarantees.
\<close>

section \<open>One poll\<close>

text \<open>One successful round of the updater task of agent \<open>i\<close> while the agent is in state \<open>ag\<close>: the
  request, the agent's answer, and the scheduler's handling of the forwarded update.\<close>

fun deliver_status :: "instant \<Rightarrow> SchedulerActor \<Rightarrow> sched_msg \<Rightarrow> SchedulerActor" where
  "deliver_status now s (AgentUpdated i r upd) = handle_AgentUpdated now i r upd s"
| "deliver_status now s _ = s"

definition poll_round ::
  "string option \<Rightarrow> actor_id \<Rightarrow> AgentUpdater \<times> SchedulerActor \<Rightarrow> instant \<times> AgentActor \<Rightarrow> AgentUpdater \<times> SchedulerActor" where
  "poll_round hn i us r =
     (let (u', ms) = agent_updater_step i True
            (Some (AgentActor_GetAgentStatus hn (agent_updater_request (fst us)) (snd r))) (fst us)
      in (case u' of Some u \<Rightarrow> u | None \<Rightarrow> fst us, foldl (deliver_status (fst r)) (snd us) ms))"

definition in_sync :: "string option \<Rightarrow> actor_id \<Rightarrow> AgentUpdater \<times> SchedulerActor \<Rightarrow> AgentActor \<Rightarrow> bool" where
  "in_sync hn i us ag \<longleftrightarrow>
     \<not> up_initial (fst us) \<and>
     (\<exists>c. map_of (agent_data_cache (snd us)) i = Some c \<and> ca_revision c = up_revision (fst us) \<and>
        tracks (ca_data c, ca_revision c) (full_status hn ag) (membership_revision ag))"

lemma poll_round_eq:
  "poll_round hn i (u, s) (now, ag) =
     (let upd = AgentActor_GetAgentStatus hn (agent_updater_request u) ag in
      (u\<lparr>up_revision := update_revision upd, up_initial := False, up_fails := 0\<rparr>, handle_AgentUpdated now i i upd s))"
  by (simp add: poll_round_def agent_updater_step_def Let_def)

lemma agent_updated_cached:
  assumes "map_of (agent_data_cache s) i = Some c"
  shows "\<exists>c'. map_of (agent_data_cache (handle_AgentUpdated now i i upd s)) i = Some c' \<and>
    (ca_data c', ca_revision c') = accept_update upd (ca_data c, ca_revision c)"
  using assms
  by (cases upd) (auto simp: handle_AgentUpdated_def accept_update_def Let_def)

lemma poll_again:
  assumes "in_sync hn i us ag" and "log_room_inv ag" and "agent_evolves ag ag'"
  shows "in_sync hn i (poll_round hn i us (now, ag')) ag'"
proof -
  obtain u s where us: "us = (u, s)" by fastforce
  obtain c where c: "map_of (agent_data_cache s) i = Some c" "ca_revision c = up_revision u" "\<not> up_initial u"
      "tracks (ca_data c, ca_revision c) (full_status hn ag) (membership_revision ag)"
    using assms(1) by (auto simp: in_sync_def us)
  let ?upd = "AgentActor_GetAgentStatus hn (agent_updater_request u) ag'"
  have req: "agent_updater_request u = \<lparr>since_revision = snd (ca_data c, ca_revision c), initial = False\<rparr>"
    using c by (simp add: agent_updater_request_def)
  have "tracks (accept_update ?upd (ca_data c, ca_revision c)) (full_status hn ag') (membership_revision ag')"
    unfolding req using c(4) assms(2,3) by (rule agent_source.tracks_poll(1))
  moreover obtain c' where "map_of (agent_data_cache (handle_AgentUpdated now i i ?upd s)) i = Some c'"
      "accept_update ?upd (ca_data c, ca_revision c) = (ca_data c', ca_revision c')"
    using agent_updated_cached [OF c(1)] by metis
  ultimately show ?thesis
    using agent_source.poll_revision [of hn "agent_updater_request u" ag']
    by (simp add: us poll_round_eq in_sync_def Let_def tracks_def)
qed

section \<open>Create end to end\<close>

text \<open>The poll after a VM has joined an agent confirms its placement there.\<close>

lemma poll_confirms:
  assumes sync: "in_sync hn a (u, s) ag" and inv: "log_room_inv ag" and ev: "agent_evolves ag ag'" and sched: "sched_inv s"
    and v: "v \<in> members ag'" "v \<notin> members ag" and m: "map_of (vm_manifests s) v \<noteq> None"
    and r_def: "r = snd (poll_round hn a (u, s) (now, ag'))"
  shows "confirmed_on a now (entries_of (vm_placements r) v) \<and>
    filter (\<lambda>e. pl_agent e \<noteq> a) (entries_of (vm_placements r) v) = filter (\<lambda>e. pl_agent e \<noteq> a) (entries_of (vm_placements s) v)"
proof -
  obtain c where c: "map_of (agent_data_cache s) a = Some c" "ca_revision c = up_revision u" "\<not> up_initial u"
      "ca_revision c = membership_revision ag"
    using sync by (auto simp: in_sync_def tracks_def)
  let ?req = "agent_updater_request u"
  have req: "since_revision ?req = membership_revision ag" using c by (simp add: agent_updater_request_def)
  have log: "log_inv ag" using inv by (simp add: log_room_inv_def)
  obtain cs where ext: "log_ext ag ag' cs"
    using agent_evolves_log_step [OF ev log] by (auto simp: log_step_def)
  have room: "revision_room ag'"
    using agent_source.evolves_inv [OF inv ev] by (simp add: log_room_inv_def)
  have "cs \<noteq> []" using ext v by (auto simp: log_ext_def replay_def)
  then have newer: "\<not> membership_revision ag' \<le> ca_revision c"
    using ext c(4) by (simp add: log_ext_def word_le_nat_alt)
  have ok: "placements_ok (vm_manifests s) (vm_placements s)" using sched by (simp add: sched_inv_def)
  let ?upd = "AgentActor_GetAgentStatus hn ?req ag'"
  have r: "r = handle_AgentUpdated now a a ?upd s" by (simp add: r_def poll_round_eq Let_def)
  show ?thesis
  proof (cases "needs_full ?req ag'")
    case True
    then have upd: "?upd = Full (membership_revision ag') (full_status hn ag')" by (rule full_answer)
    have "vm_placements r = reconcile_agent_placements now a (full_status hn ag') (vm_manifests s) (vm_placements s)"
      using c(1) newer by (simp add: r upd handle_AgentUpdated_def Let_def invalidate_pending_resources_def)
    with snapshot_confirms [OF ok m] v(1) show ?thesis by (simp add: set_full_status_vms)
  next
    case False
    from delta_announces [OF log ext room req False v, of hn] obtain added removed n b where
      upd: "?upd = Delta (membership_revision ag') added removed n b" and av: "v \<in> set added" "v \<notin> set removed"
      by blast
    have "vm_placements r = reconcile_agent_delta now a added removed (vm_manifests s) (vm_placements s)"
      using c(1) newer by (simp add: r upd handle_AgentUpdated_def Let_def invalidate_pending_resources_def)
    with delta_confirms [OF ok m av] show ?thesis by simp
  qed
qed

text \<open>Agents that answer create requests; \<open>new a\<close> is the VM actor that agent \<open>a\<close> spawns.\<close>

definition ask_agents ::
  "(actor_id \<Rightarrow> bytes) \<Rightarrow> (actor_id \<Rightarrow> actor_id) \<Rightarrow> (actor_id \<Rightarrow> AgentActor) \<Rightarrow> CreateVM \<Rightarrow> actor_id \<Rightarrow> string + CreateVMReply" where
  "ask_agents to_bytes new agents msg a = Inr (fst (snd (AgentActor_CreateVM to_bytes msg (new a) (agents a))))"

lemma settle_ok_more:
  "agent_data_cache (settle_create fb v (Inr r) ex s) = agent_data_cache s"
  "vm_actorid_ulid_map (settle_create fb v (Inr r) ex s) =
     (case reply_actor fb (Inr r) of Some i \<Rightarrow> hm_insert i v (vm_actorid_ulid_map s) | None \<Rightarrow> vm_actorid_ulid_map s)"
  by (simp_all add: settle_create_def split: option.splits)

text \<open>The scheduler's side of a create request that the chosen agent accepts.\<close>

lemma create_accepted:
  assumes "sched_inv s" and "map_of (vm_manifests s) (create_vmid msg) = None"
    and "snd (schedule_agent msg s) = Inr a" and "ask a = Inr reply"
    and "SchedulerActor_CreateVM tb fb now ask ex msg s = (t, answer, asked)"
  shows "answer = Inr reply \<and> asked = [AskCreate a msg] \<and>
    map_of (vm_placements t) (create_vmid msg) = Some [pending_placement a now] \<and>
    map_of (vm_manifests t) (create_vmid msg) = Some (create_config msg) \<and> agent_data_cache t = agent_data_cache s \<and>
    vm_actorid_ulid_map t = (case reply_actor fb (Inr reply) of
      Some i \<Rightarrow> hm_insert i (create_vmid msg) (vm_actorid_ulid_map s) | None \<Rightarrow> vm_actorid_ulid_map s)"
  using create_new [OF assms(2,3), of tb fb now ask ex] assms(4,5) no_placement_without_manifest [OF assms(1,2)]
  by (auto simp: settle_ok_fields settle_ok_more reserve_placement_def split: option.split)

lemma poll_keeps_actors: "vm_actorid_ulid_map (snd (poll_round hn a (u, s) (now, ag))) = vm_actorid_ulid_map s"
  by (simp add: poll_round_eq Let_def handle_AgentUpdated_def first_snapshot_def invalidate_pending_resources_def
      split: option.split AgentStatusUpdate.split prod.split)

lemma in_sync_listed:
  assumes "in_sync hn a us ag" and "v \<in> members ag"
  shows "v \<in> set (SchedulerActor_AgentListVMs (snd us))"
proof -
  obtain c where "map_of (agent_data_cache (snd us)) a = Some c" and "st_vms (ca_data c) = st_vms (full_status hn ag)"
    using assms(1) by (auto simp: in_sync_def tracks_def same_membership_def)
  with assms(2) show ?thesis
    by (force simp: SchedulerActor_AgentListVMs_def hm_values_def set_full_status_vms dest: map_of_SomeD)
qed

lemma confirmed_alone:
  assumes "confirmed_on a now es" and "filter (\<lambda>e. pl_agent e \<noteq> a) es = []"
  shows "\<exists>e. es = [e] \<and> pl_agent e = a \<and> lifecycle e = Running \<and> last_confirmed_at e = Some now"
proof -
  have all: "\<forall>e \<in> set es. pl_agent e = a" using assms(2) by (simp add: filter_empty_conv)
  then have "filter (\<lambda>e. pl_agent e = a) es = es" by simp
  with assms(1) obtain e where "es = [e]" "lifecycle e = Running" "last_confirmed_at e = Some now"
    unfolding confirmed_on_def by auto
  with all show ?thesis by simp
qed

text \<open>C9. A create request takes effect across the cluster: when a client asks for a new VM and an agent is
  suitable, the API answers with the manifest and the VM's actor; exactly one agent was asked and has
  spawned the VM with that manifest and accounts for it; the scheduler remembers the actor and reserves the
  placement; and the next poll of the agent, whether it answers with a snapshot or a delta, turns that
  reservation into the one running placement of the VM and lists it.\<close>

theorem created_vm_becomes_running:
  assumes inv: "sched_inv s" and fresh: "map_of (vm_manifests s) (manifest_id m) = None"
    and msg: "msg = \<lparr>create_vmid = manifest_id m, create_config = m\<rparr>"
    and chosen: "snd (schedule_agent msg s) = Inr a"
    and sync: "in_sync hn a (u, s) (agents a)" and log: "log_room_inv (agents a)"
    and new_vm: "map_of (vms (agents a)) (manifest_id m) = None"
    and agent: "AgentActor_CreateVM to_bytes msg (new a) (agents a) = (ag, reply, spawned)" and room: "revision_room ag"
    and bytes: "\<And>i. from_bytes (to_bytes i) = Some i"
    and handled: "SchedulerActor_CreateVM to_bytes from_bytes now (ask_agents to_bytes new agents msg) ex msg s = (t, answer, asked)"
    and polled: "r = snd (poll_round hn a (u, t) (later, ag))"
  shows "create_vm (\<lambda>q. fst (snd (SchedulerActor_CreateVM to_bytes from_bytes now (ask_agents to_bytes new agents q) ex q s))) m =
      Inr \<lparr>reply_config = Some m, reply_actor_id = Some (to_bytes (new a))\<rparr> \<and>
    asked = [AskCreate a msg] \<and> spawned = [SpawnVM (new a) (manifest_id m) (Some m)] \<and>
    map_of (vms ag) (manifest_id m) = Some (cache_data (new a) m) \<and>
    map_of (vm_placements t) (manifest_id m) = Some [pending_placement a now] \<and>
    (\<exists>e. map_of (vm_placements r) (manifest_id m) = Some [e] \<and> pl_agent e = a \<and> lifecycle e = Running \<and>
       last_confirmed_at e = Some later) \<and>
    manifest_id m \<in> set (SchedulerActor_AgentListVMs r) \<and> map_of (vm_actorid_ulid_map r) (new a) = Some (manifest_id m)"
proof -
  let ?v = "manifest_id m" and ?reply = "\<lparr>reply_config = Some m, reply_actor_id = Some (to_bytes (new a))\<rparr>"
  have reply: "reply = ?reply" and spawned: "spawned = [SpawnVM (new a) ?v (Some m)]"
    and ag: "ag = insert_vm ?v (cache_data (new a) m) (agents a)"
    using agent new_vm by (auto simp: AgentActor_CreateVM_def msg)
  have ask: "ask_agents to_bytes new agents msg a = Inr ?reply" using agent reply by (simp add: ask_agents_def)
  have "map_of (vm_manifests s) (create_vmid msg) = None" using fresh by (simp add: msg)
  note accepted = create_accepted [OF inv this chosen ask handled]
  have sync_t: "in_sync hn a (u, t) (agents a)" using sync accepted by (simp add: in_sync_def)
  have inv_t: "sched_inv t"
    using create_inv [OF inv, of to_bytes from_bytes now "ask_agents to_bytes new agents msg" ex msg] handled by simp
  have ev: "agent_evolves (agents a) ag"
    unfolding agent_evolves_def
    by (rule r_into_rtranclp, rule step_create [of _ to_bytes msg "new a"]) (simp_all add: agent room)
  have v: "?v \<in> members ag" "?v \<notin> members (agents a)"
    using new_vm by (auto simp: ag members_def hm_keys_dom dom_def)
  have "map_of (vm_manifests t) ?v \<noteq> None" using accepted by (simp add: msg)
  from poll_confirms [OF sync_t log ev inv_t v this polled] accepted
  have "confirmed_on a later (entries_of (vm_placements r) ?v)"
    and "filter (\<lambda>e. pl_agent e \<noteq> a) (entries_of (vm_placements r) ?v) = []"
    by (simp_all add: entries_of_def pending_placement_fields msg)
  then have running: "\<exists>e. map_of (vm_placements r) ?v = Some [e] \<and> pl_agent e = a \<and> lifecycle e = Running \<and> last_confirmed_at e = Some later"
    using confirmed_alone by (fastforce simp: entries_of_def split: option.splits)
  have listed: "?v \<in> set (SchedulerActor_AgentListVMs r)"
    using in_sync_listed [OF poll_again [OF sync_t log ev, of later] v(1)] by (simp add: polled)
  have actor: "map_of (vm_actorid_ulid_map r) (new a) = Some ?v"
    using accepted by (simp add: polled poll_keeps_actors reply_actor_def bytes msg)
  have "create_vm (\<lambda>q. fst (snd (SchedulerActor_CreateVM to_bytes from_bytes now (ask_agents to_bytes new agents q) ex q s))) m = Inr ?reply"
    using handled accepted by (simp add: create_vm_def HTTPActor_CreateVM_def scheduler_ask_def from_send_def msg)
  with accepted spawned ag running listed actor show ?thesis by (simp add: msg)
qed

theorem created_vm_becomes_running_witness:
  "let s = sample_sched\<lparr>agent_data_cache := [(1, sample_agent\<lparr>ca_revision := 0\<rparr>)]\<rparr>;
       to_bytes = (\<lambda>n. replicate n 0);
       t = fst (SchedulerActor_CreateVM to_bytes (\<lambda>bs. Some (length bs)) 5
             (ask_agents to_bytes (\<lambda>_. 3) (\<lambda>_. sample_agent0) sample_create) False sample_create s);
       r = snd (poll_round None 1 (agent_updater_start\<lparr>up_initial := False\<rparr>, t)
             (9, fst (AgentActor_CreateVM to_bytes sample_create 3 sample_agent0)))
   in \<exists>e. map_of (vm_placements r) 7 = Some [e] \<and> lifecycle e = Running \<and> last_confirmed_at e = Some 9"
proof -
  let ?s = "sample_sched\<lparr>agent_data_cache := [(1, sample_agent\<lparr>ca_revision := 0\<rparr>)]\<rparr>"
  let ?tb = "\<lambda>n. replicate n (0 :: u8)" and ?fb = "\<lambda>bs :: bytes. Some (length bs)" and ?ags = "\<lambda>_ :: actor_id. sample_agent0"
  have inv: "sched_inv ?s"
    by (simp add: sample_sched_def sched_inv_defs placements_ok_def pending_coherent_def hm_wf_def sample_agent_def)
  have chosen: "snd (schedule_agent sample_create ?s) = Inr 1"
    using inv by (rule sample_schedule_general [where n = 0]) (simp_all add: sample_sched_def)
  have sync: "in_sync None 1 (agent_updater_start\<lparr>up_initial := False\<rparr>, ?s) (?ags 1)"
    by (simp add: in_sync_def tracks_def same_membership_def agent_updater_start_def sample_sched_def sample_agent_def
        sample_agent0_def full_status_def hm_keys_def sample_defs get_hostname_def ObjectMetadata_default_def)
  have log: "log_room_inv (?ags 1)"
    by (rule agent_log.reachable_inv) (rule reach_init, rule sample_agent0_init)
  obtain ag reply spawned where agent: "AgentActor_CreateVM ?tb sample_create 3 sample_agent0 = (ag, reply, spawned)"
    by (cases "AgentActor_CreateVM ?tb sample_create 3 sample_agent0")
  then have "ag = fst (AgentActor_CreateVM ?tb sample_create 3 sample_agent0)" by simp
  then have room: "revision_room ag"
    by (simp add: revision_room_def AgentActor_CreateVM_def sample_agent0_def insert_vm_def
        record_membership_change_def Let_def sat_add_def)
  obtain t answer asked where handled:
    "SchedulerActor_CreateVM ?tb ?fb 5 (ask_agents ?tb (\<lambda>_. 3) ?ags sample_create) False sample_create ?s = (t, answer, asked)"
    by (cases "SchedulerActor_CreateVM ?tb ?fb 5 (ask_agents ?tb (\<lambda>_. 3) ?ags sample_create) False sample_create ?s")
  have "map_of (vm_manifests ?s) (manifest_id sample_manifest) = None"
    "sample_create = \<lparr>create_vmid = manifest_id sample_manifest, create_config = sample_manifest\<rparr>"
    "map_of (vms (?ags 1)) (manifest_id sample_manifest) = None"
    by (simp_all add: sample_sched_def sample_create_def sample_manifest_def sample_agent0_def)
  from created_vm_becomes_running [OF inv this(1,2) chosen sync log this(3) agent room _ handled refl, of 9]
  have "\<exists>e. map_of (vm_placements (snd (poll_round None 1 (agent_updater_start\<lparr>up_initial := False\<rparr>, t) (9, ag)))) 7 = Some [e] \<and>
      lifecycle e = Running \<and> last_confirmed_at e = Some 9"
    by (auto simp: sample_manifest_def)
  then show ?thesis using handled agent by simp
qed

section \<open>Delete end to end\<close>

lemma link_died_vms:
  assumes "hm_wf (vms ag)"
  shows "map_of (vms (AgentActor_on_link_died i ag)) w =
    (case map_of (vms ag) w of Some d \<Rightarrow> if vm_actor d = i then None else Some d | None \<Rightarrow> None)"
proof -
  have "map_of (vms (fst (remove_vm v ag))) w = (if w = v then None else map_of (vms ag) w)" for v ag w
    by (simp add: remove_vm_def Let_def split: option.splits)
  then have all: "map_of (vms (foldl (\<lambda>ag v. fst (remove_vm v ag)) ag vs)) w = (if w \<in> set vs then None else map_of (vms ag) w)"
    for vs ag w by (induction vs arbitrary: ag) auto
  have "w \<in> set (map fst (filter (\<lambda>(_, vm). vm_actor vm = i) (vms ag))) \<longleftrightarrow> (\<exists>d. map_of (vms ag) w = Some d \<and> vm_actor d = i)"
    using assms by (force simp: hm_wf_def)
  then show ?thesis
    by (auto simp: AgentActor_on_link_died_def all split: option.splits)
qed

lemma delete_keeps_sync:
  assumes "in_sync hn a (u, s) ag"
  shows "in_sync hn a (u, remove_vm_intent v s) ag"
  using assms by (simp add: in_sync_def remove_vm_intent_def Let_def case_prod_unfold invalidate_pending_resources_def)

text \<open>C34. A delete request takes effect across the cluster: the API acknowledges it and the VM's actor is told to
  delete the VM; once that actor has ended, its agent no longer holds the VM; and after the next poll of the
  agent, whether it answers with a snapshot or a delta, the scheduler's view is that of the agent again, the
  agent's status does not list the VM, no manifest, placement or actor of it is left, and no later
  reconciliation pass brings it back.\<close>

theorem deleted_vm_disappears:
  assumes inv: "sched_inv s" and sync: "in_sync hn a (u, s) ag" and log: "log_room_inv ag"
    and held: "map_of (vms ag) v = Some d"
    and handled: "SchedulerActor_DeleteVM (Inr (Some (vm_actor d))) (Inr ()) (DeleteVM v) s = (t, answer, sent)"
    and left: "ag' = AgentActor_on_link_died (vm_actor d) ag" and room: "revision_room ag'"
    and polled: "poll_round hn a (u, t) (now, ag') = (u', r)"
  shows "delete_vm (\<lambda>q. fst (snd (SchedulerActor_DeleteVM (Inr (Some (vm_actor d))) (Inr ()) q s))) v = Inr () \<and>
    sent = [ForwardDelete (vm_actor d) v] \<and> map_of (vms ag') v = None \<and> in_sync hn a (u', r) ag' \<and>
    (\<forall>c. map_of (agent_data_cache r) a = Some c \<longrightarrow> v \<notin> set (st_vms (ca_data c))) \<and>
    map_of (vm_manifests r) v = None \<and> map_of (vm_placements r) v = None \<and> (\<forall>i. map_of (vm_actorid_ulid_map r) i \<noteq> Some v) \<and>
    (\<forall>b req. TellCreate b req \<in> set (snd (handle_ReconcileVmPlacements later clock tell_ok r)) \<longrightarrow> create_vmid req \<noteq> v)"
proof -
  have t: "t = remove_vm_intent v s" and answer: "answer = Inr DeleteVMReply" "sent = [ForwardDelete (vm_actor d) v]"
    using handled by (simp_all add: SchedulerActor_DeleteVM_def)
  have wf: "hm_wf (vms ag)" using log log_inv_wf by (auto simp: log_room_inv_def)
  have gone: "map_of (vms ag') v = None" using held by (simp add: left link_died_vms [OF wf])
  have ev: "agent_evolves ag ag'"
    unfolding agent_evolves_def by (rule r_into_rtranclp) (rule step_link_died, rule left, rule room)
  have sync': "in_sync hn a (u', r) ag'"
    using poll_again [OF delete_keeps_sync [OF sync, of v] log ev, of now] polled by (simp add: t)
  have unlisted: "v \<notin> set (st_vms (ca_data c))" if "map_of (agent_data_cache r) a = Some c" for c
    using sync' that gone
    by (auto simp: in_sync_def tracks_def same_membership_def full_status_def hm_keys_dom)
  have r: "r = handle_AgentUpdated now a a (AgentActor_GetAgentStatus hn (agent_updater_request u) ag') t"
    using polled by (simp add: poll_round_eq Let_def)
  have inv_r: "sched_inv r"
    unfolding r t using inv by (intro agent_updated_inv remove_vm_intent_inv)
  have unwanted: "map_of (vm_manifests r) v = None"
    using remove_vm_intent_forgets(1) [OF inv, of v] by (simp add: r t observer_manifests)
  moreover have "map_of (vm_placements r) v = None"
    using inv_r unwanted by (rule no_placement_without_manifest)
  moreover have "map_of (vm_actorid_ulid_map r) i \<noteq> Some v" for i
    using remove_vm_intent_forgets(4) [OF inv] poll_keeps_actors [of hn a u t now ag'] polled by (simp add: t)
  moreover have "create_vmid req \<noteq> v"
    if "TellCreate b req \<in> set (snd (handle_ReconcileVmPlacements later clock tell_ok r))" for b req
    using reconcile_tells_wanted [OF inv_r that] unwanted by auto
  ultimately show ?thesis
    using answer gone sync' unlisted
    by (simp add: delete_vm_def HTTPActor_DeleteVM_def scheduler_ask_def from_send_def SchedulerActor_DeleteVM_def)
qed

theorem deleted_vm_disappears_witness:
  "let c = \<lparr>ca_actor_ref = 1, ca_data = full_status None sample_agent1, ca_revision = 1\<rparr>;
       s = sample_sched\<lparr>agent_data_cache := [(1, c)], vm_manifests := [(7, sample_manifest)],
             vm_placements := [(7, [running_placement 1 5])], agent_vm_index := [(1, [7])]\<rparr>;
       t = fst (SchedulerActor_DeleteVM (Inr (Some 3)) (Inr ()) (DeleteVM 7) s);
       r = snd (poll_round None 1 (agent_updater_start\<lparr>up_initial := False, up_revision := 1\<rparr>, t)
             (9, AgentActor_on_link_died 3 sample_agent1))
   in 7 \<in> set (SchedulerActor_AgentListVMs s) \<and> map_of (vm_manifests s) 7 \<noteq> None \<and>
      map_of (vm_manifests r) 7 = None \<and> map_of (vm_placements r) 7 = None"
proof -
  let ?c = "\<lparr>ca_actor_ref = 1, ca_data = full_status None sample_agent1, ca_revision = 1\<rparr>"
  let ?s = "sample_sched\<lparr>agent_data_cache := [(1, ?c)], vm_manifests := [(7, sample_manifest)],
      vm_placements := [(7, [running_placement 1 5])], agent_vm_index := [(1, [7])]\<rparr>"
  let ?u = "agent_updater_start\<lparr>up_initial := False, up_revision := 1\<rparr>" and ?ag = "AgentActor_on_link_died 3 sample_agent1"
  have inv: "sched_inv ?s"
    by (simp add: sample_sched_def sched_inv_defs placements_ok_def entries_ok_def pending_coherent_def hm_wf_def
        running_placement_def)
  have sync: "in_sync None 1 (?u, ?s) sample_agent1"
    by (simp add: in_sync_def tracks_def same_membership_def agent_updater_start_def sample_agent1_eq)
  have room: "revision_room sample_agent1" "revision_room ?ag"
    by (simp_all add: sample_agent1_eq revision_room_def AgentActor_on_link_died_def remove_vm_def
        record_membership_change_def Let_def sat_add_def sample_agent0_def)
  have log: "log_room_inv sample_agent1"
    by (rule agent_log.reachable_inv [OF sample_agent1_reachable]) (rule room)
  obtain d where held: "map_of (vms sample_agent1) 7 = Some d" and actor: "vm_actor d = 3"
    by (simp add: sample_agent1_eq cache_data_def)
  obtain t answer sent where handled: "SchedulerActor_DeleteVM (Inr (Some (vm_actor d))) (Inr ()) (DeleteVM 7) ?s = (t, answer, sent)"
    by (cases "SchedulerActor_DeleteVM (Inr (Some (vm_actor d))) (Inr ()) (DeleteVM 7) ?s")
  obtain u' r where polled: "poll_round None 1 (?u, t) (9, ?ag) = (u', r)"
    by (cases "poll_round None 1 (?u, t) (9, ?ag)")
  have "7 \<in> set (SchedulerActor_AgentListVMs ?s)"
    using in_sync_listed [OF sync, of 7] by (simp add: members_def hm_keys_def sample_agent1_eq)
  moreover have "map_of (vm_manifests r) 7 = None \<and> map_of (vm_placements r) 7 = None"
    using deleted_vm_disappears [OF inv sync log held handled _ room(2) polled] by (simp add: actor)
  ultimately show ?thesis
    using handled polled by (simp add: Let_def actor)
qed

section \<open>Limits of the design\<close>

text \<open>C33. Replacing a VM that the agent already holds, as a migration to the same agent does, is not
  announced: the revision stays, so a scheduler that has this revision discards the agent's next
  answer and keeps the usage figures it had before the replacement.\<close>

theorem replaced_vm_usage_not_reported:
  assumes "map_of (vms s) v = Some p"
  shows "membership_revision (insert_vm v c s) = membership_revision s \<and>
    accept_update (AgentActor_GetAgentStatus hn \<lparr>since_revision = membership_revision s, initial = False\<rparr> (insert_vm v c s))
      (st, membership_revision s) = (st, membership_revision s)"
proof -
  have "membership_revision (insert_vm v c s) = membership_revision s"
    using assms by (simp add: insert_vm_def Let_def)
  then show ?thesis
    by (simp add: accept_update_def agent_source.poll_revision)
qed

theorem replaced_vm_usage_not_reported_witness:
  "let t = insert_vm 7 \<lparr>vm_actor = 9, vm_config = sample_manifest, vm_vcpus = 8, vm_memory = 64\<rparr> sample_agent1 in
     membership_revision t = membership_revision sample_agent1 \<and> used_vcpus t = 8 \<and> used_vcpus sample_agent1 = 2"
  using replaced_vm_usage_not_reported [of sample_agent1 7 "cache_data 3 sample_manifest"]
  by (simp add: Let_def sample_agent1_eq insert_vm_def cache_data_def sample_defs sat_add_def sat_sub_def)

lemma agent_metadata_default:
  "reachable agent_init (agent_step ok) s \<Longrightarrow> ag_metadata s = ObjectMetadata_default"
proof (induction rule: reachable.induct)
  case (reach_init s)
  then show ?case by (auto simp: agent_init_def AgentActor_on_start_def)
next
  case (reach_step s t)
  have ins: "ag_metadata (insert_vm v c s) = ag_metadata s" for v c and s
    by (simp add: insert_vm_def Let_def split: option.splits)
  have rem: "ag_metadata (fst (remove_vm v s)) = ag_metadata s" for v and s
    by (simp add: remove_vm_def Let_def split: option.splits)
  have "ag_metadata (foldl (\<lambda>s v. fst (remove_vm v s)) s vs) = ag_metadata s" for vs and s
    by (induction vs arbitrary: s) (simp_all add: rem)
  with reach_step show ?case
    by (auto elim!: agent_step.cases simp: create_state migrate_state delete_state AgentActor_on_link_died_def
        Let_def ins rem split: if_splits)
qed

text \<open>An agent reports no labels or annotations, whatever its configuration contains, so an agent
  affinity rule whose requirements compare with in, less-than or greater-than is never met: it holds
  exactly when it is inverse.\<close>

lemma agent_labels_never_match:
  assumes "reachable agent_init (agent_step ok) ag"
    and "ca_data agent = full_status hn ag" and "affinity_type rule = AffinityAgent"
    and "\<forall>r \<in> set (requirements rule). operator r \<noteq> NotIn"
  shows "evaluate_affinity_rule (rule_tables s agent rule) rule \<longleftrightarrow> inverse rule"
proof -
  have "st_metadata (ca_data agent) = ObjectMetadata_default"
    using agent_metadata_default [OF assms(1)] assms(2) by (simp add: full_status_def)
  then have "rule_tables s agent rule = [([], [])]"
    using assms(3) by (simp add: rule_tables_def ObjectMetadata_default_def)
  moreover have "\<not> evaluate_table_value (map_of (requirement_table r ([], [])) (key r)) r"
    if "r \<in> set (requirements rule)" for r
    using assms(4) that by (simp add: evaluate_table_value_def requirement_table_def split: MetadataTable.splits)
  ultimately show ?thesis
    by (auto simp: evaluate_affinity_rule_def follows_any_iff)
qed

lemma agent_labels_never_match_example:
  "\<not> evaluate_affinity_rule
       (rule_tables sample_sched \<lparr>ca_actor_ref = 1, ca_data = full_status None sample_agent0, ca_revision = 0\<rparr>
         \<lparr>strictness = Required, affinity_type = AffinityAgent, inverse = False,
          requirements = [\<lparr>key = ''zone'', table = Label, operator = In, values = [''a'']\<rparr>]\<rparr>)
       \<lparr>strictness = Required, affinity_type = AffinityAgent, inverse = False,
        requirements = [\<lparr>key = ''zone'', table = Label, operator = In, values = [''a'']\<rparr>]\<rparr>"
proof -
  have "reachable agent_init (agent_step (\<lambda>_. True)) sample_agent0"
    by (rule reach_init) (rule sample_agent0_init)
  then show ?thesis
    by (subst agent_labels_never_match [of "\<lambda>_. True" sample_agent0]) simp_all
qed

section \<open>Migrated VMs\<close>

lemma step_keeps_manifest: "vm_step E s t \<Longrightarrow> va_manifest (sys_actor t) = va_manifest (sys_actor s)"
  by (induction rule: vm_step.induct)
    (auto simp: VMActor_MigrateVMReceive_def VMActor_MigrationFinished_def VMActor_PrepMigration_def
      split: option.splits sum.splits prod.splits)

lemma steps_keep_manifest: "(vm_step E)\<^sup>*\<^sup>* s t \<Longrightarrow> va_manifest (sys_actor t) = va_manifest (sys_actor s)"
  by (induction rule: rtranclp_induct) (auto dest: step_keeps_manifest)

text \<open>C40. A VM that arrived by migration is reported as not found: the receiving actor starts without a
  manifest and no step of the migration, its preparation or its completion ever stores one, so the
  scheduler forwards an answer without a configuration and the API replies 404 although the VM runs.\<close>

theorem migrated_vm_reported_missing:
  assumes "VMActor_on_start E vmid None [] = (Inr (a, watched), j)"
    and "(vm_step E)\<^sup>*\<^sup>* \<lparr>sys_actor = a, sys_journal = j, sys_tasks = []\<rparr> s"
  shows "vm_info (ulid_text E)
      (SchedulerActor_GetVMInfo (\<lambda>_. Inr (Some actor)) (\<lambda>_. Inr (VMActor_GetVMInfo (sys_actor s)))) vmid =
    Inl (NotFound (''VM '' @ ulid_text E vmid @ '' not found''))"
proof -
  have "va_manifest a = None"
    using assms(1) by (auto simp: VMActor_on_start_def Let_def io_bind_Inr io_return_def take_child_process_def)
  then have "va_manifest (sys_actor s) = None"
    using steps_keep_manifest [OF assms(2)] by simp
  then show ?thesis
    by (simp add: vm_info_def SchedulerActor_GetVMInfo_def VMActor_GetVMInfo_def HTTPActor_GetVMInfo_def
        scheduler_ask_def from_send_def)
qed

theorem migrated_vm_reported_missing_witness:
  "\<exists>a j s. VMActor_on_start (sample_env None) 7 None [] = (Inr (a, True), j) \<and>
     vm_step (sample_env None) \<lparr>sys_actor = a, sys_journal = j, sys_tasks = []\<rparr> s \<and>
     vm_info (ulid_text (sample_env None))
       (SchedulerActor_GetVMInfo (\<lambda>_. Inr (Some 3)) (\<lambda>_. Inr (VMActor_GetVMInfo (sys_actor s)))) 7 =
     Inl (NotFound ''VM 01hzx not found'')"
proof -
  let ?E = "sample_env None" and ?msg = "\<lparr>migrate_vmid = 7, migrate_config = sample_disk_manifest\<rparr>"
  have m: "MAX_ATTEMPTS = Suc 30" by (simp add: MAX_ATTEMPTS_def)
  have "spawn_poll ?E i None b MAX_ATTEMPTS j = (Inr i, j @ [Ping])" for i b j
    unfolding m spawn_poll.simps by (simp add: perform_def emit_def sample_env_def)
  then obtain a j where st: "VMActor_on_start ?E 7 None [] = (Inr (a, True), j)"
    by (simp add: VMActor_on_start_def VMInstance_spawn_def io_then_def io_bind_def io_return_def perform_def emit_def
        take_child_process_def VMInstance_new_def sample_env_def Let_def)
  let ?s = "\<lparr>sys_actor = a, sys_journal = j, sys_tasks = []\<rparr>"
  obtain reply a' j' ts where rc: "VMActor_MigrateVMReceive ?E ?msg a j = (reply, a', j', ts)" by (metis prod.collapse)
  let ?t = "\<lparr>sys_actor = a', sys_journal = j', sys_tasks = sys_tasks ?s @ ts\<rparr>"
  have step: "vm_step ?E ?s ?t" by (rule vm_step.step_receive [of _ ?msg ?s reply]) (simp add: rc)
  then have "(vm_step ?E)\<^sup>*\<^sup>* ?s ?t" by (rule r_into_rtranclp)
  note missing = migrated_vm_reported_missing [OF st this, of 3]
  have "ulid_text ?E 7 = ''01hzx''" by (simp add: sample_env_def)
  with missing have "vm_info (ulid_text ?E) (SchedulerActor_GetVMInfo (\<lambda>_. Inr (Some 3)) (\<lambda>_. Inr (VMActor_GetVMInfo (sys_actor ?t)))) 7 =
      Inl (NotFound ''VM 01hzx not found'')" by simp
  with st step show ?thesis by blast
qed

end
